(* ===== verification/Prelude.thy ===== *)
theory Prelude
  imports Main "HOL-Library.Word" "HOL-Library.Char_ord" "HOL-Library.List_Lexorder"
    "HOL-Library.Sublist"
begin

text \<open>
  The vocabulary every component theory shares: the names of the machine types,
  Rust's \<open>Result\<close> as a sum type with its combinators (\<open>?\<close>, \<open>ok_or\<close>, \<open>map_err\<close>), loops
  whose body may return early, checked slicing, panics as values, and little-endian
  integers. The named collections \<open>result_simps\<close> (inversion of successful results) and
  \<open>bytes_simps\<close> (lengths and pieces of byte arrays) carry the proofs of the component
  theories.
\<close>

named_theorems result_simps
named_theorems bytes_simps

unbundle bit_operations_syntax

section \<open>Machine types\<close>

type_synonym byte = "8 word"
type_synonym u16 = "16 word"
type_synonym u32 = "32 word"
type_synonym u64 = "64 word"

section \<open>Results\<close>

text \<open>
  A Rust \<open>Result<T, E>\<close> is \<open>'e + 'a\<close>: \<open>Inl\<close> is \<open>Err\<close> and \<open>Inr\<close> is \<open>Ok\<close>.
  \<open>rbind r k\<close> is the \<open>?\<close> operator: the error returns at once, the value goes on to \<open>k\<close>.
\<close>

definition rbind :: "'e + 'a \<Rightarrow> ('a \<Rightarrow> 'e + 'b) \<Rightarrow> 'e + 'b" where
  "rbind r k = (case r of Inl e \<Rightarrow> Inl e | Inr a \<Rightarrow> k a)"

definition map_err :: "('e \<Rightarrow> 'f) \<Rightarrow> 'e + 'a \<Rightarrow> 'f + 'a" where
  "map_err h r = (case r of Inl e \<Rightarrow> Inl (h e) | Inr a \<Rightarrow> Inr a)"

definition ok_or :: "'e \<Rightarrow> 'a option \<Rightarrow> 'e + 'a" where
  "ok_or e x = (case x of None \<Rightarrow> Inl e | Some a \<Rightarrow> Inr a)"

definition ok :: "'e + 'a \<Rightarrow> 'a option" where
  "ok r = (case r of Inl _ \<Rightarrow> None | Inr a \<Rightarrow> Some a)"

text \<open>A \<open>for\<close> loop whose body updates a state and may return an error with \<open>?\<close>.\<close>

fun fold_result :: "('s \<Rightarrow> 'a \<Rightarrow> 'e + 's) \<Rightarrow> 's \<Rightarrow> 'a list \<Rightarrow> 'e + 's" where
  "fold_result f s [] = Inr s"
| "fold_result f s (x # xs) = rbind (f s x) (\<lambda>s'. fold_result f s' xs)"

text \<open>A loop that only checks, leaving at the first error.\<close>

fun for_each :: "('a \<Rightarrow> 'e + unit) \<Rightarrow> 'a list \<Rightarrow> 'e + unit" where
  "for_each f [] = Inr ()"
| "for_each f (x # xs) = rbind (f x) (\<lambda>_. for_each f xs)"

text \<open>\<open>iter().map(f).collect::<Result<Vec<_>, _>>()\<close>, or a push loop with \<open>?\<close>.\<close>

fun map_result :: "('a \<Rightarrow> 'e + 'b) \<Rightarrow> 'a list \<Rightarrow> 'e + 'b list" where
  "map_result f [] = Inr []"
| "map_result f (x # xs) =
     rbind (f x) (\<lambda>y. rbind (map_result f xs) (\<lambda>ys. Inr (y # ys)))"

text \<open>Code that can panic: an out-of-range index, an arithmetic overflow, an \<open>expect\<close>.\<close>

datatype 'a run = Returned 'a | Panicked

text \<open>
  Fallible code that also changes a state (\<open>&mut\<close>, a static cache): a result and the new
  state, which is kept when the result is an error.
\<close>

definition sbind :: "('w \<Rightarrow> ('e + 'a) \<times> 'w) \<Rightarrow> ('a \<Rightarrow> 'w \<Rightarrow> ('e + 'b) \<times> 'w) \<Rightarrow> 'w \<Rightarrow> ('e + 'b) \<times> 'w" where
  "sbind m k w = (case m w of (Inl e, w') \<Rightarrow> (Inl e, w') | (Inr a, w') \<Rightarrow> k a w')"

definition slift :: "'e + 'a \<Rightarrow> 'w \<Rightarrow> ('e + 'a) \<times> 'w" where
  "slift r w = (r, w)"

section \<open>Slices and little-endian integers\<close>

text \<open>\<open>xs.get(a..b)\<close>: \<open>None\<close> when the range does not lie in the slice.\<close>

definition slice :: "'a list \<Rightarrow> nat \<Rightarrow> nat \<Rightarrow> 'a list option" where
  "slice xs a b = (if a \<le> b \<and> b \<le> length xs then Some (take (b - a) (drop a xs)) else None)"

text \<open>The slice \<open>xs[a..a + n]\<close> where the code has already checked the length.\<close>

definition window :: "'a list \<Rightarrow> nat \<Rightarrow> nat \<Rightarrow> 'a list" where
  "window xs a n = take n (drop a xs)"

primrec le_value :: "byte list \<Rightarrow> nat" where
  "le_value [] = 0"
| "le_value (b # bs) = unat b + 256 * le_value bs"

primrec to_le_bytes :: "nat \<Rightarrow> nat \<Rightarrow> byte list" where
  "to_le_bytes 0 n = []"
| "to_le_bytes (Suc k) n = word_of_nat (n mod 256) # to_le_bytes k (n div 256)"

definition u32_from_le_bytes :: "byte list \<Rightarrow> u32" where
  "u32_from_le_bytes bs = word_of_nat (le_value bs)"

definition u64_from_le_bytes :: "byte list \<Rightarrow> u64" where
  "u64_from_le_bytes bs = word_of_nat (le_value bs)"

text \<open>\<open>xs.chunks_exact(n)\<close>: the consecutive pieces of length \<open>n\<close>, the remainder dropped.\<close>

function chunks_exact :: "nat \<Rightarrow> 'a list \<Rightarrow> 'a list list" where
  "chunks_exact n xs =
     (if n = 0 \<or> length xs < n then [] else take n xs # chunks_exact n (drop n xs))"
  by pat_completeness auto
termination
  by (relation "measure (\<lambda>(n, xs). length xs)") auto

declare chunks_exact.simps [simp del]

section \<open>Lemmas on results\<close>

lemma rbind_Inl [simp]: "rbind (Inl e) k = Inl e"
  by (simp add: rbind_def)

lemma rbind_Inr [simp]: "rbind (Inr a) k = k a"
  by (simp add: rbind_def)

lemma rbind_eq_Inr [result_simps]: "rbind r k = Inr b \<longleftrightarrow> (\<exists>a. r = Inr a \<and> k a = Inr b)"
  by (cases r) auto

lemma rbind_eq_Inl: "rbind r k = Inl e \<longleftrightarrow> r = Inl e \<or> (\<exists>a. r = Inr a \<and> k a = Inl e)"
  by (cases r) auto

lemma rbind_cong [fundef_cong]:
  "r = r' \<Longrightarrow> (\<And>a. r' = Inr a \<Longrightarrow> k a = k' a) \<Longrightarrow> rbind r k = rbind r' k'"
  by (cases r') auto

lemma map_err_simps [simp]:
  "map_err h (Inl e) = Inl (h e)" "map_err h (Inr a) = Inr a"
  by (simp_all add: map_err_def)

lemma map_err_eq_Inr [result_simps]: "map_err h r = Inr a \<longleftrightarrow> r = Inr a"
  by (cases r) auto

lemma ok_or_simps [simp]: "ok_or e None = Inl e" "ok_or e (Some a) = Inr a"
  by (simp_all add: ok_or_def)

lemma ok_or_eq_Inr [result_simps]: "ok_or e x = Inr a \<longleftrightarrow> x = Some a"
  by (cases x) auto

lemma ok_simps [simp]: "ok (Inl e) = None" "ok (Inr a) = Some a"
  by (simp_all add: ok_def)

lemma ok_eq_Some [result_simps]: "ok r = Some a \<longleftrightarrow> r = Inr a"
  by (cases r) auto

text \<open>A guard with an early error return succeeds exactly when the guard is false.\<close>

lemma if_Inl_eq_Inr [result_simps]: "(if c then Inl e else r) = Inr a \<longleftrightarrow> \<not> c \<and> r = Inr a"
  by auto

lemma if_Inr_Inl_eq_Inr [result_simps]: "(if c then r else Inl e) = Inr a \<longleftrightarrow> c \<and> r = Inr a"
  by auto

lemma map_run_eq_Returned [result_simps]:
  "map_run f r = Returned b \<longleftrightarrow> (\<exists>a. r = Returned a \<and> f a = b)"
  by (cases r) auto

lemma for_each_eq_Inr [result_simps]:
  "for_each f xs = Inr u \<longleftrightarrow> (\<forall>x \<in> set xs. f x = Inr ())"
  by (induction xs) (auto simp: rbind_eq_Inr)

lemma map_result_eq_Inr:
  "map_result f xs = Inr ys \<longleftrightarrow> list_all2 (\<lambda>x y. f x = Inr y) xs ys"
  by (induction xs arbitrary: ys) (auto simp: rbind_eq_Inr list_all2_Cons1)

lemma fold_result_invariant:
  assumes "fold_result f s xs = Inr s'" and "P s"
    and "\<And>s x s'. x \<in> set xs \<Longrightarrow> P s \<Longrightarrow> f s x = Inr s' \<Longrightarrow> P s'"
  shows "P s'"
  using assms by (induction xs arbitrary: s) (auto simp: rbind_eq_Inr)

lemma fold_result_append [simp]:
  "fold_result f s (xs @ ys) = rbind (fold_result f s xs) (\<lambda>s'. fold_result f s' ys)"
  by (induction xs arbitrary: s) (auto simp: rbind_def split: sum.splits)

lemma sbind_eq_Inr [result_simps]:
  "sbind m k w = (Inr b, v) \<longleftrightarrow> (\<exists>a w'. m w = (Inr a, w') \<and> k a w' = (Inr b, v))"
  by (auto simp: sbind_def split: prod.splits sum.splits)

lemma sbind_slift [simp]:
  "sbind (slift (Inr a)) k w = k a w" "sbind (slift (Inl e)) k w = (Inl e, w)"
  by (simp_all add: sbind_def slift_def)

lemma slift_eq_Inr [result_simps]: "slift r w = (Inr a, v) \<longleftrightarrow> r = Inr a \<and> v = w"
  by (auto simp: slift_def)

text \<open>Code that succeeds or fails leaves an invariant of the state alone if its parts do.\<close>

lemma sbind_invariant:
  assumes "sbind m k w = (r, v)" and "P w" and "\<And>r v. m w = (r, v) \<Longrightarrow> P v"
    and "\<And>a w' r v. m w = (Inr a, w') \<Longrightarrow> P w' \<Longrightarrow> k a w' = (r, v) \<Longrightarrow> P v"
  shows "P v"
  using assms by (auto simp: sbind_def split: prod.splits sum.splits)

section \<open>Lemmas on searching a sorted list\<close>

lemma find_sorted_least:
  assumes "sorted (map f xs)" and "find P xs = Some x" and "y \<in> set xs" and "P y"
  shows "f x \<le> f y"
proof -
  obtain i where i: "i < length xs" "xs ! i = x" "\<forall>j < i. \<not> P (xs ! j)"
    using assms(2) by (auto simp: find_Some_iff)
  obtain j where j: "j < length xs" "xs ! j = y" using assms(3) by (auto simp: in_set_conv_nth)
  with i assms(4) have "i \<le> j" by (auto simp: not_less [symmetric])
  with i j assms(1) show ?thesis
    using sorted_nth_mono [of "map f xs" i j] by simp
qed

lemma find_eq_Some_in: "find P xs = Some x \<Longrightarrow> x \<in> set xs \<and> P x"
  by (auto simp: find_Some_iff)

section \<open>Lemmas on slices and bytes\<close>

lemma slice_eq_Some [result_simps]:
  "slice xs a b = Some ys \<longleftrightarrow> a \<le> b \<and> b \<le> length xs \<and> ys = take (b - a) (drop a xs)"
  by (auto simp: slice_def)

lemma length_window [bytes_simps]: "a + n \<le> length xs \<Longrightarrow> length (window xs a n) = n"
  by (simp add: window_def)

lemma window_append1 [bytes_simps]:
  "a + n \<le> length xs \<Longrightarrow> window (xs @ ys) a n = window xs a n"
  by (simp add: window_def)

lemma window_take [bytes_simps]:
  "a + n \<le> m \<Longrightarrow> window (take m xs) a n = window xs a n"
  by (simp add: window_def drop_take min_def)

lemma window_split: "take a xs @ window xs a n @ drop (a + n) xs = xs"
  by (metis append_take_drop_id drop_drop add.commute window_def)

lemma length_to_le_bytes [simp]: "length (to_le_bytes k n) = k"
  by (induction k arbitrary: n) auto

lemma byte_less_256: "unat (b :: byte) < 256"
  using unsigned_less [of b, where ?'a = nat] by simp

lemma le_value_to_le_bytes: "le_value (to_le_bytes k n) = n mod 256 ^ k"
proof (induction k arbitrary: n)
  case 0
  then show ?case by simp
next
  case (Suc k)
  have "unat (word_of_nat (n mod 256) :: byte) = n mod 256"
    by (simp add: unat_of_nat)
  then show ?case
    by (simp add: Suc.IH mod_mult2_eq)
qed

lemma le_value_bound: "le_value bs < 256 ^ length bs"
proof (induction bs)
  case Nil
  then show ?case by simp
next
  case (Cons b bs)
  have "unat b < 256" using byte_less_256 [of b] by simp
  with Cons.IH show ?case by (simp add: algebra_simps)
qed

lemma le_value_append: "le_value (xs @ ys) = le_value xs + 256 ^ length xs * le_value ys"
  by (induction xs) (simp_all add: algebra_simps)

lemma le_value_take: "le_value (take k bs) = le_value bs mod 256 ^ k"
proof (cases "k \<le> length bs")
  case True
  have "le_value bs = le_value (take k bs) + 256 ^ k * le_value (drop k bs)"
    using le_value_append [of "take k bs" "drop k bs"] True by simp
  moreover have "le_value (take k bs) < 256 ^ k"
    using le_value_bound [of "take k bs"] True by simp
  ultimately show ?thesis by simp
next
  case False
  then have "(256 :: nat) ^ length bs \<le> 256 ^ k" by (intro power_increasing) simp_all
  with le_value_bound [of bs] have "le_value bs < 256 ^ k" by (rule less_le_trans)
  with False show ?thesis by simp
qed

lemma le_value_replicate_0 [simp]: "le_value (replicate n 0) = 0"
  by (induction n) auto

lemma unat_u32_from_le_bytes:
  assumes "length bs = 4"
  shows "unat (u32_from_le_bytes bs) = le_value bs"
proof -
  have "le_value bs < 2 ^ 32" using le_value_bound [of bs] assms by simp
  then show ?thesis by (simp add: u32_from_le_bytes_def unat_of_nat)
qed

lemma u32_to_le_bytes:
  assumes "n < 2 ^ 32"
  shows "unat (u32_from_le_bytes (to_le_bytes 4 n)) = n"
  using assms by (simp add: unat_u32_from_le_bytes le_value_to_le_bytes)

lemma base_256_digit:
  fixes a b m n :: nat
  assumes "a + 256 * m = b + 256 * n" and "a < 256" and "b < 256"
  shows "a = b \<and> m = n"
proof -
  from assms(1) have "(a + 256 * m) mod 256 = (b + 256 * n) mod 256" by (rule arg_cong)
  with assms(2,3) have "a = b" by simp
  with assms(1) show ?thesis by simp
qed

lemma le_value_inject:
  "length xs = length ys \<Longrightarrow> le_value xs = le_value ys \<Longrightarrow> xs = ys"
proof (induction xs ys rule: list_induct2)
  case Nil
  then show ?case by simp
next
  case (Cons x xs y ys)
  have "unat x < 256" "unat y < 256"
    using byte_less_256 by simp_all
  moreover have "unat x + 256 * le_value xs = unat y + 256 * le_value ys"
    using Cons.prems by simp
  ultimately have "unat x = unat y" "le_value xs = le_value ys"
    by (auto dest: base_256_digit)
  with Cons.IH show ?case by (simp add: word_unat_eq_iff)
qed

lemma chunks_exact_Cons:
  "0 < n \<Longrightarrow> length c = n \<Longrightarrow> chunks_exact n (c @ xs) = c # chunks_exact n xs"
  by (subst chunks_exact.simps) simp

lemma chunks_exact_short: "length xs < n \<Longrightarrow> chunks_exact n xs = []"
  by (subst chunks_exact.simps) simp

lemma length_in_chunks_exact: "c \<in> set (chunks_exact n xs) \<Longrightarrow> length c = n"
proof (induction n xs rule: chunks_exact.induct)
  case (1 n xs)
  then show ?case
    by (cases "n = 0 \<or> length xs < n") (auto simp: chunks_exact.simps [of n xs])
qed

end
