(* ===== verification/Rust_Strings.thy ===== *)
theory Rust_Strings
  imports Prelude
begin

text \<open>
  The part of Rust's \<open>core::str\<close>, \<open>core::char\<close> and \<open>u8\<close> that the relay uses. A Rust
  \<open>String\<close> is its UTF-8 byte sequence, and a \<open>string\<close> here is that sequence with one
  \<open>char\<close> per byte: \<open>len()\<close> is \<open>length\<close>, the order on strings is the bytewise
  lexicographic one, and a search for a substring is a search for a byte sequence (UTF-8 is
  self-synchronising). \<open>str::trim\<close> and \<open>split_whitespace\<close> use the Unicode property
  \<open>White_Space\<close>, so they look for the UTF-8 encodings of its 25 characters.
\<close>

named_theorems ascii_simps

section \<open>Bytes and ASCII classes\<close>

definition as_bytes :: "string \<Rightarrow> byte list" where
  "as_bytes s = map (\<lambda>c. word_of_nat (of_char c)) s"

definition string_of_bytes :: "byte list \<Rightarrow> string" where
  "string_of_bytes bs = map (\<lambda>b. char_of (unat b)) bs"

definition in_range :: "nat \<Rightarrow> nat \<Rightarrow> char \<Rightarrow> bool" where
  "in_range lo hi c \<longleftrightarrow> lo \<le> of_char c \<and> of_char c \<le> hi"

definition is_ascii_digit :: "char \<Rightarrow> bool" where
  "is_ascii_digit c \<longleftrightarrow> in_range 48 57 c"

definition is_ascii_alphabetic :: "char \<Rightarrow> bool" where
  "is_ascii_alphabetic c \<longleftrightarrow> in_range 65 90 c \<or> in_range 97 122 c"

definition is_ascii_alphanumeric :: "char \<Rightarrow> bool" where
  "is_ascii_alphanumeric c \<longleftrightarrow> is_ascii_alphabetic c \<or> is_ascii_digit c"

definition is_ascii_hexdigit :: "char \<Rightarrow> bool" where
  "is_ascii_hexdigit c \<longleftrightarrow> is_ascii_digit c \<or> in_range 65 70 c \<or> in_range 97 102 c"

definition is_ascii_control :: "char \<Rightarrow> bool" where
  "is_ascii_control c \<longleftrightarrow> in_range 0 31 c \<or> of_char c = (127 :: nat)"

text \<open>\<open>u8::is_ascii_whitespace\<close>: space, tab, line feed, form feed, carriage return.\<close>

definition is_ascii_whitespace :: "char \<Rightarrow> bool" where
  "is_ascii_whitespace c \<longleftrightarrow> (of_char c :: nat) \<in> {32, 9, 10, 12, 13}"

definition lower_char :: "char \<Rightarrow> char" where
  "lower_char c = (if in_range 65 90 c then char_of (of_char c + 32 :: nat) else c)"

definition to_ascii_lowercase :: "string \<Rightarrow> string" where
  "to_ascii_lowercase s = map lower_char s"

definition eq_ignore_ascii_case :: "string \<Rightarrow> string \<Rightarrow> bool" where
  "eq_ignore_ascii_case s t \<longleftrightarrow> to_ascii_lowercase s = to_ascii_lowercase t"

abbreviation LF :: char where "LF \<equiv> CHR 0x0A"
abbreviation CR :: char where "CR \<equiv> CHR 0x0D"
abbreviation CRLF :: string where "CRLF \<equiv> [CR, LF]"

text \<open>
  Literals that proofs treat as opaque have a name; the simplifier would otherwise spell
  them out character by character.
\<close>

definition sha256_tag :: string where
  "sha256_tag = ''sha256:''"

section \<open>Searching, stripping and splitting\<close>

text \<open>\<open>str::find\<close> and \<open>windows(n).position(..)\<close>: the first position of a pattern.\<close>

fun find_sub :: "'a list \<Rightarrow> 'a list \<Rightarrow> nat option" where
  "find_sub p [] = (if p = [] then Some 0 else None)"
| "find_sub p (x # xs) =
     (if prefix p (x # xs) then Some 0 else map_option Suc (find_sub p xs))"

definition contains :: "string \<Rightarrow> string \<Rightarrow> bool" where
  "contains s p \<longleftrightarrow> find_sub p s \<noteq> None"

definition strip_prefix :: "'a list \<Rightarrow> 'a list \<Rightarrow> 'a list option" where
  "strip_prefix p s = (if prefix p s then Some (drop (length p) s) else None)"

fun split_once :: "char \<Rightarrow> string \<Rightarrow> (string \<times> string) option" where
  "split_once c [] = None"
| "split_once c (x # xs) =
     (if x = c then Some ([], xs)
      else map_option (\<lambda>(a, b). (x # a, b)) (split_once c xs))"

fun split_char :: "char \<Rightarrow> string \<Rightarrow> string list" where
  "split_char c [] = [[]]"
| "split_char c (x # xs) =
     (if x = c then [] # split_char c xs
      else (case split_char c xs of [] \<Rightarrow> [[x]] | p # ps \<Rightarrow> (x # p) # ps))"

definition trim_end_matches :: "(char \<Rightarrow> bool) \<Rightarrow> string \<Rightarrow> string" where
  "trim_end_matches P s = rev (dropWhile P (rev s))"

text \<open>\<open>trim_start_matches(p)\<close> with a string pattern removes the prefix as often as it occurs.\<close>

function trim_start_matches :: "string \<Rightarrow> string \<Rightarrow> string" where
  "trim_start_matches p s =
     (if p \<noteq> [] \<and> prefix p s then trim_start_matches p (drop (length p) s) else s)"
  by pat_completeness auto
termination
  by (relation "measure (\<lambda>(p, s). length s)") (auto simp: prefix_def)

declare trim_start_matches.simps [simp del]

text \<open>The UTF-8 encodings of the characters with the Unicode property White\_Space.\<close>

definition ws_encodings :: "string list" where
  "ws_encodings =
     [[CHR 0x20], [CHR 0x09], [CHR 0x0A], [CHR 0x0B], [CHR 0x0C], [CHR 0x0D],
      [CHR 0xC2, CHR 0x85], [CHR 0xC2, CHR 0xA0], [CHR 0xE1, CHR 0x9A, CHR 0x80],
      [CHR 0xE2, CHR 0x80, CHR 0x80], [CHR 0xE2, CHR 0x80, CHR 0x81],
      [CHR 0xE2, CHR 0x80, CHR 0x82], [CHR 0xE2, CHR 0x80, CHR 0x83],
      [CHR 0xE2, CHR 0x80, CHR 0x84], [CHR 0xE2, CHR 0x80, CHR 0x85],
      [CHR 0xE2, CHR 0x80, CHR 0x86], [CHR 0xE2, CHR 0x80, CHR 0x87],
      [CHR 0xE2, CHR 0x80, CHR 0x88], [CHR 0xE2, CHR 0x80, CHR 0x89],
      [CHR 0xE2, CHR 0x80, CHR 0x8A], [CHR 0xE2, CHR 0x80, CHR 0xA8],
      [CHR 0xE2, CHR 0x80, CHR 0xA9], [CHR 0xE2, CHR 0x80, CHR 0xAF],
      [CHR 0xE2, CHR 0x81, CHR 0x9F], [CHR 0xE3, CHR 0x80, CHR 0x80]]"

text \<open>\<open>strip_len ps s\<close>: the length of the pattern of \<open>ps\<close> that \<open>s\<close> starts with, 0 for none.\<close>

definition strip_len :: "string list \<Rightarrow> string \<Rightarrow> nat" where
  "strip_len ps s = (case find (\<lambda>p. prefix p s) ps of None \<Rightarrow> 0 | Some p \<Rightarrow> length p)"

function strip_all :: "string list \<Rightarrow> string \<Rightarrow> string" where
  "strip_all ps s =
     (if strip_len ps s = 0 \<or> s = [] then s else strip_all ps (drop (strip_len ps s) s))"
  by pat_completeness auto
termination
  by (relation "measure (\<lambda>(ps, s). length s)") auto

declare strip_all.simps [simp del]

definition trim_start :: "string \<Rightarrow> string" where
  "trim_start s = strip_all ws_encodings s"

definition trim_end :: "string \<Rightarrow> string" where
  "trim_end s = rev (strip_all (map rev ws_encodings) (rev s))"

definition trim :: "string \<Rightarrow> string" where
  "trim s = trim_end (trim_start s)"

text \<open>\<open>split_whitespace\<close>: the maximal runs of non-whitespace; \<open>w\<close> is the run being read.\<close>

definition flush :: "string \<Rightarrow> string list" where
  "flush w = (if w = [] then [] else [rev w])"

function split_ws :: "string \<Rightarrow> string \<Rightarrow> string list" where
  "split_ws w [] = flush w"
| "split_ws w (x # xs) =
     (if strip_len ws_encodings (x # xs) = 0 then split_ws (x # w) xs
      else flush w @ split_ws [] (drop (strip_len ws_encodings (x # xs)) (x # xs)))"
  by pat_completeness auto
termination
  by (relation "measure (\<lambda>(w, s). length s)") auto

definition split_whitespace :: "string \<Rightarrow> string list" where
  "split_whitespace s = split_ws [] s"

fun join :: "string \<Rightarrow> string list \<Rightarrow> string" where
  "join sep [] = []"
| "join sep [x] = x"
| "join sep (x # y # ys) = x @ sep @ join sep (y # ys)"

definition replace_char :: "char \<Rightarrow> char \<Rightarrow> string \<Rightarrow> string" where
  "replace_char a b s = map (\<lambda>c. if c = a then b else c) s"

text \<open>
  \<open>str::lines\<close>: the pieces that end in a line feed, without it and without the carriage
  return before it; a last piece with no line feed is kept as it is.
\<close>

fun split_inclusive :: "string \<Rightarrow> string list" where
  "split_inclusive [] = []"
| "split_inclusive (x # xs) =
     (if x = LF then [x] # split_inclusive xs
      else (case split_inclusive xs of [] \<Rightarrow> [[x]] | p # ps \<Rightarrow> (x # p) # ps))"

definition strip_line_end :: "string \<Rightarrow> string" where
  "strip_line_end l =
     (if l \<noteq> [] \<and> last l = LF
      then (let m = butlast l in if m \<noteq> [] \<and> last m = CR then butlast m else m)
      else l)"

definition str_lines :: "string \<Rightarrow> string list" where
  "str_lines s = map strip_line_end (split_inclusive s)"

section \<open>Numbers and UTF-8\<close>

definition digit_char :: "nat \<Rightarrow> char" where
  "digit_char d = char_of (48 + d)"

text \<open>\<open>to_string\<close> of an unsigned integer.\<close>

fun decimal :: "nat \<Rightarrow> string" where
  "decimal n = (if n < 10 then [digit_char n] else decimal (n div 10) @ [digit_char (n mod 10)])"

declare decimal.simps [simp del]

definition hex_digit_value :: "char \<Rightarrow> nat option" where
  "hex_digit_value c =
     (if is_ascii_digit c then Some (of_char c - 48)
      else if in_range 97 102 c then Some (of_char c - 87)
      else if in_range 65 70 c then Some (of_char c - 55)
      else None)"

fun hex_value :: "nat \<Rightarrow> string \<Rightarrow> nat option" where
  "hex_value a [] = Some a"
| "hex_value a (c # cs) =
     (case hex_digit_value c of None \<Rightarrow> None | Some d \<Rightarrow> hex_value (16 * a + d) cs)"

text \<open>
  \<open>usize::from_str_radix(s, 16)\<close> on a 64-bit target: an optional \<open>+\<close>, at least one digit,
  \<open>None\<close> for an invalid digit, an empty string or a value of more than 64 bits.
\<close>

definition usize_from_hex :: "string \<Rightarrow> u64 option" where
  "usize_from_hex s =
     (let ds = (if prefix ''+'' s \<and> 1 < length s then tl s else s) in
      if ds = [] then None
      else (case hex_value 0 ds of
              None \<Rightarrow> None
            | Some n \<Rightarrow> if n < 2 ^ 64 then Some (word_of_nat n) else None))"

definition cont_byte :: "byte \<Rightarrow> bool" where
  "cont_byte b \<longleftrightarrow> 0x80 \<le> b \<and> b \<le> 0xBF"

text \<open>\<open>std::str::from_utf8\<close> succeeds exactly on well-formed UTF-8 (Unicode, table 3-7).\<close>

fun utf8_valid :: "byte list \<Rightarrow> bool" where
  "utf8_valid [] = True"
| "utf8_valid (a # bs) =
     (if a \<le> 0x7F then utf8_valid bs
      else if 0xC2 \<le> a \<and> a \<le> 0xDF then
        (case bs of b # r \<Rightarrow> cont_byte b \<and> utf8_valid r | [] \<Rightarrow> False)
      else if 0xE0 \<le> a \<and> a \<le> 0xEF then
        (case bs of b # c # r \<Rightarrow>
             cont_byte b \<and> cont_byte c \<and> (a = 0xE0 \<longrightarrow> 0xA0 \<le> b) \<and> (a = 0xED \<longrightarrow> b \<le> 0x9F)
             \<and> utf8_valid r
         | _ \<Rightarrow> False)
      else if 0xF0 \<le> a \<and> a \<le> 0xF4 then
        (case bs of b # c # d # r \<Rightarrow>
             cont_byte b \<and> cont_byte c \<and> cont_byte d
             \<and> (a = 0xF0 \<longrightarrow> 0x90 \<le> b) \<and> (a = 0xF4 \<longrightarrow> b \<le> 0x8F) \<and> utf8_valid r
         | _ \<Rightarrow> False)
      else False)"

definition from_utf8 :: "byte list \<Rightarrow> string option" where
  "from_utf8 bs = (if utf8_valid bs then Some (string_of_bytes bs) else None)"

lemmas ascii_class_defs [ascii_simps] =
  is_ascii_digit_def is_ascii_alphabetic_def is_ascii_alphanumeric_def is_ascii_hexdigit_def
  is_ascii_control_def is_ascii_whitespace_def in_range_def

section \<open>Lemmas\<close>

lemma length_as_bytes [simp]: "length (as_bytes s) = length s"
  by (simp add: as_bytes_def)

lemma as_bytes_append [simp]: "as_bytes (s @ t) = as_bytes s @ as_bytes t"
  by (simp add: as_bytes_def)

lemma length_string_of_bytes [simp]: "length (string_of_bytes bs) = length bs"
  by (simp add: string_of_bytes_def)

lemma string_of_bytes_append [simp]:
  "string_of_bytes (xs @ ys) = string_of_bytes xs @ string_of_bytes ys"
  by (simp add: string_of_bytes_def)

lemma unat_byte_of_char: "unat (word_of_nat (of_char c) :: byte) = of_char c"
  by (simp add: unat_of_nat)

lemma string_of_as_bytes [simp]: "string_of_bytes (as_bytes s) = s"
  unfolding string_of_bytes_def as_bytes_def
  by (simp add: unat_byte_of_char comp_def)

lemma as_string_of_bytes [simp]: "as_bytes (string_of_bytes bs) = bs"
  using byte_less_256
  by (simp add: string_of_bytes_def as_bytes_def comp_def of_char_of take_bit_eq_mod map_idI)

lemma as_bytes_inject [simp]: "as_bytes s = as_bytes t \<longleftrightarrow> s = t"
  by (metis string_of_as_bytes)

lemma byte_of_char_LF: "(word_of_nat (of_char c) :: byte) = 10 \<longleftrightarrow> c = CHR 0x0A"
proof -
  have "(word_of_nat (of_char c) :: byte) = 10 \<longleftrightarrow> (of_char c :: nat) = of_char (CHR 0x0A)"
    by (simp add: word_unat_eq_iff unat_byte_of_char)
  then show ?thesis by (simp only: of_char_eq_iff)
qed

lemma to_ascii_lowercase_append [simp]:
  "to_ascii_lowercase (s @ t) = to_ascii_lowercase s @ to_ascii_lowercase t"
  by (simp add: to_ascii_lowercase_def)

lemma length_to_ascii_lowercase [simp]: "length (to_ascii_lowercase s) = length s"
  by (simp add: to_ascii_lowercase_def)

lemma of_char_lower_char:
  "(of_char (lower_char c) :: nat) = (if in_range 65 90 c then of_char c + 32 else of_char c)"
  by (auto simp: lower_char_def in_range_def of_char_of take_bit_eq_mod)

lemma lower_char_idem [simp]: "lower_char (lower_char c) = lower_char c"
proof (cases "in_range 65 90 c")
  case True
  then have "(of_char (lower_char c) :: nat) = of_char c + 32" "97 \<le> (of_char c + 32 :: nat)"
    by (simp_all add: of_char_lower_char in_range_def)
  then have "\<not> in_range 65 90 (lower_char c)" by (simp add: in_range_def)
  then show ?thesis by (simp add: lower_char_def [of "lower_char c"])
next
  case False
  then have "lower_char c = c" by (simp add: lower_char_def)
  then show ?thesis by simp
qed

lemma to_ascii_lowercase_idem [simp]:
  "to_ascii_lowercase (to_ascii_lowercase s) = to_ascii_lowercase s"
  by (simp add: to_ascii_lowercase_def)

lemma hexdigit_lower_char [simp]:
  "is_ascii_hexdigit (lower_char c) \<longleftrightarrow> is_ascii_hexdigit c"
  using of_char_lower_char [of c] by (auto simp: ascii_simps split: if_splits)

lemma find_sub_Some:
  assumes "find_sub p xs = Some i"
  shows "i + length p \<le> length xs \<and> take (length p) (drop i xs) = p"
  using assms
proof (induction p xs arbitrary: i rule: find_sub.induct)
  case (1 p)
  then show ?case by (auto split: if_splits)
next
  case (2 p x xs)
  show ?case
  proof (cases "prefix p (x # xs)")
    case True
    with 2 show ?thesis
      by (auto simp: prefix_def dest: arg_cong [where f = length])
  next
    case False
    with 2 show ?thesis by auto
  qed
qed

lemma find_sub_None_iff: "find_sub p xs = None \<longleftrightarrow> \<not> sublist p xs"
proof (induction p xs rule: find_sub.induct)
  case (1 p)
  then show ?case by auto
next
  case (2 p x xs)
  then show ?case by (auto simp: sublist_Cons_right)
qed

lemma contains_iff: "contains s p \<longleftrightarrow> sublist p s"
  by (simp add: contains_def find_sub_None_iff)

lemma find_sub_skip:
  assumes "p = a # q" and "a \<notin> set xs"
  shows "find_sub p (xs @ ys) = map_option ((+) (length xs)) (find_sub p ys)"
  using assms
proof (induction xs)
  case Nil
  then show ?case by (cases "find_sub p ys") auto
next
  case (Cons x xs)
  then show ?case by (cases "find_sub p ys") auto
qed

lemma find_sub_prefix: "prefix p xs \<Longrightarrow> find_sub p xs = Some 0"
  by (cases xs) auto

lemma strip_prefix_eq_Some [result_simps]: "strip_prefix p s = Some r \<longleftrightarrow> s = p @ r"
  by (auto simp: strip_prefix_def prefix_def)

lemma strip_prefix_append [simp]: "strip_prefix p (p @ r) = Some r"
  by (simp add: strip_prefix_eq_Some)

lemma split_once_eq_Some:
  "split_once c s = Some (a, b) \<longleftrightarrow> s = a @ c # b \<and> c \<notin> set a"
proof (induction s arbitrary: a)
  case Nil
  then show ?case by simp
next
  case (Cons x xs)
  show ?case
  proof (cases "x = c")
    case True
    then show ?thesis by (cases a) auto
  next
    case False
    then show ?thesis using Cons.IH by (cases a) auto
  qed
qed

lemma split_once_eq_None [simp]: "split_once c s = None \<longleftrightarrow> c \<notin> set s"
  by (induction s) auto

lemma split_char_not_Nil [simp]: "split_char c s \<noteq> []"
  by (cases s) (auto split: list.splits)

lemma split_char_no_sep: "c \<notin> set s \<Longrightarrow> split_char c s = [s]"
  by (induction s) auto

lemma split_char_append: "c \<notin> set s \<Longrightarrow> split_char c (s @ c # t) = s # split_char c t"
  by (induction s) auto

lemma trim_end_matches_append:
  "(\<forall>x \<in> set t. P x) \<Longrightarrow> trim_end_matches P (s @ t) = trim_end_matches P s"
  unfolding trim_end_matches_def rev_append by (subst dropWhile_append2) auto

lemma trim_end_matches_id: "s = [] \<or> \<not> P (last s) \<Longrightarrow> trim_end_matches P s = s"
  by (cases s rule: rev_cases) (auto simp: trim_end_matches_def)

lemma prefix_trim_end_matches: "prefix (trim_end_matches P s) s"
proof -
  have "s = trim_end_matches P s @ rev (takeWhile P (rev s))"
    unfolding trim_end_matches_def
    by (metis rev_append rev_rev_ident takeWhile_dropWhile_id)
  then show ?thesis by (metis prefixI)
qed

subsection \<open>Trimming\<close>

lemma strip_all_id: "strip_len ps s = 0 \<Longrightarrow> strip_all ps s = s"
  by (subst strip_all.simps) simp

text \<open>A string is clean when no whitespace character starts or ends it.\<close>

definition trimmed :: "string \<Rightarrow> bool" where
  "trimmed s \<longleftrightarrow> strip_len ws_encodings s = 0 \<and> strip_len (map rev ws_encodings) (rev s) = 0"

lemma trim_trimmed: "trimmed s \<Longrightarrow> trim s = s"
  by (simp add: trimmed_def trim_def trim_start_def trim_end_def strip_all_id)

text \<open>The bytes that can start or end a white-space character's encoding.\<close>

definition ws_edge :: "char set" where
  "ws_edge = set (map hd ws_encodings) \<union> set (map last ws_encodings)"

lemma strip_len_0I: "(\<forall>p \<in> set ps. \<not> prefix p s) \<Longrightarrow> strip_len ps s = 0"
  by (auto simp: strip_len_def find_Some_iff split: option.splits)

lemma ws_encodings_not_Nil: "w \<in> set ws_encodings \<Longrightarrow> w \<noteq> []"
  by (auto simp: ws_encodings_def)

lemma trimmedI:
  assumes "s \<noteq> [] \<Longrightarrow> hd s \<notin> ws_edge \<and> last s \<notin> ws_edge"
  shows "trimmed s"
proof -
  have "\<not> prefix w s" if "w \<in> set ws_encodings" for w
  proof
    assume "prefix w s"
    with ws_encodings_not_Nil [OF that] have "s \<noteq> []" and "hd s = hd w"
      by (auto simp: prefix_def)
    with assms that show False by (auto simp: ws_edge_def)
  qed
  moreover have "\<not> prefix (rev w) (rev s)" if "w \<in> set ws_encodings" for w
  proof
    assume "prefix (rev w) (rev s)"
    then have "suffix w s" by (simp add: suffix_to_prefix)
    with ws_encodings_not_Nil [OF that] have "s \<noteq> []" and "last s = last w"
      by (auto simp: suffix_def)
    with assms that show False by (auto simp: ws_edge_def)
  qed
  ultimately show ?thesis by (auto simp: trimmed_def intro!: strip_len_0I)
qed

lemma hexdigit_not_ws_edge: "is_ascii_hexdigit c \<Longrightarrow> c \<notin> ws_edge"
  by (auto simp: ws_edge_def ws_encodings_def ascii_simps)

lemma lowercase_sha256_tag [simp]: "to_ascii_lowercase sha256_tag = sha256_tag"
  by code_simp

lemma sha256_tag_not_Nil [simp]: "sha256_tag \<noteq> []"
  by (simp add: sha256_tag_def)

lemma hd_sha256_tag: "hd sha256_tag \<notin> ws_edge"
  by (simp add: sha256_tag_def ws_edge_def ws_encodings_def)

subsection \<open>Decimal numerals\<close>

definition undecimal :: "string \<Rightarrow> nat" where
  "undecimal s = foldl (\<lambda>n c. 10 * n + (of_char c - 48)) 0 s"

lemma of_char_digit_char: "d < 10 \<Longrightarrow> (of_char (digit_char d) :: nat) = 48 + d"
  by (simp add: digit_char_def of_char_of take_bit_eq_mod)

lemma digit_char_numerals:
  "digit_char 0 = CHR ''0''" "digit_char 1 = CHR ''1''" "digit_char (Suc 0) = CHR ''1''"
  "digit_char 2 = CHR ''2''" "digit_char 3 = CHR ''3''" "digit_char 4 = CHR ''4''"
  "digit_char 5 = CHR ''5''" "digit_char 6 = CHR ''6''" "digit_char 7 = CHR ''7''"
  "digit_char 8 = CHR ''8''" "digit_char 9 = CHR ''9''"
  by code_simp+

lemma undecimal_decimal [simp]: "undecimal (decimal n) = n"
proof (induction n rule: decimal.induct)
  case (1 n)
  then show ?case
    by (cases "n < 10")
      (simp_all add: decimal.simps [of n] undecimal_def of_char_digit_char)
qed

lemma decimal_inject [simp]: "decimal m = decimal n \<longleftrightarrow> m = n"
  by (metis undecimal_decimal)

lemma decimal_digits: "c \<in> set (decimal n) \<Longrightarrow> is_ascii_digit c"
proof (induction n rule: decimal.induct)
  case (1 n)
  then show ?case
    by (cases "n < 10")
      (auto simp: decimal.simps [of n] is_ascii_digit_def in_range_def of_char_digit_char)
qed

lemma decimal_not_Nil [simp]: "decimal n \<noteq> []"
  by (subst decimal.simps) simp

subsection \<open>UTF-8\<close>

lemma utf8_valid_ascii: "(\<forall>b \<in> set bs. b \<le> 0x7F) \<Longrightarrow> utf8_valid bs"
  by (induction bs) auto

end
