(* ===== verification/Url_View.thy ===== *)
theory Url_View
  imports Rust_Strings
begin

text \<open>
  The crate \<open>url\<close> is not part of the repository. A parsed URL is the record of what its
  accessor methods return, and \<open>Url::parse\<close> is a parameter \<open>url_parse\<close> of every definition
  that calls it (\<open>None\<close> for a parse error). Statements that need a documented property of the
  parser state it as a hypothesis.
\<close>

record url =
  url_scheme :: string
  url_username :: string
  url_password :: "string option"
  url_host_str :: "string option"
  url_port_or_known_default :: "u16 option"
  url_path :: string

type_synonym url_parser = "string \<Rightarrow> url option"

definition port_string :: "u16 \<Rightarrow> string" where
  "port_string p = decimal (unat p)"

lemma port_string_inject [simp]: "port_string p = port_string q \<longleftrightarrow> p = q"
  by (simp add: port_string_def word_unat_eq_iff)

lemma port_string_digits: "c \<in> set (port_string p) \<Longrightarrow> is_ascii_digit c"
  unfolding port_string_def by (rule decimal_digits)

section \<open>Spelling\<close>

text \<open>
  How an http(s) URL is spelled: scheme, \<open>://\<close>, authority, and then nothing or one of the
  characters that end an authority. An authority is not empty and has none of the characters
  the parser drops from its input.
\<close>

definition ends_authority :: "char \<Rightarrow> bool" where
  "ends_authority c \<longleftrightarrow> c \<in> {CHR ''/'', CHR 0x5C, CHR ''?'', CHR ''#''}"

definition dropped_char :: "char \<Rightarrow> bool" where
  "dropped_char c \<longleftrightarrow> c \<in> {CHR 0x09, CHR 0x0A, CHR 0x0D}"

definition web_scheme :: "string \<Rightarrow> bool" where
  "web_scheme s \<longleftrightarrow> to_ascii_lowercase s \<in> {''http'', ''https''}"

definition authority_text :: "string \<Rightarrow> bool" where
  "authority_text a \<longleftrightarrow> a \<noteq> [] \<and> list_all (\<lambda>c. \<not> ends_authority c \<and> \<not> dropped_char c) a"

definition after_authority :: "string \<Rightarrow> bool" where
  "after_authority r \<longleftrightarrow> (case r of [] \<Rightarrow> True | c # _ \<Rightarrow> ends_authority c)"

definition plain_url :: "string \<Rightarrow> bool" where
  "plain_url s =
     (case find_sub ''://'' s of
        None \<Rightarrow> False
      | Some i \<Rightarrow> web_scheme (take i s) \<and> authority_text (takeWhile (\<lambda>c. \<not> ends_authority c) (drop (i + 3) s)))"

text \<open>
  Documented of the parser (the URL standard's authority state): two http(s) URLs spelled with
  the same scheme and authority agree in scheme, user information, host and port, whatever
  path, query or fragment follows the authority in each.
\<close>

definition same_authority :: "url \<Rightarrow> url \<Rightarrow> bool" where
  "same_authority u v \<longleftrightarrow>
     url_scheme v = url_scheme u \<and> url_username v = url_username u \<and> url_password v = url_password u \<and>
     url_host_str v = url_host_str u \<and> url_port_or_known_default v = url_port_or_known_default u"

definition authority_law :: "url_parser \<Rightarrow> bool" where
  "authority_law url_parse \<longleftrightarrow>
     (\<forall>scheme a r r' u v. web_scheme scheme \<and> authority_text a \<and> after_authority r \<and> after_authority r' \<and>
        url_parse (scheme @ ''://'' @ a @ r) = Some u \<and> url_parse (scheme @ ''://'' @ a @ r') = Some v \<longrightarrow>
        same_authority u v)"

lemma plain_url_spelled:
  assumes "plain_url s"
  shows "\<exists>scheme a r. s = scheme @ ''://'' @ a @ r \<and> web_scheme scheme \<and> authority_text a \<and> after_authority r"
proof -
  let ?P = "\<lambda>c. \<not> ends_authority c"
  from assms obtain i where i: "find_sub ''://'' s = Some i" "web_scheme (take i s)"
      "authority_text (takeWhile ?P (drop (i + 3) s))"
    by (auto simp: plain_url_def split: option.split_asm)
  have "s = take i s @ take 3 (drop i s) @ drop (i + 3) s"
    by (metis add.commute append_take_drop_id drop_drop)
  moreover have "take 3 (drop i s) = ''://''"
    using find_sub_Some [OF i(1)] by (simp add: numeral_3_eq_3)
  ultimately have "s = take i s @ ''://'' @ drop (i + 3) s" by simp
  moreover have "after_authority (dropWhile ?P (drop (i + 3) s))"
    unfolding after_authority_def by (auto simp: dropWhile_eq_Cons_conv split: list.split)
  ultimately show ?thesis using i(2,3) takeWhile_dropWhile_id by metis
qed

text \<open>Trimming slashes off such a URL and appending a path keeps the authority.\<close>

lemma trim_keeps_authority:
  assumes "authority_text a" and "after_authority r"
  shows "\<exists>r'. after_authority (r' @ CHR ''/'' # p) \<and>
    trim_end_matches (\<lambda>c. c = CHR ''/'') (x @ a @ r) @ CHR ''/'' # p = x @ a @ r' @ CHR ''/'' # p"
proof -
  let ?trim = "trim_end_matches (\<lambda>c. c = CHR ''/'')"
  have a: "a \<noteq> []" "last a \<noteq> CHR ''/''"
    using assms(1) last_in_set [of a] by (auto simp: authority_text_def list_all_iff ends_authority_def)
  have "?trim (x @ a @ r) = x @ a @ ?trim r"
  proof (cases "\<forall>c \<in> set r. c = CHR ''/''")
    case True
    then have "?trim (x @ a @ r) = ?trim (x @ a)" "?trim r = []"
      using trim_end_matches_append [of r _ "x @ a"] trim_end_matches_append [of r _ "[]"]
      by (simp_all add: trim_end_matches_def)
    then show ?thesis using a trim_end_matches_id [of "x @ a"] by simp
  next
    case False
    then show ?thesis by (auto simp: trim_end_matches_def dropWhile_append)
  qed
  moreover have "after_authority (?trim r @ CHR ''/'' # p)"
    using assms(2) prefix_trim_end_matches [of "\<lambda>c. c = CHR ''/''" r]
    by (cases "?trim r"; cases r) (auto simp: after_authority_def ends_authority_def)
  ultimately show ?thesis by (intro exI [of _ "?trim r"]) simp
qed

lemma path_keeps_authority:
  assumes "authority_law url_parse" and "plain_url b" and "url_parse b = Some u"
    and "url_parse (trim_end_matches (\<lambda>c. c = CHR ''/'') b @ CHR ''/'' # p) = Some v"
  shows "same_authority u v"
proof -
  obtain scheme a r where b: "b = scheme @ ''://'' @ a @ r" "web_scheme scheme" "authority_text a" "after_authority r"
    using plain_url_spelled [OF assms(2)] by blast
  obtain r' where r': "after_authority (r' @ CHR ''/'' # p)"
      "trim_end_matches (\<lambda>c. c = CHR ''/'') b @ CHR ''/'' # p = (scheme @ ''://'') @ a @ r' @ CHR ''/'' # p"
    using trim_keeps_authority [OF b(3,4), of p "scheme @ ''://''"] b(1) by auto
  with assms(1,3,4) b show ?thesis unfolding authority_law_def by (metis append.assoc)
qed

end
