(* ===== verification/Ordered_Map.thy ===== *)
theory Ordered_Map
  imports Prelude
begin

text \<open>
  \<open>std::collections::BTreeMap\<close> as the relay uses it: \<open>insert\<close>, \<open>get\<close>, \<open>entry().or_default()\<close>
  and iteration in key order. A map is its list of entries in strictly ascending key order,
  which is what iteration yields. The locale \<open>ordered_map\<close> is the interface the configuration
  code relies on; it is interpreted on the list model at the end.
\<close>

section \<open>The map as its sorted entries\<close>

type_synonym ('k, 'v) btree = "('k \<times> 'v) list"

definition bt_ok :: "('k::linorder, 'v) btree \<Rightarrow> bool" where
  "bt_ok m \<longleftrightarrow> sorted_wrt (<) (map fst m)"

definition bt_empty :: "('k, 'v) btree" where
  "bt_empty = []"

fun bt_insert :: "'k::linorder \<Rightarrow> 'v \<Rightarrow> ('k, 'v) btree \<Rightarrow> ('k, 'v) btree" where
  "bt_insert k v [] = [(k, v)]"
| "bt_insert k v ((a, b) # m) =
     (if k < a then (k, v) # (a, b) # m
      else if k = a then (k, v) # m
      else (a, b) # bt_insert k v m)"

definition bt_get :: "('k, 'v) btree \<Rightarrow> 'k \<Rightarrow> 'v option" where
  "bt_get m k = map_of m k"

text \<open>\<open>*m.entry(k).or_default() = f(old)\<close>, with the type's default \<open>d\<close>.\<close>

definition bt_entry :: "'k::linorder \<Rightarrow> 'v \<Rightarrow> ('v \<Rightarrow> 'v) \<Rightarrow> ('k, 'v) btree \<Rightarrow> ('k, 'v) btree" where
  "bt_entry k d f m = bt_insert k (f (case bt_get m k of None \<Rightarrow> d | Some v \<Rightarrow> v)) m"

text \<open>\<open>BTreeSet::extend\<close> on the set's ascending list of elements.\<close>

definition set_extend :: "'a::linorder list \<Rightarrow> 'a list \<Rightarrow> 'a list" where
  "set_extend s xs = sort (remdups (s @ xs))"

section \<open>The interface\<close>

locale ordered_map =
  fixes empty :: 'm
    and insert :: "'k::linorder \<Rightarrow> 'v \<Rightarrow> 'm \<Rightarrow> 'm"
    and get :: "'m \<Rightarrow> 'k \<Rightarrow> 'v option"
    and entries :: "'m \<Rightarrow> ('k \<times> 'v) list"
    and invar :: "'m \<Rightarrow> bool"
  assumes get_empty: "get empty k = None"
    and get_insert: "invar m \<Longrightarrow> get (insert k v m) = (get m)(k \<mapsto> v)"
    and invar_empty: "invar empty"
    and invar_insert: "invar m \<Longrightarrow> invar (insert k v m)"
    and entries_get: "invar m \<Longrightarrow> (k, v) \<in> set (entries m) \<longleftrightarrow> get m k = Some v"
    and entries_sorted: "invar m \<Longrightarrow> sorted_wrt (<) (map fst (entries m))"
begin

lemma invar_fold_insert: "invar m \<Longrightarrow> invar (fold (\<lambda>(k, v). insert k v) kvs m)"
  by (induction kvs arbitrary: m) (auto simp: invar_insert)

lemma get_fold_insert:
  "invar m \<Longrightarrow> get (fold (\<lambda>(k, v). insert k v) kvs m) = get m ++ map_of (rev kvs)"
proof (induction kvs arbitrary: m)
  case Nil
  then show ?case by simp
next
  case (Cons kv kvs)
  obtain k v where kv: "kv = (k, v)" by (cases kv)
  from Cons.prems have "invar (insert k v m)" by (rule invar_insert)
  then have "get (fold (\<lambda>(k, v). insert k v) kvs (insert k v m))
      = get (insert k v m) ++ map_of (rev kvs)"
    by (rule Cons.IH)
  with Cons.prems kv show ?case by (simp add: get_insert map_add_upd_left map_of_append)
qed

lemma entries_distinct: "invar m \<Longrightarrow> distinct (map fst (entries m))"
  using entries_sorted strict_sorted_iff by blast

lemma same_get_same_entries:
  assumes "invar m" and "invar n" and "get m = get n"
  shows "entries m = entries n"
proof -
  have s: "set (entries m) = set (entries n)"
    using assms by (auto simp: entries_get)
  then have k: "map fst (entries m) = map fst (entries n)"
    using assms by (intro strict_sorted_equal) (auto simp: entries_sorted)
  show ?thesis
  proof (rule nth_equalityI)
    show len: "length (entries m) = length (entries n)" using k by (metis length_map)
    fix i assume i: "i < length (entries m)"
    then have "fst (entries m ! i) = fst (entries n ! i)" using k len by (metis nth_map)
    moreover have "entries m ! i \<in> set (entries n)"
      using i s nth_mem by blast
    moreover have "entries n ! i \<in> set (entries n)" using i len by simp
    moreover have "inj_on fst (set (entries n))"
      using entries_distinct [OF assms(2)] by (simp add: distinct_map)
    ultimately show "entries m ! i = entries n ! i" by (simp add: inj_on_def)
  qed
qed

end

section \<open>The list model satisfies it\<close>

lemma fst_set_bt_insert: "fst ` set (bt_insert k v m) = insert k (fst ` set m)"
  by (induction k v m rule: bt_insert.induct) (simp_all add: insert_commute)

lemma bt_ok_Nil [simp]: "bt_ok []"
  by (simp add: bt_ok_def)

lemma bt_ok_Cons [simp]:
  "bt_ok ((k, v) # m) \<longleftrightarrow> (\<forall>a \<in> fst ` set m. k < a) \<and> bt_ok m"
  by (simp add: bt_ok_def)

lemma bt_ok_insert: "bt_ok m \<Longrightarrow> bt_ok (bt_insert k v m)"
proof (induction k v m rule: bt_insert.induct)
  case (1 k v)
  then show ?case by simp
next
  case (2 k v a b m)
  then have "\<forall>x \<in> fst ` set m. a < x" by simp
  then have "k < a \<Longrightarrow> \<forall>x \<in> fst ` set m. k < x" by (meson less_trans)
  with 2 show ?case by (auto simp: fst_set_bt_insert)
qed

lemma bt_get_insert: "bt_ok m \<Longrightarrow> bt_get (bt_insert k v m) = (bt_get m)(k \<mapsto> v)"
  unfolding bt_get_def by (induction m) (auto simp: fun_eq_iff)

lemma bt_ok_distinct: "bt_ok m \<Longrightarrow> distinct (map fst m)"
  unfolding bt_ok_def by (rule strict_sorted_iff [THEN iffD1, THEN conjunct2])

lemma bt_get_iff: "bt_ok m \<Longrightarrow> (k, v) \<in> set m \<longleftrightarrow> bt_get m k = Some v"
  by (simp add: bt_get_def bt_ok_distinct)

interpretation bt: ordered_map bt_empty bt_insert bt_get "\<lambda>m. m" bt_ok
proof unfold_locales
  fix k :: "'k::linorder" and v :: 'v and m :: "('k, 'v) btree"
  show "bt_get bt_empty k = None" by (simp add: bt_get_def bt_empty_def)
  show "bt_ok m \<Longrightarrow> bt_get (bt_insert k v m) = (bt_get m)(k \<mapsto> v)" by (rule bt_get_insert)
  show "bt_ok bt_empty" by (simp add: bt_empty_def)
  show "bt_ok m \<Longrightarrow> bt_ok (bt_insert k v m)" by (rule bt_ok_insert)
  show "bt_ok m \<Longrightarrow> ((k, v) \<in> set m) = (bt_get m k = Some v)" by (rule bt_get_iff)
  show "bt_ok m \<Longrightarrow> sorted_wrt (<) (map fst m)" by (simp add: bt_ok_def)
qed

lemma bt_ok_entry: "bt_ok m \<Longrightarrow> bt_ok (bt_entry k d f m)"
  by (simp add: bt_entry_def bt.invar_insert)

lemma bt_get_entry:
  "bt_ok m \<Longrightarrow>
     bt_get (bt_entry k d f m) = (bt_get m)(k \<mapsto> f (case bt_get m k of None \<Rightarrow> d | Some v \<Rightarrow> v))"
  by (simp add: bt_entry_def bt.get_insert)

lemma set_set_extend [simp]: "set (set_extend s xs) = set s \<union> set xs"
  by (simp add: set_extend_def)

lemma sorted_set_extend: "sorted_wrt (<) (set_extend s xs)"
  by (simp add: set_extend_def strict_sorted_iff)

end
