(* ===== verification/Relay_Config.thy ===== *)
theory Relay_Config
  imports Url_View Ordered_Map
begin

text \<open>
  \<open>crates/relay-core/src/config.rs\<close>: the relay's configuration, the origin of a URL, the
  upstream allowlist, longest-prefix routing, the upstream certificate pins and start-up
  validation. The hash of a configuration is in \<open>Config_Hash\<close>.

  Each error message of the source is a constructor of \<open>config_error\<close> that carries what the
  message interpolates.
\<close>

section \<open>Data\<close>

record ProviderConfig =
  base_url :: string
  path :: "string option"

record RuntimeConfig =
  allow_client_provider_auth :: bool
  private_admin_enabled :: bool
  provider_auth_scheme :: string
  body_log_policy :: string

record RelayConfig =
  listen_addr :: string
  runtime :: RuntimeConfig
  default_upstream :: string
  routes :: "(string, ProviderConfig) btree"
  allowed_upstreams :: "string list"
  max_request_bytes :: u64
  release_artifact_digest :: "string option"
  upstream_timeout_secs :: u64
  upstream_tls_leaf_sha256 :: "(string, string list) btree"

datatype config_error =
    TokenEmpty string
  | TokenInvalid string
  | BodyLogPolicy string
  | DigestLength nat
  | DigestNotHex
  | PinOriginNotUrl string
  | PinOriginNotHttps string
  | PinOriginInvalid string
  | PinListEmpty string
  | PinMalformed string string
  | UpstreamNotUrl string
  | UpstreamNotListed string string "string list"
  | PinOriginReparse string
  | PinOriginNoHost string
  | DefaultUpstreamNotAllowed config_error
  | RouteNotAllowed string config_error

definition default_provider_auth_scheme :: string where
  "default_provider_auth_scheme = ''Bearer''"

definition default_body_log_policy :: string where
  "default_body_log_policy = ''metadata-only''"

definition default_max_request_bytes :: u64 where
  "default_max_request_bytes = 1024 * 1024"

definition default_upstream_timeout_secs :: u64 where
  "default_upstream_timeout_secs = 120"

definition RuntimeConfig_default :: RuntimeConfig where
  "RuntimeConfig_default =
     \<lparr>allow_client_provider_auth = False,
      private_admin_enabled = False,
      provider_auth_scheme = default_provider_auth_scheme,
      body_log_policy = default_body_log_policy\<rparr>"

definition RelayConfig_default :: RelayConfig where
  "RelayConfig_default =
     \<lparr>listen_addr = ''0.0.0.0:8443'',
      runtime = RuntimeConfig_default,
      default_upstream = ''https://api.openai.com'',
      routes = bt_empty,
      allowed_upstreams = [],
      max_request_bytes = default_max_request_bytes,
      release_artifact_digest = None,
      upstream_timeout_secs = default_upstream_timeout_secs,
      upstream_tls_leaf_sha256 = bt_empty\<rparr>"

section \<open>Runtime settings\<close>

definition is_http_tchar :: "char \<Rightarrow> bool" where
  "is_http_tchar b \<longleftrightarrow>
     is_ascii_alphanumeric b \<or>
     b \<in> {CHR ''!'', CHR ''#'', CHR ''$'', CHR ''%'', CHR ''&'', CHR 0x27, CHR ''*'', CHR ''+'',
          CHR ''-'', CHR ''.'', CHR ''^'', CHR ''_'', CHR 0x60, CHR ''|'', CHR ''~''}"

definition validate_http_token :: "string \<Rightarrow> string \<Rightarrow> config_error + unit" where
  "validate_http_token value field =
     (if value = [] then Inl (TokenEmpty field)
      else if \<not> list_all is_http_tchar value then Inl (TokenInvalid field)
      else Inr ())"

definition runtime_validate :: "RuntimeConfig \<Rightarrow> config_error + unit" where
  "runtime_validate r =
     rbind (validate_http_token (provider_auth_scheme r) ''provider_auth_scheme'')
       (\<lambda>_. if body_log_policy r \<noteq> ''metadata-only''
            then Inl (BodyLogPolicy (body_log_policy r))
            else Inr ())"

section \<open>Origins\<close>

definition is_local_http_url :: "url \<Rightarrow> bool" where
  "is_local_http_url parsed \<longleftrightarrow>
     url_scheme parsed = ''http'' \<and>
     (case url_host_str parsed of
        None \<Rightarrow> False
      | Some host \<Rightarrow> to_ascii_lowercase host \<in> {''localhost'', ''127.0.0.1'', ''::1''})"

text \<open>
  The host is lower-cased with \<open>str::to_lowercase\<close>. Only \<open>https\<close> and \<open>http\<close> URLs get that
  far, whose hosts are serialised in ASCII, where it is the ASCII lower case.
\<close>

definition url_origin :: "url_parser \<Rightarrow> string \<Rightarrow> string option" where
  "url_origin url_parse raw =
     (case url_parse raw of
        None \<Rightarrow> None
      | Some parsed \<Rightarrow>
          if url_scheme parsed \<noteq> ''https'' \<and> \<not> is_local_http_url parsed then None
          else if url_username parsed \<noteq> [] \<or> url_password parsed \<noteq> None then None
          else (case url_host_str parsed of
                  None \<Rightarrow> None
                | Some host \<Rightarrow>
                    (case url_port_or_known_default parsed of
                       None \<Rightarrow> None
                     | Some port \<Rightarrow>
                         Some (url_scheme parsed @ ''://'' @ to_ascii_lowercase host
                               @ '':'' @ port_string port))))"

section \<open>Digests and pins\<close>

definition validate_release_artifact_digest :: "string \<Rightarrow> config_error + unit" where
  "validate_release_artifact_digest raw =
     (let digest = trim raw;
          hex = (case strip_prefix sha256_tag digest of
                   Some h \<Rightarrow> h
                 | None \<Rightarrow> (case strip_prefix ''SHA256:'' digest of Some h \<Rightarrow> h | None \<Rightarrow> digest))
      in if length hex \<noteq> 64 then Inl (DigestLength (length hex))
         else if \<not> list_all is_ascii_hexdigit hex then Inl DigestNotHex
         else Inr ())"

definition normalize_sha256_pin :: "string \<Rightarrow> string option" where
  "normalize_sha256_pin raw =
     (let pin = to_ascii_lowercase (trim raw);
          hex = (case strip_prefix sha256_tag pin of Some h \<Rightarrow> h | None \<Rightarrow> pin)
      in if length hex = 64 \<and> list_all is_ascii_hexdigit hex then Some (sha256_tag @ hex) else None)"

definition push_pin :: "string \<Rightarrow> string list \<Rightarrow> string \<Rightarrow> config_error + string list" where
  "push_pin origin acc value =
     rbind (ok_or (PinMalformed origin value) (normalize_sha256_pin value))
       (\<lambda>pin. Inr (if pin \<in> set acc then acc else acc @ [pin]))"

definition normalize_pin_entry ::
    "url_parser \<Rightarrow> (string, string list) btree \<Rightarrow> string \<times> string list
       \<Rightarrow> config_error + (string, string list) btree" where
  "normalize_pin_entry url_parse normalized entry =
     (case entry of (origin, values) \<Rightarrow>
        rbind (ok_or (PinOriginNotUrl origin) (url_parse origin)) (\<lambda>parsed.
        if url_scheme parsed \<noteq> ''https'' then Inl (PinOriginNotHttps origin)
        else rbind (ok_or (PinOriginInvalid origin) (url_origin url_parse origin)) (\<lambda>norm_origin.
        if values = [] then Inl (PinListEmpty norm_origin)
        else rbind (fold_result (push_pin norm_origin) [] values) (\<lambda>normalized_values.
        Inr (bt_insert norm_origin (sort normalized_values) normalized)))))"

definition normalize_upstream_tls_pins ::
    "url_parser \<Rightarrow> (string, string list) btree \<Rightarrow> config_error + (string, string list) btree" where
  "normalize_upstream_tls_pins url_parse pins =
     fold_result (normalize_pin_entry url_parse) bt_empty pins"

section \<open>Routing and the allowlist\<close>

definition resolve_upstream :: "RelayConfig \<Rightarrow> string \<Rightarrow> string \<times> string option" where
  "resolve_upstream c model =
     (let sorted_routes = sort_key (\<lambda>r. - int (length (fst r))) (routes c)
      in case find (\<lambda>r. prefix (fst r) model) sorted_routes of
           Some (p, config) \<Rightarrow> (base_url config, path config)
         | None \<Rightarrow> (default_upstream c, None))"

definition check_upstream_allowed :: "url_parser \<Rightarrow> RelayConfig \<Rightarrow> string \<Rightarrow> config_error + unit" where
  "check_upstream_allowed url_parse c upstream_url =
     (if allowed_upstreams c = [] then Inr ()
      else rbind (ok_or (UpstreamNotUrl upstream_url) (url_origin url_parse upstream_url))
        (\<lambda>candidate_origin.
          if list_ex (\<lambda>allowed. url_origin url_parse allowed = Some candidate_origin)
               (allowed_upstreams c)
          then Inr ()
          else Inl (UpstreamNotListed candidate_origin upstream_url (allowed_upstreams c))))"

definition upstream_tls_pins_for ::
    "url_parser \<Rightarrow> RelayConfig \<Rightarrow> string \<Rightarrow> config_error + string list option" where
  "upstream_tls_pins_for url_parse c upstream_url =
     rbind (normalize_upstream_tls_pins url_parse (upstream_tls_leaf_sha256 c)) (\<lambda>pins.
     rbind (ok_or (UpstreamNotUrl upstream_url) (url_origin url_parse upstream_url)) (\<lambda>origin.
     Inr (bt_get pins origin)))"

definition add_host_pins ::
    "url_parser \<Rightarrow> (string, string list) btree \<Rightarrow> string \<times> string list
       \<Rightarrow> config_error + (string, string list) btree" where
  "add_host_pins url_parse by_host entry =
     (case entry of (origin, origin_pins) \<Rightarrow>
        rbind (ok_or (PinOriginReparse origin) (url_parse origin)) (\<lambda>parsed.
        rbind (ok_or (PinOriginNoHost origin) (url_host_str parsed)) (\<lambda>host.
        Inr (bt_entry (to_ascii_lowercase host) [] (\<lambda>old. set_extend old origin_pins) by_host))))"

definition upstream_tls_pin_hosts ::
    "url_parser \<Rightarrow> RelayConfig \<Rightarrow> config_error + (string, string list) btree" where
  "upstream_tls_pin_hosts url_parse c =
     rbind (normalize_upstream_tls_pins url_parse (upstream_tls_leaf_sha256 c)) (\<lambda>pins.
     fold_result (add_host_pins url_parse) bt_empty pins)"

definition validate :: "url_parser \<Rightarrow> RelayConfig \<Rightarrow> config_error + unit" where
  "validate url_parse c =
     rbind (runtime_validate (runtime c)) (\<lambda>_.
     rbind (case release_artifact_digest c of
              None \<Rightarrow> Inr ()
            | Some digest \<Rightarrow> validate_release_artifact_digest digest) (\<lambda>_.
     rbind (normalize_upstream_tls_pins url_parse (upstream_tls_leaf_sha256 c)) (\<lambda>_.
     if allowed_upstreams c = [] then Inr ()
     else rbind (map_err DefaultUpstreamNotAllowed
                   (check_upstream_allowed url_parse c (default_upstream c))) (\<lambda>_.
          for_each (\<lambda>(p, config). map_err (RouteNotAllowed p)
                      (check_upstream_allowed url_parse c (base_url config)))
            (routes c)))))"


section \<open>Lemmas on routing and the allowlist\<close>

lemma check_upstream_allowed_iff:
  "check_upstream_allowed url_parse c u = Inr () \<longleftrightarrow>
     allowed_upstreams c = [] \<or>
     (\<exists>orig. url_origin url_parse u = Some orig \<and>
           (\<exists>a \<in> set (allowed_upstreams c). url_origin url_parse a = Some orig))"
  by (auto simp: check_upstream_allowed_def list_ex_iff result_simps)

lemma resolve_upstream_longest:
  "(\<exists>p cfg. (p, cfg) \<in> set (routes c) \<and> prefix p model \<and>
      (\<forall>(q, d) \<in> set (routes c). prefix q model \<longrightarrow> length q \<le> length p) \<and>
      resolve_upstream c model = (base_url cfg, path cfg))
   \<or> ((\<forall>(q, d) \<in> set (routes c). \<not> prefix q model) \<and>
      resolve_upstream c model = (default_upstream c, None))"
proof -
  let ?rs = "sort_key (\<lambda>r. - int (length (fst r))) (routes c)"
  have sorted: "sorted (map (\<lambda>r. - int (length (fst r))) ?rs)" by simp
  show ?thesis
  proof (cases "find (\<lambda>r. prefix (fst r) model) ?rs")
    case None
    then have "\<forall>r \<in> set (routes c). \<not> prefix (fst r) model"
      unfolding find_None_iff by force
    with None show ?thesis by (auto simp: resolve_upstream_def)
  next
    case (Some r)
    then have r: "r \<in> set (routes c)" "prefix (fst r) model"
      by (auto dest: find_eq_Some_in)
    have longest: "length (fst q) \<le> length (fst r)"
      if "q \<in> set (routes c)" "prefix (fst q) model" for q
      using find_sorted_least [OF sorted Some, of q] that by simp
    from Some have "resolve_upstream c model = (base_url (snd r), path (snd r))"
      by (cases r) (simp add: resolve_upstream_def)
    with r longest show ?thesis by (metis (mono_tags, lifting) case_prodI2 fst_conv prod.collapse)
  qed
qed

lemma resolve_upstream_base:
  "fst (resolve_upstream c model) = default_upstream c \<or>
   (\<exists>(p, cfg) \<in> set (routes c). fst (resolve_upstream c model) = base_url cfg)"
  using resolve_upstream_longest [of c model] by force

lemma validate_eq_Inr:
  "validate url_parse c = Inr () \<longleftrightarrow>
     runtime_validate (runtime c) = Inr () \<and>
     (\<forall>d. release_artifact_digest c = Some d \<longrightarrow> validate_release_artifact_digest d = Inr ()) \<and>
     (\<exists>pins. normalize_upstream_tls_pins url_parse (upstream_tls_leaf_sha256 c) = Inr pins) \<and>
     (allowed_upstreams c \<noteq> [] \<longrightarrow>
        check_upstream_allowed url_parse c (default_upstream c) = Inr () \<and>
        (\<forall>(p, cfg) \<in> set (routes c). check_upstream_allowed url_parse c (base_url cfg) = Inr ()))"
  by (cases "release_artifact_digest c")
    (auto simp: validate_def result_simps split: prod.splits)

lemma runtime_validate_iff:
  "runtime_validate r = Inr () \<longleftrightarrow>
     provider_auth_scheme r \<noteq> [] \<and> list_all is_http_tchar (provider_auth_scheme r) \<and>
     body_log_policy r = ''metadata-only''"
  by (auto simp: runtime_validate_def validate_http_token_def result_simps)

lemma url_origin_eq_Some:
  "url_origin url_parse raw = Some orig \<longleftrightarrow>
     (\<exists>u host port. url_parse raw = Some u \<and>
        (url_scheme u = ''https'' \<or> is_local_http_url u) \<and>
        url_username u = [] \<and> url_password u = None \<and>
        url_host_str u = Some host \<and> url_port_or_known_default u = Some port \<and>
        orig = url_scheme u @ ''://'' @ to_ascii_lowercase host @ '':'' @ port_string port)"
  by (auto simp: url_origin_def split: option.splits if_splits)

section \<open>Lemmas on pins\<close>

text \<open>The form every stored pin has: the prefix and 64 lower-case hexadecimal digits.\<close>

definition canonical_pin :: "string \<Rightarrow> bool" where
  "canonical_pin p \<longleftrightarrow>
     (\<exists>h. p = sha256_tag @ h \<and> length h = 64 \<and> list_all is_ascii_hexdigit h
          \<and> to_ascii_lowercase h = h)"

lemma strip_prefix_lower:
  "strip_prefix sha256_tag (to_ascii_lowercase s) = Some h \<Longrightarrow> to_ascii_lowercase h = h"
proof -
  assume "strip_prefix sha256_tag (to_ascii_lowercase s) = Some h"
  then have "to_ascii_lowercase s = sha256_tag @ h" by (simp add: strip_prefix_eq_Some)
  then have "sha256_tag @ to_ascii_lowercase h = sha256_tag @ h"
    by (metis lowercase_sha256_tag to_ascii_lowercase_append to_ascii_lowercase_idem)
  then show ?thesis by simp
qed

lemma normalize_sha256_pin_canonical:
  assumes "normalize_sha256_pin raw = Some p"
  shows "canonical_pin p"
proof -
  let ?pin = "to_ascii_lowercase (trim raw)"
  define hex where "hex = (case strip_prefix sha256_tag ?pin of Some h \<Rightarrow> h | None \<Rightarrow> ?pin)"
  from assms have p: "p = sha256_tag @ hex" "length hex = 64" "list_all is_ascii_hexdigit hex"
    unfolding normalize_sha256_pin_def Let_def hex_def [symmetric] by (auto split: if_splits)
  have "to_ascii_lowercase hex = hex"
    unfolding hex_def by (auto split: option.splits intro: strip_prefix_lower)
  with p show ?thesis unfolding canonical_pin_def by blast
qed

lemma canonical_pin_trimmed: "canonical_pin p \<Longrightarrow> trimmed p"
proof (rule trimmedI)
  assume "canonical_pin p"
  then obtain h where p: "p = sha256_tag @ h" and l: "length h = 64"
      and hex: "list_all is_ascii_hexdigit h"
    by (auto simp: canonical_pin_def)
  from l have "h \<noteq> []" by auto
  note h = this hex
  have "is_ascii_hexdigit (last h)" using h by (auto simp: list_all_iff)
  then show "hd p \<notin> ws_edge \<and> last p \<notin> ws_edge"
    using p h by (simp add: hexdigit_not_ws_edge hd_sha256_tag)
qed

lemma normalize_canonical_pin: "canonical_pin p \<Longrightarrow> normalize_sha256_pin p = Some p"
proof -
  assume c: "canonical_pin p"
  then obtain h where p: "p = sha256_tag @ h" "length h = 64" "list_all is_ascii_hexdigit h"
      "to_ascii_lowercase h = h"
    by (auto simp: canonical_pin_def)
  have "to_ascii_lowercase (trim p) = p"
    using c p(1,4) by (metis canonical_pin_trimmed trim_trimmed lowercase_sha256_tag
        to_ascii_lowercase_append)
  then show ?thesis
    using p unfolding normalize_sha256_pin_def Let_def by simp
qed


lemma push_pin_loop:
  assumes "fold_result (push_pin orig) acc vals = Inr r"
    and "distinct acc" and "\<forall>v \<in> set acc. canonical_pin v"
  shows "distinct r \<and> (\<forall>v \<in> set r. canonical_pin v) \<and>
         set r = set acc \<union> {p. \<exists>v \<in> set vals. normalize_sha256_pin v = Some p}"
  using assms
proof (induction vals arbitrary: acc)
  case Nil
  then show ?case by simp
next
  case (Cons v vs)
  then obtain p where p: "normalize_sha256_pin v = Some p"
    and rest: "fold_result (push_pin orig) (if p \<in> set acc then acc else acc @ [p]) vs = Inr r"
    unfolding fold_result.simps push_pin_def rbind_eq_Inr ok_or_eq_Inr by blast
  from p have "canonical_pin p" by (rule normalize_sha256_pin_canonical)
  let ?acc = "if p \<in> set acc then acc else acc @ [p]"
  have acc: "distinct ?acc" "\<forall>v \<in> set ?acc. canonical_pin v" "set ?acc = insert p (set acc)"
    using Cons.prems(2,3) \<open>canonical_pin p\<close> by auto
  have "{q. \<exists>w \<in> set (v # vs). normalize_sha256_pin w = Some q}
      = insert p {q. \<exists>w \<in> set vs. normalize_sha256_pin w = Some q}"
    using p by auto
  with Cons.IH [OF rest acc(1,2)] acc(3) show ?case by simp
qed

lemma push_canonical_pins:
  assumes "\<forall>v \<in> set vs. canonical_pin v" and "distinct (acc @ vs)"
  shows "fold_result (push_pin orig) acc vs = Inr (acc @ vs)"
  using assms
  by (induction vs arbitrary: acc) (auto simp: push_pin_def normalize_canonical_pin)

text \<open>The well-formedness of a table of pins, as normalisation returns it.\<close>

definition pin_list_ok :: "string list \<Rightarrow> bool" where
  "pin_list_ok vs \<longleftrightarrow> vs \<noteq> [] \<and> sorted vs \<and> distinct vs \<and> (\<forall>v \<in> set vs. canonical_pin v)"

definition pins_ok :: "(string, string list) btree \<Rightarrow> bool" where
  "pins_ok m \<longleftrightarrow> bt_ok m \<and> (\<forall>(orig, vs) \<in> set m. pin_list_ok vs)"

lemma normalize_pin_entry_eq_Inr:
  "normalize_pin_entry url_parse m (raw, vals) = Inr m' \<longleftrightarrow>
     (\<exists>u orig r. url_parse raw = Some u \<and> url_scheme u = ''https'' \<and>
        url_origin url_parse raw = Some orig \<and> vals \<noteq> [] \<and>
        fold_result (push_pin orig) [] vals = Inr r \<and> m' = bt_insert orig (sort r) m)"
  by (auto simp: normalize_pin_entry_def result_simps)

lemma push_pin_loop_ok:
  assumes "fold_result (push_pin orig) [] vals = Inr r" and "vals \<noteq> []"
  shows "pin_list_ok (sort r)"
proof -
  have r: "distinct r \<and> (\<forall>v \<in> set r. canonical_pin v) \<and>
      set r = {p. \<exists>v \<in> set vals. normalize_sha256_pin v = Some p}"
    using push_pin_loop [OF assms(1)] by simp
  obtain v vs where vs: "vals = v # vs" using assms(2) by (cases vals) auto
  with assms(1) obtain p where "normalize_sha256_pin v = Some p"
    by (auto simp: push_pin_def result_simps)
  with r vs have "p \<in> set (sort r)" by auto
  then have "sort r \<noteq> []" by (metis empty_iff list.set(1))
  with r show ?thesis by (simp add: pin_list_ok_def)
qed

lemma bt_insert_in:
  "bt_ok m \<Longrightarrow> x \<in> set (bt_insert k v m) \<Longrightarrow> x = (k, v) \<or> x \<in> set m"
  by (induction k v m rule: bt_insert.induct) (auto split: if_splits)

lemma normalize_upstream_tls_pins_ok:
  assumes "normalize_upstream_tls_pins url_parse pins = Inr m"
  shows "pins_ok m"
proof (rule fold_result_invariant [OF assms [unfolded normalize_upstream_tls_pins_def]])
  show "pins_ok bt_empty" by (simp add: pins_ok_def bt_empty_def)
next
  fix m entry m'
  assume ok: "pins_ok m" and step: "normalize_pin_entry url_parse m entry = Inr m'"
  obtain raw vs where e: "entry = (raw, vs)" by (cases entry)
  with step obtain orig r where r: "fold_result (push_pin orig) [] vs = Inr r" "vs \<noteq> []"
      "m' = bt_insert orig (sort r) m"
    by (auto simp: normalize_pin_entry_eq_Inr)
  then have "pin_list_ok (sort r)" by (blast intro: push_pin_loop_ok)
  with ok r show "pins_ok m'"
    unfolding pins_ok_def by (auto simp: bt.invar_insert dest!: bt_insert_in)
qed

text \<open>
  What the code relies on from the URL parser when it parses its own output again: the
  string \<open>https://host:port\<close> made from an \<open>https\<close> URL parses to that scheme, host and port,
  with no user information.
\<close>

definition origin_reparse :: "url_parser \<Rightarrow> bool" where
  "origin_reparse url_parse \<longleftrightarrow>
     (\<forall>raw u host port.
        url_parse raw = Some u \<and> url_scheme u = ''https'' \<and>
        url_host_str u = Some host \<and> url_port_or_known_default u = Some port \<longrightarrow>
        (\<exists>v. url_parse (''https://'' @ to_ascii_lowercase host @ '':'' @ port_string port) = Some v \<and>
             url_scheme v = ''https'' \<and> url_username v = [] \<and> url_password v = None \<and>
             url_host_str v = Some (to_ascii_lowercase host) \<and>
             url_port_or_known_default v = Some port))"

definition https_origin :: "url_parser \<Rightarrow> string \<Rightarrow> bool" where
  "https_origin url_parse orig \<longleftrightarrow>
     (\<exists>v host. url_parse orig = Some v \<and> url_scheme v = ''https'' \<and>
        url_origin url_parse orig = Some orig \<and> url_host_str v = Some host \<and>
        to_ascii_lowercase host = host)"

lemma origin_reparseD:
  assumes "origin_reparse url_parse" and "url_parse raw = Some u" and "url_scheme u = ''https''"
    and "url_origin url_parse raw = Some orig"
  shows "https_origin url_parse orig"
proof -
  obtain host port where u: "url_host_str u = Some host" "url_port_or_known_default u = Some port"
      and orig: "orig = ''https'' @ ''://'' @ to_ascii_lowercase host @ '':'' @ port_string port"
    using assms(2-4) by (auto simp: url_origin_eq_Some)
  obtain v where v: "url_parse orig = Some v" "url_scheme v = ''https''" "url_username v = []"
      "url_password v = None" "url_host_str v = Some (to_ascii_lowercase host)"
      "url_port_or_known_default v = Some port"
    using assms(1-3) u orig unfolding origin_reparse_def by fastforce
  then have "url_origin url_parse orig = Some orig"
    using orig by (simp add: url_origin_eq_Some)
  with v show ?thesis by (auto simp: https_origin_def)
qed

definition https_origins :: "url_parser \<Rightarrow> (string, 'v) btree \<Rightarrow> bool" where
  "https_origins url_parse m \<longleftrightarrow> (\<forall>orig \<in> fst ` set m. https_origin url_parse orig)"

lemma normalize_https_origins:
  assumes "origin_reparse url_parse" and "normalize_upstream_tls_pins url_parse pins = Inr m"
  shows "https_origins url_parse m"
proof (rule fold_result_invariant [OF assms(2) [unfolded normalize_upstream_tls_pins_def]])
  show "https_origins url_parse bt_empty" by (simp add: https_origins_def bt_empty_def)
next
  fix m entry m'
  assume m: "https_origins url_parse m" and step: "normalize_pin_entry url_parse m entry = Inr m'"
  obtain raw vs where "entry = (raw, vs)" by (cases entry)
  with step obtain u orig r where "url_parse raw = Some u" "url_scheme u = ''https''"
      "url_origin url_parse raw = Some orig" and m': "m' = bt_insert orig (sort r) m"
    by (auto simp: normalize_pin_entry_eq_Inr)
  then have "https_origin url_parse orig" by (intro origin_reparseD [OF assms(1)])
  with m show "https_origins url_parse m'"
    by (simp add: https_origins_def m' fst_set_bt_insert)
qed

lemma bt_insert_last: "\<forall>a \<in> fst ` set m. a < k \<Longrightarrow> bt_insert k v m = m @ [(k, v)]"
  by (induction m) (auto dest: less_asym)

lemma normalize_append:
  assumes "pins_ok (m @ n)" and "https_origins url_parse n"
  shows "fold_result (normalize_pin_entry url_parse) m n = Inr (m @ n)"
  using assms
proof (induction n arbitrary: m)
  case Nil
  then show ?case by simp
next
  case (Cons e n)
  obtain orig vs where e: "e = (orig, vs)" by (cases e)
  have vs: "pin_list_ok vs" using Cons.prems(1) e by (auto simp: pins_ok_def)
  then have "fold_result (push_pin orig) [] vs = Inr vs"
    using push_canonical_pins [of vs "[]" orig] by (simp add: pin_list_ok_def)
  moreover have "sort vs = vs" using vs by (simp add: pin_list_ok_def sorted_sort_id)
  moreover have "\<forall>a \<in> fst ` set m. a < orig"
    using Cons.prems(1) e by (auto simp: pins_ok_def bt_ok_def sorted_wrt_append)
  ultimately have "normalize_pin_entry url_parse m e = Inr (m @ [(orig, vs)])"
    using Cons.prems(2) vs e
    by (auto simp: normalize_pin_entry_eq_Inr https_origins_def https_origin_def pin_list_ok_def
        bt_insert_last)
  moreover have "fold_result (normalize_pin_entry url_parse) (m @ [e]) n = Inr ((m @ [e]) @ n)"
    using Cons.prems by (intro Cons.IH) (auto simp: https_origins_def)
  ultimately show ?case using e by simp
qed

lemma normalize_idempotent:
  assumes "origin_reparse url_parse" and "normalize_upstream_tls_pins url_parse pins = Inr m"
  shows "normalize_upstream_tls_pins url_parse m = Inr m"
  using normalize_append [of "[]" m url_parse] normalize_upstream_tls_pins_ok [OF assms(2)]
    normalize_https_origins [OF assms]
  by (simp add: normalize_upstream_tls_pins_def bt_empty_def)


section \<open>Pins by TLS server name\<close>

definition origin_host :: "url_parser \<Rightarrow> string \<Rightarrow> string option" where
  "origin_host url_parse orig =
     (case url_parse orig of None \<Rightarrow> None | Some u \<Rightarrow> map_option to_ascii_lowercase (url_host_str u))"

text \<open>All pins of the origins whose host is \<open>h\<close>.\<close>

definition host_pins :: "url_parser \<Rightarrow> (string, string list) btree \<Rightarrow> string \<Rightarrow> string set" where
  "host_pins url_parse m h = \<Union> {set vs |orig vs. (orig, vs) \<in> set m \<and> origin_host url_parse orig = Some h}"

definition pin_set :: "(string, string list) btree \<Rightarrow> string \<Rightarrow> string set" where
  "pin_set m h = (case bt_get m h of None \<Rightarrow> {} | Some vs \<Rightarrow> set vs)"

lemma host_pins_Cons:
  "host_pins url_parse ((orig, vs) # m) h =
     (if origin_host url_parse orig = Some h then set vs else {}) \<union> host_pins url_parse m h"
  by (auto simp: host_pins_def)

lemma add_host_pins_eq_Inr:
  "add_host_pins url_parse m (orig, vs) = Inr m' \<longleftrightarrow>
     (\<exists>h. origin_host url_parse orig = Some h \<and> m' = bt_entry h [] (\<lambda>old. set_extend old vs) m)"
  by (auto simp: add_host_pins_def origin_host_def result_simps split: option.splits)

lemma add_host_pins_loop:
  assumes "fold_result (add_host_pins url_parse) acc m = Inr r" and "bt_ok acc"
  shows "bt_ok r \<and> (\<forall>h. pin_set r h = pin_set acc h \<union> host_pins url_parse m h)"
  using assms
proof (induction m arbitrary: acc)
  case Nil
  then show ?case by (simp add: host_pins_def)
next
  case (Cons e m)
  obtain orig vs where e: "e = (orig, vs)" by (cases e)
  with Cons.prems obtain h where h: "origin_host url_parse orig = Some h"
    and rest: "fold_result (add_host_pins url_parse) (bt_entry h [] (\<lambda>old. set_extend old vs) acc) m
                 = Inr r"
    by (auto simp: rbind_eq_Inr add_host_pins_eq_Inr)
  have "pin_set (bt_entry h [] (\<lambda>old. set_extend old vs) acc) k
      = pin_set acc k \<union> (if k = h then set vs else {})" for k
    using Cons.prems(2) by (auto simp: pin_set_def bt_get_entry split: option.splits)
  then show ?case
    using Cons.IH [OF rest bt_ok_entry [OF Cons.prems(2)]] e h
    by (auto simp: host_pins_Cons)
qed

lemma add_host_pins_succeeds:
  assumes "https_origins url_parse m"
  shows "\<exists>r. fold_result (add_host_pins url_parse) acc m = Inr r"
  using assms
proof (induction m arbitrary: acc)
  case Nil
  then show ?case by simp
next
  case (Cons e m)
  obtain orig vs where e: "e = (orig, vs)" by (cases e)
  from Cons.prems e have "https_origin url_parse orig" by (simp add: https_origins_def)
  then obtain h where "origin_host url_parse orig = Some h"
    by (auto simp: https_origin_def origin_host_def)
  then have "\<exists>acc'. add_host_pins url_parse acc e = Inr acc'"
    by (simp add: e add_host_pins_eq_Inr)
  then obtain acc' where "add_host_pins url_parse acc e = Inr acc'" ..
  moreover have "https_origins url_parse m" using Cons.prems by (simp add: https_origins_def)
  ultimately show ?case using Cons.IH [of acc'] by simp
qed

lemma add_host_pins_not_empty:
  assumes "fold_result (add_host_pins url_parse) acc m = Inr r" and "bt_ok acc"
    and "\<forall>e \<in> set m. snd e \<noteq> []" and "\<forall>h. bt_get acc h \<noteq> Some []"
  shows "\<forall>h. bt_get r h \<noteq> Some []"
  using assms
proof (induction m arbitrary: acc)
  case Nil
  then show ?case by simp
next
  case (Cons e m)
  obtain orig vs where e: "e = (orig, vs)" by (cases e)
  with Cons.prems obtain h where
    rest: "fold_result (add_host_pins url_parse) (bt_entry h [] (\<lambda>old. set_extend old vs) acc) m = Inr r"
    by (auto simp: rbind_eq_Inr add_host_pins_eq_Inr)
  have "set_extend old vs \<noteq> []" for old
    using Cons.prems(3) e by (metis Un_empty list.set_intros(1) set_empty set_set_extend snd_conv)
  then have "bt_get (bt_entry h [] (\<lambda>old. set_extend old vs) acc) k \<noteq> Some []" for k
    using Cons.prems(2,4) by (simp add: bt_get_entry)
  then show ?case
    using Cons.IH [OF rest bt_ok_entry [OF Cons.prems(2)]] Cons.prems(3) by simp
qed

lemma pin_hosts_not_empty:
  assumes "normalize_upstream_tls_pins url_parse (upstream_tls_leaf_sha256 c) = Inr m"
    and "upstream_tls_pin_hosts url_parse c = Inr hosts"
  shows "\<forall>h. bt_get hosts h \<noteq> Some []"
proof (rule add_host_pins_not_empty)
  show "fold_result (add_host_pins url_parse) bt_empty m = Inr hosts"
    using assms by (simp add: upstream_tls_pin_hosts_def)
  show "\<forall>e \<in> set m. snd e \<noteq> []"
    using normalize_upstream_tls_pins_ok [OF assms(1)]
    by (auto simp: pins_ok_def pin_list_ok_def)
qed (simp_all add: bt_empty_def bt_get_def)

text \<open>
  Pins by TLS server name. Once the pins normalise, \<open>upstream_tls_pin_hosts\<close> cannot fail,
  and the list stored for a host holds exactly the pins of all origins with that host: the
  verifier, which sees the server name and not the port, enforces the union and nothing else.
\<close>

lemma pin_hosts_union:
  assumes "origin_reparse url_parse"
    and "normalize_upstream_tls_pins url_parse (upstream_tls_leaf_sha256 c) = Inr m"
  shows "\<exists>hosts. upstream_tls_pin_hosts url_parse c = Inr hosts \<and> bt_ok hosts \<and>
           (\<forall>h. pin_set hosts h = host_pins url_parse m h)"
proof -
  obtain hosts where h: "fold_result (add_host_pins url_parse) bt_empty m = Inr hosts"
    using add_host_pins_succeeds [OF normalize_https_origins [OF assms]] by blast
  have "bt_ok hosts \<and> (\<forall>k. pin_set hosts k = pin_set bt_empty k \<union> host_pins url_parse m k)"
    by (rule add_host_pins_loop [OF h]) (simp add: bt_empty_def)
  then show ?thesis
    using h assms(2)
    by (simp add: upstream_tls_pin_hosts_def pin_set_def bt_get_def bt_empty_def)
qed

lemma validated_base_allowed:
  assumes "validate url_parse c = Inr ()"
  shows "check_upstream_allowed url_parse c (fst (resolve_upstream c model)) = Inr ()"
proof (cases "allowed_upstreams c = []")
  case True
  then show ?thesis by (simp add: check_upstream_allowed_iff)
next
  case False
  then show ?thesis
    using assms resolve_upstream_base [of c model] unfolding validate_eq_Inr by auto
qed

section \<open>Properties\<close>

text \<open>
  C31: longest-prefix routing. With a routing table whose keys are distinct (a \<open>BTreeMap\<close>),
  \<open>resolve_upstream\<close> returns the base URL and path override of the longest route prefix that
  the model name starts with, not the first one in the order of the table, and the default
  upstream with no override when no prefix matches.
\<close>

theorem resolve_upstream_picks_longest_prefix:
  assumes "bt_ok (routes c)"
  shows "(\<forall>p cfg. (p, cfg) \<in> set (routes c) \<and> prefix p model \<and>
            (\<forall>(q, d) \<in> set (routes c). prefix q model \<longrightarrow> length q \<le> length p) \<longrightarrow>
            resolve_upstream c model = (base_url cfg, path cfg)) \<and>
         ((\<forall>(q, d) \<in> set (routes c). \<not> prefix q model) \<longrightarrow>
            resolve_upstream c model = (default_upstream c, None))"
proof -
  have unique: "q = p \<and> d = cfg"
    if "(p, cfg) \<in> set (routes c)" "prefix p model" "(q, d) \<in> set (routes c)" "prefix q model"
      "length q \<le> length p" "length p \<le> length q" for p cfg q d
  proof -
    have "q = p" using that(2,4-6) by (metis le_antisym prefix_length_prefix prefix_order.antisym order_refl)
    with that(1,3) assms show ?thesis by (auto simp: bt_get_iff)
  qed
  show ?thesis
    using resolve_upstream_longest [of c model] unique by fast
qed

definition two_route_config :: RelayConfig where
  "two_route_config = RelayConfig_default
     \<lparr>routes := [(''gpt-'', \<lparr>base_url = ''https://api.openai.com'', path = None\<rparr>),
                 (''gpt-4'', \<lparr>base_url = ''https://api.openai-special.com'', path = None\<rparr>)]\<rparr>"

theorem resolve_upstream_picks_longest_prefix_witness:
  "bt_ok (routes two_route_config) \<and>
   resolve_upstream two_route_config ''gpt-4-turbo'' = (''https://api.openai-special.com'', None)"
proof -
  have ok: "bt_ok (routes two_route_config)" by code_simp
  let ?cfg = "\<lparr>base_url = ''https://api.openai-special.com'', path = None\<rparr>"
  have "(''gpt-4'', ?cfg) \<in> set (routes two_route_config) \<and> prefix ''gpt-4'' ''gpt-4-turbo'' \<and>
      (\<forall>(q, d) \<in> set (routes two_route_config).
         prefix q ''gpt-4-turbo'' \<longrightarrow> length q \<le> length ''gpt-4'')"
    by (simp add: two_route_config_def)
  then have "resolve_upstream two_route_config ''gpt-4-turbo'' = (base_url ?cfg, path ?cfg)"
    by (rule resolve_upstream_picks_longest_prefix [OF ok, THEN conjunct1, rule_format])
  with ok show ?thesis by simp
qed

text \<open>
  A URL parser that knows one host, for the examples: it accepts the host's bare URL, the
  origin the relay makes of it and the URL the relay forwards to.
\<close>

definition demo_url :: url where
  "demo_url = \<lparr>url_scheme = ''https'', url_username = [], url_password = None,
     url_host_str = Some ''api.openai.com'', url_port_or_known_default = Some 443,
     url_path = ''/''\<rparr>"

definition demo_parse :: url_parser where
  "demo_parse raw =
     (if raw = ''https://api.openai.com'' \<or> raw = ''https://api.openai.com:443''
         \<or> raw = ''https://api.openai.com/v1/chat/completions''
      then Some demo_url else None)"

lemma origin_reparse_demo: "origin_reparse demo_parse"
proof -
  have "''https://'' @ to_ascii_lowercase ''api.openai.com'' @ '':'' @ port_string 443
      = ''https://api.openai.com:443''" by code_simp
  moreover have "to_ascii_lowercase ''api.openai.com'' = ''api.openai.com''" by code_simp
  ultimately show ?thesis
    unfolding origin_reparse_def demo_parse_def by (auto simp: demo_url_def split: if_splits)
qed

text \<open>
  C8: start-up validation makes the allowlist effective. When a configuration passes
  \<open>validate\<close>, the base URL that \<open>resolve_upstream\<close> picks for any model whatsoever passes
  \<open>check_upstream_allowed\<close>; with a non-empty allowlist its origin is the origin of a listed
  entry, is \<open>https\<close> or loopback \<open>http\<close>, and the URL carries no user information.
\<close>

theorem validated_upstreams_are_allowed:
  assumes "validate url_parse c = Inr ()"
  shows "check_upstream_allowed url_parse c (fst (resolve_upstream c model)) = Inr () \<and>
         (allowed_upstreams c \<noteq> [] \<longrightarrow>
            (\<exists>u orig. url_parse (fst (resolve_upstream c model)) = Some u \<and>
               url_origin url_parse (fst (resolve_upstream c model)) = Some orig \<and>
               (\<exists>a \<in> set (allowed_upstreams c). url_origin url_parse a = Some orig) \<and>
               (url_scheme u = ''https'' \<or> is_local_http_url u) \<and>
               url_username u = [] \<and> url_password u = None))"
proof -
  let ?u = "fst (resolve_upstream c model)"
  have "check_upstream_allowed url_parse c ?u = Inr ()"
    by (rule validated_base_allowed [OF assms])
  moreover from this have "allowed_upstreams c \<noteq> [] \<Longrightarrow>
      \<exists>orig. url_origin url_parse ?u = Some orig \<and>
             (\<exists>a \<in> set (allowed_upstreams c). url_origin url_parse a = Some orig)"
    by (simp add: check_upstream_allowed_iff)
  ultimately show ?thesis by (metis url_origin_eq_Some)
qed

definition listed_config :: RelayConfig where
  "listed_config = RelayConfig_default
     \<lparr>allowed_upstreams := [''https://api.openai.com:443''],
      upstream_tls_leaf_sha256 := [(''https://api.openai.com'', [replicate 64 CHR ''A''])]\<rparr>"

theorem validated_upstreams_are_allowed_witness:
  "validate demo_parse listed_config = Inr () \<and>
   check_upstream_allowed demo_parse listed_config (fst (resolve_upstream listed_config ''gpt-4''))
     = Inr ()"
proof -
  have "validate demo_parse listed_config = Inr ()" by code_simp
  with validated_upstreams_are_allowed [OF this, of "''gpt-4''"] show ?thesis by blast
qed

text \<open>
  C33: normalising the certificate pins yields a canonical table. Origins are distinct and
  sorted, each is an \<open>https\<close> origin in explicit-port form, and its pins are a non-empty,
  sorted, duplicate-free list of \<open>sha256:\<close> and 64 lower-case digits; normalising that table
  again changes nothing. The hypothesis is that the URL parser reads back \<open>https://host:port\<close>.
\<close>

theorem normalized_pins_canonical:
  assumes "origin_reparse url_parse"
    and "normalize_upstream_tls_pins url_parse pins = Inr m"
  shows "pins_ok m \<and> https_origins url_parse m \<and>
         normalize_upstream_tls_pins url_parse m = Inr m"
  using assms normalize_upstream_tls_pins_ok normalize_https_origins normalize_idempotent by blast

theorem normalized_pins_canonical_witness:
  "normalize_upstream_tls_pins demo_parse
     [(''https://api.openai.com:443'', [sha256_tag @ replicate 64 CHR ''a''])]
   = Inr [(''https://api.openai.com:443'', [sha256_tag @ replicate 64 CHR ''a''])]"
proof -
  have "normalize_upstream_tls_pins demo_parse (upstream_tls_leaf_sha256 listed_config)
      = Inr [(''https://api.openai.com:443'', [sha256_tag @ replicate 64 CHR ''a''])]"
    by code_simp
  from normalized_pins_canonical [OF origin_reparse_demo this] show ?thesis by blast
qed

section \<open>Two behaviours worth knowing\<close>

text \<open>
  The URL parser writes an IPv6 host with its brackets, so the literal \<open>::1\<close> of
  \<open>is_local_http_url\<close> never matches and \<open>http://[::1]\<close> is not taken for loopback.
\<close>

lemma bracketed_ipv6_loopback_is_not_local:
  "url_host_str u = Some ''[::1]'' \<Longrightarrow> \<not> is_local_http_url u"
proof -
  have "to_ascii_lowercase ''[::1]'' = ''[::1]''" by code_simp
  then show "url_host_str u = Some ''[::1]'' \<Longrightarrow> \<not> is_local_http_url u"
    by (simp add: is_local_http_url_def)
qed

text \<open>
  Two keys that name one origin do not add up: the later key in string order replaces the
  pins of the earlier one.
\<close>

lemma later_pin_key_replaces_earlier:
  "normalize_upstream_tls_pins demo_parse
     [(''https://api.openai.com'', [replicate 64 CHR ''a'']),
      (''https://api.openai.com:443'', [replicate 64 CHR ''b''])]
   = Inr [(''https://api.openai.com:443'', [sha256_tag @ replicate 64 CHR ''b''])]"
  by code_simp

end
