(* ===== verification/Config_Hash.thy ===== *)
theory Config_Hash
  imports Relay_Config
begin

text \<open>
  \<open>RelayConfig::config_hash\<close> of \<open>crates/relay-core/src/config.rs\<close>: the byte stream that is
  fed to SHA-256 and the conditions under which it determines the security-relevant part of
  the configuration. SHA-256 is a parameter \<open>sha256\<close>; \<open>hasher.update\<close> in sequence hashes
  the concatenation of its arguments.
\<close>

section \<open>The hashed text\<close>

definition bool_text :: "bool \<Rightarrow> string" where
  "bool_text b = (if b then ''true'' else ''false'')"

definition route_text :: "string \<times> ProviderConfig \<Rightarrow> string" where
  "route_text entry =
     (case entry of (p, config) \<Rightarrow>
        ''route:'' @ p @ ''=>'' @ base_url config
        @ (case path config of Some q \<Rightarrow> ''|path:'' @ q | None \<Rightarrow> []) @ [LF])"

definition allowed_text :: "string \<Rightarrow> string" where
  "allowed_text allowed = ''allowed:'' @ allowed @ [LF]"

definition digest_text :: "string option \<Rightarrow> string" where
  "digest_text d =
     (case d of
        None \<Rightarrow> []
      | Some digest \<Rightarrow> ''release_artifact_digest:'' @ to_ascii_lowercase (trim digest) @ [LF])"

definition pins_text :: "string \<times> string list \<Rightarrow> string" where
  "pins_text entry =
     (case entry of (origin, pins) \<Rightarrow>
        ''upstream_tls_leaf_sha256:'' @ origin @ ''=>'' @ concat (map (\<lambda>p. p @ '','') pins) @ [LF])"

definition hash_preimage :: "RelayConfig \<Rightarrow> (string, string list) btree \<Rightarrow> string" where
  "hash_preimage c pins =
     ''config_hash_schema:v2'' @ [LF]
     @ ''runtime.allow_client_provider_auth:'' @ bool_text (allow_client_provider_auth (runtime c)) @ [LF]
     @ ''runtime.private_admin_enabled:'' @ bool_text (private_admin_enabled (runtime c)) @ [LF]
     @ ''runtime.provider_auth_scheme:'' @ provider_auth_scheme (runtime c) @ [LF]
     @ ''runtime.body_log_policy:'' @ body_log_policy (runtime c) @ [LF]
     @ ''default_upstream:'' @ default_upstream c @ [LF]
     @ concat (map route_text (routes c))
     @ concat (map allowed_text (sort (allowed_upstreams c)))
     @ ''max_request_bytes:'' @ decimal (unat (max_request_bytes c)) @ [LF]
     @ digest_text (release_artifact_digest c)
     @ ''upstream_timeout_secs:'' @ decimal (unat (upstream_timeout_secs c)) @ [LF]
     @ concat (map pins_text pins)"

text \<open>The \<open>expect\<close> on the normalised pins panics when they do not normalise.\<close>

definition config_hash ::
    "url_parser \<Rightarrow> (byte list \<Rightarrow> byte list) \<Rightarrow> RelayConfig \<Rightarrow> byte list run" where
  "config_hash url_parse sha256 c =
     (case normalize_upstream_tls_pins url_parse (upstream_tls_leaf_sha256 c) of
        Inl e \<Rightarrow> Panicked
      | Inr pins \<Rightarrow> Returned (sha256 (as_bytes (hash_preimage c pins))))"

section \<open>What the hash is meant to commit to\<close>

text \<open>
  The security-relevant view of a configuration: every field but the listen address, the
  allowlist as a sorted list, the release digest trimmed and in lower case, the pins as
  normalised.
\<close>

record security_view =
  sv_runtime :: RuntimeConfig
  sv_default :: string
  sv_routes :: "(string, ProviderConfig) btree"
  sv_allowed :: "string list"
  sv_max :: u64
  sv_digest :: "string option"
  sv_timeout :: u64
  sv_pins :: "(string, string list) btree"

definition security_view_of :: "RelayConfig \<Rightarrow> (string, string list) btree \<Rightarrow> security_view" where
  "security_view_of c pins =
     \<lparr>sv_runtime = runtime c, sv_default = default_upstream c, sv_routes = routes c,
      sv_allowed = sort (allowed_upstreams c), sv_max = max_request_bytes c,
      sv_digest = map_option (\<lambda>d. to_ascii_lowercase (trim d)) (release_artifact_digest c),
      sv_timeout = upstream_timeout_secs c, sv_pins = pins\<rparr>"

text \<open>
  A configuration whose strings stay clear of the delimiters of the hashed text: no line
  feeds, no \<open>=\<close> in a route prefix or pinned origin, no \<open>|\<close> in a route's base URL.
\<close>

definition route_clean :: "string \<times> ProviderConfig \<Rightarrow> bool" where
  "route_clean r \<longleftrightarrow>
     CHR ''='' \<notin> set (fst r) \<and> LF \<notin> set (fst r) \<and>
     CHR ''|'' \<notin> set (base_url (snd r)) \<and> LF \<notin> set (base_url (snd r)) \<and>
     LF \<notin> set (case path (snd r) of None \<Rightarrow> [] | Some q \<Rightarrow> q)"

definition delimiter_free :: "RelayConfig \<Rightarrow> (string, string list) btree \<Rightarrow> bool" where
  "delimiter_free c pins \<longleftrightarrow>
     LF \<notin> set (provider_auth_scheme (runtime c)) \<and>
     LF \<notin> set (body_log_policy (runtime c)) \<and>
     LF \<notin> set (default_upstream c) \<and>
     (\<forall>r \<in> set (routes c). route_clean r) \<and>
     (\<forall>a \<in> set (allowed_upstreams c). LF \<notin> set a) \<and>
     LF \<notin> set (case release_artifact_digest c of
                  None \<Rightarrow> [] | Some d \<Rightarrow> to_ascii_lowercase (trim d)) \<and>
     (\<forall>e \<in> set pins. CHR ''='' \<notin> set (fst e) \<and> LF \<notin> set (fst e))"

section \<open>Reading the text back line by line\<close>

definition lines_text :: "string list \<Rightarrow> string" where
  "lines_text ls = concat (map (\<lambda>l. l @ [LF]) ls)"

lemma lines_text_simps [simp]:
  "lines_text [] = []"
  "lines_text (l # ls) = l @ LF # lines_text ls"
  "lines_text (ls @ ms) = lines_text ls @ lines_text ms"
  by (simp_all add: lines_text_def)

lemma lines_text_inject:
  assumes "\<forall>l \<in> set ls. LF \<notin> set l" and "\<forall>m \<in> set ms. LF \<notin> set m"
    and "lines_text ls = lines_text ms"
  shows "ls = ms"
proof -
  have split: "split_char LF (lines_text xs) = xs @ [[]]" if "\<forall>x \<in> set xs. LF \<notin> set x" for xs
    using that by (induction xs) (simp_all add: split_char_append)
  from assms show ?thesis by (metis split butlast_snoc)
qed

lemma sep_inject:
  fixes x :: char
  assumes "a @ x # b = a' @ x # b'" and "x \<notin> set a" and "x \<notin> set a'"
  shows "a = a' \<and> b = b'"
  using assms split_once_eq_Some [of x "a @ x # b"] by (metis option.inject prod.inject)

lemma sep_absent: "a @ x # b = c \<Longrightarrow> x \<in> set c" "c = a @ x # b \<Longrightarrow> x \<in> set c"
  by auto

text \<open>The tag every line starts with, opaque to the simplifier.\<close>

definition tag_schema :: string where "tag_schema = ''config_hash_schema:v2''"
definition tag_auth :: string where "tag_auth = ''runtime.allow_client_provider_auth:''"
definition tag_admin :: string where "tag_admin = ''runtime.private_admin_enabled:''"
definition tag_scheme :: string where "tag_scheme = ''runtime.provider_auth_scheme:''"
definition tag_log :: string where "tag_log = ''runtime.body_log_policy:''"
definition tag_default :: string where "tag_default = ''default_upstream:''"
definition tag_route :: string where "tag_route = ''route:''"
definition tag_allowed :: string where "tag_allowed = ''allowed:''"
definition tag_max :: string where "tag_max = ''max_request_bytes:''"
definition tag_digest :: string where "tag_digest = ''release_artifact_digest:''"
definition tag_timeout :: string where "tag_timeout = ''upstream_timeout_secs:''"
definition tag_pins :: string where "tag_pins = ''upstream_tls_leaf_sha256:''"

lemmas tag_defs = tag_schema_def tag_auth_def tag_admin_def tag_scheme_def tag_log_def
  tag_default_def tag_route_def tag_allowed_def tag_max_def tag_digest_def tag_timeout_def
  tag_pins_def

definition hash_tags :: "string list" where
  "hash_tags = [tag_schema, tag_auth, tag_admin, tag_scheme, tag_log, tag_default, tag_route,
     tag_allowed, tag_max, tag_digest, tag_timeout, tag_pins]"

lemma hash_tags_incomparable:
  "list_all (\<lambda>a. list_all (\<lambda>b. prefix a b \<longrightarrow> a = b) hash_tags) hash_tags"
  by code_simp

lemma hash_tags_distinct: "distinct hash_tags" "distinct (rev hash_tags)"
  by code_simp+

lemma prefix_tag_iff:
  assumes "a \<in> set hash_tags" and "b \<in> set hash_tags"
  shows "prefix a (b @ s) \<longleftrightarrow> a = b"
proof
  assume "prefix a (b @ s)"
  then have "prefix a b \<or> prefix b a"
    by (meson prefixI prefix_same_cases)
  with assms hash_tags_incomparable show "a = b" by (auto simp: list_all_iff)
qed simp

lemmas tag_mem = hash_tags_def [THEN arg_cong [where f = set], simplified]
lemmas tag_distinct = hash_tags_distinct [unfolded hash_tags_def, simplified]

definition route_body :: "string \<times> ProviderConfig \<Rightarrow> string" where
  "route_body r = (case r of (p, cfg) \<Rightarrow> p @ CHR ''='' # CHR ''>'' # base_url cfg @
     (case path cfg of Some q \<Rightarrow> CHR ''|'' # ''path:'' @ q | None \<Rightarrow> []))"

definition pins_body :: "string \<times> string list \<Rightarrow> string" where
  "pins_body e = (case e of (orig, vs) \<Rightarrow> orig @ CHR ''='' # CHR ''>'' # concat (map (\<lambda>p. p @ '','') vs))"

text \<open>The lines as pairs of a tag and a body.\<close>

definition hash_items :: "RelayConfig \<Rightarrow> (string, string list) btree \<Rightarrow> (string \<times> string) list" where
  "hash_items c pins =
     [(tag_schema, []),
      (tag_auth, bool_text (allow_client_provider_auth (runtime c))),
      (tag_admin, bool_text (private_admin_enabled (runtime c))),
      (tag_scheme, provider_auth_scheme (runtime c)),
      (tag_log, body_log_policy (runtime c)),
      (tag_default, default_upstream c)]
     @ map (\<lambda>r. (tag_route, route_body r)) (routes c)
     @ map (\<lambda>a. (tag_allowed, a)) (sort (allowed_upstreams c))
     @ [(tag_max, decimal (unat (max_request_bytes c)))]
     @ (case release_artifact_digest c of
          None \<Rightarrow> [] | Some d \<Rightarrow> [(tag_digest, to_ascii_lowercase (trim d))])
     @ [(tag_timeout, decimal (unat (upstream_timeout_secs c)))]
     @ map (\<lambda>e. (tag_pins, pins_body e)) pins"

lemma hash_preimage_lines:
  "hash_preimage c pins = lines_text (map (\<lambda>(t, b). t @ b) (hash_items c pins))"
proof -
  have r: "concat (map route_text rs) = lines_text (map (\<lambda>r. tag_route @ route_body r) rs)" for rs
    by (induction rs) (auto simp: route_text_def route_body_def tag_route_def split: option.splits)
  have a: "concat (map allowed_text as) = lines_text (map (\<lambda>a. tag_allowed @ a) as)" for as
    by (induction as) (auto simp: allowed_text_def tag_allowed_def)
  have p: "concat (map pins_text ps) = lines_text (map (\<lambda>e. tag_pins @ pins_body e) ps)" for ps
    by (induction ps) (auto simp: pins_text_def pins_body_def tag_pins_def)
  show ?thesis
    unfolding hash_preimage_def hash_items_def r a p digest_text_def
    by (cases "release_artifact_digest c")
      (simp_all add: comp_def tag_schema_def [symmetric] tag_auth_def [symmetric]
        tag_admin_def [symmetric] tag_scheme_def [symmetric] tag_log_def [symmetric]
        tag_default_def [symmetric] tag_max_def [symmetric] tag_digest_def [symmetric]
        tag_timeout_def [symmetric] del: append_Cons)
qed

lemma tagged_inject:
  assumes "a \<in> set hash_tags" and "b \<in> set hash_tags" and "a @ s = b @ t"
  shows "a = b \<and> s = t"
  using assms prefix_tag_iff [of a b t] by (metis append_eq_conv_conj prefixI same_append_eq)

lemma tags_of_items: "(t, b) \<in> set (hash_items c pins) \<Longrightarrow> t \<in> set hash_tags"
  by (auto simp: hash_items_def tag_mem split: option.splits)

lemma items_inject:
  assumes "map (\<lambda>(t, b). t @ b) (hash_items c p) = map (\<lambda>(t, b). t @ b) (hash_items d q)"
  shows "hash_items c p = hash_items d q"
proof -
  have "xs = ys"
    if "map (\<lambda>(t, b). t @ b) xs = map (\<lambda>(t, b). t @ b) ys"
      "\<forall>(t, b) \<in> set xs \<union> set ys. t \<in> set hash_tags" for xs ys :: "(string \<times> string) list"
    using that
  proof (induction xs arbitrary: ys)
    case Nil
    then show ?case by simp
  next
    case (Cons x xs)
    then obtain u e zs where ys: "ys = (u, e) # zs" by (cases ys) auto
    obtain t b where x: "x = (t, b)" by (cases x)
    have "t = u \<and> b = e" using Cons.prems by (intro tagged_inject) (simp_all add: ys x)
    moreover have "xs = zs" using Cons.prems by (intro Cons.IH) (simp_all add: ys)
    ultimately show ?case by (simp add: ys x)
  qed
  with assms tags_of_items show ?thesis by blast
qed

definition item_bodies :: "string \<Rightarrow> (string \<times> string) list \<Rightarrow> string list" where
  "item_bodies t items = map snd (filter (\<lambda>i. fst i = t) items)"

lemma item_bodies_simps [simp]:
  "item_bodies t [] = []"
  "item_bodies t ((u, b) # xs) = (if u = t then b # item_bodies t xs else item_bodies t xs)"
  "item_bodies t (xs @ ys) = item_bodies t xs @ item_bodies t ys"
  "item_bodies t (map (\<lambda>x. (u, f x)) zs) = (if u = t then map f zs else [])"
  by (simp_all add: item_bodies_def filter_map comp_def)

lemma hash_items_bodies:
  "item_bodies tag_auth (hash_items c pins) = [bool_text (allow_client_provider_auth (runtime c))]"
  "item_bodies tag_admin (hash_items c pins) = [bool_text (private_admin_enabled (runtime c))]"
  "item_bodies tag_scheme (hash_items c pins) = [provider_auth_scheme (runtime c)]"
  "item_bodies tag_log (hash_items c pins) = [body_log_policy (runtime c)]"
  "item_bodies tag_default (hash_items c pins) = [default_upstream c]"
  "item_bodies tag_route (hash_items c pins) = map route_body (routes c)"
  "item_bodies tag_allowed (hash_items c pins) = sort (allowed_upstreams c)"
  "item_bodies tag_max (hash_items c pins) = [decimal (unat (max_request_bytes c))]"
  "item_bodies tag_digest (hash_items c pins) =
     (case release_artifact_digest c of None \<Rightarrow> [] | Some d \<Rightarrow> [to_ascii_lowercase (trim d)])"
  "item_bodies tag_timeout (hash_items c pins) = [decimal (unat (upstream_timeout_secs c))]"
  "item_bodies tag_pins (hash_items c pins) = map pins_body pins"
  by (simp_all add: hash_items_def tag_distinct split: option.split)

lemma bool_text_inject [simp]: "bool_text a = bool_text b \<longleftrightarrow> a = b"
  by (simp add: bool_text_def)

lemma route_body_inject:
  assumes "route_clean r" and "route_clean s" and "route_body r = route_body s"
  shows "r = s"
proof -
  obtain p cfg q d where rs: "r = (p, cfg)" "s = (q, d)" by (cases r; cases s)
  let ?t = "\<lambda>cfg. case path cfg of Some q \<Rightarrow> CHR ''|'' # ''path:'' @ q | None \<Rightarrow> []"
  from assms rs have "p = q" and b: "base_url cfg @ ?t cfg = base_url d @ ?t d"
    unfolding route_body_def route_clean_def by (auto dest: sep_inject)
  moreover have "base_url cfg = base_url d \<and> path cfg = path d"
    using b assms(1,2) unfolding route_clean_def rs fst_conv snd_conv
    by (cases "path cfg"; cases "path d") (auto dest: sep_inject sep_absent)
  ultimately show ?thesis using rs by (simp add: ProviderConfig.equality)
qed

lemma comma_terminated_inject:
  assumes "concat (map (\<lambda>p. p @ '','') vs) = concat (map (\<lambda>p. p @ '','') ws)"
    and "\<forall>v \<in> set vs. CHR '','' \<notin> set v" and "\<forall>w \<in> set ws. CHR '','' \<notin> set w"
  shows "vs = ws"
proof -
  have split: "split_char CHR '','' (concat (map (\<lambda>p. p @ '','') xs)) = xs @ [[]]"
    if "\<forall>x \<in> set xs. CHR '','' \<notin> set x" for xs
    using that by (induction xs) (simp_all add: split_char_append)
  from assms show ?thesis by (metis split butlast_snoc)
qed

definition pin_entry_safe :: "string \<times> string list \<Rightarrow> bool" where
  "pin_entry_safe e \<longleftrightarrow> CHR ''='' \<notin> set (fst e) \<and> (\<forall>v \<in> set (snd e). CHR '','' \<notin> set v)"

lemma pins_body_inject:
  assumes "pin_entry_safe e" and "pin_entry_safe f" and "pins_body e = pins_body f"
  shows "e = f"
  using assms unfolding pins_body_def pin_entry_safe_def
  by (auto split: prod.splits dest!: sep_inject intro: comma_terminated_inject)

lemma canonical_pin_chars:
  assumes "canonical_pin p"
  shows "CHR '','' \<notin> set p" and "LF \<notin> set p"
proof -
  from assms obtain h where "p = sha256_tag @ h" and "\<forall>x \<in> set h. is_ascii_hexdigit x"
    by (auto simp: canonical_pin_def list_all_iff)
  moreover have "\<not> is_ascii_hexdigit CHR '',''" "\<not> is_ascii_hexdigit LF" by code_simp+
  moreover have "CHR '','' \<notin> set sha256_tag" "LF \<notin> set sha256_tag" by code_simp+
  ultimately show "CHR '','' \<notin> set p" and "LF \<notin> set p" by auto
qed

lemma map_inject_on:
  "map f xs = map f ys \<Longrightarrow> (\<And>x y. x \<in> set xs \<Longrightarrow> y \<in> set ys \<Longrightarrow> f x = f y \<Longrightarrow> x = y) \<Longrightarrow> xs = ys"
  by (rule list.inj_map_strong [rotated])

lemma route_body_no_LF: "route_clean r \<Longrightarrow> LF \<notin> set (route_body r)"
  by (cases r) (auto simp: route_clean_def route_body_def split: option.splits)

lemma pins_body_no_LF:
  "LF \<notin> set (fst e) \<Longrightarrow> \<forall>v \<in> set (snd e). canonical_pin v \<Longrightarrow> LF \<notin> set (pins_body e)"
  using canonical_pin_chars(2) by (cases e) (auto simp: pins_body_def)

lemma pins_ok_entry:
  "pins_ok pins \<Longrightarrow> e \<in> set pins \<Longrightarrow> v \<in> set (snd e) \<Longrightarrow> canonical_pin v"
  by (cases e) (auto simp: pins_ok_def pin_list_ok_def)

lemma hash_items_no_LF:
  assumes "delimiter_free c pins" and "pins_ok pins"
  shows "\<forall>l \<in> set (map (\<lambda>(t, b). t @ b) (hash_items c pins)). LF \<notin> set l"
proof -
  have tags: "\<forall>t \<in> set hash_tags. LF \<notin> set t"
    unfolding list_all_iff [symmetric] by code_simp
  have dec: "LF \<notin> set (decimal n)" for n
    using decimal_digits [of LF n] by (auto simp: is_ascii_digit_def in_range_def)
  have bool: "LF \<notin> set (bool_text b)" for b by (simp add: bool_text_def)
  have route: "LF \<notin> set (route_body r)" if "r \<in> set (routes c)" for r
    using that assms(1) by (simp add: delimiter_free_def route_body_no_LF)
  have pin: "LF \<notin> set (pins_body e)" if "e \<in> set pins" for e
  proof (rule pins_body_no_LF)
    show "LF \<notin> set (fst e)" using that assms(1) by (simp add: delimiter_free_def)
    show "\<forall>v \<in> set (snd e). canonical_pin v" using that assms(2) pins_ok_entry by blast
  qed
  have "LF \<notin> set b" if "(t, b) \<in> set (hash_items c pins)" for t b
    using that assms(1) dec bool route pin
    by (auto simp: hash_items_def delimiter_free_def split: option.splits)
  with tags tags_of_items show ?thesis by fastforce
qed

lemma preimage_determines_view:
  assumes "delimiter_free c p" and "delimiter_free d q" and "pins_ok p" and "pins_ok q"
    and "hash_preimage c p = hash_preimage d q"
  shows "security_view_of c p = security_view_of d q"
proof -
  have "hash_items c p = hash_items d q"
    using assms(5) unfolding hash_preimage_lines
    by (intro items_inject lines_text_inject hash_items_no_LF assms(1-4))
  then have same: "item_bodies t (hash_items c p) = item_bodies t (hash_items d q)" for t by simp
  have "routes c = routes d"
  proof (rule map_inject_on [OF same [of tag_route, unfolded hash_items_bodies]])
    fix r s assume "r \<in> set (routes c)" "s \<in> set (routes d)" "route_body r = route_body s"
    with assms(1,2) show "r = s" by (auto simp: delimiter_free_def intro: route_body_inject)
  qed
  moreover have "p = q"
  proof (rule map_inject_on [OF same [of tag_pins, unfolded hash_items_bodies]])
    fix e f assume ef: "e \<in> set p" "f \<in> set q" "pins_body e = pins_body f"
    then have "pin_entry_safe e" "pin_entry_safe f"
      using assms(1-4) pins_ok_entry canonical_pin_chars(1)
      by (auto simp: pin_entry_safe_def delimiter_free_def)
    with ef show "e = f" by (blast intro: pins_body_inject)
  qed
  moreover have "runtime c = runtime d"
    using same [of tag_auth] same [of tag_admin] same [of tag_scheme] same [of tag_log]
    by (simp add: hash_items_bodies RuntimeConfig.equality)
  ultimately show ?thesis
    using same [of tag_default] same [of tag_allowed] same [of tag_max] same [of tag_digest]
      same [of tag_timeout]
    by (auto simp: security_view_of_def hash_items_bodies word_unat_eq_iff split: option.splits)
qed

lemma view_determines_preimage:
  assumes "security_view_of c p = security_view_of d q"
  shows "hash_preimage c p = hash_preimage d q"
proof -
  have "digest_text (release_artifact_digest c) = digest_text (release_artifact_digest d)"
    using assms
    by (cases "release_artifact_digest c"; cases "release_artifact_digest d")
      (auto simp: security_view_of_def digest_text_def)
  with assms show ?thesis by (simp add: security_view_of_def hash_preimage_def)
qed

lemma config_hash_length:
  "config_hash url_parse sha256 c = Returned h \<Longrightarrow> (\<And>b. length (sha256 b) = 32) \<Longrightarrow> length h = 32"
  by (auto simp: config_hash_def split: sum.split_asm)

section \<open>Properties\<close>

text \<open>
  C7: the configuration hash commits to the security-relevant configuration. For two
  configurations whose pins normalise and whose strings avoid the delimiters, and with no
  SHA-256 collision between the two hashed texts, the hashes agree exactly when the whole
  security view agrees: runtime settings, default upstream, routes with their overrides,
  allowlist up to order, size limit, release digest, timeout and pins. The listen address
  alone is left out.
\<close>

theorem config_hash_binds_security_view:
  assumes "normalize_upstream_tls_pins url_parse (upstream_tls_leaf_sha256 c) = Inr p"
    and "normalize_upstream_tls_pins url_parse (upstream_tls_leaf_sha256 d) = Inr q"
    and "delimiter_free c p" and "delimiter_free d q"
    and "inj_on sha256 {as_bytes (hash_preimage c p), as_bytes (hash_preimage d q)}"
  shows "config_hash url_parse sha256 c = config_hash url_parse sha256 d \<longleftrightarrow>
         security_view_of c p = security_view_of d q"
proof -
  have "config_hash url_parse sha256 c = config_hash url_parse sha256 d \<longleftrightarrow>
      hash_preimage c p = hash_preimage d q"
    using inj_on_eq_iff [OF assms(5), of "as_bytes (hash_preimage c p)" "as_bytes (hash_preimage d q)"]
    by (simp add: config_hash_def assms(1,2))
  also have "\<dots> \<longleftrightarrow> security_view_of c p = security_view_of d q"
    using assms(1-4) normalize_upstream_tls_pins_ok preimage_determines_view
      view_determines_preimage by blast
  finally show ?thesis .
qed

theorem config_hash_binds_security_view_witness:
  "config_hash demo_parse (\<lambda>bs. bs) listed_config
     \<noteq> config_hash demo_parse (\<lambda>bs. bs) (listed_config\<lparr>upstream_timeout_secs := 60\<rparr>)"
proof -
  let ?d = "listed_config\<lparr>upstream_timeout_secs := 60\<rparr>"
  let ?m = "[(''https://api.openai.com:443'', [sha256_tag @ replicate 64 CHR ''a''])]"
  have m: "normalize_upstream_tls_pins demo_parse (upstream_tls_leaf_sha256 listed_config) = Inr ?m"
    by code_simp
  have e: "upstream_tls_leaf_sha256 ?d = upstream_tls_leaf_sha256 listed_config" by simp
  have n: "normalize_upstream_tls_pins demo_parse (upstream_tls_leaf_sha256 ?d) = Inr ?m"
    unfolding e by (rule m)
  have free: "delimiter_free listed_config ?m" by code_simp
  then have free': "delimiter_free ?d ?m" by (simp add: delimiter_free_def)
  have "security_view_of listed_config ?m \<noteq> security_view_of ?d ?m"
    by (simp add: security_view_of_def listed_config_def RelayConfig_default_def
        default_upstream_timeout_secs_def)
  then show ?thesis
    using config_hash_binds_security_view [OF m n free free', of "\<lambda>bs. bs"] by simp
qed

text \<open>
  C37: the \<open>expect\<close> in \<open>config_hash\<close> is unreachable after start-up validation: it panics
  exactly when the pins do not normalise, and a configuration that passed \<open>validate\<close> always
  gets a hash.
\<close>

theorem config_hash_panics_only_unvalidated:
  "(config_hash url_parse sha256 c = Panicked \<longleftrightarrow>
      (\<exists>e. normalize_upstream_tls_pins url_parse (upstream_tls_leaf_sha256 c) = Inl e)) \<and>
   (validate url_parse c = Inr () \<longrightarrow> (\<exists>h. config_hash url_parse sha256 c = Returned h))"
  by (auto simp: config_hash_def validate_eq_Inr split: sum.splits)

theorem config_hash_panics_only_unvalidated_witness:
  "\<exists>h. config_hash demo_parse (\<lambda>bs. bs) listed_config = Returned h"
proof -
  have "validate demo_parse listed_config = Inr ()" by code_simp
  with config_hash_panics_only_unvalidated show ?thesis by blast
qed

section \<open>Why the delimiters matter\<close>

text \<open>
  The delimiters are not escaped: a route prefix that contains \<open>=>\<close> has the same hashed text as
  a shorter prefix with a longer base URL, although the two route different models.
\<close>

definition arrow_prefix_config :: RelayConfig where
  "arrow_prefix_config = RelayConfig_default
     \<lparr>routes := [(''gpt=>a'', \<lparr>base_url = ''https://b'', path = None\<rparr>)]\<rparr>"

definition arrow_base_config :: RelayConfig where
  "arrow_base_config = RelayConfig_default
     \<lparr>routes := [(''gpt'', \<lparr>base_url = ''a=>https://b'', path = None\<rparr>)]\<rparr>"

lemma config_hash_ambiguous_arrow:
  "hash_preimage arrow_prefix_config [] = hash_preimage arrow_base_config [] \<and>
   resolve_upstream arrow_prefix_config ''gpt-4'' \<noteq> resolve_upstream arrow_base_config ''gpt-4''"
proof
  show "hash_preimage arrow_prefix_config [] = hash_preimage arrow_base_config []"
    by (simp add: hash_preimage_def arrow_prefix_config_def arrow_base_config_def route_text_def)
  show "resolve_upstream arrow_prefix_config ''gpt-4''
      \<noteq> resolve_upstream arrow_base_config ''gpt-4''"
    by code_simp
qed

end
