(* ===== verification/App_Error.thy ===== *)
theory App_Error
  imports Relay_Config
begin

text \<open>
  \<open>crates/relay-core/src/error.rs\<close>: the errors of the data plane, the response a client sees
  for each, and the redaction of log messages. The message of an internal error is a value
  of \<open>internal_reason\<close> that carries what the source interpolates.
\<close>

section \<open>Errors and their responses\<close>

datatype internal_reason =
    UpstreamBlocked config_error
  | InvalidInjectedCredential
  | UpstreamRequestFailed string
  | BuildResponseFailed
  | ReadUpstreamBodyFailed string

datatype AppError =
    Upstream u16 string
  | PayloadTooLarge u64
  | MissingProviderCredential
  | Internal internal_reason

text \<open>
  A response: either a status with a static text, which the web framework turns into a
  response by itself, or one assembled with \<open>Response::builder\<close>. Its body is a byte string
  or the upstream's byte stream passed on (\<open>Inl\<close> when the stream breaks off with an error).
\<close>

datatype reply_body = FullBody "byte list" | StreamBody "string + byte list"

datatype reply =
    TextReply u16 string
  | BuiltReply u16 "(string \<times> byte list) list" reply_body

definition too_large_body :: string where
  "too_large_body =
     ''{\"error\":{\"message\":\"request body too large\",\"type\":\"relay_error\"}}''"

definition no_credential_body :: string where
  "no_credential_body =
     ''{\"error\":{\"message\":\"provider credential not loaded\",\"type\":\"relay_error\"}}''"

definition internal_body :: string where
  "internal_body =
     ''{\"error\":{\"message\":\"internal relay error\",\"type\":\"relay_error\"}}''"

definition into_response :: "AppError \<Rightarrow> reply" where
  "into_response e =
     (case e of
        Upstream status body \<Rightarrow> TextReply status body
      | PayloadTooLarge limit \<Rightarrow> TextReply 413 too_large_body
      | MissingProviderCredential \<Rightarrow> TextReply 503 no_credential_body
      | Internal msg \<Rightarrow> TextReply 500 internal_body)"

text \<open>\<open>Display\<close>, with the rendering of an internal reason as a parameter.\<close>

definition AppError_fmt :: "(internal_reason \<Rightarrow> string) \<Rightarrow> (u16 \<Rightarrow> string) \<Rightarrow> AppError \<Rightarrow> string" where
  "AppError_fmt reason_text status_text e =
     (case e of
        Upstream status body \<Rightarrow> ''upstream '' @ status_text status @ '': '' @ body
      | PayloadTooLarge limit \<Rightarrow>
          ''request body exceeds configured limit of '' @ decimal (unat limit) @ '' bytes''
      | MissingProviderCredential \<Rightarrow> ''provider credential not loaded''
      | Internal msg \<Rightarrow> ''internal error: '' @ reason_text msg)"

definition from_reqwest_error :: "string \<Rightarrow> AppError" where
  "from_reqwest_error e = Internal (UpstreamRequestFailed e)"

section \<open>Redaction\<close>

definition redacted :: string where
  "redacted = ''<redacted>''"

definition sensitive_word :: "string \<Rightarrow> bool" where
  "sensitive_word lower \<longleftrightarrow>
     prefix ''authorization'' lower \<or> prefix ''bearer'' lower \<or>
     contains lower ''api_key'' \<or> contains lower ''token'' \<or> contains lower ''secret''"

definition key_char :: "char \<Rightarrow> bool" where
  "key_char c \<longleftrightarrow> is_ascii_alphanumeric c \<or> c = CHR ''-'' \<or> c = CHR ''_''"

definition redact_sensitive_part :: "string \<Rightarrow> string" where
  "redact_sensitive_part part =
     (let lower = to_ascii_lowercase part
      in if sensitive_word lower then redacted
         else (case find_sub ''sk-'' part of
                 Some pos \<Rightarrow>
                   (let pre = take pos part; rest = drop pos part;
                        token_len = length (takeWhile key_char rest)
                    in if 8 \<le> token_len then pre @ redacted @ drop token_len rest else part)
               | None \<Rightarrow> part))"

definition redact_sensitive :: "string \<Rightarrow> string" where
  "redact_sensitive raw = join '' '' (map redact_sensitive_part (split_whitespace raw))"

section \<open>Lemmas\<close>

lemma lower_redacted [simp]: "to_ascii_lowercase redacted = redacted"
  by code_simp

lemma sensitive_redacted: "\<not> sensitive_word redacted"
  by code_simp

text \<open>
  A keyword without angle brackets that occurs in \<open>p @ redacted @ q\<close> occurs in \<open>p\<close>, in \<open>q\<close> or
  in the word \<open>redacted\<close>: it cannot straddle the marker.
\<close>

lemma sublist_around_marker:
  assumes "sublist k (p @ x # r)" and "x \<notin> set k"
  shows "sublist k p \<or> sublist k r"
proof -
  obtain a b where e: "p @ x # r = a @ k @ b" using assms(1) by (auto simp: sublist_def)
  from e have "p @ [x] @ r = a @ (k @ b)" by simp
  then consider us where "p = a @ us" "us @ x # r = k @ b" | us where "p @ us = a" "x # r = us @ k @ b"
    by (auto simp: append_eq_append_conv2)
  then show ?thesis
  proof cases
    case 1
    from 1(2) assms(2) have "prefix k us"
      by (auto simp: append_eq_append_conv2 Cons_eq_append_conv prefix_def)
    then have "sublist k us" by (rule prefix_imp_sublist)
    with 1(1) show ?thesis by (auto intro: sublist_order.order.trans)
  next
    case 2
    show ?thesis
    proof (cases us)
      case Nil
      with 2(2) assms(2) have "k = []" by (cases k) auto
      then show ?thesis by simp
    next
      case (Cons y ys)
      with 2(2) have "r = ys @ k @ b" by simp
      then show ?thesis by (auto simp: sublist_def)
    qed
  qed
qed

lemma sublist_around_redacted:
  assumes "sublist k (p @ redacted @ q)" and "CHR ''<'' \<notin> set k" and "CHR ''>'' \<notin> set k"
  shows "sublist k p \<or> sublist k ''redacted'' \<or> sublist k q"
proof -
  have e: "p @ redacted @ q = p @ CHR ''<'' # ''redacted'' @ CHR ''>'' # q"
    by (simp add: redacted_def)
  have "sublist k p \<or> sublist k (''redacted'' @ CHR ''>'' # q)"
    using sublist_around_marker [OF assms(1) [unfolded e] assms(2)] .
  then show ?thesis using sublist_around_marker [of k "''redacted''" "CHR ''>''" q] assms(3) by blast
qed

lemma prefix_around_redacted:
  assumes "prefix k (p @ redacted @ q)" and "CHR ''<'' \<notin> set k"
  shows "prefix k p"
proof (rule ccontr)
  assume "\<not> prefix k p"
  with assms(1) obtain us where "k = p @ us" "us \<noteq> []" "prefix us (redacted @ q)"
    by (auto simp: prefix_append)
  then have "CHR ''<'' \<in> set k" by (cases us) (auto simp: redacted_def)
  with assms(2) show False ..
qed

lemma lower_append_redacted:
  "to_ascii_lowercase (p @ redacted @ q) = to_ascii_lowercase p @ redacted @ to_ascii_lowercase q"
  by simp

lemma sensitive_around_redacted:
  assumes "sensitive_word (p @ redacted @ q)"
  shows "sensitive_word p \<or> contains q ''api_key'' \<or> contains q ''token'' \<or> contains q ''secret''"
proof -
  have marker: "\<not> contains ''redacted'' ''api_key'' \<and> \<not> contains ''redacted'' ''token'' \<and>
      \<not> contains ''redacted'' ''secret''"
    by code_simp
  have in_parts: "contains p k \<or> contains ''redacted'' k \<or> contains q k"
    if "contains (p @ redacted @ q) k" "CHR ''<'' \<notin> set k" "CHR ''>'' \<notin> set k" for k
    using that sublist_around_redacted by (simp add: contains_iff)
  from assms marker show ?thesis
    using prefix_around_redacted [of "''authorization''" p q] prefix_around_redacted [of "''bearer''" p q]
      in_parts [of "''api_key''"] in_parts [of "''token''"] in_parts [of "''secret''"]
    unfolding sensitive_word_def by auto
qed

lemma contains_mono: "contains p k \<Longrightarrow> contains (a @ p @ b) k"
  by (auto simp: contains_iff sublist_def) (metis append.assoc)

lemma sensitive_prefix: "sensitive_word p \<Longrightarrow> sensitive_word (p @ q)"
  using contains_mono [of p _ "[]" q] by (auto simp: sensitive_word_def)

lemma redact_part_not_sensitive:
  "\<not> sensitive_word (to_ascii_lowercase (redact_sensitive_part part))"
proof (cases "sensitive_word (to_ascii_lowercase part)")
  case True
  then show ?thesis by (simp add: redact_sensitive_part_def sensitive_redacted)
next
  case False
  have cut: "\<not> sensitive_word (to_ascii_lowercase (take i part @ redacted @ drop j part))" for i j
  proof
    let ?l = "to_ascii_lowercase"
    assume "sensitive_word (?l (take i part @ redacted @ drop j part))"
    then consider "sensitive_word (?l (take i part))"
      | k where "k \<in> {''api_key'', ''token'', ''secret''}" "contains (?l (drop j part)) k"
      unfolding lower_append_redacted by (blast dest: sensitive_around_redacted)
    then show False
    proof cases
      case 1
      then have "sensitive_word (?l (take i part) @ ?l (drop i part))" by (rule sensitive_prefix)
      with False show ?thesis by (simp flip: to_ascii_lowercase_append)
    next
      case 2
      from contains_mono [OF 2(2), of "?l (take j part)" "[]"]
      have "contains (?l part) k" by (simp flip: to_ascii_lowercase_append)
      with False 2(1) show ?thesis by (auto simp: sensitive_word_def)
    qed
  qed
  have "redact_sensitive_part part = part \<or>
      (\<exists>i j. redact_sensitive_part part = take i part @ redacted @ drop j part)"
    using False unfolding redact_sensitive_part_def Let_def by (auto split: option.split)
  with cut False show ?thesis by metis
qed

lemma find_sub_first: "find_sub p xs = Some i \<Longrightarrow> \<not> sublist p (take (i + length p - 1) xs)"
  if "p \<noteq> []"
  using that
proof (induction p xs arbitrary: i rule: find_sub.induct)
  case (1 p)
  then show ?case by (auto split: if_splits)
next
  case (2 p x xs)
  show ?case
  proof (cases "prefix p (x # xs)")
    case True
    with 2 have "i = 0" by simp
    moreover from 2(3) have "length (take (length p - 1) (x # xs)) < length p"
      by (cases p) auto
    ultimately show ?thesis using sublist_length_le by (metis add_0 leD)
  next
    case False
    with 2(2) obtain j where j: "i = Suc j" "find_sub p xs = Some j" by auto
    from False have "\<not> prefix p (x # take (j + length p - 1) xs)"
      by (metis take_is_prefix Cons_prefix_Cons prefix_order.trans)
    with 2(1) [OF False j(2) 2(3)] j(1) 2(3) show ?thesis
      by (cases p) (auto simp: sublist_Cons_right)
  qed
qed

lemma find_sub_before:
  assumes "find_sub (a # p) xs = Some i"
  shows "\<not> sublist (a # p) (take i xs)"
proof
  assume "sublist (a # p) (take i xs)"
  then have "sublist (a # p) (take i xs @ take (length p) (drop i xs))"
    by (metis append.left_neutral sublist_append_leftI sublist_append_rightI sublist_appendI sublist_def append.assoc)
  then have "sublist (a # p) (take (i + length (a # p) - 1) xs)" by (simp add: take_add)
  with find_sub_first [of "a # p" xs i] assms show False by blast
qed

lemma find_key: "\<not> sublist ''sk-'' p \<Longrightarrow> find_sub ''sk-'' (p @ ''sk-'' @ r) = Some (length p)"
proof (induction p)
  case (Cons x p)
  have "\<not> prefix ''sk-'' (x # p @ ''sk-'' @ r)"
  proof
    assume pre: "prefix ''sk-'' (x # p @ ''sk-'' @ r)"
    show False
    proof (cases p)
      case Nil
      with pre show False by simp
    next
      case (Cons y q)
      with pre have q: "x = CHR ''s''" "y = CHR ''k''" "prefix ''-'' (q @ ''sk-'' @ r)" by auto
      then obtain z u where "q = z # u" by (cases q) auto
      with q Cons have "x # p = [] @ ''sk-'' @ u" by simp
      then have "sublist ''sk-'' (x # p)" unfolding sublist_def by blast
      with Cons.prems show False ..
    qed
  qed
  moreover have "\<not> sublist ''sk-'' p" using Cons.prems by (simp add: sublist_Cons_right)
  ultimately show ?case using Cons.IH by simp
qed simp

section \<open>What redaction is for\<close>

text \<open>
  A word that names a secret: the start of an authorization header, or anything that
  mentions an API key, a token or a secret, in any letter case.
\<close>

definition names_secret :: "string \<Rightarrow> bool" where
  "names_secret w \<longleftrightarrow>
     (\<exists>k \<in> {''authorization'', ''bearer''}. prefix k (to_ascii_lowercase w)) \<or>
     (\<exists>k \<in> {''api_key'', ''token'', ''secret''}. sublist k (to_ascii_lowercase w))"

definition key_letter :: "char \<Rightarrow> bool" where
  "key_letter c \<longleftrightarrow> c \<in> set ''ABCDEFGHIJKLMNOPQRSTUVWXYZabcdefghijklmnopqrstuvwxyz0123456789-_''"

text \<open>
  The first \<open>sk-\<close> of a word starts a provider key: \<open>k\<close> is the whole run of key letters
  from there on, and has at least eight of them.
\<close>

definition provider_key :: "string \<Rightarrow> string \<Rightarrow> string \<Rightarrow> string \<Rightarrow> bool" where
  "provider_key w p k s \<longleftrightarrow> w = p @ k @ s \<and> \<not> sublist ''sk-'' p \<and> prefix ''sk-'' k \<and> 8 \<le> length k \<and>
     list_all key_letter k \<and> (s = [] \<or> \<not> key_letter (hd s))"

definition redacts :: "string \<Rightarrow> string \<Rightarrow> bool" where
  "redacts w out \<longleftrightarrow>
     (if names_secret w then out = ''<redacted>''
      else (\<forall>p k s. provider_key w p k s \<longrightarrow> out = p @ ''<redacted>'' @ s) \<and>
           ((\<nexists>p k s. provider_key w p k s) \<longrightarrow> out = w))"

lemma names_secret_iff: "names_secret w \<longleftrightarrow> sensitive_word (to_ascii_lowercase w)"
  by (auto simp: names_secret_def sensitive_word_def contains_iff)

lemma key_letter_iff: "key_letter c \<longleftrightarrow> key_char c"
proof -
  have "\<forall>c. key_letter c \<longleftrightarrow> key_char c" by code_simp
  then show ?thesis ..
qed

lemma provider_key_found:
  assumes "provider_key w p k s"
  shows "find_sub ''sk-'' w = Some (length p)" and "takeWhile key_char (drop (length p) w) = k"
proof -
  from assms obtain r where k: "k = ''sk-'' @ r" by (auto simp: provider_key_def prefix_def)
  with assms find_key [of p "r @ s"] show "find_sub ''sk-'' w = Some (length p)"
    by (simp add: provider_key_def)
  have "takeWhile key_char (k @ s) = k"
    using assms by (cases s) (auto simp: provider_key_def key_letter_iff list_all_iff takeWhile_append)
  with assms show "takeWhile key_char (drop (length p) w) = k" by (simp add: provider_key_def)
qed

lemma found_provider_key:
  assumes "find_sub ''sk-'' w = Some i" and "8 \<le> length (takeWhile key_char (drop i w))"
  shows "provider_key w (take i w) (takeWhile key_char (drop i w)) (dropWhile key_char (drop i w))"
proof -
  have "take 3 (drop i w) = ''sk-''" using find_sub_Some [OF assms(1)] by (simp add: numeral_3_eq_3)
  then obtain r where r: "drop i w = ''sk-'' @ r" by (metis append_take_drop_id)
  have "key_char (CHR ''s'')" "key_char (CHR ''k'')" "key_char (CHR ''-'')" by code_simp+
  then have "prefix ''sk-'' (takeWhile key_char (drop i w))" by (simp add: r)
  moreover have "dropWhile key_char (drop i w) = [] \<or> \<not> key_char (hd (dropWhile key_char (drop i w)))"
    using hd_dropWhile [of key_char "drop i w"] by (auto simp: dropWhile_eq_Nil_conv)
  moreover have "list_all key_char (takeWhile key_char (drop i w))"
    by (auto simp: list_all_iff dest: set_takeWhileD)
  moreover have "\<not> sublist ''sk-'' (take i w)" using find_sub_before assms(1) .
  moreover have "key_letter = key_char" using key_letter_iff by blast
  ultimately show ?thesis unfolding provider_key_def using assms(2) by simp
qed

lemma redact_part_redacts: "redacts w (redact_sensitive_part w)"
proof (cases "names_secret w")
  case True
  then show ?thesis by (simp add: redacts_def names_secret_iff redact_sensitive_part_def redacted_def)
next
  case False
  have "redact_sensitive_part w = p @ ''<redacted>'' @ s" if "provider_key w p k s" for p k s
  proof -
    have w: "w = p @ k @ s" "8 \<le> length k" using that by (simp_all add: provider_key_def)
    have "drop (length k) (drop (length p) w) = s" "take (length p) w = p" by (simp_all add: w(1))
    with False w(2) provider_key_found [OF that] show ?thesis
      by (simp add: redact_sensitive_part_def names_secret_iff redacted_def Let_def)
  qed
  moreover have "redact_sensitive_part w = w" if "\<nexists>p k s. provider_key w p k s"
    using False that found_provider_key [of w]
    by (auto simp: redact_sensitive_part_def names_secret_iff Let_def split: option.split)
  ultimately show ?thesis using False unfolding redacts_def by auto
qed

section \<open>Properties\<close>

text \<open>
  C40: what redaction does to a text, word by word. A word that names a secret becomes the
  marker. Of any other word exactly the provider key, its first \<open>sk-\<close> with all the key
  letters that follow, at least eight in all, is replaced by the marker, and a word with
  neither is kept. No word of the result names a secret.\<close>

theorem redaction_removes_marked_words:
  "\<exists>outs. redact_sensitive raw = join '' '' outs \<and> list_all2 redacts (split_whitespace raw) outs \<and>
     (\<forall>out \<in> set outs. \<not> names_secret out)"
proof (intro exI conjI ballI)
  let ?outs = "map redact_sensitive_part (split_whitespace raw)"
  show "redact_sensitive raw = join '' '' ?outs" by (rule redact_sensitive_def)
  show "list_all2 redacts (split_whitespace raw) ?outs"
    by (simp add: list_all2_map2 list_all2_same redact_part_redacts)
  show "\<not> names_secret out" if "out \<in> set ?outs" for out
    using that redact_part_not_sensitive by (auto simp: names_secret_iff)
qed

definition demo_log :: string where
  "demo_log = ''GET key=sk-abcdefgh1; API_TOKEN=x Secrets sk-1''"

theorem redaction_removes_marked_words_witness:
  "split_whitespace demo_log = [''GET'', ''key=sk-abcdefgh1;'', ''API_TOKEN=x'', ''Secrets'', ''sk-1''] \<and>
   redact_sensitive demo_log = ''GET key=<redacted>; <redacted> <redacted> sk-1'' \<and>
   (\<exists>outs. redact_sensitive demo_log = join '' '' outs \<and> list_all2 redacts (split_whitespace demo_log) outs)"
proof (intro conjI)
  show "split_whitespace demo_log = [''GET'', ''key=sk-abcdefgh1;'', ''API_TOKEN=x'', ''Secrets'', ''sk-1'']"
    by code_simp
  show "redact_sensitive demo_log = ''GET key=<redacted>; <redacted> <redacted> sk-1''" by code_simp
  show "\<exists>outs. redact_sensitive demo_log = join '' '' outs \<and> list_all2 redacts (split_whitespace demo_log) outs"
    using redaction_removes_marked_words [of demo_log] by blast
qed

section \<open>What it does not guarantee\<close>

text \<open>
  The word after \<open>Bearer\<close> is a word of its own and is kept, and of two keys in one word only
  the first is removed.
\<close>

lemma redaction_leaks:
  "redact_sensitive ''Bearer abcdefgh12345678'' = ''<redacted> abcdefgh12345678''"
  "redact_sensitive ''sk-aaaaaaaa,sk-bbbbbbbb'' = ''<redacted>,sk-bbbbbbbb''"
  by code_simp+

end
