(* ===== verification/Secrets.thy ===== *)
theory Secrets
  imports Rust_Strings
begin

text \<open>
  \<open>crates/relay-core/src/secrets.rs\<close>: the provider credential, its validation, the
  \<open>Authorization\<close> value made of it, and the shared store with its one-shot write.

  The store is an \<open>Arc<RwLock<Option<ProviderCredential>>>\<close>: every operation takes the lock for
  its whole body, so concurrent use is a sequence of the operations below on one optional
  value. \<open>HeaderValue::from_str\<close> of the crate \<open>http\<close> is the parameter \<open>header_from_str\<close>, which
  says whether a string is accepted.
\<close>

section \<open>Credentials\<close>

record ProviderCredential =
  auth_scheme :: string
  token :: string

datatype credential_error =
    SchemeEmpty
  | SchemeNotToken
  | TokenIsEmpty
  | TokenHasSpace
  | InvalidAuthorization

definition default_auth_scheme :: string where
  "default_auth_scheme = ''Bearer''"

definition authorization_text :: "ProviderCredential \<Rightarrow> string" where
  "authorization_text c = auth_scheme c @ '' '' @ token c"

definition authorization_value :: "(string \<Rightarrow> bool) \<Rightarrow> ProviderCredential \<Rightarrow> unit + string" where
  "authorization_value header_from_str c =
     (let v = authorization_text c in if header_from_str v then Inr v else Inl ())"

definition control_or_space :: "char \<Rightarrow> bool" where
  "control_or_space b \<longleftrightarrow> is_ascii_control b \<or> is_ascii_whitespace b"

definition credential_validate ::
    "(string \<Rightarrow> bool) \<Rightarrow> ProviderCredential \<Rightarrow> credential_error + unit" where
  "credential_validate header_from_str c =
     (let scheme = trim (auth_scheme c)
      in if scheme = [] then Inl SchemeEmpty
         else if list_ex control_or_space scheme then Inl SchemeNotToken
         else if token c = [] then Inl TokenIsEmpty
         else if list_ex control_or_space (token c) then Inl TokenHasSpace
         else rbind (map_err (\<lambda>_. InvalidAuthorization) (authorization_value header_from_str c))
                (\<lambda>_. Inr ()))"

text \<open>\<open>Debug\<close> prints the scheme and never the token.\<close>

definition credential_debug :: "(string \<Rightarrow> string) \<Rightarrow> ProviderCredential \<Rightarrow> string" where
  "credential_debug quote c =
     ''ProviderCredential { auth_scheme: '' @ quote (auth_scheme c)
     @ '', token: '' @ quote ''<redacted>'' @ '' }''"

section \<open>The store\<close>

type_synonym credential_store = "ProviderCredential option"

definition store_new :: credential_store where
  "store_new = None"

definition store_get :: "credential_store \<Rightarrow> ProviderCredential option" where
  "store_get s = s"

definition store_is_loaded :: "credential_store \<Rightarrow> bool" where
  "store_is_loaded s \<longleftrightarrow> s \<noteq> None"

definition store_set :: "ProviderCredential \<Rightarrow> credential_store \<Rightarrow> credential_store" where
  "store_set c s = Some c"

definition store_set_once ::
    "ProviderCredential \<Rightarrow> credential_store \<Rightarrow> (ProviderCredential + unit) \<times> credential_store" where
  "store_set_once c s = (if s \<noteq> None then (Inl c, s) else (Inr (), Some c))"

section \<open>The interface of a one-shot cell\<close>

text \<open>
  What the admin endpoint and the data plane rely on: a write succeeds exactly on an empty
  cell and is then what every read returns; a refused write hands its value back and changes
  nothing.
\<close>

locale one_shot_cell =
  fixes new :: 's
    and get :: "'s \<Rightarrow> 'c option"
    and set_once :: "'c \<Rightarrow> 's \<Rightarrow> ('c + unit) \<times> 's"
  assumes get_new: "get new = None"
    and set_once_empty: "get s = None \<Longrightarrow> fst (set_once c s) = Inr () \<and> get (snd (set_once c s)) = Some c"
    and set_once_full: "get s = Some d \<Longrightarrow> set_once c s = (Inl c, s)"
begin

text \<open>Running a sequence of writes, collecting their results.\<close>

fun attempts :: "'c list \<Rightarrow> 's \<Rightarrow> ('c + unit) list \<times> 's" where
  "attempts [] s = ([], s)"
| "attempts (c # cs) s =
     (let (r, s') = set_once c s; (rs, s'') = attempts cs s' in (r # rs, s''))"

lemma attempts_full: "get s = Some d \<Longrightarrow> attempts cs s = (map Inl cs, s)"
  by (induction cs) (auto simp: set_once_full)

lemma attempts_new:
  "attempts (c # cs) s = (Inr () # map Inl cs, snd (set_once c s)) \<and>
   get (snd (attempts (c # cs) s)) = Some c" if "get s = None"
proof -
  obtain r s' where w: "set_once c s = (r, s')" by (cases "set_once c s")
  with set_once_empty [OF that, of c] have "r = Inr ()" "get s' = Some c" by auto
  with w attempts_full [of s' c cs] show ?thesis by simp
qed

end

interpretation credentials: one_shot_cell store_new store_get store_set_once
  by unfold_locales (auto simp: store_new_def store_get_def store_set_once_def)

section \<open>Lemmas\<close>

lemma authorization_value_eq_Inr [result_simps]:
  "authorization_value h c = Inr v \<longleftrightarrow> h (authorization_text c) \<and> v = authorization_text c"
  by (auto simp: authorization_value_def Let_def)

lemma credential_validate_iff:
  "credential_validate h c = Inr () \<longleftrightarrow>
     trim (auth_scheme c) \<noteq> [] \<and> \<not> list_ex control_or_space (trim (auth_scheme c)) \<and>
     token c \<noteq> [] \<and> \<not> list_ex control_or_space (token c) \<and> h (authorization_text c)"
  by (auto simp: credential_validate_def Let_def result_simps)

text \<open>
  The documented contract of \<open>HeaderValue::from_str\<close>: an accepted string holds visible ASCII
  characters, spaces and tabs only.
\<close>

definition header_value_law :: "(string \<Rightarrow> bool) \<Rightarrow> bool" where
  "header_value_law header_from_str \<longleftrightarrow>
     (\<forall>s. header_from_str s \<longrightarrow> (\<forall>b \<in> set s. b = CHR 0x09 \<or> in_range 32 126 b))"

section \<open>Properties\<close>

text \<open>
  C28: header splitting is impossible with a validated credential. A credential that passes
  \<open>validate\<close> has an \<open>Authorization\<close> value, which is its scheme, one space and its token, and
  this value has no carriage return, line feed or NUL; the token itself is not empty and has
  no white space or control byte at all. The scheme is checked after trimming but used as it
  is, so the line-break guarantee for its edges comes from the header constructor.
\<close>

theorem validated_credential_header_safe:
  assumes "header_value_law header_from_str"
    and "credential_validate header_from_str c = Inr ()"
  shows "authorization_value header_from_str c = Inr (authorization_text c) \<and>
         CR \<notin> set (authorization_text c) \<and> LF \<notin> set (authorization_text c) \<and>
         CHR 0x00 \<notin> set (authorization_text c) \<and>
         token c \<noteq> [] \<and> (\<forall>b \<in> set (token c). \<not> is_ascii_control b \<and> \<not> is_ascii_whitespace b)"
proof -
  let ?v = "authorization_text c"
  have ok: "header_from_str ?v" using assms(2) by (simp add: credential_validate_iff)
  with assms(1) have "\<forall>b \<in> set ?v. b = CHR 0x09 \<or> in_range 32 126 b"
    by (simp add: header_value_law_def)
  then have "CR \<notin> set ?v" "LF \<notin> set ?v" "CHR 0x00 \<notin> set ?v"
    by (auto simp: in_range_def dest!: bspec)
  with ok assms(2) show ?thesis
    by (auto simp: credential_validate_iff result_simps list_ex_iff control_or_space_def)
qed

theorem validated_credential_header_safe_witness:
  "authorization_value (list_all (in_range 32 126)) \<lparr>auth_scheme = ''Bearer'', token = ''sk-1''\<rparr>
     = Inr ''Bearer sk-1''"
proof -
  let ?h = "list_all (in_range 32 126)"
  let ?c = "\<lparr>auth_scheme = ''Bearer'', token = ''sk-1''\<rparr>"
  have "header_value_law ?h" by (auto simp: header_value_law_def list_all_iff)
  moreover have "credential_validate ?h ?c = Inr ()" by code_simp
  ultimately have "authorization_value ?h ?c = Inr (authorization_text ?c)"
    using validated_credential_header_safe by blast
  then show ?thesis by (simp add: authorization_text_def)
qed

end
