(* ===== verification/Json_View.thy ===== *)
theory Json_View
  imports Rust_Strings
begin

text \<open>
  The crate \<open>serde_json\<close> is not part of the repository: parsing is a parameter of the
  definitions that call it. What they get is \<open>serde_json::Value\<close>, of which the code uses
  \<open>get\<close>, \<open>as_str\<close>, \<open>as_bool\<close> and \<open>as_array\<close>.
\<close>

datatype json =
    JNull
  | JBool bool
  | JNumber int
  | JString string
  | JArray "json list"
  | JObject "(string \<times> json) list"

definition json_get :: "json \<Rightarrow> string \<Rightarrow> json option" where
  "json_get v k = (case v of JObject kvs \<Rightarrow> map_of kvs k | _ \<Rightarrow> None)"

definition json_as_str :: "json \<Rightarrow> string option" where
  "json_as_str v = (case v of JString s \<Rightarrow> Some s | _ \<Rightarrow> None)"

end
