(* ===== verification/Tls_Callbacks.thy ===== *)
theory Tls_Callbacks
  imports Prelude
begin

text \<open>
  The interface between \<open>rustls\<close> and the three certificate verifiers of the repository (the
  attested client, the pinned upstream client, the capturing auditor's client): the trait
  \<open>ServerCertVerifier\<close> as a record of callbacks, and what \<open>rustls\<close> documents of a full
  handshake. The signature check of \<open>rustls\<close> with the algorithms of its \<open>ring\<close> provider is a
  parameter.
\<close>

section \<open>Data\<close>

type_synonym cert = "byte list"

text \<open>The arguments of a verification besides the leaf certificate and the server name.\<close>

record handshake =
  hs_intermediates :: "cert list"
  hs_ocsp :: "byte list"
  hs_now :: u64

text \<open>The signature schemes the verifiers name; any other is known by its code only.\<close>

datatype SignatureScheme =
    ECDSA_NISTP256_SHA256
  | ECDSA_NISTP384_SHA384
  | ED25519
  | RSA_PSS_SHA256
  | RSA_PSS_SHA384
  | RSA_PSS_SHA512
  | RSA_PKCS1_SHA256
  | RSA_PKCS1_SHA384
  | RSA_PKCS1_SHA512
  | OtherScheme u16

record DigitallySignedStruct =
  dss_scheme :: SignatureScheme
  dss_signature :: "byte list"

type_synonym 's signature_check = "byte list \<Rightarrow> cert \<Rightarrow> DigitallySignedStruct \<Rightarrow> 's + unit"

text \<open>\<open>'c\<close> are the errors of the certificate check, \<open>'s\<close> those of the signature checks.\<close>

record ('c, 's) ServerCertVerifier =
  cb_verify_server_cert :: "cert \<Rightarrow> string \<Rightarrow> handshake \<Rightarrow> 'c + unit"
  cb_verify_tls12_signature :: "'s signature_check"
  cb_verify_tls13_signature :: "'s signature_check"
  cb_supported_verify_schemes :: "SignatureScheme list"

text \<open>
  \<open>rustls::crypto::verify_tls12_signature\<close> and \<open>verify_tls13_signature\<close> with
  \<open>ring::default_provider().signature_verification_algorithms\<close>.
\<close>

record 's ring =
  crypto_verify_tls12 :: "'s signature_check"
  crypto_verify_tls13 :: "'s signature_check"

section \<open>What a full handshake has checked\<close>

text \<open>
  Documented of \<open>rustls\<close>: a client completes a full handshake only when its verifier accepted
  the leaf certificate for the server name, and accepted under that certificate a signature
  over the handshake.
\<close>

definition handshake_checked :: "('c, 's) ServerCertVerifier \<Rightarrow> cert \<Rightarrow> string \<Rightarrow> bool" where
  "handshake_checked self leaf name \<longleftrightarrow>
     (\<exists>hs. cb_verify_server_cert self leaf name hs = Inr ()) \<and>
     (\<exists>message dss. cb_verify_tls12_signature self message leaf dss = Inr () \<or>
        cb_verify_tls13_signature self message leaf dss = Inr ())"

text \<open>The peer signed some handshake message with the key of the certificate.\<close>

definition proved_possession :: "'s ring \<Rightarrow> cert \<Rightarrow> bool" where
  "proved_possession ring leaf \<longleftrightarrow>
     (\<exists>message dss. crypto_verify_tls12 ring message leaf dss = Inr () \<or>
        crypto_verify_tls13 ring message leaf dss = Inr ())"

text \<open>
  The contract of a verifier that, whatever it does with certificates, leaves the signatures
  to \<open>ring\<close> and decides on the leaf certificate by a predicate of its own.
\<close>

locale ring_verifier =
  fixes ring :: "'s ring"
    and self :: "('c, 's) ServerCertVerifier"
    and accepts :: "cert \<Rightarrow> bool"
  assumes tls12_by_ring: "cb_verify_tls12_signature self message leaf dss = crypto_verify_tls12 ring message leaf dss"
    and tls13_by_ring: "cb_verify_tls13_signature self message leaf dss = crypto_verify_tls13 ring message leaf dss"
    and decides_leaf: "cb_verify_server_cert self leaf name hs = Inr () \<longleftrightarrow> accepts leaf"
begin

lemma checked_iff: "handshake_checked self leaf name \<longleftrightarrow> accepts leaf \<and> proved_possession ring leaf"
  by (simp add: handshake_checked_def proved_possession_def tls12_by_ring tls13_by_ring decides_leaf)

end

end
