(* ===== verification/Proxy.thy ===== *)
theory Proxy
  imports App_Error Secrets Json_View Tls_Callbacks
begin

text \<open>
  \<open>crates/relay-core/src/proxy.rs\<close> and \<open>router.rs\<close>: the data-plane handler, its header
  filters, the router, and the verifier that checks certificate pins during the handshake
  with the upstream.

  Parameters: \<open>proxy_env\<close> collects what the handler calls in \<open>url\<close>, \<open>http\<close> and \<open>serde_json\<close>;
  the HTTP client of \<open>reqwest\<close> is a function from the request to an error text or the response
  it ends with, which may be that of a redirect it followed; WebPKI validation, SHA-256 and
  \<open>hex::encode\<close> are arguments of the verifier. A \<open>HeaderMap\<close> is read through \<open>get\<close> only (a
  function) and written through \<open>insert\<close> only (a map update); header names are in lower case.
\<close>

section \<open>Data\<close>

record proxy_env =
  pe_url_parse :: url_parser
  pe_header_from_str :: "string \<Rightarrow> bool"
  pe_header_from_bytes :: "byte list \<Rightarrow> bool"
  pe_header_name :: "string \<Rightarrow> bool"
  pe_header_to_str :: "byte list \<Rightarrow> string option"
  pe_status_from_u16 :: "u16 \<Rightarrow> u16 option"
  pe_json :: "byte list \<Rightarrow> json option"

type_synonym header_get = "string \<Rightarrow> byte list option"

record upstream_request =
  req_url :: string
  req_headers :: "string \<rightharpoonup> byte list"
  req_body :: "byte list"

record upstream_response =
  resp_status :: u16
  resp_headers :: header_get
  resp_stream :: "string + byte list"

type_synonym http_send = "upstream_request \<Rightarrow> string + upstream_response"

record AppState =
  config :: RelayConfig
  http_client :: http_send
  provider_credentials :: credential_store
  require_provider_credential :: bool

definition h_auth :: string where
  "h_auth = ''authorization''"

definition h_ctype :: string where
  "h_ctype = ''content-type''"

definition FORWARDED_REQUEST_HEADERS :: "string list" where
  "FORWARDED_REQUEST_HEADERS =
     [''accept'', ''anthropic-version'', ''anthropic-beta'', h_auth, ''openai-beta'',
      ''x-stainless-arch'', ''x-stainless-lang'', ''x-stainless-os'',
      ''x-stainless-package-version'', ''x-stainless-runtime'', ''x-stainless-runtime-version'']"

definition FORWARDED_RESPONSE_HEADERS :: "string list" where
  "FORWARDED_RESPONSE_HEADERS =
     [h_ctype, ''openai-processing-ms'', ''openai-version'', ''request-id'',
      ''x-request-id'']"

definition json_type :: string where
  "json_type = ''application/json''"

definition event_stream :: string where
  "event_stream = ''text/event-stream''"

definition auth_failed_body :: string where
  "auth_failed_body =
     ''{\"error\":{\"message\":\"upstream provider authentication failed\",\"type\":\"relay_error\"}}''"

section \<open>The handler\<close>

definition extract_model_name :: "proxy_env \<Rightarrow> byte list \<Rightarrow> string option" where
  "extract_model_name env body =
     Option.bind (pe_json env body) (\<lambda>v.
     Option.bind (json_get v ''model'') json_as_str)"

definition filtered_response_headers :: "header_get \<Rightarrow> (string \<times> byte list) list" where
  "filtered_response_headers headers =
     List.map_filter (\<lambda>name. map_option (\<lambda>v. (name, v)) (headers name)) FORWARDED_RESPONSE_HEADERS"

definition forward_header ::
    "proxy_env \<Rightarrow> bool \<Rightarrow> header_get \<Rightarrow> string \<Rightarrow> (string \<rightharpoonup> byte list) \<Rightarrow> (string \<rightharpoonup> byte list)" where
  "forward_header env has_credential headers name m =
     (if name = h_auth \<and> has_credential then m
      else (case headers name of
              None \<Rightarrow> m
            | Some value \<Rightarrow>
                if pe_header_name env name then
                  (if pe_header_from_bytes env value then m(name \<mapsto> value) else m)
                else m))"

definition upstream_headers ::
    "proxy_env \<Rightarrow> credential_store \<Rightarrow> header_get \<Rightarrow> AppError + (string \<rightharpoonup> byte list)" where
  "upstream_headers env credential headers =
     (let m = fold (forward_header env (credential \<noteq> None) headers)
                FORWARDED_REQUEST_HEADERS Map.empty
      in rbind (case credential of
                  None \<Rightarrow> Inr m
                | Some c \<Rightarrow>
                    rbind (map_err (\<lambda>_. Internal InvalidInjectedCredential)
                             (authorization_value (pe_header_from_str env) c))
                      (\<lambda>value. Inr (m(h_auth \<mapsto> as_bytes value))))
           (\<lambda>m. Inr (m(h_ctype \<mapsto> as_bytes json_type))))"

text \<open>\<open>Response::builder()\<close>: the headers are appended in order and checked at the end.\<close>

definition builder_body ::
    "proxy_env \<Rightarrow> u16 \<Rightarrow> (string \<times> byte list) list \<Rightarrow> reply_body \<Rightarrow> AppError + reply" where
  "builder_body env status hs body =
     (if list_all (\<lambda>(n, v). pe_header_name env n \<and> pe_header_from_bytes env v) hs
      then Inr (BuiltReply status hs body)
      else Inl (Internal BuildResponseFailed))"

definition status_or :: "proxy_env \<Rightarrow> u16 \<Rightarrow> u16 \<Rightarrow> u16" where
  "status_or env fallback status =
     (case pe_status_from_u16 env status of None \<Rightarrow> fallback | Some s \<Rightarrow> s)"

definition response_content_type :: "proxy_env \<Rightarrow> upstream_response \<Rightarrow> string" where
  "response_content_type env resp =
     (case Option.bind (resp_headers resp h_ctype) (pe_header_to_str env) of
        None \<Rightarrow> json_type | Some s \<Rightarrow> s)"

definition relay_response ::
    "proxy_env \<Rightarrow> bool \<Rightarrow> upstream_response \<Rightarrow> AppError + reply" where
  "relay_response env using_injected_provider_credential resp =
     (let status = resp_status resp;
          content_type = response_content_type env resp;
          response_headers = filtered_response_headers (resp_headers resp);
          provider_auth_failed = (using_injected_provider_credential \<and> status \<in> {401, 403});
          is_streaming = contains content_type event_stream
      in if is_streaming then
           builder_body env (status_or env 200 status)
             ([(h_ctype, as_bytes event_stream), (''cache-control'', as_bytes ''no-cache'')]
              @ response_headers)
             (StreamBody (resp_stream resp))
         else
           rbind (map_err (\<lambda>e. Internal (ReadUpstreamBodyFailed e)) (resp_stream resp))
             (\<lambda>resp_body.
               let axum_status = status_or env 500 status
               in if provider_auth_failed then
                    builder_body env axum_status [(h_ctype, as_bytes json_type)]
                      (FullBody (as_bytes auth_failed_body))
                  else
                    builder_body env axum_status
                      ([(h_ctype, as_bytes (if pe_header_from_str env content_type
                                            then content_type else json_type))]
                       @ filter (\<lambda>(name, value). name \<noteq> h_ctype) response_headers)
                      (FullBody resp_body)))"

definition default_chat_path :: string where
  "default_chat_path = ''/v1/chat/completions''"

definition model_of :: "proxy_env \<Rightarrow> byte list \<Rightarrow> string" where
  "model_of env body = (case extract_model_name env body of None \<Rightarrow> [] | Some s \<Rightarrow> s)"

definition build_upstream_url :: "string \<Rightarrow> string option \<Rightarrow> string" where
  "build_upstream_url upstream_base path_override =
     trim_end_matches (\<lambda>c. c = CHR ''/'') upstream_base
     @ (case path_override of None \<Rightarrow> default_chat_path | Some p \<Rightarrow> p)"

text \<open>
  \<open>proxy_chat_completions\<close>: the request it hands to the HTTP client, if any, and what it
  returns. Requests the client adds by following redirects are not the handler's and are
  not in this value; \<open>contacted\<close> below describes them.
\<close>

definition proxy_chat_completions ::
    "proxy_env \<Rightarrow> AppState \<Rightarrow> header_get \<Rightarrow> byte list
       \<Rightarrow> upstream_request option \<times> (AppError + reply)" where
  "proxy_chat_completions env state headers body =
     (if unat (max_request_bytes (config state)) < length body
      then (None, Inl (PayloadTooLarge (max_request_bytes (config state))))
      else
        let (upstream_base, path_override) = resolve_upstream (config state) (model_of env body);
            upstream_url = build_upstream_url upstream_base path_override
        in case check_upstream_allowed (pe_url_parse env) (config state) upstream_base of
             Inl e \<Rightarrow> (None, Inl (Internal (UpstreamBlocked e)))
           | Inr _ \<Rightarrow>
               let provider_credential = store_get (provider_credentials state)
               in if require_provider_credential state \<and> provider_credential = None
                  then (None, Inl MissingProviderCredential)
                  else (case upstream_headers env provider_credential headers of
                          Inl e \<Rightarrow> (None, Inl e)
                        | Inr hs \<Rightarrow>
                            let req = \<lparr>req_url = upstream_url, req_headers = hs, req_body = body\<rparr>
                            in (Some req,
                                rbind (map_err from_reqwest_error (http_client state req))
                                  (relay_response env (provider_credential \<noteq> None)))))"

definition health :: string where
  "health = ''ok''"

definition body_limit :: "RelayConfig \<Rightarrow> u64" where
  "body_limit c = max_request_bytes c"

section \<open>The router\<close>

text \<open>
  The framework applies the body limit when it extracts the body for a handler, and answers
  unknown paths and methods by itself.
\<close>

datatype http_method = GET | HEAD | POST | OtherMethod

datatype routed =
    ChatReply "upstream_request option" reply
  | HealthReply string
  | BodyTooLarge
  | MethodNotAllowed
  | RouteNotFound

definition build_router ::
    "proxy_env \<Rightarrow> AppState \<Rightarrow> http_method \<Rightarrow> string \<Rightarrow> header_get \<Rightarrow> byte list \<Rightarrow> routed" where
  "build_router env state meth target headers body =
     (if target = default_chat_path then
        (if meth = POST then
           (if unat (body_limit (config state)) < length body then BodyTooLarge
            else (case proxy_chat_completions env state headers body of
                    (sent, r) \<Rightarrow>
                      ChatReply sent (case r of Inl e \<Rightarrow> into_response e | Inr a \<Rightarrow> a)))
         else MethodNotAllowed)
      else if target = ''/health'' then
        (if meth = GET \<or> meth = HEAD then HealthReply health else MethodNotAllowed)
      else RouteNotFound)"

section \<open>Certificate pins during the handshake\<close>

datatype 'e tls_error = WebPki 'e | PinMismatch string string

text \<open>\<open>WebPkiServerVerifier\<close> implements the same trait.\<close>

type_synonym 'e webpki = "('e, 'e) ServerCertVerifier"

record 'e PinnedServerCertVerifier =
  delegate :: "'e webpki"
  pins_by_host :: "(string, string list) btree"

definition leaf_sha256_pin ::
    "(byte list \<Rightarrow> byte list) \<Rightarrow> (byte list \<Rightarrow> string) \<Rightarrow> cert \<Rightarrow> string" where
  "leaf_sha256_pin sha256 hex_encode cert_der = sha256_tag @ hex_encode (sha256 cert_der)"

definition verify_server_cert ::
    "(byte list \<Rightarrow> byte list) \<Rightarrow> (byte list \<Rightarrow> string) \<Rightarrow> 'e PinnedServerCertVerifier
       \<Rightarrow> cert \<Rightarrow> string \<Rightarrow> handshake \<Rightarrow> 'e tls_error + unit" where
  "verify_server_cert sha256 hex_encode self end_entity server_name hs =
     rbind (map_err WebPki (cb_verify_server_cert (delegate self) end_entity server_name hs)) (\<lambda>_.
       let host = to_ascii_lowercase server_name
       in case bt_get (pins_by_host self) host of
            None \<Rightarrow> Inr ()
          | Some expected_pins \<Rightarrow>
              (let actual = leaf_sha256_pin sha256 hex_encode end_entity
               in if \<not> list_ex (\<lambda>pin. pin = actual) expected_pins
                  then Inl (PinMismatch host actual) else Inr ()))"

text \<open>Everything but the certificate check is passed on.\<close>

definition pinned_verify_tls12_signature :: "'e PinnedServerCertVerifier \<Rightarrow> 'e signature_check" where
  "pinned_verify_tls12_signature self message leaf dss = cb_verify_tls12_signature (delegate self) message leaf dss"

definition pinned_verify_tls13_signature :: "'e PinnedServerCertVerifier \<Rightarrow> 'e signature_check" where
  "pinned_verify_tls13_signature self message leaf dss = cb_verify_tls13_signature (delegate self) message leaf dss"

definition pinned_supported_verify_schemes :: "'e PinnedServerCertVerifier \<Rightarrow> SignatureScheme list" where
  "pinned_supported_verify_schemes self = cb_supported_verify_schemes (delegate self)"

definition pinned_callbacks ::
    "(byte list \<Rightarrow> byte list) \<Rightarrow> (byte list \<Rightarrow> string) \<Rightarrow> 'e PinnedServerCertVerifier
       \<Rightarrow> ('e tls_error, 'e) ServerCertVerifier" where
  "pinned_callbacks sha256 hex_encode self =
     \<lparr>cb_verify_server_cert = verify_server_cert sha256 hex_encode self,
      cb_verify_tls12_signature = pinned_verify_tls12_signature self,
      cb_verify_tls13_signature = pinned_verify_tls13_signature self,
      cb_supported_verify_schemes = pinned_supported_verify_schemes self\<rparr>"

datatype 'e build_error = PinConfig config_error | WebPkiBuilder 'e | ClientBuilder 'e

text \<open>
  The client that is built: its timeout and, when pins are configured, the pinning verifier.
  Without pins the library's own certificate validation applies (\<open>None\<close>).
\<close>

record 'e upstream_client =
  timeout_secs :: u64
  pinned_tls :: "'e PinnedServerCertVerifier option"

definition pinned_rustls_client_config ::
    "'e + 'e webpki \<Rightarrow> (string, string list) btree \<Rightarrow> 'e build_error + 'e PinnedServerCertVerifier" where
  "pinned_rustls_client_config webpki_build pins =
     rbind (map_err WebPkiBuilder webpki_build) (\<lambda>d.
     Inr \<lparr>delegate = d, pins_by_host = pins\<rparr>)"

definition build_upstream_http_client ::
    "url_parser \<Rightarrow> 'e + 'e webpki \<Rightarrow> ('e upstream_client \<Rightarrow> 'e option) \<Rightarrow> RelayConfig
       \<Rightarrow> 'e build_error + 'e upstream_client" where
  "build_upstream_http_client url_parse webpki_build build_fails c =
     rbind (map_err PinConfig (upstream_tls_pin_hosts url_parse c)) (\<lambda>pins.
     rbind (if pins \<noteq> bt_empty
            then rbind (pinned_rustls_client_config webpki_build pins) (\<lambda>v. Inr (Some v))
            else Inr None) (\<lambda>tls.
     let client = \<lparr>timeout_secs = upstream_timeout_secs c, pinned_tls = tls\<rparr>
     in case build_fails client of Some e \<Rightarrow> Inl (ClientBuilder e) | None \<Rightarrow> Inr client))"

section \<open>Lemmas on the handler\<close>

lemma fold_forward_header:
  "fold (forward_header env has headers) names m n =
     (if n \<in> set names \<and> \<not> (n = h_auth \<and> has) \<and> pe_header_name env n
         \<and> (\<exists>v. headers n = Some v \<and> pe_header_from_bytes env v)
      then headers n else m n)"
  by (induction names arbitrary: m) (auto simp: forward_header_def split: option.splits)

text \<open>The headers of an upstream request, header by header.\<close>

definition client_header :: "proxy_env \<Rightarrow> header_get \<Rightarrow> string \<Rightarrow> byte list option" where
  "client_header env headers n =
     (if n \<in> set FORWARDED_REQUEST_HEADERS \<and> pe_header_name env n
      then (case headers n of
              None \<Rightarrow> None | Some v \<Rightarrow> if pe_header_from_bytes env v then Some v else None)
      else None)"

definition expected_header ::
    "proxy_env \<Rightarrow> credential_store \<Rightarrow> header_get \<Rightarrow> string \<Rightarrow> byte list option" where
  "expected_header env credential headers n =
     (if n = h_ctype then Some (as_bytes json_type)
      else if n = h_auth \<and> credential \<noteq> None
      then map_option (\<lambda>c. as_bytes (authorization_text c)) credential
      else client_header env headers n)"

lemma h_auth_neq_h_ctype [simp]: "h_auth \<noteq> h_ctype" "h_ctype \<noteq> h_auth"
  by (simp_all add: h_auth_def h_ctype_def)

lemma fold_forward_client_header:
  "fold (forward_header env has headers) FORWARDED_REQUEST_HEADERS Map.empty n =
     (if n = h_auth \<and> has then None else client_header env headers n)"
  by (simp add: fold_forward_header client_header_def split: option.splits)

lemma upstream_headers_spec:
  assumes "upstream_headers env credential headers = Inr hs"
  shows "hs = expected_header env credential headers"
proof (cases credential)
  case None
  with assms show ?thesis
    by (auto simp: upstream_headers_def Let_def expected_header_def fold_forward_client_header)
next
  case (Some c)
  with assms show ?thesis
    by (auto simp: upstream_headers_def Let_def result_simps expected_header_def
        fold_forward_client_header)
qed

lemma upstream_headers_ok_iff:
  "(\<exists>hs. upstream_headers env credential headers = Inr hs) \<longleftrightarrow>
     (\<forall>c. credential = Some c \<longrightarrow> pe_header_from_str env (authorization_text c))"
  unfolding upstream_headers_def Let_def
  by (cases credential) (auto simp: result_simps)

abbreviation base_for :: "proxy_env \<Rightarrow> AppState \<Rightarrow> byte list \<Rightarrow> string \<times> string option" where
  "base_for env state body \<equiv> resolve_upstream (config state) (model_of env body)"

text \<open>When a request leaves the relay, and which.\<close>

lemma proxy_sends_iff:
  "fst (proxy_chat_completions env state headers body) = Some req \<longleftrightarrow>
     length body \<le> unat (max_request_bytes (config state)) \<and>
     check_upstream_allowed (pe_url_parse env) (config state) (fst (base_for env state body)) = Inr () \<and>
     (require_provider_credential state \<longrightarrow> provider_credentials state \<noteq> None) \<and>
     (\<exists>hs. upstream_headers env (provider_credentials state) headers = Inr hs \<and>
        req = \<lparr>req_url = build_upstream_url (fst (base_for env state body)) (snd (base_for env state body)),
               req_headers = hs, req_body = body\<rparr>)"
proof -
  obtain b p where bp: "base_for env state body = (b, p)" by (cases "base_for env state body")
  then show ?thesis
    unfolding proxy_chat_completions_def store_get_def Let_def
    by (auto split: sum.splits)
qed

lemma proxy_result:
  assumes "fst (proxy_chat_completions env state headers body) = Some req"
  shows "snd (proxy_chat_completions env state headers body) =
     rbind (map_err from_reqwest_error (http_client state req))
       (relay_response env (provider_credentials state \<noteq> None))"
  using assms unfolding proxy_chat_completions_def store_get_def Let_def
  by (auto split: sum.splits prod.splits if_splits)

section \<open>Properties of the handler\<close>

text \<open>
  C3: nothing leaves the relay unless every check passed. The handler sends a request
  upstream exactly when the body is within the limit, the resolved base URL is allowed, a
  credential is loaded if one is required, and the loaded credential makes a valid header;
  the request is then the one for the resolved route, with the client's body verbatim.
\<close>

theorem proxy_forwards_iff_permitted:
  "((\<exists>req. fst (proxy_chat_completions env state headers body) = Some req) \<longleftrightarrow>
      length body \<le> unat (max_request_bytes (config state)) \<and>
      check_upstream_allowed (pe_url_parse env) (config state)
        (fst (resolve_upstream (config state) (model_of env body))) = Inr () \<and>
      (require_provider_credential state \<longrightarrow> provider_credentials state \<noteq> None) \<and>
      (\<forall>c. provider_credentials state = Some c \<longrightarrow> pe_header_from_str env (authorization_text c))) \<and>
   (\<forall>req. fst (proxy_chat_completions env state headers body) = Some req \<longrightarrow>
      req_body req = body \<and>
      req_url req = (case resolve_upstream (config state) (model_of env body) of
                       (b, p) \<Rightarrow> build_upstream_url b p))"
  unfolding proxy_sends_iff upstream_headers_ok_iff [symmetric, of _ _ headers]
  by (auto split: prod.splits)

text \<open>A state with one credential and an upstream that answers every request, for the examples.\<close>

definition demo_env :: proxy_env where
  "demo_env =
     \<lparr>pe_url_parse = demo_parse, pe_header_from_str = list_all (in_range 32 126),
      pe_header_from_bytes = list_all (\<lambda>b. 32 \<le> b \<and> b \<noteq> 127), pe_header_name = (\<lambda>n. n \<noteq> []),
      pe_header_to_str = (\<lambda>v. Some (string_of_bytes v)), pe_status_from_u16 = Some,
      pe_json = (\<lambda>b. None)\<rparr>"

definition demo_credential :: ProviderCredential where
  "demo_credential = \<lparr>auth_scheme = ''Bearer'', token = ''sk-1''\<rparr>"

definition answer :: "u16 \<Rightarrow> string \<Rightarrow> byte list \<Rightarrow> upstream_response" where
  "answer status ctype body = \<lparr>resp_status = status, resp_headers = [h_ctype \<mapsto> as_bytes ctype],
     resp_stream = Inr body\<rparr>"

definition demo_state :: "upstream_response \<Rightarrow> AppState" where
  "demo_state resp = \<lparr>config = listed_config, http_client = (\<lambda>req. Inr resp),
     provider_credentials = Some demo_credential, require_provider_credential = True\<rparr>"

abbreviation no_headers :: header_get where "no_headers \<equiv> Map.empty"

lemma demo_allowed:
  "check_upstream_allowed (pe_url_parse demo_env) (config (demo_state resp))
     (fst (resolve_upstream (config (demo_state resp)) (model_of demo_env body))) = Inr ()"
proof -
  have "check_upstream_allowed demo_parse listed_config (default_upstream listed_config) = Inr ()"
    by code_simp
  moreover have "resolve_upstream listed_config s = (default_upstream listed_config, None)" for s
    by (simp add: resolve_upstream_def listed_config_def RelayConfig_default_def bt_empty_def)
  ultimately show ?thesis by (simp add: demo_env_def demo_state_def)
qed

lemma demo_header_ok: "pe_header_from_str demo_env (authorization_text demo_credential)"
  by code_simp

lemma demo_limit: "unat (max_request_bytes listed_config) = 1048576"
  by (simp add: listed_config_def RelayConfig_default_def default_max_request_bytes_def)

theorem proxy_forwards_iff_permitted_witness:
  "\<exists>req. fst (proxy_chat_completions demo_env (demo_state (answer 200 json_type [])) no_headers [1])
           = Some req \<and> req_body req = [1]"
proof -
  let ?s = "demo_state (answer 200 json_type [])"
  have "\<exists>req. fst (proxy_chat_completions demo_env ?s no_headers [1]) = Some req"
    unfolding proxy_forwards_iff_permitted [THEN conjunct1]
    using demo_allowed [of "answer 200 json_type []" "[1]"] demo_header_ok demo_limit
    by (simp add: demo_state_def)
  then show ?thesis
    using proxy_forwards_iff_permitted [of demo_env ?s no_headers "[1]"] by blast
qed

text \<open>
  C9: the headers of a forwarded request are exactly the expected ones. \<open>content-type\<close> is
  always JSON; with a loaded credential \<open>authorization\<close> is that credential's value whatever
  the client sent; every other header is on the allowlist and has the client's own value; no
  header off the allowlist is ever forwarded.
\<close>

theorem forwarded_headers_exact:
  assumes "fst (proxy_chat_completions env state headers body) = Some req"
  shows "req_headers req = expected_header env (provider_credentials state) headers \<and>
         dom (req_headers req) \<subseteq> insert h_ctype (set FORWARDED_REQUEST_HEADERS) \<and>
         (\<forall>c. provider_credentials state = Some c \<longrightarrow>
              req_headers req h_auth = Some (as_bytes (authorization_text c)))"
proof -
  have h: "req_headers req = expected_header env (provider_credentials state) headers"
    using assms by (auto simp: proxy_sends_iff dest: upstream_headers_spec)
  moreover have "dom (req_headers req) \<subseteq> insert h_ctype (set FORWARDED_REQUEST_HEADERS)"
  proof -
    have "h_auth \<in> set FORWARDED_REQUEST_HEADERS" by (simp add: FORWARDED_REQUEST_HEADERS_def)
    then show ?thesis
      unfolding h by (auto simp: expected_header_def client_header_def split: option.splits if_splits)
  qed
  moreover have "req_headers req h_auth = Some (as_bytes (authorization_text c))"
    if "provider_credentials state = Some c" for c
    unfolding h using that by (simp add: expected_header_def)
  ultimately show ?thesis by blast
qed

theorem forwarded_headers_exact_witness:
  "\<exists>req. fst (proxy_chat_completions demo_env (demo_state (answer 200 json_type []))
                [h_auth \<mapsto> as_bytes ''Bearer client-key''] [1]) = Some req \<and>
         req_headers req h_auth = Some (as_bytes ''Bearer sk-1'')"
proof -
  let ?s = "demo_state (answer 200 json_type [])"
  let ?h = "[h_auth \<mapsto> as_bytes ''Bearer client-key'']"
  have "\<exists>hs. upstream_headers demo_env (Some demo_credential) ?h = Inr hs"
    using demo_header_ok by (simp add: upstream_headers_ok_iff)
  then obtain req where req: "fst (proxy_chat_completions demo_env ?s ?h [1]) = Some req"
    unfolding proxy_sends_iff
    using demo_allowed [of "answer 200 json_type []" "[1]"] demo_limit
    by (auto simp: demo_state_def)
  have "provider_credentials ?s = Some demo_credential" by (simp add: demo_state_def)
  with forwarded_headers_exact [OF req]
  have "req_headers req h_auth = Some (as_bytes (authorization_text demo_credential))" by blast
  moreover have "authorization_text demo_credential = ''Bearer sk-1''" by code_simp
  ultimately show ?thesis using req by metis
qed

text \<open>
  C11: the data plane fails closed. On a relay with a validated configuration that requires a
  credential and has none yet, no request of any method, path, headers or body makes anything
  leave the relay; a chat request within the size limit is answered with status 503.
\<close>

theorem data_plane_fails_closed:
  assumes "validate (pe_url_parse env) (config state) = Inr ()"
    and "require_provider_credential state" and "provider_credentials state = None"
  shows "(\<forall>meth target req r. build_router env state meth target headers body \<noteq> ChatReply (Some req) r) \<and>
         build_router env state POST default_chat_path headers body =
           (if length body \<le> unat (max_request_bytes (config state))
            then ChatReply None (TextReply 503 no_credential_body) else BodyTooLarge)"
proof -
  have none: "fst (proxy_chat_completions env state headers body) \<noteq> Some req" for req
    using assms(2,3) by (simp add: proxy_sends_iff)
  have "check_upstream_allowed (pe_url_parse env) (config state) (fst (base_for env state body)) = Inr ()"
    by (rule validated_base_allowed [OF assms(1)])
  then have "length body \<le> unat (max_request_bytes (config state)) \<Longrightarrow>
      proxy_chat_completions env state headers body = (None, Inl MissingProviderCredential)"
    using assms(2,3) unfolding proxy_chat_completions_def Let_def store_get_def
    by (cases "base_for env state body") simp
  then have chat: "build_router env state POST default_chat_path headers body =
      (if length body \<le> unat (max_request_bytes (config state))
       then ChatReply None (TextReply 503 no_credential_body) else BodyTooLarge)"
    by (auto simp: build_router_def body_limit_def into_response_def)
  have "build_router env state meth target headers body \<noteq> ChatReply (Some req) r" for meth target req r
    using none [of req] unfolding build_router_def by (auto split: prod.splits)
  with chat show ?thesis by blast
qed

theorem data_plane_fails_closed_witness:
  "build_router demo_env (demo_state (answer 200 json_type []) \<lparr>provider_credentials := None\<rparr>)
     POST default_chat_path no_headers [1] = ChatReply None (TextReply 503 no_credential_body)"
proof -
  let ?s = "demo_state (answer 200 json_type []) \<lparr>provider_credentials := None\<rparr>"
  have "validate demo_parse listed_config = Inr ()" by code_simp
  then have "validate (pe_url_parse demo_env) (config ?s) = Inr ()"
    by (simp add: demo_env_def demo_state_def)
  moreover have "require_provider_credential ?s" "provider_credentials ?s = None"
    by (simp_all add: demo_state_def)
  ultimately have "build_router demo_env ?s POST default_chat_path no_headers [1] =
      (if length [1 :: byte] \<le> unat (max_request_bytes (config ?s))
       then ChatReply None (TextReply 503 no_credential_body) else BodyTooLarge)"
    by (rule data_plane_fails_closed [THEN conjunct2])
  then show ?thesis using demo_limit by (simp add: demo_state_def)
qed

section \<open>Responses\<close>

lemma builder_body_eq_Inr [result_simps]:
  "builder_body env s hs b = Inr r \<longleftrightarrow>
     list_all (\<lambda>(n, v). pe_header_name env n \<and> pe_header_from_bytes env v) hs \<and> r = BuiltReply s hs b"
  by (auto simp: builder_body_def)

text \<open>A header the client may see: one the relay sets itself or one of the upstream's on the list.\<close>

definition visible_header :: "header_get \<Rightarrow> string \<times> byte list \<Rightarrow> bool" where
  "visible_header hs nv \<longleftrightarrow>
     fst nv = h_ctype \<or> fst nv = ''cache-control'' \<or>
     fst nv \<in> set FORWARDED_RESPONSE_HEADERS \<and> hs (fst nv) = Some (snd nv)"

lemma filtered_headers_visible:
  "nv \<in> set (filtered_response_headers hs) \<Longrightarrow> visible_header hs nv"
  unfolding filtered_response_headers_def List.map_filter_def visible_header_def by auto

definition streaming :: "proxy_env \<Rightarrow> upstream_response \<Rightarrow> bool" where
  "streaming env resp \<longleftrightarrow> contains (response_content_type env resp) event_stream"

lemma relay_response_streaming:
  "streaming env resp \<Longrightarrow> relay_response env c resp = Inr r \<Longrightarrow>
     \<exists>s. r = BuiltReply s ([(h_ctype, as_bytes event_stream), (''cache-control'', as_bytes ''no-cache'')]
             @ filtered_response_headers (resp_headers resp)) (StreamBody (resp_stream resp))"
  by (auto simp: relay_response_def streaming_def Let_def result_simps)

lemma relay_response_masked:
  "\<not> streaming env resp \<Longrightarrow> resp_status resp \<in> {401, 403} \<Longrightarrow> relay_response env True resp = Inr r \<Longrightarrow>
     r = BuiltReply (status_or env 500 (resp_status resp)) [(h_ctype, as_bytes json_type)]
           (FullBody (as_bytes auth_failed_body))"
  by (auto simp: relay_response_def streaming_def Let_def result_simps)

lemma relay_response_full:
  "\<not> streaming env resp \<Longrightarrow> \<not> (c \<and> resp_status resp \<in> {401, 403}) \<Longrightarrow>
   relay_response env c resp = Inr r \<Longrightarrow>
     \<exists>b t. resp_stream resp = Inr b \<and>
       r = BuiltReply (status_or env 500 (resp_status resp))
             ((h_ctype, t) # filter (\<lambda>(n, v). n \<noteq> h_ctype) (filtered_response_headers (resp_headers resp)))
             (FullBody b)"
  by (auto simp: relay_response_def streaming_def Let_def result_simps)

lemma relay_response_filtered:
  assumes "relay_response env c resp = Inr r"
  shows "\<exists>s hs b. r = BuiltReply s hs b \<and> (\<forall>nv \<in> set hs. visible_header (resp_headers resp) nv) \<and>
           (if \<not> streaming env resp \<and> c \<and> resp_status resp \<in> {401, 403}
            then hs = [(h_ctype, as_bytes json_type)] \<and> b = FullBody (as_bytes auth_failed_body)
            else if streaming env resp then b = StreamBody (resp_stream resp)
            else \<exists>bs. resp_stream resp = Inr bs \<and> b = FullBody bs)"
proof -
  note visible = filtered_headers_visible [of _ "resp_headers resp"]
  consider "streaming env resp"
    | "\<not> streaming env resp" c "resp_status resp \<in> {401, 403}"
    | "\<not> streaming env resp" "\<not> (c \<and> resp_status resp \<in> {401, 403})" by blast
  then show ?thesis
  proof cases
    case 1
    let ?hs = "[(h_ctype, as_bytes event_stream), (''cache-control'', as_bytes ''no-cache'')]
        @ filtered_response_headers (resp_headers resp)"
    have "\<forall>nv \<in> set ?hs. visible_header (resp_headers resp) nv"
      using visible by (auto simp: visible_header_def)
    moreover obtain s where "r = BuiltReply s ?hs (StreamBody (resp_stream resp))"
      using relay_response_streaming [OF 1 assms] by blast
    ultimately show ?thesis
      using 1
      by (intro exI [of _ s] exI [of _ ?hs] exI [of _ "StreamBody (resp_stream resp)"]) simp
  next
    case 2
    have "visible_header (resp_headers resp) (h_ctype, as_bytes json_type)"
      by (simp add: visible_header_def)
    with 2 relay_response_masked [of env resp r] assms show ?thesis by simp
  next
    case 3
    let ?hs = "\<lambda>t. (h_ctype, t) # filter (\<lambda>(n, v). n \<noteq> h_ctype)
        (filtered_response_headers (resp_headers resp))"
    have "\<forall>nv \<in> set (?hs t). visible_header (resp_headers resp) nv" for t
      using visible by (auto simp: visible_header_def)
    moreover obtain b t where "resp_stream resp = Inr b"
        "r = BuiltReply (status_or env 500 (resp_status resp)) (?hs t) (FullBody b)"
      using relay_response_full [OF 3 assms] by blast
    ultimately show ?thesis
      using 3
      by (intro exI [of _ "status_or env 500 (resp_status resp)"]
          exI [of _ "?hs t"] exI [of _ "FullBody b"]) auto
  qed
qed

text \<open>
  C14: what a client learns from the upstream. A successful reply passes on only headers of
  the response allowlist (with the upstream's own values) beside \<open>content-type\<close> and
  \<open>cache-control\<close>. Its body is the upstream's, byte for byte, except that a 401 or 403
  answer to the injected credential that is not an event stream is replaced by a fixed
  message with no upstream header at all.
\<close>

theorem relayed_response_filtered:
  assumes "fst (proxy_chat_completions env state headers body) = Some req"
    and "snd (proxy_chat_completions env state headers body) = Inr r"
  shows "\<exists>resp s hs b. http_client state req = Inr resp \<and> r = BuiltReply s hs b \<and>
           (\<forall>nv \<in> set hs. visible_header (resp_headers resp) nv) \<and>
           (if \<not> streaming env resp \<and> provider_credentials state \<noteq> None \<and> resp_status resp \<in> {401, 403}
            then hs = [(h_ctype, as_bytes json_type)] \<and> b = FullBody (as_bytes auth_failed_body)
            else if streaming env resp then b = StreamBody (resp_stream resp)
            else \<exists>bs. resp_stream resp = Inr bs \<and> b = FullBody bs)"
proof -
  have "rbind (map_err from_reqwest_error (http_client state req))
      (relay_response env (provider_credentials state \<noteq> None)) = Inr r"
    using assms(2) unfolding proxy_result [OF assms(1)] .
  then obtain resp where resp: "http_client state req = Inr resp"
      "relay_response env (provider_credentials state \<noteq> None) resp = Inr r"
    by (auto simp: result_simps)
  from relay_response_filtered [OF resp(2)] resp(1) show ?thesis by blast
qed

theorem relayed_response_filtered_witness:
  "\<exists>s. snd (proxy_chat_completions demo_env (demo_state (answer 401 json_type [7])) no_headers [1])
     = Inr (BuiltReply s [(h_ctype, as_bytes json_type)] (FullBody (as_bytes auth_failed_body)))"
proof -
  let ?r = "answer 401 json_type [7]"
  let ?p = "proxy_chat_completions demo_env (demo_state ?r) no_headers [1]"
  have "\<exists>hs. upstream_headers demo_env (Some demo_credential) no_headers = Inr hs"
    using demo_header_ok by (simp add: upstream_headers_ok_iff)
  then obtain req where req: "fst ?p = Some req"
    unfolding proxy_sends_iff using demo_allowed [of ?r "[1]"] demo_limit
    by (auto simp: demo_state_def)
  have send: "http_client (demo_state ?r) req = Inr ?r" by (simp add: demo_state_def)
  have no_stream: "\<not> streaming demo_env ?r" by code_simp
  have "\<not> isl (relay_response demo_env True ?r)" by code_simp
  then have "\<exists>r. relay_response demo_env True ?r = Inr r" by (metis isl_def sum.exhaust)
  then obtain r where r: "snd ?p = Inr r"
    using proxy_result [OF req] send by (auto simp: demo_state_def)
  from relayed_response_filtered [OF req r] send no_stream
  obtain s hs b where "r = BuiltReply s hs b"
      "hs = [(h_ctype, as_bytes json_type)] \<and> b = FullBody (as_bytes auth_failed_body)"
    by (fastforce simp: answer_def demo_state_def)
  with r show ?thesis by blast
qed

text \<open>
  An event stream is not masked: the body of a 401 answer to the injected credential reaches
  the client when it is labelled as one, and the reply then has two \<open>content-type\<close> headers.
\<close>

lemma streaming_auth_failure_not_masked:
  "relay_response demo_env True (answer 401 event_stream [7]) =
     Inr (BuiltReply 401
       [(h_ctype, as_bytes event_stream), (''cache-control'', as_bytes ''no-cache''),
        (h_ctype, as_bytes event_stream)] (StreamBody (Inr [7])))"
  by code_simp

section \<open>Where a request goes\<close>

text \<open>
  The configured base URLs are spelled \<open>http(s)://authority\<close>, and path overrides start with a
  slash.
\<close>

definition plain_bases :: "RelayConfig \<Rightarrow> bool" where
  "plain_bases c \<longleftrightarrow> plain_url (default_upstream c) \<and> (\<forall>r \<in> set (routes c). plain_url (base_url (snd r)))"

definition slash_paths :: "RelayConfig \<Rightarrow> bool" where
  "slash_paths c \<longleftrightarrow>
     (\<forall>r \<in> set (routes c). case path (snd r) of None \<Rightarrow> True | Some p \<Rightarrow> prefix ''/'' p)"

lemma same_authority_same_origin:
  "url_parse a = Some u \<Longrightarrow> url_parse b = Some v \<Longrightarrow> same_authority u v \<Longrightarrow>
     url_origin url_parse b = url_origin url_parse a"
  by (auto simp: url_origin_def is_local_http_url_def same_authority_def split: option.splits)

lemma resolved_base_plain: "plain_bases c \<Longrightarrow> plain_url (fst (resolve_upstream c model))"
  using resolve_upstream_longest [of c model]
  by (fastforce simp: plain_bases_def split: option.splits)

text \<open>A URL with the origin of a listed one.\<close>

definition on_listed_origin :: "url_parser \<Rightarrow> string list \<Rightarrow> string \<Rightarrow> bool" where
  "on_listed_origin url_parse listed raw \<longleftrightarrow>
     (\<exists>a \<in> set listed. \<exists>orig. url_origin url_parse a = Some orig \<and> url_origin url_parse raw = Some orig)"

text \<open>
  \<open>reqwest\<close> follows redirects unless it is told not to, and the client here is not. \<open>redirects v w\<close>
  says that the server behind \<open>v\<close> answers with a redirect to \<open>w\<close>; a request for \<open>u\<close> can make the
  client contact every URL that redirects lead to.
\<close>

inductive contacted :: "(string \<Rightarrow> string \<Rightarrow> bool) \<Rightarrow> string \<Rightarrow> string \<Rightarrow> bool" for redirects u where
  sent: "contacted redirects u u"
| redirected: "contacted redirects u v \<Longrightarrow> redirects v w \<Longrightarrow> contacted redirects u w"

text \<open>A request that starts inside a set leaves it only through a redirect from inside.\<close>

lemma contacted_leaves:
  assumes "contacted redirects u w" and "P u"
  shows "P w \<or> (\<exists>x y. contacted redirects u x \<and> P x \<and> redirects x y \<and> \<not> P y)"
  using assms by (induction rule: contacted.induct) (blast intro: contacted.intros)+

lemma resolved_path_slash:
  assumes "slash_paths c" and "resolve_upstream c model = (b, p)"
  shows "\<exists>q. build_upstream_url b p = trim_end_matches (\<lambda>c. c = CHR ''/'') b @ CHR ''/'' # q"
proof -
  have "prefix ''/'' default_chat_path" by (simp add: default_chat_path_def)
  moreover have "p = None \<or> (\<exists>s. p = Some s \<and> prefix ''/'' s)"
    using resolve_upstream_longest [of c model] assms
    by (fastforce simp: slash_paths_def split: option.splits)
  ultimately have "prefix ''/'' (case p of None \<Rightarrow> default_chat_path | Some p \<Rightarrow> p)" by auto
  then show ?thesis unfolding build_upstream_url_def by (auto simp: prefix_def)
qed

lemma sent_url_origin:
  assumes "authority_law (pe_url_parse env)" and "plain_bases (config state)" and "slash_paths (config state)"
    and "allowed_upstreams (config state) \<noteq> []"
    and "fst (proxy_chat_completions env state headers body) = Some req"
    and "pe_url_parse env (req_url req) = Some v"
  shows "on_listed_origin (pe_url_parse env) (allowed_upstreams (config state)) (req_url req)"
proof -
  obtain b p where bp: "base_for env state body = (b, p)" by (cases "base_for env state body")
  from assms(5) have allowed: "check_upstream_allowed (pe_url_parse env) (config state) b = Inr ()"
    and url: "req_url req = build_upstream_url b p"
    unfolding proxy_sends_iff bp by auto
  from allowed assms(4) obtain orig a where orig: "url_origin (pe_url_parse env) b = Some orig"
      "a \<in> set (allowed_upstreams (config state))" "url_origin (pe_url_parse env) a = Some orig"
    by (auto simp: check_upstream_allowed_iff)
  from orig(1) obtain u where u: "pe_url_parse env b = Some u" by (auto simp: url_origin_eq_Some)
  from resolved_path_slash [OF assms(3) bp] obtain q where
    q: "req_url req = trim_end_matches (\<lambda>c. c = CHR ''/'') b @ CHR ''/'' # q" using url by auto
  have "plain_url b" using resolved_base_plain [OF assms(2)] bp by (metis fst_conv)
  from path_keeps_authority [OF assms(1) this u assms(6) [unfolded q]]
  have "url_origin (pe_url_parse env) (req_url req) = url_origin (pe_url_parse env) b"
    using same_authority_same_origin u assms(6) by blast
  with orig show ?thesis unfolding on_listed_origin_def by auto
qed

text \<open>
  C12: where a request goes. With a non-empty allowlist, base URLs spelled \<open>http(s)://authority\<close>
  and path overrides that start with a slash, the URL the handler hands to the HTTP client, if
  it parses at all, has the origin of an allowlist entry: the allowlist check of the base URL
  alone is enough, because trimming slashes and appending such a path keeps the authority. The
  client follows redirects, so it may contact other URLs after that one; but it leaves the
  allowed origins only where a server on an allowed origin redirects it away.
\<close>

theorem forwarded_url_on_allowed_origin:
  assumes "authority_law (pe_url_parse env)" and "plain_bases (config state)" and "slash_paths (config state)"
    and "allowed_upstreams (config state) \<noteq> []"
    and "fst (proxy_chat_completions env state headers body) = Some req"
    and "pe_url_parse env (req_url req) = Some v"
  shows "on_listed_origin (pe_url_parse env) (allowed_upstreams (config state)) (req_url req) \<and>
    (\<forall>redirects w. contacted redirects (req_url req) w \<longrightarrow>
       on_listed_origin (pe_url_parse env) (allowed_upstreams (config state)) w \<or>
       (\<exists>x y. contacted redirects (req_url req) x \<and> redirects x y \<and>
          on_listed_origin (pe_url_parse env) (allowed_upstreams (config state)) x \<and>
          \<not> on_listed_origin (pe_url_parse env) (allowed_upstreams (config state)) y))"
  using contacted_leaves [of _ "req_url req" _ "on_listed_origin (pe_url_parse env) (allowed_upstreams (config state))"]
    sent_url_origin [OF assms] by blast

lemma authority_law_demo: "authority_law demo_parse"
  by (auto simp: authority_law_def demo_parse_def same_authority_def split: if_splits)

theorem forwarded_url_on_allowed_origin_witness:
  "\<exists>req. fst (proxy_chat_completions demo_env (demo_state (answer 200 json_type [])) no_headers [1])
           = Some req \<and> url_origin demo_parse (req_url req) = Some ''https://api.openai.com:443''"
proof -
  let ?s = "demo_state (answer 200 json_type [])"
  have env: "pe_url_parse demo_env = demo_parse" by (simp add: demo_env_def)
  have "\<exists>hs. upstream_headers demo_env (Some demo_credential) no_headers = Inr hs"
    using demo_header_ok by (simp add: upstream_headers_ok_iff)
  then obtain req where req: "fst (proxy_chat_completions demo_env ?s no_headers [1]) = Some req"
    unfolding proxy_sends_iff using demo_allowed [of "answer 200 json_type []" "[1]"] demo_limit
    by (auto simp: demo_state_def)
  have "base_for demo_env ?s [1] = (''https://api.openai.com'', None)" by code_simp
  moreover have "build_upstream_url ''https://api.openai.com'' None
      = ''https://api.openai.com/v1/chat/completions''" by code_simp
  ultimately have "req_url req = ''https://api.openai.com/v1/chat/completions''"
    using req by (auto simp: proxy_sends_iff)
  then have parses: "pe_url_parse demo_env (req_url req) = Some demo_url"
    by (simp add: env demo_parse_def)
  have "plain_url ''https://api.openai.com''" by code_simp
  then have "plain_bases (config ?s)" "slash_paths (config ?s)"
      "allowed_upstreams (config ?s) = [''https://api.openai.com:443'']"
    by (simp_all add: demo_state_def slash_paths_def plain_bases_def listed_config_def RelayConfig_default_def
        bt_empty_def)
  moreover have "url_origin demo_parse ''https://api.openai.com:443'' = Some ''https://api.openai.com:443''"
    by code_simp
  ultimately show ?thesis
    using forwarded_url_on_allowed_origin [OF _ _ _ _ req parses] req authority_law_demo
    by (auto simp: env on_listed_origin_def)
qed

text \<open>
  Without that slash the check of the base URL says nothing about the final host.
\<close>

lemma path_override_changes_host:
  "build_upstream_url ''https://api.openai.com'' (Some ''.evil.com/x'')
     = ''https://api.openai.com.evil.com/x''"
  by code_simp

text \<open>
  And nothing keeps an allowed upstream from sending the client elsewhere: one redirect is
  enough to make it contact a URL off the allowlist.
\<close>

lemma redirect_leaves_allowlist:
  "\<exists>redirects w. contacted redirects ''https://api.openai.com/v1/chat/completions'' w \<and>
     \<not> on_listed_origin demo_parse [''https://api.openai.com''] w"
proof -
  let ?u = "''https://api.openai.com/v1/chat/completions''"
  let ?r = "\<lambda>v w. v = ?u \<and> w = ''https://evil.example/x''"
  have "contacted ?r ?u ''https://evil.example/x''"
    by (rule contacted.redirected [OF contacted.sent]) simp
  moreover have "url_origin demo_parse ''https://evil.example/x'' = None" by code_simp
  ultimately show ?thesis unfolding on_listed_origin_def by force
qed

section \<open>Pins are enforced\<close>

lemma handshake_checked_pinned:
  "handshake_checked (pinned_callbacks sha256 hex_encode v) leaf name \<longleftrightarrow>
     (\<exists>hs. verify_server_cert sha256 hex_encode v leaf name hs = Inr ()) \<and>
     (\<exists>message dss. cb_verify_tls12_signature (delegate v) message leaf dss = Inr () \<or>
        cb_verify_tls13_signature (delegate v) message leaf dss = Inr ())"
  by (simp add: handshake_checked_def pinned_callbacks_def pinned_verify_tls12_signature_def
      pinned_verify_tls13_signature_def)

text \<open>
  C18: a client built from a configuration with pins enforces them. For a server name some
  pinned origin has as its host, the certificate check succeeds exactly when WebPKI validation
  does and the SHA-256 pin of the leaf certificate is one of the pins of the origins with that
  host; for any other name WebPKI validation alone decides. The same holds of the whole
  handshake: pinning adds this condition to what WebPKI checks of certificate and signature,
  and takes nothing away.
\<close>

theorem upstream_client_enforces_pins:
  assumes "origin_reparse url_parse"
    and "normalize_upstream_tls_pins url_parse (upstream_tls_leaf_sha256 c) = Inr m"
    and "build_upstream_http_client url_parse webpki_build build_fails c = Inr client"
    and "host_pins url_parse m h \<noteq> {}"
  shows "timeout_secs client = upstream_timeout_secs c \<and>
         (\<exists>v. pinned_tls client = Some v \<and> webpki_build = Inr (delegate v) \<and>
            (\<forall>leaf name hs. verify_server_cert sha256 hex_encode v leaf name hs = Inr () \<longleftrightarrow>
               cb_verify_server_cert (delegate v) leaf name hs = Inr () \<and>
               (host_pins url_parse m (to_ascii_lowercase name) = {} \<or>
                leaf_sha256_pin sha256 hex_encode leaf \<in> host_pins url_parse m (to_ascii_lowercase name))) \<and>
            (\<forall>leaf name. handshake_checked (pinned_callbacks sha256 hex_encode v) leaf name \<longleftrightarrow>
               handshake_checked (delegate v) leaf name \<and>
               (host_pins url_parse m (to_ascii_lowercase name) = {} \<or>
                leaf_sha256_pin sha256 hex_encode leaf \<in> host_pins url_parse m (to_ascii_lowercase name))))"
proof -
  obtain hosts where hosts: "upstream_tls_pin_hosts url_parse c = Inr hosts"
      "\<And>h. pin_set hosts h = host_pins url_parse m h"
    using pin_hosts_union [OF assms(1,2)] by blast
  have listed: "bt_get hosts k \<noteq> Some []" for k
    using pin_hosts_not_empty [OF assms(2) hosts(1)] by blast
  from hosts assms(4) have "hosts \<noteq> bt_empty" by (auto simp: pin_set_def bt_get_def bt_empty_def)
  with assms(3) hosts(1) obtain d where v: "webpki_build = Inr d"
      "client = \<lparr>timeout_secs = upstream_timeout_secs c,
                 pinned_tls = Some \<lparr>delegate = d, pins_by_host = hosts\<rparr>\<rparr>"
    by (auto simp: build_upstream_http_client_def pinned_rustls_client_config_def result_simps
        Let_def split: option.splits)
  let ?v = "\<lparr>delegate = d, pins_by_host = hosts\<rparr>"
  have cert: "verify_server_cert sha256 hex_encode ?v leaf name hs = Inr ()
      \<longleftrightarrow> cb_verify_server_cert d leaf name hs = Inr () \<and>
          (host_pins url_parse m (to_ascii_lowercase name) = {} \<or>
           leaf_sha256_pin sha256 hex_encode leaf \<in> host_pins url_parse m (to_ascii_lowercase name))"
    for leaf name hs
    using hosts(2) [symmetric, of "to_ascii_lowercase name"] listed [of "to_ascii_lowercase name"]
    by (auto simp: verify_server_cert_def result_simps Let_def pin_set_def list_ex_iff
        split: option.splits)
  then have "handshake_checked (pinned_callbacks sha256 hex_encode ?v) leaf name \<longleftrightarrow>
      handshake_checked d leaf name \<and>
      (host_pins url_parse m (to_ascii_lowercase name) = {} \<or>
       leaf_sha256_pin sha256 hex_encode leaf \<in> host_pins url_parse m (to_ascii_lowercase name))" for leaf name
    by (auto simp: handshake_checked_pinned handshake_checked_def [of d])
  with v cert show ?thesis by simp
qed

definition accepting_webpki :: "unit webpki" where
  "accepting_webpki = \<lparr>cb_verify_server_cert = (\<lambda>leaf name hs. Inr ()),
     cb_verify_tls12_signature = (\<lambda>message leaf dss. Inr ()),
     cb_verify_tls13_signature = (\<lambda>message leaf dss. Inr ()), cb_supported_verify_schemes = []\<rparr>"

theorem upstream_client_enforces_pins_witness:
  "\<exists>client v. build_upstream_http_client demo_parse (Inr accepting_webpki) (\<lambda>_. None) listed_config
       = (Inr client :: unit build_error + unit upstream_client) \<and> pinned_tls client = Some v \<and>
     verify_server_cert (\<lambda>bs. bs) (\<lambda>bs. []) v [] ''API.openai.com''
       \<lparr>hs_intermediates = [], hs_ocsp = [], hs_now = 0\<rparr> \<noteq> Inr ()"
proof -
  let ?m = "[(''https://api.openai.com:443'', [sha256_tag @ replicate 64 CHR ''a''])]"
  have m: "normalize_upstream_tls_pins demo_parse (upstream_tls_leaf_sha256 listed_config) = Inr ?m"
    by code_simp
  obtain hosts where hosts: "upstream_tls_pin_hosts demo_parse listed_config = Inr hosts"
    using pin_hosts_union [OF origin_reparse_demo m] by blast
  then obtain client where client: "build_upstream_http_client demo_parse (Inr accepting_webpki) (\<lambda>_. None)
      listed_config = (Inr client :: unit build_error + unit upstream_client)"
    by (cases "hosts = bt_empty")
      (auto simp: build_upstream_http_client_def pinned_rustls_client_config_def Let_def)
  have "origin_host demo_parse ''https://api.openai.com:443'' = Some ''api.openai.com''"
    by code_simp
  then have h: "host_pins demo_parse ?m ''api.openai.com'' = {sha256_tag @ replicate 64 CHR ''a''}"
    by (simp add: host_pins_def)
  then have "host_pins demo_parse ?m ''api.openai.com'' \<noteq> {}" by simp
  from upstream_client_enforces_pins [OF origin_reparse_demo m client this, of "\<lambda>bs. bs" "\<lambda>bs. []"]
  obtain v where v: "pinned_tls client = Some v"
      "verify_server_cert (\<lambda>bs. bs) (\<lambda>bs. []) v leaf name hs = Inr () \<longrightarrow>
         host_pins demo_parse ?m (to_ascii_lowercase name) = {} \<or>
         leaf_sha256_pin (\<lambda>bs. bs) (\<lambda>bs. []) leaf \<in> host_pins demo_parse ?m (to_ascii_lowercase name)"
    for leaf name hs by blast
  have "to_ascii_lowercase ''API.openai.com'' = ''api.openai.com''" by code_simp
  moreover have "leaf_sha256_pin (\<lambda>bs. bs) (\<lambda>bs. []) [] \<noteq> sha256_tag @ replicate 64 CHR ''a''"
    by (simp add: leaf_sha256_pin_def)
  ultimately have "verify_server_cert (\<lambda>bs. bs) (\<lambda>bs. []) v [] ''API.openai.com'' hs \<noteq> Inr ()" for hs
    using v(2) [of "[]" "''API.openai.com''" hs] h by (metis insert_not_empty singletonD)
  with client v(1) show ?thesis by blast
qed

end
