(* ===== verification/Admin.thy ===== *)
theory Admin
  imports Secrets
begin

text \<open>
  The private admin endpoint of \<open>server/src/main.rs\<close>: one-shot injection of the provider
  credential, its health report and router, and the interleaving of admin requests with the
  reads of the data plane as a step relation on the shared store.

  Decoding the JSON body is the framework's extractor, a parameter \<open>decode\<close>: the credential, or
  the status of its own rejection.
\<close>

section \<open>Handlers\<close>

definition inject_provider_credential ::
    "(string \<Rightarrow> bool) \<Rightarrow> ProviderCredential \<Rightarrow> credential_store \<Rightarrow> u16 \<times> credential_store" where
  "inject_provider_credential header_from_str credential store =
     (case credential_validate header_from_str credential of
        Inl e \<Rightarrow> (400, store)
      | Inr _ \<Rightarrow>
          (case store_set_once credential store of
             (Inr _, store') \<Rightarrow> (204, store')
           | (Inl _, store') \<Rightarrow> (409, store')))"

record AdminHealth =
  health_ok :: bool
  provider_credential_loaded :: bool

definition admin_health :: "credential_store \<Rightarrow> AdminHealth" where
  "admin_health store = \<lparr>health_ok = True, provider_credential_loaded = store_is_loaded store\<rparr>"

datatype admin_method = AdminGet | AdminHead | AdminPost | AdminOther

datatype admin_reply =
    InjectReply u16
  | HealthReport AdminHealth
  | ExtractorRejection u16
  | AdminMethodNotAllowed
  | AdminNotFound

record admin_env =
  ae_header_from_str :: "string \<Rightarrow> bool"
  ae_decode :: "byte list \<Rightarrow> u16 + ProviderCredential"

definition build_admin_router ::
    "admin_env \<Rightarrow> admin_method \<Rightarrow> string \<Rightarrow> byte list \<Rightarrow> credential_store
       \<Rightarrow> admin_reply \<times> credential_store" where
  "build_admin_router env meth target body store =
     (if target = ''/admin/health'' then
        (if meth = AdminGet \<or> meth = AdminHead then (HealthReport (admin_health store), store)
         else (AdminMethodNotAllowed, store))
      else if target = ''/admin/provider-credential'' then
        (if meth = AdminPost then
           (case ae_decode env body of
              Inl status \<Rightarrow> (ExtractorRejection status, store)
            | Inr credential \<Rightarrow>
                (case inject_provider_credential (ae_header_from_str env) credential store of
                   (status, store') \<Rightarrow> (InjectReply status, store')))
         else (AdminMethodNotAllowed, store))
      else (AdminNotFound, store))"

section \<open>Interleavings\<close>

text \<open>
  The two users of the store: admin requests, and data-plane requests reading the credential.
  A run lists the events with what each observed.
\<close>

datatype store_event =
    AdminRequest admin_method string "byte list" admin_reply
  | DataPlaneRead "ProviderCredential option"

inductive store_step ::
    "admin_env \<Rightarrow> credential_store \<Rightarrow> store_event \<Rightarrow> credential_store \<Rightarrow> bool" for env where
  admin: "build_admin_router env meth target body s = (r, s') \<Longrightarrow>
          store_step env s (AdminRequest meth target body r) s'"
| read: "store_step env s (DataPlaneRead (store_get s)) s"

inductive store_run ::
    "admin_env \<Rightarrow> credential_store \<Rightarrow> store_event list \<Rightarrow> credential_store \<Rightarrow> bool" for env where
  start: "store_run env s [] s"
| step: "store_run env s tr t \<Longrightarrow> store_step env t e u \<Longrightarrow> store_run env s (tr @ [e]) u"

inductive_cases store_stepE: "store_step env s e t"

text \<open>What an event may observe before and after the credential \<open>c\<close> is in place.\<close>

definition accepts :: "admin_env \<Rightarrow> ProviderCredential \<Rightarrow> store_event \<Rightarrow> bool" where
  "accepts env c e \<longleftrightarrow>
     (case e of
        AdminRequest meth target body r \<Rightarrow>
          meth = AdminPost \<and> target = ''/admin/provider-credential'' \<and> ae_decode env body = Inr c \<and>
          credential_validate (ae_header_from_str env) c = Inr () \<and> r = InjectReply 204
      | DataPlaneRead _ \<Rightarrow> False)"

definition before_event :: "store_event \<Rightarrow> bool" where
  "before_event e \<longleftrightarrow>
     (case e of
        AdminRequest meth target body r \<Rightarrow>
          r \<noteq> InjectReply 204 \<and> r \<noteq> InjectReply 409 \<and>
          (\<forall>h. r = HealthReport h \<longrightarrow> \<not> provider_credential_loaded h)
      | DataPlaneRead x \<Rightarrow> x = None)"

definition after_event :: "ProviderCredential \<Rightarrow> store_event \<Rightarrow> bool" where
  "after_event c e \<longleftrightarrow>
     (case e of
        AdminRequest meth target body r \<Rightarrow>
          r \<noteq> InjectReply 204 \<and> (\<forall>h. r = HealthReport h \<longrightarrow> provider_credential_loaded h)
      | DataPlaneRead x \<Rightarrow> x = Some c)"

section \<open>Lemmas\<close>

lemma inject_full:
  "store_get s = Some c \<Longrightarrow>
   inject_provider_credential h d s =
     ((if credential_validate h d = Inr () then 409 else 400), s)"
  using credentials.set_once_full [of s c d]
  by (auto simp: inject_provider_credential_def split: sum.splits)

lemma inject_empty:
  "store_get s = None \<Longrightarrow>
   inject_provider_credential h d s =
     (if credential_validate h d = Inr () then (204, Some d) else (400, s))"
  by (auto simp: inject_provider_credential_def store_get_def store_set_once_def split: sum.splits)

lemma store_step_full:
  assumes "store_step env (Some c) e t"
  shows "t = Some c \<and> after_event c e"
  using assms
  by (elim store_stepE)
    (auto simp: build_admin_router_def after_event_def admin_health_def store_is_loaded_def
      store_get_def inject_full [of "Some c" c] split: if_splits sum.splits)

lemma store_step_empty:
  assumes "store_step env None e t"
  shows "(t = None \<and> before_event e) \<or> (\<exists>c. t = Some c \<and> accepts env c e)"
  using assms
  by (elim store_stepE)
    (auto simp: build_admin_router_def before_event_def accepts_def admin_health_def
      store_is_loaded_def store_get_def inject_empty [of None] split: if_splits sum.splits)

section \<open>Properties\<close>

text \<open>
  C10: credential injection is one-shot under every interleaving. Whatever admin requests and
  data-plane reads interleave on a store that starts empty, either nothing was accepted and
  every read saw no credential, or the run splits at exactly one accepted injection of a
  validated credential \<open>c\<close>: before it no read and no health report sees a credential, after it
  every read sees \<open>c\<close>, no further injection is accepted, and the store holds \<open>c\<close> to the end.
\<close>

theorem credential_injection_one_shot:
  assumes "store_run env store_new tr s"
  shows "(s = None \<and> list_all before_event tr) \<or>
         (\<exists>c pre e post. tr = pre @ e # post \<and> s = Some c \<and> list_all before_event pre \<and>
            accepts env c e \<and> list_all (after_event c) post)"
  using assms
proof (induction s \<equiv> store_new tr s rule: store_run.induct)
  case start
  then show ?case by (simp add: store_new_def)
next
  case (step tr t e u)
  then consider "t = None" "list_all before_event tr"
    | c pre e' post where "tr = pre @ e' # post" "t = Some c" "list_all before_event pre"
        "accepts env c e'" "list_all (after_event c) post"
    by blast
  then show ?case
  proof cases
    case 1
    with step.hyps(3) have "(u = None \<and> before_event e) \<or> (\<exists>c. u = Some c \<and> accepts env c e)"
      using store_step_empty by blast
    then show ?thesis
    proof (elim disjE exE)
      assume "u = None \<and> before_event e"
      with 1 show ?thesis by simp
    next
      fix c assume "u = Some c \<and> accepts env c e"
      with 1 have "tr @ [e] = tr @ e # [] \<and> u = Some c \<and> list_all before_event tr \<and>
          accepts env c e \<and> list_all (after_event c) []" by simp
      then show ?thesis by blast
    qed
  next
    case 2
    with step.hyps(3) have "u = Some c \<and> after_event c e" using store_step_full by blast
    with 2 have "tr @ [e] = pre @ e' # (post @ [e]) \<and> u = Some c \<and> list_all before_event pre \<and>
        accepts env c e' \<and> list_all (after_event c) (post @ [e])" by simp
    then show ?thesis by blast
  qed
qed

definition demo_admin :: admin_env where
  "demo_admin = \<lparr>ae_header_from_str = list_all (in_range 32 126),
     ae_decode = (\<lambda>b. Inr \<lparr>auth_scheme = ''Bearer'', token = string_of_bytes b\<rparr>)\<rparr>"

theorem credential_injection_one_shot_witness:
  "\<exists>tr s. store_run demo_admin store_new tr s \<and>
     tr = [AdminRequest AdminPost ''/admin/provider-credential'' (as_bytes ''k1'') (InjectReply 204),
           AdminRequest AdminPost ''/admin/provider-credential'' (as_bytes ''k2'') (InjectReply 409),
           DataPlaneRead (Some \<lparr>auth_scheme = ''Bearer'', token = ''k1''\<rparr>)] \<and>
     (\<exists>c pre e post. tr = pre @ e # post \<and> s = Some c \<and> accepts demo_admin c e \<and>
        list_all (after_event c) post)"
proof -
  let ?c = "\<lparr>auth_scheme = ''Bearer'', token = ''k1''\<rparr>"
  let ?p = "''/admin/provider-credential''"
  have "build_admin_router demo_admin AdminPost ?p (as_bytes ''k1'') None = (InjectReply 204, Some ?c)"
    "build_admin_router demo_admin AdminPost ?p (as_bytes ''k2'') (Some ?c) = (InjectReply 409, Some ?c)"
    by code_simp+
  note steps = this [THEN store_step.admin]
  have "store_run demo_admin None ([] @ [AdminRequest AdminPost ?p (as_bytes ''k1'') (InjectReply 204)]) (Some ?c)"
    by (rule store_run.step [OF store_run.start steps(1)])
  note store_run.step [OF this steps(2)]
  note store_run.step [OF this store_step.read]
  then have run: "store_run demo_admin store_new
     [AdminRequest AdminPost ?p (as_bytes ''k1'') (InjectReply 204),
      AdminRequest AdminPost ?p (as_bytes ''k2'') (InjectReply 409), DataPlaneRead (Some ?c)] (Some ?c)"
    by (simp only: append.simps store_new_def store_get_def)
  from credential_injection_one_shot [OF run] run show ?thesis by blast
qed

end
