(* ===== verification/Attest_Types.thy ===== *)
theory Attest_Types
  imports Rust_Strings
begin

text \<open>
  \<open>crates/relay-attest\<close>: \<open>types.rs\<close> (evidence and errors), \<open>traits.rs\<close> (the traits \<open>Attester\<close>
  and \<open>Verifier\<close>, as locales) and \<open>quote.rs\<close> (evidence inside an X.509 certificate).

  Certificates are made by \<open>rcgen\<close> and read by \<open>x509-parser\<close>, which are parameters; a parsed
  certificate is the record of the parts the code looks at. Error messages are kept up to
  the first value they interpolate.
\<close>

section \<open>Types\<close>

datatype TeeType = Tdx | SevSnp | GcpConfidentialSpace | Mock

record Evidence =
  tee_type :: TeeType
  evidence_data :: "byte list"

datatype AttestError =
    GenerationFailed string
  | VerificationFailed string
  | MeasurementMismatch "byte list" "byte list"
  | ImageDigestMismatch string string
  | ReportDataMismatch
  | UnsupportedTeeType TeeType
  | X509Error string
  | OtherError string

type_synonym measurement = "byte list option"

text \<open>The two errors the backends raise most.\<close>

definition vfail :: "string \<Rightarrow> AttestError" where
  "vfail msg = VerificationFailed msg"

definition gfail :: "string \<Rightarrow> AttestError" where
  "gfail msg = GenerationFailed msg"

section \<open>The traits\<close>

text \<open>
  A verifier returns the 64 bytes of REPORTDATA of evidence of a type it supports. Pinning a
  measurement only restricts what it accepts.
\<close>

locale verifier =
  fixes verify :: "Evidence \<Rightarrow> measurement \<Rightarrow> AttestError + byte list"
    and supports :: "TeeType \<Rightarrow> bool"
  assumes verify_length: "verify e m = Inr rd \<Longrightarrow> length rd = 64"
    and verify_supports: "verify e m = Inr rd \<Longrightarrow> supports (tee_type e)"
    and verify_unpinned: "verify e (Some x) = Inr rd \<Longrightarrow> verify e None = Inr rd"
begin

lemma verify_halves:
  "verify e m = Inr rd \<Longrightarrow> rd = take 48 rd @ drop 48 rd \<and> length (take 48 rd) = 48 \<and> length (drop 48 rd) = 16"
  using verify_length [of e m rd] by simp

lemma verify_deterministic_reportdata:
  "verify e (Some x) = Inr rd \<Longrightarrow> verify e (Some y) = Inr rd' \<Longrightarrow> rd = rd'"
  using verify_unpinned [of e x rd] verify_unpinned [of e y rd'] by simp

end

text \<open>
  An attester and the verifier of its evidence: evidence over 64 bytes of user data has the
  attester's type and, under the pins in \<open>pin_ok\<close>, verifies to those bytes. For Confidential
  Space the pin is the expected nonce, that is the user data itself.
\<close>

locale attestation = verifier +
  fixes attest :: "byte list \<Rightarrow> AttestError + Evidence"
    and pin_ok :: "byte list \<Rightarrow> measurement \<Rightarrow> bool"
  assumes attest_verify:
    "attest ud = Inr e \<Longrightarrow> length ud = 64 \<Longrightarrow> pin_ok ud m \<Longrightarrow> verify e m = Inr ud"
    and pin_ok_None: "pin_ok ud None"
    and pin_ok_nonce:
      "attest ud = Inr e \<Longrightarrow> tee_type e = GcpConfidentialSpace \<Longrightarrow> pin_ok ud (Some ud)"
begin

lemma attest_supports: "attest ud = Inr e \<Longrightarrow> length ud = 64 \<Longrightarrow> supports (tee_type e)"
  using attest_verify pin_ok_None verify_supports by blast

lemma attest_binds_user_data:
  "attest ud = Inr e \<Longrightarrow> attest ud' = Inr e \<Longrightarrow> length ud = 64 \<Longrightarrow> length ud' = 64 \<Longrightarrow> ud = ud'"
  using attest_verify [of ud e None] attest_verify [of ud' e None] pin_ok_None by simp

end

text \<open>
  What the security of a client rests on: whenever evidence of the attester verifies, it is
  to the data it was made for. The attester may fail, panic, or wait without end, and the
  verifier may refuse; acceptance of every piece of honest evidence is not part of this
  contract.
\<close>

locale evidence_source = verifier +
  fixes attest :: "byte list \<Rightarrow> (AttestError + Evidence) run option"
  assumes attested_data:
    "attest ud = Some (Returned (Inr e)) \<Longrightarrow> length ud = 64 \<Longrightarrow> verify e m = Inr rd \<Longrightarrow> rd = ud"
begin

lemma evidence_determines_data:
  "attest ud = Some (Returned (Inr e)) \<Longrightarrow> attest ud' = Some (Returned (Inr e)) \<Longrightarrow>
     length ud = 64 \<Longrightarrow> length ud' = 64 \<Longrightarrow> verify e m = Inr rd \<Longrightarrow> ud = ud'"
  using attested_data by metis

end

text \<open>A backend that always accepts its own evidence is such a source.\<close>

sublocale attestation \<subseteq> source: evidence_source verify supports "\<lambda>ud. Some (Returned (attest ud))"
proof unfold_locales
  fix ud e m rd
  assume "Some (Returned (attest ud)) = Some (Returned (Inr e))" "length ud = 64" "verify e m = Inr rd"
  then show "rd = ud"
    using attest_verify [of ud e None] pin_ok_None [of ud] verify_unpinned [of e "the m" rd] by (cases m) auto
qed

section \<open>Evidence in a certificate\<close>

definition OID_EVIDENCE_BLOB :: "nat list" where
  "OID_EVIDENCE_BLOB = [1, 2, 840, 113741, 1337, 6]"

definition OID_TEE_TYPE :: "nat list" where
  "OID_TEE_TYPE = [1, 2, 840, 113741, 1337, 7]"

definition OID_EVIDENCE_BLOB_STR :: string where
  "OID_EVIDENCE_BLOB_STR = ''1.2.840.113741.1337.6''"

definition OID_TEE_TYPE_STR :: string where
  "OID_TEE_TYPE_STR = ''1.2.840.113741.1337.7''"

definition tee_type_to_byte :: "TeeType \<Rightarrow> byte" where
  "tee_type_to_byte t = (case t of Mock \<Rightarrow> 0 | Tdx \<Rightarrow> 1 | SevSnp \<Rightarrow> 2 | GcpConfidentialSpace \<Rightarrow> 3)"

definition byte_to_tee_type :: "byte \<Rightarrow> AttestError + TeeType" where
  "byte_to_tee_type b =
     (if b = 0 then Inr Mock
      else if b = 1 then Inr Tdx
      else if b = 2 then Inr SevSnp
      else if b = 3 then Inr GcpConfidentialSpace
      else Inl (X509Error ''unknown TEE type byte: ''))"

record CertificateParams =
  subject_alt_names :: "string list"
  distinguished_name :: "(string \<times> string) list"
  custom_extensions :: "(nat list \<times> byte list) list"

definition cert_params_with_evidence :: "Evidence \<Rightarrow> CertificateParams" where
  "cert_params_with_evidence evidence =
     \<lparr>subject_alt_names = [''trusted-relay''],
      distinguished_name = [(''CommonName'', ''trusted-relay''), (''OrganizationName'', ''trusted-relay'')],
      custom_extensions = [(OID_EVIDENCE_BLOB, evidence_data evidence),
                           (OID_TEE_TYPE, [tee_type_to_byte (tee_type evidence)])]\<rparr>"

text \<open>What the code reads of a parsed certificate: dotted OIDs with values, and the SPKI.\<close>

record x509_view =
  x509_extensions :: "(string \<times> byte list) list"
  x509_spki :: "byte list"

type_synonym x509_parser = "byte list \<Rightarrow> x509_view option"

text \<open>\<open>rcgen\<close>: key pairs \<open>'k\<close> with their public key in SPKI form, and self-signing.\<close>

record 'k rcgen =
  rc_generate :: "string + 'k"
  rc_public_key_der :: "'k \<Rightarrow> byte list"
  rc_serialize_der :: "'k \<Rightarrow> byte list"
  rc_self_signed :: "CertificateParams \<Rightarrow> 'k \<Rightarrow> string + byte list"

definition generate_attested_cert :: "'k rcgen \<Rightarrow> Evidence \<Rightarrow> AttestError + byte list \<times> 'k" where
  "generate_attested_cert rc evidence =
     rbind (map_err (\<lambda>e. X509Error (''keygen failed: '' @ e)) (rc_generate rc)) (\<lambda>key_pair.
     rbind (map_err (\<lambda>e. X509Error (''self-sign failed: '' @ e))
              (rc_self_signed rc (cert_params_with_evidence evidence) key_pair)) (\<lambda>cert.
     Inr (cert, key_pair)))"

definition scan_extension ::
    "byte list option \<times> TeeType option \<Rightarrow> string \<times> byte list
       \<Rightarrow> AttestError + byte list option \<times> TeeType option" where
  "scan_extension acc ext =
     (case acc of (evidence_blob, tt) \<Rightarrow> case ext of (oid_str, value) \<Rightarrow>
        if oid_str = OID_EVIDENCE_BLOB_STR then Inr (Some value, tt)
        else if oid_str = OID_TEE_TYPE_STR then
          (case value of
             [] \<Rightarrow> Inl (X509Error ''TEE type extension is empty'')
           | b # _ \<Rightarrow> rbind (byte_to_tee_type b) (\<lambda>t. Inr (evidence_blob, Some t)))
        else Inr (evidence_blob, tt))"

definition extract_evidence_from_cert :: "x509_parser \<Rightarrow> byte list \<Rightarrow> AttestError + Evidence" where
  "extract_evidence_from_cert x509_parse cert_der =
     rbind (ok_or (X509Error ''failed to parse cert: '') (x509_parse cert_der)) (\<lambda>cert.
     rbind (fold_result scan_extension (None, None) (x509_extensions cert)) (\<lambda>(blob, tt).
     rbind (ok_or (X509Error ''missing attestation evidence extension'') blob) (\<lambda>d.
     rbind (ok_or (X509Error ''missing TEE type extension'') tt) (\<lambda>t.
     Inr \<lparr>tee_type = t, evidence_data = d\<rparr>))))"

definition extract_spki_from_cert :: "x509_parser \<Rightarrow> byte list \<Rightarrow> AttestError + byte list" where
  "extract_spki_from_cert x509_parse cert_der =
     rbind (ok_or (X509Error ''failed to parse cert: '') (x509_parse cert_der)) (\<lambda>cert.
     Inr (x509_spki cert))"

section \<open>Round trip of the certificate\<close>

definition dotted :: "nat list \<Rightarrow> string" where
  "dotted arcs = join ''.'' (map decimal arcs)"

text \<open>
  What the code relies on between \<open>rcgen\<close> and \<open>x509-parser\<close>: a self-signed certificate parses;
  its SPKI is the key pair's public key; and among its extensions, those with an OID of the
  custom ones are the custom extensions, in order (the library adds others of its own).
\<close>

definition cert_round_trip :: "x509_parser \<Rightarrow> 'k rcgen \<Rightarrow> bool" where
  "cert_round_trip x509_parse rc \<longleftrightarrow>
     (\<forall>params kp der. rc_self_signed rc params kp = Inr der \<longrightarrow>
        (\<exists>x. x509_parse der = Some x \<and> x509_spki x = rc_public_key_der rc kp \<and>
           filter (\<lambda>(oid, v). oid \<in> dotted ` fst ` set (custom_extensions params)) (x509_extensions x)
             = map (\<lambda>(arcs, v). (dotted arcs, v)) (custom_extensions params)))"

lemma dotted_oids [simp]:
  "dotted OID_EVIDENCE_BLOB = OID_EVIDENCE_BLOB_STR" "dotted OID_TEE_TYPE = OID_TEE_TYPE_STR"
  by (simp_all add: dotted_def OID_EVIDENCE_BLOB_def OID_TEE_TYPE_def OID_EVIDENCE_BLOB_STR_def
      OID_TEE_TYPE_STR_def decimal.simps digit_char_numerals)

lemma oids_differ [simp]:
  "OID_EVIDENCE_BLOB_STR \<noteq> OID_TEE_TYPE_STR" "OID_TEE_TYPE_STR \<noteq> OID_EVIDENCE_BLOB_STR"
  by (simp_all add: OID_EVIDENCE_BLOB_STR_def OID_TEE_TYPE_STR_def)

lemma byte_to_tee_type_to_byte [simp]: "byte_to_tee_type (tee_type_to_byte t) = Inr t"
  by (cases t) (simp_all add: byte_to_tee_type_def tee_type_to_byte_def)

lemma byte_to_tee_type_eq_Inr: "byte_to_tee_type b = Inr t \<longleftrightarrow> b = tee_type_to_byte t"
  by (cases t) (auto simp: byte_to_tee_type_def tee_type_to_byte_def split: if_splits)

text \<open>Extensions with other OIDs do not matter.\<close>

lemma scan_ignores_others:
  "fold_result scan_extension acc exts =
     fold_result scan_extension acc
       (filter (\<lambda>(oid, v). oid \<in> {OID_EVIDENCE_BLOB_STR, OID_TEE_TYPE_STR}) exts)"
proof (induction exts arbitrary: acc)
  case Nil
  then show ?case by simp
next
  case (Cons e exts)
  have "scan_extension acc e = Inr acc" if "fst e \<notin> {OID_EVIDENCE_BLOB_STR, OID_TEE_TYPE_STR}"
    using that by (cases acc; cases e) (simp add: scan_extension_def)
  with Cons show ?case by (cases e) (auto simp: rbind_def split: sum.splits)
qed

lemma self_signed_evidence:
  assumes "cert_round_trip x509_parse rc"
    and "rc_self_signed rc (cert_params_with_evidence e) kp = Inr der"
  shows "extract_evidence_from_cert x509_parse der = Inr e"
    and "extract_spki_from_cert x509_parse der = Inr (rc_public_key_der rc kp)"
proof -
  obtain x where x: "x509_parse der = Some x" "x509_spki x = rc_public_key_der rc kp"
      "filter (\<lambda>(oid, v). oid \<in> {OID_EVIDENCE_BLOB_STR, OID_TEE_TYPE_STR}) (x509_extensions x)
        = [(OID_EVIDENCE_BLOB_STR, evidence_data e),
           (OID_TEE_TYPE_STR, [tee_type_to_byte (tee_type e)])]"
    using assms unfolding cert_round_trip_def cert_params_with_evidence_def by fastforce
  have "fold_result scan_extension (None, None) (x509_extensions x)
      = Inr (Some (evidence_data e), Some (tee_type e))"
    unfolding scan_ignores_others [of _ "x509_extensions x"] x(3) by (simp add: scan_extension_def)
  then show "extract_evidence_from_cert x509_parse der = Inr e"
    by (simp add: extract_evidence_from_cert_def x(1))
  show "extract_spki_from_cert x509_parse der = Inr (rc_public_key_der rc kp)"
    by (simp add: extract_spki_from_cert_def x(1,2))
qed

section \<open>Generated certificates\<close>

text \<open>
  Evidence survives the certificate. A certificate generated for some evidence yields,
  when parsed, exactly that evidence (type and bytes) and the public key it was signed with,
  whatever other extensions the certificate library adds. The hypothesis is the documented
  behaviour of the two certificate libraries.
\<close>

lemma certificate_round_trip:
  assumes "cert_round_trip x509_parse rc"
    and "generate_attested_cert rc e = Inr (der, kp)"
  shows "extract_evidence_from_cert x509_parse der = Inr e \<and>
         extract_spki_from_cert x509_parse der = Inr (rc_public_key_der rc kp)"
proof -
  have "rc_self_signed rc (cert_params_with_evidence e) kp = Inr der"
    using assms(2) by (auto simp: generate_attested_cert_def result_simps)
  from self_signed_evidence [OF assms(1) this] show ?thesis by simp
qed

text \<open>Certificate libraries that know one key and one certificate, for the examples.\<close>

definition demo_evidence :: Evidence where
  "demo_evidence = \<lparr>tee_type = SevSnp, evidence_data = [9, 8, 7]\<rparr>"

definition one_cert_rcgen :: "Evidence \<Rightarrow> byte list rcgen" where
  "one_cert_rcgen e =
     \<lparr>rc_generate = Inr [42], rc_public_key_der = (\<lambda>kp. kp), rc_serialize_der = (\<lambda>kp. kp),
      rc_self_signed = (\<lambda>params kp. if params = cert_params_with_evidence e \<and> kp = [42]
                                    then Inr [1] else Inl [])\<rparr>"

definition one_cert_parse :: "Evidence \<Rightarrow> x509_parser" where
  "one_cert_parse e der =
     (if der = [1] then
        Some \<lparr>x509_extensions = [(''2.5.29.17'', [0]), (OID_EVIDENCE_BLOB_STR, evidence_data e),
                (OID_TEE_TYPE_STR, [tee_type_to_byte (tee_type e)])], x509_spki = [42]\<rparr>
      else None)"

lemma one_cert_round_trip: "cert_round_trip (one_cert_parse e) (one_cert_rcgen e)"
proof -
  have "''2.5.29.17'' \<noteq> OID_EVIDENCE_BLOB_STR \<and> ''2.5.29.17'' \<noteq> OID_TEE_TYPE_STR"
    by (simp add: OID_EVIDENCE_BLOB_STR_def OID_TEE_TYPE_STR_def)
  then show ?thesis
    unfolding cert_round_trip_def one_cert_rcgen_def one_cert_parse_def
    by (auto simp: cert_params_with_evidence_def split: if_splits)
qed

lemma demo_certificate:
  "\<exists>der kp. generate_attested_cert (one_cert_rcgen demo_evidence) demo_evidence = Inr (der, kp) \<and>
     extract_evidence_from_cert (one_cert_parse demo_evidence) der = Inr demo_evidence"
proof -
  have "generate_attested_cert (one_cert_rcgen demo_evidence) demo_evidence = Inr ([1], [42])"
    by (simp add: generate_attested_cert_def one_cert_rcgen_def)
  with certificate_round_trip [OF one_cert_round_trip this] show ?thesis by blast
qed

end
