(* ===== verification/Mock_Attest.thy ===== *)
theory Mock_Attest
  imports Attest_Types
begin

text \<open>
  \<open>crates/relay-attest/src/mock.rs\<close> and \<open>tdx.rs\<close>: the Ed25519-signed mock backend with its
  length-prefixed evidence format, and the TDX stub. Both are shown to satisfy the trait
  locales. Ed25519, SHA-256 and the JSON encoding of a quote are the parameter \<open>mock_env\<close>.
\<close>

section \<open>Mock quotes\<close>

record MockQuote =
  quote_measurement :: "byte list"
  quote_user_data :: "byte list"

record mock_env =
  me_sha256 :: "byte list \<Rightarrow> byte list"
  me_to_json :: "MockQuote \<Rightarrow> string + byte list"
  me_from_json :: "byte list \<Rightarrow> MockQuote option"
  me_sign :: "byte list \<Rightarrow> byte list \<Rightarrow> byte list"
  me_verify :: "byte list \<Rightarrow> byte list \<Rightarrow> byte list \<Rightarrow> bool"
  me_verifying_key :: "byte list \<Rightarrow> byte list"

definition MOCK_SEED :: "byte list" where
  "MOCK_SEED = as_bytes ''trusted-relay-mock-key-seed!0000''"

definition mock_measurement :: "mock_env \<Rightarrow> byte list" where
  "mock_measurement env = me_sha256 env (as_bytes ''trusted-relay-mock-measurement'')"

definition mock_signing_key :: "byte list" where
  "mock_signing_key = MOCK_SEED"

definition mock_verifying_key :: "mock_env \<Rightarrow> byte list" where
  "mock_verifying_key env = me_verifying_key env mock_signing_key"

text \<open>The payload length is cast to \<open>u32\<close>, so its little-endian bytes hold it modulo $2^{32}$.\<close>

definition sign_mock_quote :: "mock_env \<Rightarrow> byte list \<Rightarrow> byte list \<Rightarrow> AttestError + Evidence" where
  "sign_mock_quote env m user_data =
     rbind (map_err GenerationFailed
              (me_to_json env \<lparr>quote_measurement = m, quote_user_data = user_data\<rparr>)) (\<lambda>payload.
     let signature = me_sign env mock_signing_key payload
     in Inr \<lparr>tee_type = Mock,
             evidence_data = to_le_bytes 4 (length payload mod 2 ^ 32) @ payload @ signature\<rparr>)"

definition mock_attest :: "mock_env \<Rightarrow> byte list \<Rightarrow> AttestError + Evidence" where
  "mock_attest env user_data = sign_mock_quote env (mock_measurement env) user_data"

definition measured_mock_attest :: "mock_env \<Rightarrow> byte list \<Rightarrow> byte list \<Rightarrow> AttestError + Evidence" where
  "measured_mock_attest env m user_data = sign_mock_quote env m user_data"

definition mock_parse_evidence ::
    "mock_env \<Rightarrow> Evidence \<Rightarrow> AttestError + byte list \<times> MockQuote \<times> byte list" where
  "mock_parse_evidence env evidence =
     (if tee_type evidence \<noteq> Mock then Inl (UnsupportedTeeType (tee_type evidence))
      else
        let d = evidence_data evidence
        in if length d < 4 + 64 then Inl (VerificationFailed ''evidence too short'')
           else
             let payload_len = unat (u32_from_le_bytes (take 4 d))
             in if length d \<noteq> 4 + payload_len + 64
                then Inl (VerificationFailed ''evidence length mismatch: expected '')
                else
                  let payload = window d 4 payload_len; sig = drop (4 + payload_len) d
                  in if length sig \<noteq> 64 then Inl (VerificationFailed ''bad signature length'')
                     else rbind (ok_or (VerificationFailed ''bad quote JSON: '') (me_from_json env payload))
                            (\<lambda>quote. Inr (payload, quote, sig)))"

definition mock_verify :: "mock_env \<Rightarrow> Evidence \<Rightarrow> measurement \<Rightarrow> AttestError + byte list" where
  "mock_verify env evidence expected_measurement =
     rbind (mock_parse_evidence env evidence) (\<lambda>(payload, quote, signature).
     if \<not> me_verify env (mock_verifying_key env) payload signature
     then Inl (VerificationFailed ''signature invalid: '')
     else if (case expected_measurement of
                None \<Rightarrow> False | Some expected \<Rightarrow> quote_measurement quote \<noteq> expected)
     then Inl (MeasurementMismatch (the expected_measurement) (quote_measurement quote))
     else if length (quote_user_data quote) \<noteq> 64
     then Inl (VerificationFailed ''user_data not 64 bytes'')
     else Inr (quote_user_data quote))"

definition get_mock_measurement :: "mock_env \<Rightarrow> byte list" where
  "get_mock_measurement env = mock_measurement env"

section \<open>The TDX stub\<close>

definition tdx_attest :: "byte list \<Rightarrow> AttestError + Evidence" where
  "tdx_attest user_data =
     Inl (GenerationFailed
       ''TDX attestation requires /dev/tdx_guest (not available on this platform)'')"

definition tdx_verify :: "Evidence \<Rightarrow> measurement \<Rightarrow> AttestError + byte list" where
  "tdx_verify evidence expected_measurement =
     Inl (VerificationFailed ''TDX verification not yet implemented'')"

section \<open>Both satisfy the traits\<close>

lemma mock_parse_eq_Inr:
  "mock_parse_evidence env e = Inr (payload, quote, sig) \<longleftrightarrow>
     tee_type e = Mock \<and> length sig = 64 \<and> me_from_json env payload = Some quote \<and>
     (\<exists>pre. length pre = 4 \<and> evidence_data e = pre @ payload @ sig \<and>
            unat (u32_from_le_bytes pre) = length payload)"
  (is "?l \<longleftrightarrow> ?r")
proof
  assume l: ?l
  let ?d = "evidence_data e"
  define n where "n = unat (u32_from_le_bytes (take 4 ?d))"
  have parts: "tee_type e = Mock" "length ?d = 4 + n + 64" "payload = window ?d 4 n"
      "sig = drop (4 + n) ?d" "length sig = 64" "me_from_json env payload = Some quote"
    using l unfolding mock_parse_evidence_def Let_def n_def [symmetric] result_simps
    by auto
  have "?d = take 4 ?d @ payload @ sig" unfolding parts(3,4) by (simp only: window_split)
  moreover have "length (take 4 ?d) = 4" using parts(2) by simp
  moreover have "unat (u32_from_le_bytes (take 4 ?d)) = length payload"
    using parts(2,3) by (simp add: length_window n_def [symmetric])
  ultimately show ?r using parts by blast
next
  assume r: ?r
  then obtain pre where d: "length pre = 4" "evidence_data e = pre @ payload @ sig"
      "unat (u32_from_le_bytes pre) = length payload" by blast
  then have "window (evidence_data e) 4 (length payload) = payload"
      "drop (4 + length payload) (evidence_data e) = sig" "take 4 (evidence_data e) = pre"
    by (simp_all add: window_def)
  with r d show ?l by (simp add: mock_parse_evidence_def Let_def)
qed

lemma mock_verify_eq_Inr:
  "mock_verify env e m = Inr rd \<longleftrightarrow>
     (\<exists>payload quote sig. mock_parse_evidence env e = Inr (payload, quote, sig) \<and>
        me_verify env (mock_verifying_key env) payload sig \<and>
        (\<forall>x. m = Some x \<longrightarrow> quote_measurement quote = x) \<and>
        length (quote_user_data quote) = 64 \<and> rd = quote_user_data quote)"
  by (cases m) (auto simp: mock_verify_def result_simps split: prod.splits)

interpretation mock: verifier "mock_verify env" "\<lambda>t. t = Mock" for env
  by unfold_locales (auto simp: mock_verify_eq_Inr mock_parse_eq_Inr)

interpretation tdx: attestation tdx_verify "\<lambda>t. t = Tdx" tdx_attest "\<lambda>ud m. True"
  by unfold_locales (auto simp: tdx_verify_def tdx_attest_def)

text \<open>
  What the mock relies on: JSON decoding inverts encoding, a signature has 64 bytes and
  verifies under the derived key.
\<close>

definition mock_laws :: "mock_env \<Rightarrow> bool" where
  "mock_laws env \<longleftrightarrow>
     (\<forall>q b. me_to_json env q = Inr b \<longrightarrow> me_from_json env b = Some q \<and> length b < 2 ^ 32) \<and>
     (\<forall>k b. length (me_sign env k b) = 64) \<and>
     (\<forall>k b. me_verify env (me_verifying_key env k) b (me_sign env k b))"

lemma mock_sign_parse:
  assumes "mock_laws env" and "sign_mock_quote env m ud = Inr e"
  shows "\<exists>payload. mock_parse_evidence env e =
     Inr (payload, \<lparr>quote_measurement = m, quote_user_data = ud\<rparr>, me_sign env mock_signing_key payload)"
proof -
  let ?q = "\<lparr>quote_measurement = m, quote_user_data = ud\<rparr>"
  obtain payload where p: "me_to_json env ?q = Inr payload"
      "e = \<lparr>tee_type = Mock, evidence_data = to_le_bytes 4 (length payload mod 2 ^ 32)
              @ payload @ me_sign env mock_signing_key payload\<rparr>"
    using assms(2) by (auto simp: sign_mock_quote_def Let_def result_simps)
  with assms(1) have "me_from_json env payload = Some ?q" "length payload < 2 ^ 32"
      "length (me_sign env mock_signing_key payload) = 64"
    by (auto simp: mock_laws_def)
  then have "mock_parse_evidence env e = Inr (payload, ?q, me_sign env mock_signing_key payload)"
    using p(2) u32_to_le_bytes [of "length payload"] by (simp add: mock_parse_eq_Inr)
  then show ?thesis ..
qed

lemma mock_sign_verify:
  assumes "mock_laws env" and "sign_mock_quote env m ud = Inr e" and "length ud = 64"
  shows "mock_verify env e pin =
     (if pin = None \<or> pin = Some m then Inr ud else Inl (MeasurementMismatch (the pin) m))"
proof -
  obtain payload where p: "mock_parse_evidence env e =
      Inr (payload, \<lparr>quote_measurement = m, quote_user_data = ud\<rparr>, me_sign env mock_signing_key payload)"
    using mock_sign_parse [OF assms(1,2)] ..
  moreover have "me_verify env (mock_verifying_key env) payload (me_sign env mock_signing_key payload)"
    using assms(1) by (simp add: mock_laws_def mock_verifying_key_def)
  ultimately show ?thesis using assms(3) by (cases pin) (auto simp: mock_verify_def)
qed

section \<open>Evidence of the mock\<close>

text \<open>
  The mock backend round-trips. Evidence made for a measurement and 64 bytes of user data
  verifies to exactly these bytes with no pin or with that measurement pinned, and is
  rejected as a measurement mismatch under any other pin. The format's length prefix,
  payload and signature are recovered exactly.
\<close>

lemma mock_evidence_round_trip:
  assumes "mock_laws env" and "measured_mock_attest env m ud = Inr e" and "length ud = 64"
  shows "mock_verify env e None = Inr ud \<and> mock_verify env e (Some m) = Inr ud \<and>
         (\<forall>x. x \<noteq> m \<longrightarrow> mock_verify env e (Some x) = Inl (MeasurementMismatch x m))"
  using mock_sign_verify [OF assms(1,2) [unfolded measured_mock_attest_def] assms(3)] by simp

text \<open>Concrete parameters with the laws: a trivial signature, fixed-width encoding.\<close>

definition demo_mock :: mock_env where
  "demo_mock =
     \<lparr>me_sha256 = (\<lambda>b. replicate 32 7),
      me_to_json = (\<lambda>q. if length (quote_measurement q) = 32 \<and> length (quote_user_data q) = 64
                        then Inr (quote_measurement q @ quote_user_data q) else Inl []),
      me_from_json = (\<lambda>b. Some \<lparr>quote_measurement = take 32 b, quote_user_data = drop 32 b\<rparr>),
      me_sign = (\<lambda>k b. replicate 64 5), me_verify = (\<lambda>k b s. s = replicate 64 5),
      me_verifying_key = (\<lambda>k. k)\<rparr>"

lemma demo_mock_laws: "mock_laws demo_mock"
  by (auto simp: mock_laws_def demo_mock_def split: if_splits)

lemma demo_mock_evidence:
  "\<exists>e. measured_mock_attest demo_mock (replicate 32 7) (replicate 64 1) = Inr e \<and>
       mock_verify demo_mock e (Some (replicate 32 7)) = Inr (replicate 64 1) \<and>
       mock_verify demo_mock e (Some (replicate 32 8)) = Inl (MeasurementMismatch (replicate 32 8) (replicate 32 7))"
proof -
  have "\<exists>e. measured_mock_attest demo_mock (replicate 32 7) (replicate 64 1) = Inr e"
    by (simp add: measured_mock_attest_def sign_mock_quote_def demo_mock_def Let_def)
  then obtain e where e: "measured_mock_attest demo_mock (replicate 32 7) (replicate 64 1) = Inr e" ..
  have "replicate 32 (8 :: byte) \<noteq> replicate 32 7" by (simp add: replicate_eq_replicate)
  with mock_evidence_round_trip [OF demo_mock_laws e] e show ?thesis by fastforce
qed

end
