(* ===== verification/Attested_Tls.thy ===== *)
theory Attested_Tls
  imports Mock_Attest Tls_Callbacks
begin

text \<open>
  \<open>crates/relay-tls\<close>: the server that binds its TLS key and configuration hash into the
  attestation (\<open>server.rs\<close>), and the client-side certificate verifier that checks the binding
  (\<open>client.rs\<close>). The backends enter through the trait locales of \<open>Attest_Types\<close>; SHA-384,
  \<open>rcgen\<close>, \<open>x509-parser\<close> and \<open>rustls\<close> are parameters. The handshake signature checks are
  calls into \<open>rustls\<close>; with them the verifier is a \<open>ring_verifier\<close>, so that a peer it lets
  through has proved possession of the attested key.
\<close>

section \<open>REPORTDATA\<close>

text \<open>
  Bytes 0 to 47 are the SHA-384 of the SPKI, bytes 48 to 63 the first half of the
  configuration hash or zeros. Server and client fill the same buffer the same way.
\<close>

definition reportdata :: "(byte list \<Rightarrow> byte list) \<Rightarrow> byte list \<Rightarrow> byte list option \<Rightarrow> byte list" where
  "reportdata sha384 spki config_hash =
     sha384 spki @ (case config_hash of None \<Rightarrow> replicate 16 0 | Some ch \<Rightarrow> take 16 ch)"

section \<open>The server\<close>

record AttestedTlsServer =
  cert_der :: "byte list"
  private_key_der :: "byte list"
  send_tls13_tickets :: nat

record 'k tls_env =
  te_rcgen :: "'k rcgen"
  te_sha384 :: "byte list \<Rightarrow> byte list"
  te_private_key :: "byte list \<Rightarrow> string + byte list"
  te_single_cert :: "byte list \<Rightarrow> byte list \<Rightarrow> string option"

definition from_cert_der_and_key ::
    "'k tls_env \<Rightarrow> byte list \<Rightarrow> byte list \<Rightarrow> AttestError + AttestedTlsServer" where
  "from_cert_der_and_key env cert key =
     (case te_single_cert env cert key of
        Some e \<Rightarrow> Inl (OtherError (''rustls config: '' @ e))
      | None \<Rightarrow> Inr \<lparr>cert_der = cert, private_key_der = key, send_tls13_tickets = 0\<rparr>)"

definition from_cert_key_pair ::
    "'k tls_env \<Rightarrow> byte list \<Rightarrow> 'k \<Rightarrow> AttestError + AttestedTlsServer" where
  "from_cert_key_pair env cert key_pair =
     rbind (map_err (\<lambda>e. X509Error (''private key DER: '' @ e))
              (te_private_key env (rc_serialize_der (te_rcgen env) key_pair))) (\<lambda>key.
     from_cert_der_and_key env cert key)"

definition from_key_pair ::
    "'k tls_env \<Rightarrow> (byte list \<Rightarrow> AttestError + Evidence) \<Rightarrow> byte list option \<Rightarrow> 'k
       \<Rightarrow> AttestError + AttestedTlsServer" where
  "from_key_pair env attest config_hash key_pair =
     (let pubkey_der = rc_public_key_der (te_rcgen env) key_pair;
          rd = reportdata (te_sha384 env) pubkey_der config_hash
      in rbind (attest rd) (\<lambda>evidence.
         rbind (map_err (\<lambda>e. X509Error (''self-sign: '' @ e))
                  (rc_self_signed (te_rcgen env) (cert_params_with_evidence evidence) key_pair)) (\<lambda>cert.
         from_cert_key_pair env cert key_pair)))"

definition tls_server_new ::
    "'k tls_env \<Rightarrow> (byte list \<Rightarrow> AttestError + Evidence) \<Rightarrow> byte list option
       \<Rightarrow> AttestError + AttestedTlsServer" where
  "tls_server_new env attest config_hash =
     rbind (map_err (\<lambda>e. GenerationFailed (''keygen: '' @ e)) (rc_generate (te_rcgen env)))
       (from_key_pair env attest config_hash)"

section \<open>The client\<close>

record AttestedCertVerifier =
  acv_verify :: "Evidence \<Rightarrow> measurement \<Rightarrow> AttestError + byte list"
  expected_measurement :: measurement
  expected_config_hash :: "byte list option"

datatype attest_tls_error =
    ExtractEvidence AttestError
  | ExtractSpki AttestError
  | AttestationFailed AttestError
  | KeyHashMismatch
  | ConfigHashMismatch "byte list" "byte list"

text \<open>What is passed to the backend: a measurement pin, or for GCP the expected nonce.\<close>

definition expected_attested_data ::
    "AttestedCertVerifier \<Rightarrow> TeeType \<Rightarrow> byte list \<Rightarrow> measurement" where
  "expected_attested_data self tee expected_reportdata =
     (if tee = GcpConfidentialSpace
      then (if expected_config_hash self \<noteq> None then Some expected_reportdata else None)
      else expected_measurement self)"

definition attested_verify_server_cert ::
    "x509_parser \<Rightarrow> (byte list \<Rightarrow> byte list) \<Rightarrow> AttestedCertVerifier \<Rightarrow> byte list
       \<Rightarrow> attest_tls_error + unit" where
  "attested_verify_server_cert x509_parse sha384 self cert =
     rbind (map_err ExtractEvidence (extract_evidence_from_cert x509_parse cert)) (\<lambda>evidence.
     rbind (map_err ExtractSpki (extract_spki_from_cert x509_parse cert)) (\<lambda>spki_bytes.
     let expected_reportdata = reportdata sha384 spki_bytes (expected_config_hash self)
     in rbind (map_err AttestationFailed
                 (acv_verify self evidence
                    (expected_attested_data self (tee_type evidence) expected_reportdata)))
          (\<lambda>actual_reportdata.
            if take 48 actual_reportdata \<noteq> take 48 expected_reportdata then Inl KeyHashMismatch
            else if expected_config_hash self \<noteq> None
                    \<and> window actual_reportdata 48 16 \<noteq> window expected_reportdata 48 16
            then Inl (ConfigHashMismatch (window expected_reportdata 48 16) (window actual_reportdata 48 16))
            else Inr ())))"

text \<open>The signatures of the handshake are left to the \<open>ring\<close> provider.\<close>

definition attested_verify_tls12_signature :: "'s ring \<Rightarrow> 's signature_check" where
  "attested_verify_tls12_signature ring message leaf dss = crypto_verify_tls12 ring message leaf dss"

definition attested_verify_tls13_signature :: "'s ring \<Rightarrow> 's signature_check" where
  "attested_verify_tls13_signature ring message leaf dss = crypto_verify_tls13 ring message leaf dss"

definition attested_supported_verify_schemes :: "SignatureScheme list" where
  "attested_supported_verify_schemes =
     [ECDSA_NISTP256_SHA256, ECDSA_NISTP384_SHA384, ED25519, RSA_PSS_SHA256, RSA_PSS_SHA384,
      RSA_PSS_SHA512, RSA_PKCS1_SHA256, RSA_PKCS1_SHA384, RSA_PKCS1_SHA512]"

text \<open>The verifier as \<open>rustls\<close> sees it: intermediates, name, OCSP response and time are ignored.\<close>

definition attested_callbacks ::
    "'s ring \<Rightarrow> x509_parser \<Rightarrow> (byte list \<Rightarrow> byte list) \<Rightarrow> AttestedCertVerifier
       \<Rightarrow> (attest_tls_error, 's) ServerCertVerifier" where
  "attested_callbacks ring x509_parse sha384 self =
     \<lparr>cb_verify_server_cert = (\<lambda>end_entity server_name hs. attested_verify_server_cert x509_parse sha384 self end_entity),
      cb_verify_tls12_signature = attested_verify_tls12_signature ring,
      cb_verify_tls13_signature = attested_verify_tls13_signature ring,
      cb_supported_verify_schemes = attested_supported_verify_schemes\<rparr>"

definition AttestedCertVerifier_new ::
    "(Evidence \<Rightarrow> measurement \<Rightarrow> AttestError + byte list) \<Rightarrow> measurement \<Rightarrow> byte list option
       \<Rightarrow> AttestedCertVerifier" where
  "AttestedCertVerifier_new verify m config_hash =
     \<lparr>acv_verify = verify, expected_measurement = m, expected_config_hash = config_hash\<rparr>"

definition attested_client_config ::
    "(Evidence \<Rightarrow> measurement \<Rightarrow> AttestError + byte list) \<Rightarrow> measurement \<Rightarrow> byte list option
       \<Rightarrow> AttestedCertVerifier" where
  "attested_client_config verify m config_hash = AttestedCertVerifier_new verify m config_hash"

section \<open>Lemmas\<close>

lemma attested_client_config_simps [simp]:
  "acv_verify (attested_client_config verify m ch) = verify"
  "expected_measurement (attested_client_config verify m ch) = m"
  "expected_config_hash (attested_client_config verify m ch) = ch"
  by (simp_all add: attested_client_config_def AttestedCertVerifier_new_def)

interpretation attested_peer: ring_verifier ring "attested_callbacks ring x509_parse sha384 self"
    "\<lambda>leaf. attested_verify_server_cert x509_parse sha384 self leaf = Inr ()"
  for ring x509_parse sha384 self
  by unfold_locales
    (simp_all add: attested_callbacks_def attested_verify_tls12_signature_def attested_verify_tls13_signature_def)

definition sha384_law :: "(byte list \<Rightarrow> byte list) \<Rightarrow> bool" where
  "sha384_law sha384 \<longleftrightarrow> (\<forall>b. length (sha384 b) = 48)"

lemma reportdata_parts:
  assumes "sha384_law sha384"
  shows "take 48 (reportdata sha384 spki ch) = sha384 spki"
    and "drop 48 (reportdata sha384 spki ch) = (case ch of None \<Rightarrow> replicate 16 0 | Some h \<Rightarrow> take 16 h)"
    and "(\<forall>h. ch = Some h \<longrightarrow> length h = 32) \<Longrightarrow> length (reportdata sha384 spki ch) = 64"
  using assms by (auto simp: reportdata_def sha384_law_def split: option.splits)

lemma window_48_16: "length xs = 64 \<Longrightarrow> window xs 48 16 = drop 48 xs"
  by (simp add: window_def)

lemma server_cert:
  assumes "from_key_pair env attest ch kp = Inr server"
  shows "\<exists>e. attest (reportdata (te_sha384 env) (rc_public_key_der (te_rcgen env) kp) ch) = Inr e \<and>
             rc_self_signed (te_rcgen env) (cert_params_with_evidence e) kp = Inr (cert_der server)"
  using assms
  by (auto simp: from_key_pair_def from_cert_key_pair_def from_cert_der_and_key_def Let_def
      result_simps split: option.splits)

context verifier
begin

text \<open>What an accepting client has checked.\<close>

lemma client_accepts:
  assumes "sha384_law sha384"
    and "\<forall>h. ch = Some h \<longrightarrow> length h = 32"
    and "attested_verify_server_cert x509_parse sha384 (attested_client_config verify m ch) cert = Inr ()"
  shows "\<exists>e spki rd pin. extract_evidence_from_cert x509_parse cert = Inr e \<and> supports (tee_type e) \<and>
           extract_spki_from_cert x509_parse cert = Inr spki \<and> verify e pin = Inr rd \<and>
           pin = expected_attested_data (attested_client_config verify m ch) (tee_type e)
                   (reportdata sha384 spki ch) \<and>
           length rd = 64 \<and> take 48 rd = sha384 spki \<and> (\<forall>h. ch = Some h \<longrightarrow> drop 48 rd = take 16 h)"
proof -
  let ?self = "attested_client_config verify m ch"
  obtain e spki rd where e: "extract_evidence_from_cert x509_parse cert = Inr e"
      "extract_spki_from_cert x509_parse cert = Inr spki"
      "verify e (expected_attested_data ?self (tee_type e) (reportdata sha384 spki ch)) = Inr rd"
      "take 48 rd = take 48 (reportdata sha384 spki ch)"
      "ch \<noteq> None \<longrightarrow> window rd 48 16 = window (reportdata sha384 spki ch) 48 16"
    using assms(3)
    by (auto simp: attested_verify_server_cert_def Let_def result_simps)
  note l = verify_length [OF e(3)] reportdata_parts(3) [OF assms(1,2), of spki]
  then have "\<forall>h. ch = Some h \<longrightarrow> drop 48 rd = take 16 h"
    using e(5) reportdata_parts(2) [OF assms(1), of spki ch] by (simp add: window_48_16)
  with e l(1) verify_supports [OF e(3)] reportdata_parts(1) [OF assms(1)] show ?thesis by metis
qed

end

context attestation
begin

text \<open>Server and client with matching backends agree exactly when the hashes do.\<close>

lemma handshake_iff:
  assumes laws: "cert_round_trip x509_parse (te_rcgen env)" "sha384_law (te_sha384 env)"
    and lens: "length server_hash = 32" "\<forall>h. client_hash = Some h \<longrightarrow> length h = 32"
    and server: "from_key_pair env attest (Some server_hash) kp = Inr server"
    and pins: "\<And>ud. pin_ok ud m"
  shows "attested_verify_server_cert x509_parse (te_sha384 env)
           (attested_client_config verify m client_hash) (cert_der server) = Inr () \<longleftrightarrow>
         (\<forall>h. client_hash = Some h \<longrightarrow> take 16 h = take 16 server_hash)"
    (is "?accept \<longleftrightarrow> ?same")
proof -
  let ?pk = "rc_public_key_der (te_rcgen env) kp"
  let ?rd = "reportdata (te_sha384 env) ?pk"
  let ?self = "attested_client_config verify m client_hash"
  obtain e where e: "attest (?rd (Some server_hash)) = Inr e"
      "rc_self_signed (te_rcgen env) (cert_params_with_evidence e) kp = Inr (cert_der server)"
    using server_cert [OF server] by blast
  note x = self_signed_evidence [OF laws(1) e(2)]
  have len: "length (?rd (Some server_hash)) = 64"
    by (rule reportdata_parts(3) [OF laws(2)]) (simp add: lens)
  note good = attest_verify [OF e(1) len]
  note parts = reportdata_parts(1,2) [OF laws(2), of ?pk]
  show ?thesis
  proof
    assume ?accept
    from client_accepts [OF laws(2) lens(2) this] x
    obtain rd pin where rd: "verify e pin = Inr rd" "\<forall>h. client_hash = Some h \<longrightarrow> drop 48 rd = take 16 h"
      by (metis sum.inject(2))
    have "verify e None = Inr rd" using rd(1) verify_unpinned by (cases pin) auto
    with good [OF pin_ok_None] have "rd = ?rd (Some server_hash)" by simp
    then show ?same using rd(2) parts(2) [of "Some server_hash"] by simp
  next
    assume same: ?same
    have pin: "pin_ok (?rd (Some server_hash)) (expected_attested_data ?self (tee_type e) (?rd client_hash))"
      using same pins pin_ok_nonce [OF e(1)] pin_ok_None
      by (auto simp: expected_attested_data_def reportdata_def)
    have "client_hash = None \<or>
        window (?rd (Some server_hash)) 48 16 = window (?rd client_hash) 48 16"
      using same by (cases client_hash) (auto simp: reportdata_def)
    then show ?accept
      using x good [OF pin] parts(1)
      by (simp add: attested_verify_server_cert_def Let_def)
  qed
qed

end

section \<open>The mock backend in the handshake\<close>

text \<open>The mock attester, with the laws of its parameters, is an attestation backend.\<close>

lemma mock_attestation:
  assumes "mock_laws env"
  shows "attestation (mock_verify env) (\<lambda>t. t = Mock) (measured_mock_attest env x)
           (\<lambda>ud m. m = None \<or> m = Some x)"
proof unfold_locales
  fix ud e m
  assume "measured_mock_attest env x ud = Inr e" "length ud = 64" "m = None \<or> m = Some x"
  then show "mock_verify env e m = Inr ud"
    using mock_sign_verify [OF assms, of x ud e m] by (auto simp: measured_mock_attest_def)
next
  fix ud e
  assume "measured_mock_attest env x ud = Inr e" "tee_type e = GcpConfidentialSpace"
  then show "Some ud = None \<or> Some ud = Some x"
    by (auto simp: measured_mock_attest_def sign_mock_quote_def Let_def result_simps)
qed simp

interpretation mock_backend: attestation "mock_verify demo_mock" "\<lambda>t. t = Mock"
    "measured_mock_attest demo_mock x" "\<lambda>ud m. m = None \<or> m = Some x" for x
  by (rule mock_attestation [OF demo_mock_laws])

section \<open>Properties\<close>

text \<open>
  C5: an accepted handshake is bound to the attested key and configuration. For every backend
  that meets the \<open>Verifier\<close> contract: if the client accepts a certificate, it carries evidence
  of a supported type that the backend verified under the client's pin, the attested
  REPORTDATA starts with the SHA-384 of the very public key in the certificate, and with a
  pinned configuration hash it ends with the first 16 bytes of that hash.
\<close>

theorem accepted_certificate_is_bound:
  assumes "verifier verify supports" and "sha384_law sha384"
    and "\<forall>h. ch = Some h \<longrightarrow> length h = 32"
    and "attested_verify_server_cert x509_parse sha384 (attested_client_config verify m ch) cert = Inr ()"
  shows "\<exists>e spki rd pin. extract_evidence_from_cert x509_parse cert = Inr e \<and> supports (tee_type e) \<and>
           extract_spki_from_cert x509_parse cert = Inr spki \<and> verify e pin = Inr rd \<and>
           pin = expected_attested_data (attested_client_config verify m ch) (tee_type e)
                   (reportdata sha384 spki ch) \<and>
           length rd = 64 \<and> take 48 rd = sha384 spki \<and> (\<forall>h. ch = Some h \<longrightarrow> drop 48 rd = take 16 h)"
  by (rule verifier.client_accepts [OF assms])

text \<open>
  The attested handshake is correct end to end. Let a server be built with some
  attestation backend and configuration hash, and let the client use the matching verifier
  with an acceptable measurement pin. Then the client accepts the server's certificate
  exactly when it pins no configuration hash or one that agrees with the server's in its
  first 16 bytes.
\<close>

lemma attested_handshake_end_to_end:
  assumes "attestation verify supports attest pin_ok"
    and "cert_round_trip x509_parse (te_rcgen env)" and "sha384_law (te_sha384 env)"
    and "length server_hash = 32" and "\<forall>h. client_hash = Some h \<longrightarrow> length h = 32"
    and "from_key_pair env attest (Some server_hash) kp = Inr server"
    and "\<And>ud. pin_ok ud m"
  shows "attested_verify_server_cert x509_parse (te_sha384 env)
           (attested_client_config verify m client_hash) (cert_der server) = Inr () \<longleftrightarrow>
         (\<forall>h. client_hash = Some h \<longrightarrow> take 16 h = take 16 server_hash)"
  by (rule attestation.handshake_iff [OF assms])

text \<open>A concrete server with the mock backend.\<close>

definition demo_sha384 :: "byte list \<Rightarrow> byte list" where
  "demo_sha384 b = replicate 48 3"

definition demo_hash :: "byte list" where
  "demo_hash = replicate 32 11"

definition demo_server_evidence :: Evidence where
  "demo_server_evidence =
     (case measured_mock_attest demo_mock (replicate 32 7) (reportdata demo_sha384 [42] (Some demo_hash)) of
        Inr e \<Rightarrow> e | Inl _ \<Rightarrow> demo_evidence)"

definition demo_tls :: "byte list tls_env" where
  "demo_tls = \<lparr>te_rcgen = one_cert_rcgen demo_server_evidence, te_sha384 = demo_sha384,
     te_private_key = Inr, te_single_cert = (\<lambda>c k. None)\<rparr>"

text \<open>Signatures that consist of the certificate and the signed message.\<close>

definition demo_ring :: "string ring" where
  "demo_ring = \<lparr>crypto_verify_tls12 = (\<lambda>message leaf dss. Inl ''TLS 1.3 only''),
     crypto_verify_tls13 = (\<lambda>message leaf dss. if dss_signature dss = leaf @ message then Inr () else Inl ''bad signature'')\<rparr>"

lemma demo_possession: "proved_possession demo_ring leaf"
  unfolding proved_possession_def
  by (intro exI [of _ "[]"] exI [of _ "\<lparr>dss_scheme = ED25519, dss_signature = leaf\<rparr>"]) (simp add: demo_ring_def)

lemma demo_sha384_law: "sha384_law demo_sha384"
  by (simp add: sha384_law_def demo_sha384_def)

lemma demo_attests:
  "measured_mock_attest demo_mock (replicate 32 7) (reportdata demo_sha384 [42] (Some demo_hash))
     = Inr demo_server_evidence"
proof -
  have "length (reportdata demo_sha384 [42] (Some demo_hash)) = 64"
    by (simp add: reportdata_def demo_sha384_def demo_hash_def)
  then have "\<exists>e. measured_mock_attest demo_mock (replicate 32 7)
      (reportdata demo_sha384 [42] (Some demo_hash)) = Inr e"
    by (simp add: measured_mock_attest_def sign_mock_quote_def demo_mock_def Let_def)
  then show ?thesis by (auto simp: demo_server_evidence_def)
qed

lemma demo_server:
  "from_key_pair demo_tls (measured_mock_attest demo_mock (replicate 32 7)) (Some demo_hash) [42]
     = Inr \<lparr>cert_der = [1], private_key_der = [42], send_tls13_tickets = 0\<rparr>"
  using demo_attests
  by (simp add: from_key_pair_def from_cert_key_pair_def from_cert_der_and_key_def Let_def demo_tls_def
      one_cert_rcgen_def)

lemma demo_handshake_pinned:
  assumes "m = None \<or> m = Some (replicate 32 7)"
  shows "attested_verify_server_cert (one_cert_parse demo_server_evidence) demo_sha384
     (attested_client_config (mock_verify demo_mock) m (Some demo_hash)) [1] = Inr ()"
  using attestation.handshake_iff [OF mock_attestation [OF demo_mock_laws] _ _ _ _ demo_server,
      of "one_cert_parse demo_server_evidence" "Some demo_hash" m] assms
  by (simp add: demo_tls_def one_cert_round_trip demo_sha384_law demo_hash_def)

lemmas demo_handshake = demo_handshake_pinned [of None, simplified]

lemma demo_handshake_decides:
  "attested_verify_server_cert (one_cert_parse demo_server_evidence) demo_sha384
     (attested_client_config (mock_verify demo_mock) (Some (replicate 32 7)) (Some demo_hash)) [1] = Inr () \<and>
   attested_verify_server_cert (one_cert_parse demo_server_evidence) demo_sha384
     (attested_client_config (mock_verify demo_mock) (Some (replicate 32 7)) (Some (replicate 32 12))) [1] \<noteq> Inr ()"
proof -
  have rc: "cert_round_trip (one_cert_parse demo_server_evidence) (te_rcgen demo_tls)"
    by (simp add: demo_tls_def one_cert_round_trip)
  have sha: "sha384_law (te_sha384 demo_tls)" by (simp add: demo_tls_def demo_sha384_law)
  have "attested_verify_server_cert (one_cert_parse demo_server_evidence) (te_sha384 demo_tls)
      (attested_client_config (mock_verify demo_mock) (Some (replicate 32 7)) (Some h)) [1] = Inr ()
      \<longleftrightarrow> take 16 h = take 16 demo_hash" if "length h = 32" for h
    using attested_handshake_end_to_end [OF mock_attestation [OF demo_mock_laws] rc sha _ _ demo_server,
        of "Some h" "Some (replicate 32 7)"] that
    by (simp add: demo_hash_def)
  from this [of demo_hash] this [of "replicate 32 12"] show ?thesis
    by (simp add: demo_tls_def demo_hash_def replicate_eq_replicate)
qed

theorem accepted_certificate_is_bound_witness:
  "\<exists>e rd pin. extract_evidence_from_cert (one_cert_parse demo_server_evidence) [1] = Inr e \<and>
     mock_verify demo_mock e pin = Inr rd \<and> take 48 rd = demo_sha384 [42] \<and> drop 48 rd = take 16 demo_hash"
  using accepted_certificate_is_bound [OF mock.verifier_axioms demo_sha384_law _ demo_handshake]
  by (fastforce simp: demo_hash_def demo_sha384_def)

end
