(* ===== verification/Sev_Cert_Table.thy ===== *)
theory Sev_Cert_Table
  imports Rust_Strings
begin

text \<open>
  The certificate table of \<open>crates/relay-attest/src/sev_snp.rs\<close>: GUIDs in their mixed-endian
  form, \<open>cert_blob_used_len\<close> (how much of the firmware's buffer the attester ships) and
  \<open>find_cert\<close> (which certificate the verifier takes). A table is a sequence of 24-byte entries
  (GUID, offset, length) closed by an all-zero entry. Offsets and lengths are \<open>u32\<close> values
  added as 64-bit \<open>usize\<close>.
\<close>

section \<open>GUIDs\<close>

definition hex_nibble :: "byte \<Rightarrow> byte" where
  "hex_nibble c =
     (if 0x30 \<le> c \<and> c \<le> 0x39 then c - 0x30
      else if 0x61 \<le> c \<and> c \<le> 0x66 then c - 0x61 + 10
      else if 0x41 \<le> c \<and> c \<le> 0x46 then c - 0x41 + 10
      else 0)"

definition hex_pair :: "byte \<Rightarrow> byte \<Rightarrow> byte" where
  "hex_pair hi lo = (push_bit 4 (hex_nibble hi)) OR hex_nibble lo"

definition guid_bytes :: "string \<Rightarrow> byte list" where
  "guid_bytes t =
     (let bytes = as_bytes t
      in map (\<lambda>(i, j). hex_pair (bytes ! i) (bytes ! j))
           [(6, 7), (4, 5), (2, 3), (0, 1), (11, 12), (9, 10), (16, 17), (14, 15), (19, 20),
            (21, 22), (24, 25), (26, 27), (28, 29), (30, 31), (32, 33), (34, 35)])"

definition GUID_VCEK :: "byte list" where
  "GUID_VCEK = guid_bytes ''63da758d-e664-4564-adc5-f4b93be8accd''"

definition GUID_VLEK :: "byte list" where
  "GUID_VLEK = guid_bytes ''a8074bc2-a25a-483e-aae6-39c045a0b8a1''"

section \<open>Scanning the table\<close>

definition SNP_CERT_TABLE_ENTRY_SIZE :: nat where
  "SNP_CERT_TABLE_ENTRY_SIZE = 24"

definition zero_entry :: "byte list \<Rightarrow> bool" where
  "zero_entry entry \<longleftrightarrow> list_all (\<lambda>b. b = 0) entry"

definition entry_offset :: "byte list \<Rightarrow> nat" where
  "entry_offset entry = unat (u32_from_le_bytes (window entry 16 4))"

definition entry_length :: "byte list \<Rightarrow> nat" where
  "entry_length entry = unat (u32_from_le_bytes (window entry 20 4))"

definition usize_checked_add :: "nat \<Rightarrow> nat \<Rightarrow> nat option" where
  "usize_checked_add a b = (if a + b < 2 ^ 64 then Some (a + b) else None)"

fun used_loop :: "nat \<Rightarrow> nat \<times> nat \<Rightarrow> byte list list \<Rightarrow> nat \<times> nat" where
  "used_loop certs_len (used, header_end) [] = (used, header_end)"
| "used_loop certs_len (used, header_end) (entry # rest) =
     (let header_end = header_end + SNP_CERT_TABLE_ENTRY_SIZE
      in if zero_entry entry then (used, header_end)
         else (let used = (case usize_checked_add (entry_offset entry) (entry_length entry) of
                             Some e \<Rightarrow> max used (min e certs_len)
                           | None \<Rightarrow> used)
               in used_loop certs_len (used, header_end) rest))"

definition cert_blob_used_len :: "byte list \<Rightarrow> nat" where
  "cert_blob_used_len certs =
     (case used_loop (length certs) (0, 0) (chunks_exact SNP_CERT_TABLE_ENTRY_SIZE certs) of
        (used, header_end) \<Rightarrow> if used = 0 then 0 else max used header_end)"

text \<open>The search loop: \<open>None\<close> is the early return of \<open>?\<close>.\<close>

fun find_loop ::
    "byte list \<Rightarrow> nat \<times> (nat \<times> nat) list \<Rightarrow> byte list list \<Rightarrow> (nat \<times> (nat \<times> nat) list) option" where
  "find_loop guid (header_end, found) [] = Some (header_end, found)"
| "find_loop guid (header_end, found) (entry # rest) =
     (let header_end = header_end + SNP_CERT_TABLE_ENTRY_SIZE
      in if zero_entry entry then Some (header_end, found)
         else if take 16 entry \<noteq> guid then find_loop guid (header_end, found) rest
         else (case usize_checked_add (entry_offset entry) (entry_length entry) of
                 None \<Rightarrow> None
               | Some e \<Rightarrow>
                   find_loop guid (header_end, found @ [(entry_offset entry, e)]) rest))"

fun first_match :: "byte list \<Rightarrow> nat \<Rightarrow> (nat \<times> nat) list \<Rightarrow> byte list option" where
  "first_match certs header_end [] = None"
| "first_match certs header_end ((off, e) # rest) =
     (if off < header_end \<or> length certs < e then first_match certs header_end rest
      else (case slice certs off e of
              Some cert \<Rightarrow> Some cert
            | None \<Rightarrow> first_match certs header_end rest))"

definition find_cert :: "byte list \<Rightarrow> byte list \<Rightarrow> byte list option" where
  "find_cert certs guid =
     (case find_loop guid (0, []) (chunks_exact SNP_CERT_TABLE_ENTRY_SIZE certs) of
        None \<Rightarrow> None
      | Some (header_end, found) \<Rightarrow> first_match certs header_end found)"

section \<open>The table read declaratively\<close>

definition entry_end :: "byte list \<Rightarrow> nat" where
  "entry_end entry = entry_offset entry + entry_length entry"

lemma checked_add_entry [simp]:
  "usize_checked_add (entry_offset entry) (entry_length entry) = Some (entry_end entry)"
proof -
  have "entry_offset entry < 2 ^ 32" "entry_length entry < 2 ^ 32"
    unfolding entry_offset_def entry_length_def
    using unsigned_less [where ?'a = nat, of "u32_from_le_bytes (window entry 16 4)"]
      unsigned_less [where ?'a = nat, of "u32_from_le_bytes (window entry 20 4)"] by simp_all
  then show ?thesis by (simp add: usize_checked_add_def entry_end_def)
qed

definition table_entries :: "byte list list \<Rightarrow> byte list list" where
  "table_entries chunks = takeWhile (\<lambda>c. \<not> zero_entry c) chunks"

definition header_size :: "byte list list \<Rightarrow> nat" where
  "header_size chunks = 24 * min (length chunks) (Suc (length (table_entries chunks)))"

lemma table_simps [simp]:
  "table_entries [] = []"
  "table_entries (c # cs) = (if zero_entry c then [] else c # table_entries cs)"
  "header_size [] = 0"
  "header_size (c # cs) = 24 + (if zero_entry c then 0 else header_size cs)"
  by (simp_all add: table_entries_def header_size_def)

lemma used_loop_eq:
  "used_loop n (u, h) cs =
     (fold max (map (\<lambda>c. min (entry_end c) n) (table_entries cs)) u, h + header_size cs)"
  by (induction cs arbitrary: u h)
    (auto simp: Let_def SNP_CERT_TABLE_ENTRY_SIZE_def max.commute)

lemma find_loop_eq:
  "find_loop g (h, m) cs =
     Some (h + header_size cs,
           m @ map (\<lambda>c. (entry_offset c, entry_end c)) (filter (\<lambda>c. take 16 c = g) (table_entries cs)))"
  by (induction cs arbitrary: h m) (auto simp: Let_def SNP_CERT_TABLE_ENTRY_SIZE_def)

lemma first_match_eq:
  "first_match certs h (map (\<lambda>c. (entry_offset c, entry_end c)) cs) =
     map_option (\<lambda>c. window certs (entry_offset c) (entry_length c))
       (find (\<lambda>c. h \<le> entry_offset c \<and> entry_end c \<le> length certs) cs)"
  by (induction cs) (auto simp: slice_def entry_end_def window_def)

text \<open>Which entry \<open>find_cert\<close> takes, in one line.\<close>

definition usable_entry :: "byte list \<Rightarrow> byte list \<Rightarrow> byte list \<Rightarrow> bool" where
  "usable_entry certs guid c \<longleftrightarrow>
     take 16 c = guid \<and> header_size (chunks_exact 24 certs) \<le> entry_offset c \<and>
     entry_end c \<le> length certs"

lemma find_filter: "find P (filter Q xs) = find (\<lambda>x. Q x \<and> P x) xs"
  by (induction xs) auto

lemma find_cert_eq:
  "find_cert certs guid =
     map_option (\<lambda>c. window certs (entry_offset c) (entry_length c))
       (find (usable_entry certs guid) (table_entries (chunks_exact 24 certs)))"
  by (simp add: find_cert_def SNP_CERT_TABLE_ENTRY_SIZE_def find_loop_eq first_match_eq find_filter
      usable_entry_def [abs_def])

lemma cert_blob_used_len_eq:
  "cert_blob_used_len certs =
     (let cs = chunks_exact 24 certs;
          used = fold max (map (\<lambda>c. min (entry_end c) (length certs)) (table_entries cs)) 0
      in if used = 0 then 0 else max used (header_size cs))"
  by (simp add: cert_blob_used_len_def SNP_CERT_TABLE_ENTRY_SIZE_def used_loop_eq Let_def)

lemma fold_max_init: "u \<le> fold max xs (u :: nat)"
proof (induction xs arbitrary: u)
  case (Cons x xs)
  have "u \<le> max x u" by simp
  also have "max x u \<le> fold max xs (max x u)" by (rule Cons.IH)
  finally show ?case by simp
qed simp

lemma fold_max_ge: "x \<in> set xs \<Longrightarrow> x \<le> fold max xs (u :: nat)"
proof (induction xs arbitrary: u)
  case (Cons a xs)
  have "a \<le> fold max xs (max a u)"
    using fold_max_init [of "max a u" xs] by simp
  with Cons show ?case by auto
qed simp

lemma fold_max_le: "\<forall>x \<in> set xs. x \<le> n \<Longrightarrow> u \<le> n \<Longrightarrow> fold max xs u \<le> (n :: nat)"
  by (induction xs arbitrary: u) auto

section \<open>Truncating the blob\<close>

lemma length_chunks_exact: "0 < n \<Longrightarrow> length (chunks_exact n xs) = length xs div n"
proof (induction n xs rule: chunks_exact.induct)
  case (1 n xs)
  then show ?case
    by (cases "length xs < n") (simp_all add: chunks_exact.simps [of n xs] le_div_geq)
qed

lemma chunks_exact_take:
  "0 < n \<Longrightarrow> chunks_exact n (take k xs) = take (k div n) (chunks_exact n xs)"
proof (induction n xs arbitrary: k rule: chunks_exact.induct)
  case (1 n xs)
  show ?case
  proof (cases "length xs < n \<or> k < n")
    case True
    then have "length (take k xs) < n" by auto
    with True show ?thesis by (auto simp: chunks_exact_short)
  next
    case False
    then have "chunks_exact n (take k xs) = take n xs # chunks_exact n (take (k - n) (drop n xs))"
      using 1(2) by (subst chunks_exact.simps) (auto simp: drop_take)
    also have "\<dots> = take n xs # take ((k - n) div n) (chunks_exact n (drop n xs))"
      using 1 False by simp
    also have "\<dots> = take (k div n) (chunks_exact n xs)"
      using False 1(2) by (subst (2) chunks_exact.simps) (simp add: le_div_geq)
    finally show ?thesis .
  qed
qed

lemma table_of_take:
  assumes "header_size cs \<le> 24 * k"
  shows "table_entries (take k cs) = table_entries cs" and "header_size (take k cs) = header_size cs"
  using assms
  by (induction cs arbitrary: k) (auto simp: take_Cons split: nat.splits)

lemma header_size_le: "header_size (chunks_exact 24 xs) \<le> length xs"
proof -
  have "header_size (chunks_exact 24 xs) \<le> 24 * (length xs div 24)"
    by (simp add: header_size_def length_chunks_exact)
  also have "\<dots> \<le> length xs" by simp
  finally show ?thesis .
qed

lemma find_cert_truncated:
  assumes "n \<le> length certs" and "header_size (chunks_exact 24 certs) \<le> n"
    and "\<And>c. c \<in> set (table_entries (chunks_exact 24 certs)) \<Longrightarrow> entry_end c \<le> length certs \<Longrightarrow> entry_end c \<le> n"
  shows "find_cert (take n certs) guid = find_cert certs guid"
proof -
  let ?cs = "chunks_exact 24 certs"
  have chunks: "chunks_exact 24 (take n certs) = take (n div 24) ?cs"
    by (simp add: chunks_exact_take)
  have "header_size ?cs \<le> 24 * (n div 24)"
    using assms(2) unfolding header_size_def by (simp add: less_eq_div_iff_mult_less_eq)
  note same = table_of_take [OF this]
  have usable: "usable_entry (take n certs) guid c \<longleftrightarrow> usable_entry certs guid c"
    if "c \<in> set (table_entries ?cs)" for c
    using that assms(1,3) unfolding usable_entry_def chunks same by auto
  have "find (usable_entry (take n certs) guid) (table_entries ?cs) = find (usable_entry certs guid) (table_entries ?cs)"
    using usable by (intro find_cong) auto
  moreover have "window (take n certs) (entry_offset c) (entry_length c) = window certs (entry_offset c) (entry_length c)"
    if "find (usable_entry certs guid) (table_entries ?cs) = Some c" for c
  proof -
    from find_eq_Some_in [OF that] usable have "usable_entry (take n certs) guid c" by blast
    then show ?thesis by (simp add: usable_entry_def entry_end_def window_take)
  qed
  ultimately show ?thesis
    unfolding find_cert_eq chunks same
    by (cases "find (usable_entry certs guid) (table_entries ?cs)") simp_all
qed

lemma find_cert_used_blob:
  "find_cert (take (cert_blob_used_len certs) certs) guid = find_cert certs guid"
proof -
  let ?cs = "chunks_exact 24 certs"
  let ?ends = "map (\<lambda>c. min (entry_end c) (length certs)) (table_entries ?cs)"
  define used where "used = fold max ?ends 0"
  have ends: "min (entry_end c) (length certs) \<le> used" if "c \<in> set (table_entries ?cs)" for c
    unfolding used_def using that by (intro fold_max_ge) simp
  show ?thesis
  proof (cases "used = 0")
    case False
    then have n: "cert_blob_used_len certs = max used (header_size ?cs)"
      by (simp add: cert_blob_used_len_eq Let_def used_def)
    have "used \<le> length certs" unfolding used_def by (intro fold_max_le) auto
    then show ?thesis
      unfolding n using ends header_size_le [of certs]
      by (intro find_cert_truncated) (auto simp: le_max_iff_disj dest!: ends)
  next
    case True
    then have n: "cert_blob_used_len certs = 0"
      by (simp add: cert_blob_used_len_eq Let_def used_def)
    have "\<not> usable_entry certs guid c" if c: "c \<in> set (table_entries ?cs)" for c
    proof -
      from c have "?cs \<noteq> []" by auto
      then have "24 \<le> header_size ?cs" by (cases ?cs) auto
      moreover have "entry_offset c = 0 \<or> length certs < entry_end c"
        using ends [OF c] True header_size_le [of certs] \<open>24 \<le> header_size ?cs\<close>
        by (auto simp: min_def entry_end_def split: if_splits)
      ultimately show ?thesis by (auto simp: usable_entry_def)
    qed
    then have "find (usable_entry certs guid) (table_entries ?cs) = None"
      by (simp add: find_None_iff)
    moreover have "find_cert [] guid = None" by (simp add: find_cert_eq chunks_exact_short)
    ultimately show ?thesis by (simp add: n find_cert_eq)
  qed
qed

section \<open>Properties\<close>

text \<open>
  C22: shipping only the used part of the certificate buffer loses nothing. For every buffer
  the firmware may return, well-formed or not, and every GUID, the verifier finds the same
  certificate (or none) in the truncated blob as in the whole buffer.
\<close>

theorem truncated_blob_finds_same_cert:
  "find_cert (take (cert_blob_used_len certs) certs) guid = find_cert certs guid"
  by (rule find_cert_used_blob)

text \<open>A table with one entry per certificate, followed by the closing entry and the bodies.\<close>

definition table_entry :: "byte list \<Rightarrow> nat \<Rightarrow> nat \<Rightarrow> byte list" where
  "table_entry guid off len = guid @ to_le_bytes 4 off @ to_le_bytes 4 len"

fun table_headers :: "nat \<Rightarrow> (byte list \<times> byte list) list \<Rightarrow> byte list list" where
  "table_headers off [] = []"
| "table_headers off ((guid, cert) # rest) =
     table_entry guid off (length cert) # table_headers (off + length cert) rest"

definition encode_table :: "(byte list \<times> byte list) list \<Rightarrow> byte list" where
  "encode_table kvs =
     concat (table_headers (24 * Suc (length kvs)) kvs) @ replicate 24 0 @ concat (map snd kvs)"

definition table_ok :: "(byte list \<times> byte list) list \<Rightarrow> bool" where
  "table_ok kvs \<longleftrightarrow>
     (\<forall>(g, c) \<in> set kvs. length g = 16 \<and> \<not> zero_entry g) \<and> length (encode_table kvs) < 2 ^ 32"

lemma length_table_entry: "length g = 16 \<Longrightarrow> length (table_entry g off len) = 24"
  by (simp add: table_entry_def)

lemma table_entry_fields:
  assumes "length g = 16" and "off < 2 ^ 32" and "len < 2 ^ 32"
  shows "take 16 (table_entry g off len) = g" and "entry_offset (table_entry g off len) = off"
    and "entry_length (table_entry g off len) = len"
  using assms by (simp_all add: table_entry_def entry_offset_def entry_length_def window_def
      u32_to_le_bytes)

lemma zero_entry_append [simp]: "zero_entry (xs @ ys) \<longleftrightarrow> zero_entry xs \<and> zero_entry ys"
  by (simp add: zero_entry_def)

lemma chunks_of_headers:
  assumes "\<forall>e \<in> set es. length e = 24"
  shows "chunks_exact 24 (concat es @ rest) = es @ chunks_exact 24 rest"
  using assms by (induction es) (simp_all add: chunks_exact_Cons)

lemma length_headers: "length (table_headers off kvs) = length kvs"
  by (induction off kvs rule: table_headers.induct) auto

lemma headers_len:
  "\<forall>(g, c) \<in> set kvs. length g = 16 \<Longrightarrow> \<forall>e \<in> set (table_headers off kvs). length e = 24"
  by (induction off kvs rule: table_headers.induct) (auto simp: length_table_entry)

lemma takeWhile_headers:
  assumes "\<forall>(g, c) \<in> set kvs. \<not> zero_entry g" and "zero_entry z"
  shows "table_entries (table_headers off kvs @ z # rest) = table_headers off kvs"
  using assms
  by (induction off kvs rule: table_headers.induct) (auto simp: table_entry_def)

lemma length_concat_headers:
  "\<forall>(g, c) \<in> set kvs. length g = 16 \<Longrightarrow> length (concat (table_headers off kvs)) = 24 * length kvs"
  by (induction off kvs rule: table_headers.induct) (auto simp: length_table_entry)

text \<open>The search through the headers ends at the first certificate with the GUID.\<close>

lemma find_in_headers:
  assumes "\<forall>(g, c) \<in> set kvs. length g = 16"
    and "h \<le> off" and "length pre = off" and "off + length (concat (map snd kvs)) < 2 ^ 32"
  shows "map_option (\<lambda>e. window (pre @ concat (map snd kvs)) (entry_offset e) (entry_length e))
           (find (\<lambda>e. take 16 e = guid \<and> h \<le> entry_offset e
                      \<and> entry_end e \<le> off + length (concat (map snd kvs))) (table_headers off kvs))
         = map_of kvs guid"
  using assms
proof (induction off kvs arbitrary: pre rule: table_headers.induct)
  case (1 off)
  then show ?case by simp
next
  case (2 off g c kvs)
  have f: "take 16 (table_entry g off (length c)) = g" "entry_offset (table_entry g off (length c)) = off"
      "entry_length (table_entry g off (length c)) = length c"
    using 2(2,5) by (simp_all add: table_entry_fields)
  show ?case
  proof (cases "g = guid")
    case True
    then show ?thesis using 2(3,4) f by (simp add: entry_end_def window_def)
  next
    case False
    have "map_option (\<lambda>e. window ((pre @ c) @ concat (map snd kvs)) (entry_offset e) (entry_length e))
        (find (\<lambda>e. take 16 e = guid \<and> h \<le> entry_offset e
            \<and> entry_end e \<le> off + length c + length (concat (map snd kvs))) (table_headers (off + length c) kvs))
      = map_of kvs guid"
      using 2(2-5) by (intro 2(1)) auto
    with False f show ?thesis by (simp add: add.assoc)
  qed
qed

text \<open>
  C35: looking a certificate up in a well-formed table. For a table of certificates with
  16-byte non-zero GUIDs whose encoding is below $2^{32}$ bytes, \<open>find_cert\<close> returns exactly
  the first certificate stored under the GUID, and nothing when there is none.
\<close>

theorem find_cert_in_encoded_table:
  assumes "table_ok kvs"
  shows "find_cert (encode_table kvs) guid = map_of kvs guid"
proof -
  let ?n = "24 * Suc (length kvs)"
  let ?hs = "table_headers ?n kvs"
  let ?pre = "concat ?hs @ replicate 24 0"
  have g: "\<forall>(g, c) \<in> set kvs. length g = 16" and z: "\<forall>(g, c) \<in> set kvs. \<not> zero_entry g"
    using assms by (auto simp: table_ok_def)
  have enc: "encode_table kvs = ?pre @ concat (map snd kvs)" by (simp add: encode_table_def)
  have zero: "zero_entry (replicate 24 0)" by (simp add: zero_entry_def list_all_iff)
  have "chunks_exact 24 (encode_table kvs)
      = ?hs @ replicate 24 0 # chunks_exact 24 (concat (map snd kvs))"
    using chunks_of_headers [OF headers_len [OF g], of ?n "replicate 24 0 @ concat (map snd kvs)"]
    by (simp add: encode_table_def chunks_exact_Cons)
  then have t: "table_entries (chunks_exact 24 (encode_table kvs)) = ?hs"
      "header_size (chunks_exact 24 (encode_table kvs)) = ?n"
    using takeWhile_headers [OF z zero, of ?n "chunks_exact 24 (concat (map snd kvs))"]
    by (simp_all add: header_size_def length_headers)
  have pre: "length ?pre = ?n" using length_concat_headers [OF g, of ?n] by simp
  have len: "length (encode_table kvs) = ?n + length (concat (map snd kvs))"
    unfolding enc using pre by simp
  with assms have small: "?n + length (concat (map snd kvs)) < 2 ^ 32" by (simp add: table_ok_def)
  show ?thesis
    using find_in_headers [OF g order_refl pre small, of guid]
    unfolding find_cert_eq usable_entry_def [abs_def] t len enc [symmetric] .
qed

theorem find_cert_in_encoded_table_witness:
  "find_cert (encode_table [(GUID_VCEK, [1, 2, 3]), (GUID_VLEK, [4, 5])]) GUID_VLEK = Some [4, 5]"
proof -
  let ?t = "[(GUID_VCEK, [1, 2, 3]), (GUID_VLEK, [4, 5])]"
  have guids: "GUID_VCEK = [0x8d, 0x75, 0xda, 0x63, 0x64, 0xe6, 0x64, 0x45, 0xad, 0xc5, 0xf4, 0xb9,
        0x3b, 0xe8, 0xac, 0xcd]"
      "GUID_VLEK = [0xc2, 0x4b, 0x07, 0xa8, 0x5a, 0xa2, 0x3e, 0x48, 0xaa, 0xe6, 0x39, 0xc0, 0x45,
        0xa0, 0xb8, 0xa1]"
    by code_simp+
  have "table_ok ?t"
    by (simp add: table_ok_def guids encode_table_def zero_entry_def table_entry_def)
  from find_cert_in_encoded_table [OF this, of GUID_VLEK] show ?thesis by (simp add: guids)
qed

end
