(* ===== verification/Cached_Fetch.thy ===== *)
theory Cached_Fetch
  imports Rust_Strings
begin

text \<open>
  Fetching over HTTPS through a process-wide cache with a time to live, as
  \<open>fetch_cert_bytes_cached\<close> of \<open>sev_snp.rs\<close> and \<open>fetch_json_cached\<close> of
  \<open>gcp_confidential_space.rs\<close> do. This theory has the world they share and the interface
  \<open>ttl_cache\<close> both are shown to satisfy: whatever a fetch returns was served by the network
  for that very URL, now or less than the time to live ago.

  The network and the monotonic clock are parameters indexed by a counter of events, so that
  every access may see another answer and a later time.
\<close>

section \<open>World\<close>

datatype http_get =
    ClientBuildFailed
  | SendFailed
  | HttpResponse u16 "string + byte list"

type_synonym network = "nat \<Rightarrow> string \<Rightarrow> http_get"

text \<open>How the calling code runs: the async runtime, and whether a temporary one can be made.\<close>

datatype runtime_kind =
    MultiThread
  | CurrentThread bool bool
  | NoRuntime bool

record 'v fetch_world =
  fw_events :: nat
  fw_cache :: "string \<rightharpoonup> nat \<times> 'v"

definition is_success :: "u16 \<Rightarrow> bool" where
  "is_success status \<longleftrightarrow> 200 \<le> status \<and> status \<le> 299"

definition tick :: "'v fetch_world \<Rightarrow> 'v fetch_world" where
  "tick w = w\<lparr>fw_events := Suc (fw_events w)\<rparr>"

text \<open>
  Running a request: on a multi-threaded runtime in place, on a current-thread runtime in a
  thread of its own, with no runtime on a temporary one.
\<close>

definition run_blocking ::
    "runtime_kind \<Rightarrow> 'e \<Rightarrow> 'e \<Rightarrow> 'e \<Rightarrow> 'e + 'a \<Rightarrow> 'e + 'a" where
  "run_blocking rt thread_runtime_failed thread_panicked runtime_failed request =
     (case rt of
        MultiThread \<Rightarrow> request
      | CurrentThread runtime_ok panicked \<Rightarrow>
          if panicked then Inl thread_panicked
          else if \<not> runtime_ok then Inl thread_runtime_failed else request
      | NoRuntime runtime_ok \<Rightarrow> if \<not> runtime_ok then Inl runtime_failed else request)"

lemma run_blocking_eq_Inr: "run_blocking rt a b c request = Inr v \<Longrightarrow> request = Inr v"
  by (auto simp: run_blocking_def split: runtime_kind.splits if_splits)

text \<open>The cache holds only what the network served.\<close>

definition cache_served :: "(string \<Rightarrow> 'v \<Rightarrow> bool) \<Rightarrow> 'v fetch_world \<Rightarrow> bool" where
  "cache_served served w \<longleftrightarrow> (\<forall>url t v. fw_cache w url = Some (t, v) \<longrightarrow> served url v)"

lemma cache_served_empty: "fw_cache w = Map.empty \<Longrightarrow> cache_served served w"
  by (simp add: cache_served_def)

lemma cache_served_tick [simp]: "cache_served served (tick w) = cache_served served w"
  by (simp add: cache_served_def tick_def)

section \<open>The interface\<close>

locale ttl_cache =
  fixes fetch :: "string \<Rightarrow> 'v fetch_world \<Rightarrow> ('e + 'v) \<times> 'v fetch_world"
    and clock :: "nat \<Rightarrow> nat"
    and ttl :: nat
    and served :: "string \<Rightarrow> 'v \<Rightarrow> bool"
  assumes fetch_hit: "fw_cache w url = Some (t, v) \<Longrightarrow> clock (fw_events w) - t < ttl \<Longrightarrow>
      fst (fetch url w) \<noteq> Inr v' \<or> v' = v"
    and fetch_result: "fetch url w = (Inr v, w') \<Longrightarrow>
      (\<exists>t. fw_cache w url = Some (t, v) \<and> clock (fw_events w) - t < ttl) \<or> served url v"
    and fetch_cache: "fetch url w = (r, w') \<Longrightarrow>
      fw_cache w' = fw_cache w \<or>
      (\<exists>t v. r = Inr v \<and> served url v \<and> fw_cache w' = (fw_cache w)(url \<mapsto> (t, v)))"
begin

lemma cache_served_fetch: "cache_served served w \<Longrightarrow> fetch url w = (r, w') \<Longrightarrow> cache_served served w'"
  using fetch_cache [of url w r w'] by (auto simp: cache_served_def split: if_splits)

lemma fetch_served: "cache_served served w \<Longrightarrow> fetch url w = (Inr v, w') \<Longrightarrow> served url v"
  using fetch_result [of url w v w'] by (auto simp: cache_served_def)

lemma fetch_stale: "fw_cache w url = Some (t, v) \<Longrightarrow> ttl \<le> clock (fw_events w) - t \<Longrightarrow>
    fetch url w = (Inr v', w') \<Longrightarrow> served url v'"
  using fetch_result [of url w v' w'] by auto

end

end
