(* ===== verification/Sev_Snp.thy ===== *)
theory Sev_Snp
  imports Attest_Types Sev_Cert_Table Cached_Fetch
begin

text \<open>
  \<open>crates/relay-attest/src/sev_snp.rs\<close>: the SEV-SNP attester on top of the guest device, and
  the verifier: report layout and policy, selection of the endorsement certificate, its
  chain to a pinned AMD root key, and the ECDSA P-384 signature over the report.

  Parameters (\<open>sev_env\<close>): X.509, DER headers, PEM, SHA-256, hex, RSA-PSS (\<open>ring\<close>), path
  validation (\<open>webpki\<close>), P-384, the network, the clock, the async runtime and whether the
  cache lock is poisoned; \<open>sev_device\<close> is the guest device. A parsed certificate is the record
  of what the code reads of it. Sizes are 64-bit.
\<close>

section \<open>Report layout\<close>

definition SNP_REPORT_SIZE :: nat where "SNP_REPORT_SIZE = 1184"
definition REPORT_DATA_OFFSET :: nat where "REPORT_DATA_OFFSET = 80"
definition REPORT_DATA_LEN :: nat where "REPORT_DATA_LEN = 64"
definition MEASUREMENT_OFFSET :: nat where "MEASUREMENT_OFFSET = 144"
definition MEASUREMENT_LEN :: nat where "MEASUREMENT_LEN = 48"
definition GUEST_SVN_OFFSET :: nat where "GUEST_SVN_OFFSET = 4"
definition POLICY_OFFSET :: nat where "POLICY_OFFSET = 8"
definition SIGNING_KEY_OFFSET :: nat where "SIGNING_KEY_OFFSET = 72"
definition SIGNATURE_OFFSET :: nat where "SIGNATURE_OFFSET = 672"
definition SIGNATURE_LEN :: nat where "SIGNATURE_LEN = 512"
definition ECDSA_P384_SCALAR_LEN :: nat where "ECDSA_P384_SCALAR_LEN = 48"
definition ECDSA_P384_AMD_SCALAR_LEN :: nat where "ECDSA_P384_AMD_SCALAR_LEN = 72"
definition SIGNED_DATA_LEN :: nat where "SIGNED_DATA_LEN = SIGNATURE_OFFSET"
definition CHIP_ID_OFFSET :: nat where "CHIP_ID_OFFSET = 416"
definition CHIP_ID_LEN :: nat where "CHIP_ID_LEN = 64"
definition REPORTED_TCB_OFFSET :: nat where "REPORTED_TCB_OFFSET = 384"
definition POLICY_DEBUG_ALLOWED_BIT :: u64 where "POLICY_DEBUG_ALLOWED_BIT = push_bit 19 1"

text \<open>Six hours, in nanoseconds of the monotonic clock.\<close>

definition KDS_CACHE_TTL :: nat where "KDS_CACHE_TTL = 6 * 60 * 60 * 10 ^ 9"

definition SNP_CERT_BLOB_SIZE :: nat where "SNP_CERT_BLOB_SIZE = 16 * 1024"
definition SNP_SIGNING_KEY_VCEK :: byte where "SNP_SIGNING_KEY_VCEK = 0"
definition SNP_SIGNING_KEY_VLEK :: byte where "SNP_SIGNING_KEY_VLEK = 1"

lemmas layout_defs = SNP_REPORT_SIZE_def REPORT_DATA_OFFSET_def REPORT_DATA_LEN_def
  MEASUREMENT_OFFSET_def MEASUREMENT_LEN_def GUEST_SVN_OFFSET_def POLICY_OFFSET_def
  SIGNING_KEY_OFFSET_def SIGNATURE_OFFSET_def SIGNATURE_LEN_def ECDSA_P384_SCALAR_LEN_def
  ECDSA_P384_AMD_SCALAR_LEN_def SIGNED_DATA_LEN_def CHIP_ID_OFFSET_def CHIP_ID_LEN_def
  REPORTED_TCB_OFFSET_def

section \<open>Parameters\<close>

record sev_cert =
  sc_public_key :: "byte list"
  sc_valid_now :: bool
  sc_sig_oid :: string
  sc_sig_params :: "byte list option"
  sc_signature :: "byte list"

datatype pss_alg = RSA_PSS_SHA256 | RSA_PSS_SHA384 | RSA_PSS_SHA512

record sev_env =
  se_x509 :: "byte list \<Rightarrow> sev_cert option"
  se_der_header :: "byte list \<Rightarrow> (byte list \<times> nat option) option"
  se_pem_many :: "string \<Rightarrow> byte list list option"
  se_pem_one :: "string \<Rightarrow> byte list option"
  se_sha256 :: "byte list \<Rightarrow> byte list"
  se_hex :: "byte list \<Rightarrow> string"
  se_pss_hash :: "byte list \<Rightarrow> string option"
  se_rsa_verify :: "pss_alg \<Rightarrow> byte list \<Rightarrow> byte list \<Rightarrow> byte list \<Rightarrow> bool"
  se_trust_anchor :: "byte list \<Rightarrow> bool"
  se_end_entity :: "byte list \<Rightarrow> bool"
  se_path_valid :: "byte list \<Rightarrow> byte list \<Rightarrow> bool"
  se_p384_signature :: "byte list \<Rightarrow> bool"
  se_p384_key :: "byte list \<Rightarrow> bool"
  se_p384_verify :: "byte list \<Rightarrow> byte list \<Rightarrow> byte list \<Rightarrow> bool"
  se_network :: network
  se_clock :: "nat \<Rightarrow> nat"
  se_runtime :: runtime_kind
  se_lock_poisoned :: bool

type_synonym sev_world = "byte list fetch_world"

section \<open>Reading the report\<close>

definition report_bytes :: "byte list \<Rightarrow> AttestError + byte list" where
  "report_bytes d = ok_or (vfail ''report too short'') (slice d 0 SNP_REPORT_SIZE)"

definition cert_blob_bytes :: "byte list \<Rightarrow> byte list option" where
  "cert_blob_bytes d =
     (if length d < SNP_REPORT_SIZE then None
      else let certs = drop SNP_REPORT_SIZE d in if certs = [] then None else Some certs)"

definition read_le_u32 :: "byte list \<Rightarrow> nat \<Rightarrow> AttestError + u32" where
  "read_le_u32 report offset =
     rbind (ok_or (vfail ''report too short for u32'') (slice report offset (offset + 4)))
       (\<lambda>bytes. Inr (u32_from_le_bytes bytes))"

definition read_le_u64 :: "byte list \<Rightarrow> nat \<Rightarrow> AttestError + u64" where
  "read_le_u64 report offset =
     rbind (ok_or (vfail ''report too short for u64'') (slice report offset (offset + 8)))
       (\<lambda>bytes. Inr (u64_from_le_bytes bytes))"

definition signing_key :: "byte list \<Rightarrow> AttestError + byte" where
  "signing_key report =
     rbind (ok_or (vfail ''report too short for signing key flags'')
              (slice report SIGNING_KEY_OFFSET (SIGNING_KEY_OFFSET + 4))) (\<lambda>bytes.
     let flags = u32_from_le_bytes bytes
     in if drop_bit 5 flags \<noteq> 0
        then Inl (vfail ''SEV-SNP signer info has non-zero reserved bits: '')
        else
          let key = (ucast (drop_bit 2 flags AND 7) :: byte)
          in if SNP_SIGNING_KEY_VLEK < key \<and> key \<noteq> 7
             then Inl (vfail ''reserved SEV-SNP signing key selector: '')
             else if key = 7 then Inl (vfail ''SEV-SNP report is marked unsigned'')
             else Inr key)"

definition signing_key_name :: "byte \<Rightarrow> string" where
  "signing_key_name key =
     (if key = SNP_SIGNING_KEY_VCEK then ''VCEK''
      else if key = SNP_SIGNING_KEY_VLEK then ''VLEK''
      else if key = 7 then ''None'' else ''unknown'')"

text \<open>
  \<open>r\<close> and \<open>s\<close> are 72-byte little-endian integers in the report; the signature type takes them
  as 48-byte big-endian ones.
\<close>

definition amd_signature_to_p384 ::
    "sev_env \<Rightarrow> byte list \<Rightarrow> byte list \<Rightarrow> AttestError + byte list" where
  "amd_signature_to_p384 env sig_r sig_s =
     (if length sig_r \<noteq> ECDSA_P384_AMD_SCALAR_LEN \<or> length sig_s \<noteq> ECDSA_P384_AMD_SCALAR_LEN
      then Inl (vfail ''invalid SEV-SNP ECDSA signature field length: r='')
      else
        let signature_bytes = rev (take ECDSA_P384_SCALAR_LEN sig_r) @ rev (take ECDSA_P384_SCALAR_LEN sig_s)
        in if se_p384_signature env signature_bytes then Inr signature_bytes
           else Inl (vfail ''invalid ECDSA P-384 signature encoding: ''))"

section \<open>AMD key distribution service\<close>

definition vcek_url :: "sev_env \<Rightarrow> string \<Rightarrow> byte list \<Rightarrow> u64 \<Rightarrow> string" where
  "vcek_url env product_name chip_id reported_tcb =
     (let boot_loader = (ucast (reported_tcb AND 0xFF) :: byte);
          tee = (ucast (drop_bit 8 reported_tcb AND 0xFF) :: byte);
          snp = (ucast (drop_bit 48 reported_tcb AND 0xFF) :: byte);
          microcode = (ucast (drop_bit 56 reported_tcb AND 0xFF) :: byte)
      in ''https://kdsintf.amd.com/vcek/v1/'' @ product_name @ ''/'' @ se_hex env chip_id
         @ ''?blSPL='' @ decimal (unat boot_loader) @ ''&teeSPL='' @ decimal (unat tee)
         @ ''&snpSPL='' @ decimal (unat snp) @ ''&ucodeSPL='' @ decimal (unat microcode))"

definition cert_chain_url :: "string \<Rightarrow> string \<Rightarrow> string" where
  "cert_chain_url endorser product_name =
     ''https://kdsintf.amd.com/'' @ endorser @ ''/v1/'' @ product_name @ ''/cert_chain''"

definition candidate_product_names :: "string list" where
  "candidate_product_names = [''Milan'', ''Genoa'', ''Turin'']"

definition fetch_url_bytes :: "http_get \<Rightarrow> AttestError + byte list" where
  "fetch_url_bytes outcome =
     (case outcome of
        ClientBuildFailed \<Rightarrow> Inl (vfail ''HTTP client error: '')
      | SendFailed \<Rightarrow> Inl (vfail ''failed to fetch from AMD KDS ('')
      | HttpResponse status body \<Rightarrow>
          if \<not> is_success status then Inl (vfail ''AMD KDS returned HTTP '')
          else map_err (\<lambda>e. vfail ''failed to read response body: '') body)"

definition fetch_cert_bytes :: "sev_env \<Rightarrow> string \<Rightarrow> sev_world \<Rightarrow> AttestError + byte list" where
  "fetch_cert_bytes env url w =
     run_blocking (se_runtime env) (vfail ''failed to create runtime for cert fetch: '')
       (vfail ''cert fetch thread panicked'') (vfail ''failed to create runtime: '')
       (fetch_url_bytes (se_network env (fw_events w) url))"

definition fetch_cert_bytes_cached ::
    "sev_env \<Rightarrow> string \<Rightarrow> sev_world \<Rightarrow> (AttestError + byte list) \<times> sev_world" where
  "fetch_cert_bytes_cached env url w =
     (let now = se_clock env (fw_events w)
      in if se_lock_poisoned env then (Inl (vfail ''certificate cache lock poisoned''), tick w)
         else
           (case fw_cache w url of
              Some (fetched_at, bytes) \<Rightarrow>
                if now - fetched_at < KDS_CACHE_TTL then (Inr bytes, tick w)
                else (case fetch_cert_bytes env url w of
                        Inl e \<Rightarrow> (Inl e, tick w)
                      | Inr bytes \<Rightarrow> (Inr bytes, (tick w)\<lparr>fw_cache := (fw_cache w)(url \<mapsto> (now, bytes))\<rparr>))
            | None \<Rightarrow>
                (case fetch_cert_bytes env url w of
                   Inl e \<Rightarrow> (Inl e, tick w)
                 | Inr bytes \<Rightarrow> (Inr bytes, (tick w)\<lparr>fw_cache := (fw_cache w)(url \<mapsto> (now, bytes))\<rparr>))))"

section \<open>The endorsement chain\<close>

definition PINNED_ARK_FINGERPRINTS :: "(string \<times> string) list" where
  "PINNED_ARK_FINGERPRINTS =
     [(''Milan'', ''69d063b45344d26a2e94e1f4210de49ef555308287d4c174445c95639a540bcd''),
      (''Genoa'', ''4c6598d19c18719c5dfd4a7d335f674e5bfe1d8f800cea2cf270c10d103db2f1''),
      (''Turin'', ''1f084161a44bb6d93778a904877d4819cafa5d05ef4193b2ded9dd9c73dd3f6a'')]"

definition OID_PKCS1_RSASSAPSS :: string where "OID_PKCS1_RSASSAPSS = ''1.2.840.113549.1.1.10''"
definition OID_NIST_HASH_SHA256 :: string where "OID_NIST_HASH_SHA256 = ''2.16.840.1.101.3.4.2.1''"
definition OID_NIST_HASH_SHA384 :: string where "OID_NIST_HASH_SHA384 = ''2.16.840.1.101.3.4.2.2''"
definition OID_NIST_HASH_SHA512 :: string where "OID_NIST_HASH_SHA512 = ''2.16.840.1.101.3.4.2.3''"

definition rsa_pss_verification_alg :: "sev_env \<Rightarrow> sev_cert \<Rightarrow> AttestError + pss_alg" where
  "rsa_pss_verification_alg env cert =
     (if sc_sig_oid cert \<noteq> OID_PKCS1_RSASSAPSS
      then Inl (vfail ''certificate uses unsupported signature algorithm: '')
      else
        rbind (ok_or (vfail ''RSA-PSS signature is missing parameters'') (sc_sig_params cert)) (\<lambda>params.
        rbind (ok_or (vfail ''invalid RSA-PSS signature parameters'') (se_pss_hash env params)) (\<lambda>hash_algo.
        if hash_algo = OID_NIST_HASH_SHA256 then Inr RSA_PSS_SHA256
        else if hash_algo = OID_NIST_HASH_SHA384 then Inr RSA_PSS_SHA384
        else if hash_algo = OID_NIST_HASH_SHA512 then Inr RSA_PSS_SHA512
        else Inl (vfail ''unsupported RSA-PSS hash algorithm: ''))))"

text \<open>
  Lengths are \<open>usize\<close>. In a release build the subtraction wraps below zero, which puts the
  start of the range past the end, and the addition wraps modulo $2^{64}$.
\<close>

definition tbs_certificate_der :: "sev_env \<Rightarrow> byte list \<Rightarrow> AttestError + byte list" where
  "tbs_certificate_der env cert_der =
     rbind (ok_or (vfail ''failed to parse certificate DER header: '') (se_der_header env cert_der)) (\<lambda>(_, outer).
     rbind (ok_or (vfail ''invalid certificate DER length: '') outer) (\<lambda>outer_len.
     rbind (ok_or (vfail ''certificate DER length is inconsistent'')
              (if length cert_der < outer_len then None
               else slice cert_der (length cert_der - outer_len) (length cert_der))) (\<lambda>cert_inner.
     rbind (ok_or (vfail ''failed to parse TBS DER header: '') (se_der_header env cert_inner))
       (\<lambda>(after_tbs_header, tbs_header).
     rbind (ok_or (vfail ''invalid TBS DER length: '') tbs_header) (\<lambda>tbs_content_len.
     let tbs_header_len = length cert_inner - length after_tbs_header;
         total_tbs_len = (tbs_header_len + tbs_content_len) mod 2 ^ 64
     in ok_or (vfail ''TBS DER extends past certificate'') (slice cert_inner 0 total_tbs_len))))))"

definition verify_cert_signature_with_alg ::
    "sev_env \<Rightarrow> byte list \<Rightarrow> byte list \<Rightarrow> string \<Rightarrow> AttestError + unit" where
  "verify_cert_signature_with_alg env cert_der issuer_der label =
     rbind (ok_or (vfail (''failed to parse '' @ label @ '' certificate: '')) (se_x509 env cert_der)) (\<lambda>cert.
     rbind (ok_or (vfail (''failed to parse '' @ label @ '' issuer certificate: '')) (se_x509 env issuer_der)) (\<lambda>issuer.
     rbind (tbs_certificate_der env cert_der) (\<lambda>tbs_der.
     rbind (rsa_pss_verification_alg env cert) (\<lambda>verification_alg.
     if se_rsa_verify env verification_alg (sc_public_key issuer) tbs_der (sc_signature cert)
     then Inr () else Inl (vfail (label @ '' certificate signature validation failed''))))))"

definition verify_cert_signed_by_trust_anchor ::
    "sev_env \<Rightarrow> byte list \<Rightarrow> byte list \<Rightarrow> string \<Rightarrow> AttestError + unit" where
  "verify_cert_signed_by_trust_anchor env cert_der trust_anchor_der label =
     (if \<not> se_trust_anchor env trust_anchor_der
      then Inl (vfail (''failed to parse '' @ label @ '' issuer as trust anchor: ''))
      else if \<not> se_end_entity env cert_der
      then Inl (vfail (''failed to parse '' @ label @ '' certificate: ''))
      else if \<not> se_path_valid env cert_der trust_anchor_der
      then Inl (vfail (label @ '' certificate signature/path validation failed: ''))
      else Inr ())"

definition verify_vcek_chain ::
    "sev_env \<Rightarrow> byte list \<Rightarrow> byte list \<Rightarrow> AttestError + unit" where
  "verify_vcek_chain env leaf_der chain_pem_bytes =
     rbind (ok_or (vfail ''cert chain PEM is not valid UTF-8: '') (from_utf8 chain_pem_bytes)) (\<lambda>chain_str.
     rbind (ok_or (vfail ''failed to parse cert chain PEM: '') (se_pem_many env chain_str)) (\<lambda>pems.
     if length pems < 2
     then Inl (vfail ''expected at least 2 certificates in chain (ASK + ARK), got '')
     else
       let ask_der = pems ! 0; ark_der = pems ! 1
       in rbind (ok_or (vfail ''failed to parse ASK/ASVK certificate: '') (se_x509 env ask_der)) (\<lambda>_.
          rbind (ok_or (vfail ''failed to parse ARK certificate: '') (se_x509 env ark_der)) (\<lambda>_.
          let ark_fingerprint = se_hex env (se_sha256 env ark_der)
          in if \<not> list_ex (\<lambda>(_, fp). fp = ark_fingerprint) PINNED_ARK_FINGERPRINTS
             then Inl (vfail ''ARK certificate fingerprint '')
             else
               rbind (verify_cert_signature_with_alg env ask_der ark_der ''ASK/ASVK'') (\<lambda>_.
               rbind (verify_cert_signed_by_trust_anchor env leaf_der ask_der ''VCEK/VLEK'') (\<lambda>_.
               rbind (ok_or (vfail ''failed to parse VCEK/VLEK certificate: '') (se_x509 env leaf_der))
                 (\<lambda>_. Inr ())))))))"

definition verify_vcek_certificate :: "sev_env \<Rightarrow> byte list \<Rightarrow> AttestError + unit" where
  "verify_vcek_certificate env endorsement_der =
     rbind (ok_or (vfail ''failed to parse VCEK/VLEK X.509 certificate: '') (se_x509 env endorsement_der)) (\<lambda>cert.
     if \<not> sc_valid_now cert then Inl (vfail ''VCEK/VLEK certificate is not currently valid'') else Inr ())"

definition extract_p384_pubkey_from_der :: "sev_env \<Rightarrow> byte list \<Rightarrow> AttestError + byte list" where
  "extract_p384_pubkey_from_der env cert_bytes =
     rbind (if prefix (as_bytes ''-----BEGIN'') cert_bytes then
              rbind (ok_or (vfail ''VCEK/VLEK PEM is not valid UTF-8: '') (from_utf8 cert_bytes)) (\<lambda>pem_str.
              ok_or (vfail ''failed to parse VCEK/VLEK PEM: '') (se_pem_one env pem_str))
            else Inr cert_bytes) (\<lambda>der_bytes.
     rbind (ok_or (vfail ''failed to parse VCEK/VLEK X.509 certificate: '') (se_x509 env der_bytes)) (\<lambda>cert.
     if se_p384_key env (sc_public_key cert) then Inr (sc_public_key cert)
     else Inl (vfail ''VCEK/VLEK public key is not a valid P-384 key ('')))"

section \<open>The report signature\<close>

definition endorsement_leaf ::
    "sev_env \<Rightarrow> byte \<Rightarrow> byte list option \<Rightarrow> byte list \<Rightarrow> u64 \<Rightarrow> string
       \<Rightarrow> sev_world \<Rightarrow> (AttestError + byte list \<times> string) \<times> sev_world" where
  "endorsement_leaf env key certs chip_id reported_tcb product_name =
     (if key = SNP_SIGNING_KEY_VCEK then
        sbind (case Option.bind certs (\<lambda>cs. find_cert cs GUID_VCEK) of
                 Some cert \<Rightarrow> slift (Inr cert)
               | None \<Rightarrow> fetch_cert_bytes_cached env (vcek_url env product_name chip_id reported_tcb))
          (\<lambda>leaf_der. slift (Inr (leaf_der, cert_chain_url ''vcek'' product_name)))
      else if key = SNP_SIGNING_KEY_VLEK then
        slift
          (rbind (ok_or (vfail ''SEV-SNP report is signed by VLEK but no certificate blob is embedded'') certs) (\<lambda>cs.
           rbind (ok_or (vfail ''SEV-SNP certificate blob does not contain a VLEK certificate'')
                    (find_cert cs GUID_VLEK)) (\<lambda>leaf_der.
           Inr (leaf_der, cert_chain_url ''vlek'' product_name))))
      else slift (Inl (vfail ''unsupported SEV-SNP signing key selector: '')))"

definition check_endorsed_signature ::
    "sev_env \<Rightarrow> byte list \<Rightarrow> byte list \<Rightarrow> byte list \<Rightarrow> byte list \<Rightarrow> AttestError + unit" where
  "check_endorsed_signature env signed_data signature leaf_der chain_pem_bytes =
     rbind (verify_vcek_chain env leaf_der chain_pem_bytes) (\<lambda>_.
     rbind (verify_vcek_certificate env leaf_der) (\<lambda>_.
     rbind (extract_p384_pubkey_from_der env leaf_der) (\<lambda>vcek_pubkey.
     if se_p384_verify env vcek_pubkey signed_data signature then Inr ()
     else Inl (vfail ''SEV-SNP report signature verification failed against ''))))"

definition try_product ::
    "sev_env \<Rightarrow> byte list \<Rightarrow> byte list \<Rightarrow> byte \<Rightarrow> byte list option \<Rightarrow> byte list \<Rightarrow> u64 \<Rightarrow> string
       \<Rightarrow> sev_world \<Rightarrow> (AttestError + unit) \<times> sev_world" where
  "try_product env signed_data signature key certs chip_id reported_tcb product_name =
     sbind (endorsement_leaf env key certs chip_id reported_tcb product_name) (\<lambda>(leaf_der, chain_url).
     sbind (fetch_cert_bytes_cached env chain_url) (\<lambda>chain_pem_bytes.
     slift (check_endorsed_signature env signed_data signature leaf_der chain_pem_bytes)))"

fun try_products ::
    "(string \<Rightarrow> sev_world \<Rightarrow> (AttestError + unit) \<times> sev_world) \<Rightarrow> string list
       \<Rightarrow> sev_world \<Rightarrow> (AttestError + unit) \<times> sev_world" where
  "try_products attempt [] w =
     (Inl (vfail ''SEV-SNP report could not be verified against AMD KDS product roots: ''), w)"
| "try_products attempt (product_name # rest) w =
     (case attempt product_name w of
        (Inr _, w') \<Rightarrow> (Inr (), w')
      | (Inl _, w') \<Rightarrow> try_products attempt rest w')"

definition verify_report_signature ::
    "sev_env \<Rightarrow> byte list \<Rightarrow> byte list \<Rightarrow> byte list \<Rightarrow> byte list \<Rightarrow> u64 \<Rightarrow> byte \<Rightarrow> byte list option
       \<Rightarrow> sev_world \<Rightarrow> (AttestError + unit) \<times> sev_world" where
  "verify_report_signature env signed_data sig_r sig_s chip_id reported_tcb key certs =
     (if list_all (\<lambda>b. b = 0) sig_r \<and> list_all (\<lambda>b. b = 0) sig_s
      then slift (Inl (vfail ''SEV-SNP report has all-zero signature''))
      else
        sbind (slift (amd_signature_to_p384 env sig_r sig_s)) (\<lambda>signature.
        try_products (try_product env signed_data signature key certs chip_id reported_tcb)
          candidate_product_names))"

definition sev_verify ::
    "sev_env \<Rightarrow> Evidence \<Rightarrow> measurement \<Rightarrow> sev_world \<Rightarrow> (AttestError + byte list) \<times> sev_world" where
  "sev_verify env evidence expected_measurement =
     (if tee_type evidence \<noteq> SevSnp then slift (Inl (UnsupportedTeeType (tee_type evidence)))
      else if length (evidence_data evidence) < SNP_REPORT_SIZE
      then slift (Inl (vfail ''report too short: ''))
      else
        sbind (slift (report_bytes (evidence_data evidence))) (\<lambda>report.
        let certs = cert_blob_bytes (evidence_data evidence)
        in sbind (slift (read_le_u64 report POLICY_OFFSET)) (\<lambda>policy.
           if policy AND POLICY_DEBUG_ALLOWED_BIT \<noteq> 0
           then slift (Inl (vfail ''SEV-SNP guest policy enables debug access (policy=''))
           else
             sbind (slift (read_le_u32 report GUEST_SVN_OFFSET)) (\<lambda>guest_svn.
             let report_data = window report REPORT_DATA_OFFSET REPORT_DATA_LEN;
                 m = window report MEASUREMENT_OFFSET MEASUREMENT_LEN
             in if (case expected_measurement of None \<Rightarrow> False | Some expected \<Rightarrow> m \<noteq> expected)
                then slift (Inl (MeasurementMismatch (the expected_measurement) m))
                else
                  let signed_data = take SIGNED_DATA_LEN report;
                      sig_area = window report SIGNATURE_OFFSET SIGNATURE_LEN;
                      sig_r = take ECDSA_P384_AMD_SCALAR_LEN sig_area;
                      sig_s = window sig_area ECDSA_P384_AMD_SCALAR_LEN ECDSA_P384_AMD_SCALAR_LEN
                  in sbind (slift (signing_key report)) (\<lambda>key.
                     let chip_id = window report CHIP_ID_OFFSET CHIP_ID_LEN;
                         reported_tcb = u64_from_le_bytes (window report REPORTED_TCB_OFFSET 8)
                     in sbind (verify_report_signature env signed_data sig_r sig_s chip_id reported_tcb key certs)
                          (\<lambda>_. slift (Inr report_data)))))))"

section \<open>The attester\<close>

record SnpReportReq =
  snp_user_data :: "byte list"
  snp_vmpl :: u32
  snp_rsvd :: "byte list"

text \<open>
  The guest device: opening it, and the two requests, which fail or fill the 4000-byte
  response buffer and, for the extended request, the certificate buffer.
\<close>

record sev_device =
  sd_open :: "string option"
  sd_get_report :: "SnpReportReq \<Rightarrow> string + byte list"
  sd_get_ext_report :: "SnpReportReq \<Rightarrow> nat \<Rightarrow> string + byte list \<times> byte list"

definition snp_report_req :: "byte list \<Rightarrow> SnpReportReq" where
  "snp_report_req user_data = \<lparr>snp_user_data = user_data, snp_vmpl = 0, snp_rsvd = replicate 28 0\<rparr>"

definition attest_linux_report_only :: "sev_device \<Rightarrow> byte list \<Rightarrow> AttestError + Evidence" where
  "attest_linux_report_only dev user_data =
     (case sd_open dev of
        Some e \<Rightarrow> Inl (GenerationFailed (''open /dev/sev-guest: '' @ e))
      | None \<Rightarrow>
          rbind (map_err (\<lambda>e. GenerationFailed (''SNP_GET_REPORT ioctl failed: '' @ e))
                   (sd_get_report dev (snp_report_req user_data))) (\<lambda>resp.
          Inr \<lparr>tee_type = SevSnp, evidence_data = window resp 32 SNP_REPORT_SIZE\<rparr>))"

definition attest_linux_ext :: "sev_device \<Rightarrow> byte list \<Rightarrow> AttestError + Evidence" where
  "attest_linux_ext dev user_data =
     (case sd_open dev of
        Some e \<Rightarrow> Inl (GenerationFailed (''open /dev/sev-guest: '' @ e))
      | None \<Rightarrow>
          rbind (map_err (\<lambda>e. GenerationFailed (''SNP_GET_EXT_REPORT ioctl failed: '' @ e))
                   (sd_get_ext_report dev (snp_report_req user_data) SNP_CERT_BLOB_SIZE)) (\<lambda>(resp, certs).
          let status = u32_from_le_bytes (take 4 resp);
              report_size = unat (u32_from_le_bytes (window resp 4 4))
          in if status \<noteq> 0 then Inl (GenerationFailed ''SNP_GET_EXT_REPORT firmware status: '')
             else if report_size < SNP_REPORT_SIZE \<or> length resp < 32 + SNP_REPORT_SIZE
             then Inl (GenerationFailed ''SNP_GET_EXT_REPORT returned invalid report size: '')
             else Inr \<lparr>tee_type = SevSnp,
                       evidence_data = window resp 32 SNP_REPORT_SIZE
                                       @ take (cert_blob_used_len certs) certs\<rparr>))"

definition attest_linux :: "sev_device \<Rightarrow> byte list \<Rightarrow> AttestError + Evidence" where
  "attest_linux dev user_data =
     (case attest_linux_ext dev user_data of
        Inr evidence \<Rightarrow> Inr evidence
      | Inl e \<Rightarrow> attest_linux_report_only dev user_data)"

text \<open>\<open>SevSnpAttester::attest\<close>: on Linux the device, elsewhere an error.\<close>

definition sev_attest :: "sev_device option \<Rightarrow> byte list \<Rightarrow> AttestError + Evidence" where
  "sev_attest linux user_data =
     (case linux of
        Some dev \<Rightarrow> attest_linux dev user_data
      | None \<Rightarrow> Inl (GenerationFailed ''SEV-SNP attestation requires Linux with /dev/sev-guest''))"

section \<open>The certificate cache\<close>

text \<open>The network served these bytes for this URL at some time.\<close>

definition sev_served :: "sev_env \<Rightarrow> string \<Rightarrow> byte list \<Rightarrow> bool" where
  "sev_served env url v \<longleftrightarrow>
     (\<exists>n status. se_network env n url = HttpResponse status (Inr v) \<and> is_success status)"

lemma fetch_cert_bytes_served: "fetch_cert_bytes env url w = Inr v \<Longrightarrow> sev_served env url v"
proof -
  assume "fetch_cert_bytes env url w = Inr v"
  then have "fetch_url_bytes (se_network env (fw_events w) url) = Inr v"
    unfolding fetch_cert_bytes_def by (rule run_blocking_eq_Inr)
  then have "\<exists>status. se_network env (fw_events w) url = HttpResponse status (Inr v) \<and> is_success status"
    by (auto simp: fetch_url_bytes_def result_simps split: http_get.splits)
  then show "sev_served env url v" unfolding sev_served_def by blast
qed

interpretation kds: ttl_cache "fetch_cert_bytes_cached env" "se_clock env" KDS_CACHE_TTL "sev_served env"
  for env
proof unfold_locales
  fix w :: sev_world and url t v v'
  assume "fw_cache w url = Some (t, v)" "se_clock env (fw_events w) - t < KDS_CACHE_TTL"
  then show "fst (fetch_cert_bytes_cached env url w) \<noteq> Inr v' \<or> v' = v"
    by (simp add: fetch_cert_bytes_cached_def Let_def)
next
  fix url v and w w' :: sev_world
  assume "fetch_cert_bytes_cached env url w = (Inr v, w')"
  then show "(\<exists>t. fw_cache w url = Some (t, v) \<and> se_clock env (fw_events w) - t < KDS_CACHE_TTL) \<or>
      sev_served env url v"
    by (auto simp: fetch_cert_bytes_cached_def Let_def dest: fetch_cert_bytes_served
        split: if_splits option.splits sum.splits)
next
  fix url r and w w' :: sev_world
  assume f: "fetch_cert_bytes_cached env url w = (r, w')"
  show "fw_cache w' = fw_cache w \<or>
      (\<exists>t v. r = Inr v \<and> sev_served env url v \<and> fw_cache w' = (fw_cache w)(url \<mapsto> (t, v)))"
  proof (cases "fetch_cert_bytes env url w")
    case (Inl e)
    with f show ?thesis
      by (auto simp: fetch_cert_bytes_cached_def Let_def tick_def split: if_splits option.splits)
  next
    case (Inr b)
    with f have "fw_cache w' = fw_cache w \<or>
        r = Inr b \<and> fw_cache w' = (fw_cache w)(url \<mapsto> (se_clock env (fw_events w), b))"
      by (auto simp: fetch_cert_bytes_cached_def Let_def tick_def split: if_splits option.splits)
    with fetch_cert_bytes_served [OF Inr] show ?thesis by blast
  qed
qed

section \<open>What acceptance means\<close>

text \<open>
  The chain a leaf was accepted under: two certificates, the second pinned, the first signed
  by it, the leaf valid under the first.
\<close>

definition amd_endorsed :: "sev_env \<Rightarrow> byte list \<Rightarrow> byte list \<Rightarrow> bool" where
  "amd_endorsed env leaf chain \<longleftrightarrow>
     (\<exists>s ask ark rest. from_utf8 chain = Some s \<and> se_pem_many env s = Some (ask # ark # rest) \<and>
        se_hex env (se_sha256 env ark) \<in> snd ` set PINNED_ARK_FINGERPRINTS \<and>
        verify_cert_signature_with_alg env ask ark ''ASK/ASVK'' = Inr () \<and>
        se_trust_anchor env ask \<and> se_path_valid env leaf ask)"

text \<open>A key of a certificate that is endorsed and currently valid signed the message.\<close>

definition endorsed_signature ::
    "sev_env \<Rightarrow> byte list \<Rightarrow> byte list \<Rightarrow> byte list \<Rightarrow> byte list \<Rightarrow> bool" where
  "endorsed_signature env leaf chain msg sig \<longleftrightarrow>
     amd_endorsed env leaf chain \<and>
     (\<exists>cert. se_x509 env leaf = Some cert \<and> sc_valid_now cert) \<and>
     (\<exists>key. extract_p384_pubkey_from_der env leaf = Inr key \<and> se_p384_verify env key msg sig)"

lemma verify_vcek_chain_endorsed: "verify_vcek_chain env leaf chain = Inr () \<Longrightarrow> amd_endorsed env leaf chain"
proof -
  assume "verify_vcek_chain env leaf chain = Inr ()"
  then obtain s pems where s: "from_utf8 chain = Some s" "se_pem_many env s = Some pems" "\<not> length pems < 2"
    and pin: "list_ex (\<lambda>(_, fp). fp = se_hex env (se_sha256 env (pems ! 1))) PINNED_ARK_FINGERPRINTS"
    and sigs: "verify_cert_signature_with_alg env (pems ! 0) (pems ! 1) ''ASK/ASVK'' = Inr ()"
      "verify_cert_signed_by_trust_anchor env leaf (pems ! 0) ''VCEK/VLEK'' = Inr ()"
    unfolding verify_vcek_chain_def Let_def result_simps by auto
  from s(3) obtain ask ark rest where pems: "pems = ask # ark # rest"
    by (cases pems; cases "tl pems") auto
  have "se_hex env (se_sha256 env ark) \<in> snd ` set PINNED_ARK_FINGERPRINTS"
    using pin pems by (force simp: list_ex_iff)
  moreover have "se_trust_anchor env ask \<and> se_path_valid env leaf ask"
    using sigs(2) pems by (auto simp: verify_cert_signed_by_trust_anchor_def result_simps)
  ultimately show "amd_endorsed env leaf chain"
    unfolding amd_endorsed_def using s(1,2) sigs(1) pems by auto
qed

lemma check_endorsed_signature_sound:
  "check_endorsed_signature env msg sig leaf chain = Inr () \<Longrightarrow> endorsed_signature env leaf chain msg sig"
  by (auto simp: check_endorsed_signature_def verify_vcek_certificate_def endorsed_signature_def
      result_simps dest: verify_vcek_chain_endorsed)

lemma try_products_sound:
  assumes "try_products attempt ps w = (Inr (), w')" and "P w"
    and "\<And>p w r v. P w \<Longrightarrow> attempt p w = (r, v) \<Longrightarrow> P v"
  shows "\<exists>p v. p \<in> set ps \<and> P v \<and> attempt p v = (Inr (), w')"
  using assms(1,2)
proof (induction ps arbitrary: w)
  case Nil
  then show ?case by simp
next
  case (Cons p ps)
  obtain r v where a: "attempt p w = (r, v)" by (cases "attempt p w")
  show ?case
  proof (cases r)
    case (Inl e)
    then show ?thesis using Cons.IH [of v] Cons.prems a assms(3) by fastforce
  next
    case (Inr u)
    then show ?thesis using Cons.prems a by auto
  qed
qed

lemma try_product_cache:
  assumes "cache_served (sev_served env) w" and "try_product env msg sig key certs chip tcb p w = (r, v)"
  shows "cache_served (sev_served env) v"
proof -
  have leaf: "cache_served (sev_served env) v"
    if "endorsement_leaf env key certs chip tcb p w = (r, v)" for r v
    using that assms(1) kds.cache_served_fetch
    by (auto simp: endorsement_leaf_def sbind_def slift_def split: if_splits option.splits prod.splits sum.splits)
  from assms(2) show ?thesis
    unfolding try_product_def
    by (rule sbind_invariant)
      (use assms(1) leaf kds.cache_served_fetch in
        \<open>auto simp: sbind_def slift_def split: prod.splits sum.splits\<close>)
qed

lemma endorsement_leaf_url:
  "endorsement_leaf env key certs chip tcb p w = (Inr (leaf, url), v) \<Longrightarrow>
   (key = SNP_SIGNING_KEY_VCEK \<and> url = cert_chain_url ''vcek'' p) \<or>
   (key = SNP_SIGNING_KEY_VLEK \<and> url = cert_chain_url ''vlek'' p \<and>
     (\<exists>cs. certs = Some cs \<and> find_cert cs GUID_VLEK = Some leaf))"
  by (auto simp: endorsement_leaf_def result_simps split: if_splits)

lemma try_product_sound:
  assumes "cache_served (sev_served env) w"
    and "try_product env msg sig key certs chip tcb p w = (Inr (), w')"
  shows "\<exists>leaf chain url. url \<in> {cert_chain_url ''vcek'' p, cert_chain_url ''vlek'' p} \<and>
           sev_served env url chain \<and> endorsed_signature env leaf chain msg sig"
proof -
  obtain leaf url v chain where a: "endorsement_leaf env key certs chip tcb p w = (Inr (leaf, url), v)"
      "fetch_cert_bytes_cached env url v = (Inr chain, w')"
      "check_endorsed_signature env msg sig leaf chain = Inr ()"
    using assms(2) unfolding try_product_def result_simps by (auto simp: result_simps)
  have "cache_served (sev_served env) v"
    using a(1) assms(1) kds.cache_served_fetch
    by (auto simp: endorsement_leaf_def sbind_def slift_def split: if_splits option.splits prod.splits sum.splits)
  then have "sev_served env url chain" using a(2) by (rule kds.fetch_served)
  with a(3) endorsement_leaf_url [OF a(1)] show ?thesis
    using check_endorsed_signature_sound by blast
qed

lemma length_report [simp]: "length d \<ge> SNP_REPORT_SIZE \<Longrightarrow> length (take SNP_REPORT_SIZE d) = 1184"
  by (simp add: SNP_REPORT_SIZE_def)

text \<open>The signature of a report in the order the P-384 library takes it.\<close>

definition report_signature :: "byte list \<Rightarrow> byte list" where
  "report_signature report =
     rev (take 48 (window report 672 72)) @ rev (take 48 (window report 744 72))"

lemma sig_slices:
  assumes "length report = 1184"
  shows "take ECDSA_P384_AMD_SCALAR_LEN (window report SIGNATURE_OFFSET SIGNATURE_LEN) = window report 672 72"
    and "window (window report SIGNATURE_OFFSET SIGNATURE_LEN) ECDSA_P384_AMD_SCALAR_LEN ECDSA_P384_AMD_SCALAR_LEN
      = window report 744 72"
  by (simp_all add: layout_defs window_def drop_take)

lemma debug_bit: "p AND POLICY_DEBUG_ALLOWED_BIT = 0 \<longleftrightarrow> \<not> bit p 19"
  by (simp add: POLICY_DEBUG_ALLOWED_BIT_def push_bit_eq_mult and_exp_eq_0_iff_not_bit [symmetric])

lemma verify_report_signature_sound:
  assumes "cache_served (sev_served env) w"
    and "verify_report_signature env msg r s chip tcb key certs w = (Inr (), w')"
  shows "\<exists>p leaf chain url. p \<in> set candidate_product_names \<and>
           url \<in> {cert_chain_url ''vcek'' p, cert_chain_url ''vlek'' p} \<and> sev_served env url chain \<and>
           endorsed_signature env leaf chain msg (rev (take 48 r) @ rev (take 48 s))"
proof -
  obtain sig where sig: "amd_signature_to_p384 env r s = Inr sig"
    and tries: "try_products (try_product env msg sig key certs chip tcb) candidate_product_names w = (Inr (), w')"
    using assms(2) by (auto simp: verify_report_signature_def result_simps split: if_splits)
  from sig have "sig = rev (take 48 r) @ rev (take 48 s)"
    by (auto simp: amd_signature_to_p384_def Let_def result_simps ECDSA_P384_SCALAR_LEN_def)
  moreover obtain p v where "p \<in> set candidate_product_names" "cache_served (sev_served env) v"
      "try_product env msg sig key certs chip tcb p v = (Inr (), w')"
    using try_products_sound [OF tries, of "cache_served (sev_served env)"] assms(1) try_product_cache by blast
  ultimately show ?thesis using try_product_sound by metis
qed

lemma sev_verify_eq_Inr:
  "sev_verify env e m w = (Inr rd, w') \<longleftrightarrow>
     (let d = evidence_data e; report = take SNP_REPORT_SIZE d in
      tee_type e = SevSnp \<and> SNP_REPORT_SIZE \<le> length d \<and>
      \<not> bit (u64_from_le_bytes (window report 8 8)) 19 \<and>
      (\<forall>x. m = Some x \<longrightarrow> window report 144 48 = x) \<and> rd = window report 80 64 \<and>
      (\<exists>key. signing_key report = Inr key \<and>
         verify_report_signature env (take 672 report) (window report 672 72) (window report 744 72)
           (window report 416 64) (u64_from_le_bytes (window report 384 8)) key (cert_blob_bytes d) w
           = (Inr (), w')))"
proof (cases "tee_type e = SevSnp \<and> SNP_REPORT_SIZE \<le> length (evidence_data e)")
  case False
  then show ?thesis by (auto simp: sev_verify_def slift_def Let_def)
next
  case True
  let ?report = "take SNP_REPORT_SIZE (evidence_data e)"
  have r: "report_bytes (evidence_data e) = Inr ?report"
    using True by (simp add: report_bytes_def slice_def)
  have l: "length ?report = 1184" using True length_report by blast
  have reads: "read_le_u64 ?report POLICY_OFFSET = Inr (u64_from_le_bytes (window ?report 8 8))"
      "\<exists>svn. read_le_u32 ?report GUEST_SVN_OFFSET = Inr svn"
    using l by (simp_all add: read_le_u64_def read_le_u32_def slice_def layout_defs window_def)
  then obtain svn where svn: "read_le_u32 ?report GUEST_SVN_OFFSET = Inr svn" by blast
  have bit: "(policy AND POLICY_DEBUG_ALLOWED_BIT \<noteq> 0) = bit policy 19" for policy
    by (simp add: debug_bit)
  have c: "tee_type e \<noteq> SevSnp \<longleftrightarrow> False" "length (evidence_data e) < SNP_REPORT_SIZE \<longleftrightarrow> False"
    using True by simp_all
  have "sev_verify env e m w =
      (if bit (u64_from_le_bytes (window ?report 8 8)) 19
       then slift (Inl (vfail ''SEV-SNP guest policy enables debug access (policy='')) w
       else if (case m of None \<Rightarrow> False | Some x \<Rightarrow> window ?report 144 48 \<noteq> x)
       then slift (Inl (MeasurementMismatch (the m) (window ?report 144 48))) w
       else sbind (slift (signing_key ?report)) (\<lambda>key.
              sbind (verify_report_signature env (take 672 ?report) (window ?report 672 72) (window ?report 744 72)
                (window ?report 416 64) (u64_from_le_bytes (window ?report 384 8)) key
                (cert_blob_bytes (evidence_data e)))
                (\<lambda>_. slift (Inr (window ?report 80 64)))) w)"
    unfolding sev_verify_def c if_False Let_def r sbind_slift reads(1) bit sig_slices [OF l]
    unfolding svn SIGNED_DATA_LEN_def SIGNATURE_OFFSET_def REPORT_DATA_OFFSET_def REPORT_DATA_LEN_def
        MEASUREMENT_OFFSET_def MEASUREMENT_LEN_def CHIP_ID_OFFSET_def CHIP_ID_LEN_def REPORTED_TCB_OFFSET_def
    by (simp add: svn [unfolded GUEST_SVN_OFFSET_def])
  then show ?thesis
    using True unfolding Let_def by (cases m) (auto simp: result_simps split: if_splits)
qed

text \<open>For a fixed world the verifier meets the trait's contract.\<close>

interpretation sev: verifier "\<lambda>e m. fst (sev_verify env e m w)" "\<lambda>t. t = SevSnp" for env w
proof unfold_locales
  fix e m rd
  assume "fst (sev_verify env e m w) = Inr rd"
  then have s: "sev_verify env e m w = (Inr rd, snd (sev_verify env e m w))" by (simp add: prod_eq_iff)
  then have rd: "rd = window (take SNP_REPORT_SIZE (evidence_data e)) 80 64"
    and "SNP_REPORT_SIZE \<le> length (evidence_data e)" "tee_type e = SevSnp"
    unfolding sev_verify_eq_Inr Let_def by simp_all
  then show "length rd = 64" by (simp add: length_window SNP_REPORT_SIZE_def)
  show "tee_type e = SevSnp" by fact
next
  fix e x rd
  assume "fst (sev_verify env e (Some x) w) = Inr rd"
  then have "sev_verify env e (Some x) w = (Inr rd, snd (sev_verify env e (Some x) w))"
    by (simp add: prod_eq_iff)
  then have "sev_verify env e None w = (Inr rd, snd (sev_verify env e (Some x) w))"
    unfolding sev_verify_eq_Inr Let_def by blast
  then show "fst (sev_verify env e None w) = Inr rd" by simp
qed

section \<open>Properties\<close>

text \<open>
  C20: soundness of SEV-SNP verification. When \<open>verify\<close> accepts, the evidence is an SEV-SNP
  report of full size, its guest policy forbids debugging, its launch measurement is the
  pinned one, the result is the 64 bytes of REPORT\_DATA, and the report's first 672 bytes are
  signed (signature fields converted from little endian) by a key whose certificate is
  currently valid and reaches a pinned AMD root key through a chain that AMD's service
  served for a known product. The certificate cache keeps holding only served chains.
\<close>

theorem sev_verify_sound:
  assumes "cache_served (sev_served env) w" and "sev_verify env e m w = (Inr rd, w')"
  shows "tee_type e = SevSnp \<and> SNP_REPORT_SIZE \<le> length (evidence_data e) \<and>
         \<not> bit (u64_from_le_bytes (window (evidence_data e) 8 8)) 19 \<and>
         (\<forall>x. m = Some x \<longrightarrow> window (evidence_data e) 144 48 = x) \<and>
         rd = window (evidence_data e) 80 64 \<and> length rd = 64 \<and>
         (\<exists>p leaf chain url. p \<in> set candidate_product_names \<and>
            url \<in> {cert_chain_url ''vcek'' p, cert_chain_url ''vlek'' p} \<and> sev_served env url chain \<and>
            endorsed_signature env leaf chain (take 672 (evidence_data e)) (report_signature (evidence_data e)))"
proof -
  let ?d = "evidence_data e" and ?report = "take SNP_REPORT_SIZE (evidence_data e)"
  from assms(2) have a: "tee_type e = SevSnp" "SNP_REPORT_SIZE \<le> length ?d"
      "\<not> bit (u64_from_le_bytes (window ?report 8 8)) 19" "\<forall>x. m = Some x \<longrightarrow> window ?report 144 48 = x"
      "rd = window ?report 80 64"
    and "\<exists>key. verify_report_signature env (take 672 ?report) (window ?report 672 72) (window ?report 744 72)
           (window ?report 416 64) (u64_from_le_bytes (window ?report 384 8)) key (cert_blob_bytes ?d) w
           = (Inr (), w')"
    unfolding sev_verify_eq_Inr Let_def by blast+
  then obtain p leaf chain url where s: "p \<in> set candidate_product_names"
      "url \<in> {cert_chain_url ''vcek'' p, cert_chain_url ''vlek'' p}" "sev_served env url chain"
      "endorsed_signature env leaf chain (take 672 ?report) (report_signature ?report)"
    using verify_report_signature_sound [OF assms(1)] unfolding report_signature_def by meson
  have cut: "window ?report off n = window ?d off n" if "off + n \<le> 1184" for off n
    using that by (simp add: window_take SNP_REPORT_SIZE_def)
  have "take 672 ?report = take 672 ?d" by (simp add: SNP_REPORT_SIZE_def)
  moreover have "report_signature ?report = report_signature ?d" by (simp add: report_signature_def cut)
  moreover have "length rd = 64"
    using sev.verify_length [of env e m w rd] assms(2) by simp
  ultimately show ?thesis using a s by (simp add: cut) blast
qed

text \<open>An environment in which every check of the crypto libraries passes, and a report.\<close>

definition demo_sev_cert :: sev_cert where
  "demo_sev_cert = \<lparr>sc_public_key = [4], sc_valid_now = True, sc_sig_oid = OID_PKCS1_RSASSAPSS,
     sc_sig_params = Some [], sc_signature = [5]\<rparr>"

definition demo_sev :: sev_env where
  "demo_sev =
     \<lparr>se_x509 = (\<lambda>d. Some demo_sev_cert), se_der_header = (\<lambda>d. Some (d, Some (length d))),
      se_pem_many = (\<lambda>s. Some [[1], [2]]), se_pem_one = (\<lambda>s. Some []), se_sha256 = (\<lambda>d. d),
      se_hex = (\<lambda>d. snd (hd PINNED_ARK_FINGERPRINTS)), se_pss_hash = (\<lambda>p. Some OID_NIST_HASH_SHA384),
      se_rsa_verify = (\<lambda>a k m s. True), se_trust_anchor = (\<lambda>d. True), se_end_entity = (\<lambda>d. True),
      se_path_valid = (\<lambda>l a. True), se_p384_signature = (\<lambda>s. True), se_p384_key = (\<lambda>k. True),
      se_p384_verify = (\<lambda>k m s. True), se_network = (\<lambda>n url. HttpResponse 200 (Inr [])),
      se_clock = (\<lambda>n. n), se_runtime = MultiThread, se_lock_poisoned = False\<rparr>"

definition fresh_sev_world :: sev_world where
  "fresh_sev_world = \<lparr>fw_events = 0, fw_cache = Map.empty\<rparr>"

definition demo_report :: Evidence where
  "demo_report = \<lparr>tee_type = SevSnp, evidence_data = replicate 80 0 @ replicate 64 9 @ replicate 528 0
     @ [1] @ replicate 511 0\<rparr>"

lemma demo_chain: "check_endorsed_signature demo_sev msg sig [] [] = Inr ()"
proof -
  have tbs: "tbs_certificate_der demo_sev [1] = Inr [1]"
    by (simp add: tbs_certificate_der_def demo_sev_def slice_def)
  have alg: "rsa_pss_verification_alg demo_sev demo_sev_cert = Inr RSA_PSS_SHA384" by code_simp
  have ask: "verify_cert_signature_with_alg demo_sev [1] [2] ''ASK/ASVK'' = Inr ()"
    unfolding verify_cert_signature_with_alg_def by (simp add: demo_sev_def tbs [unfolded demo_sev_def] alg [unfolded demo_sev_def])
  have pin: "list_ex (\<lambda>(_, fp). fp = snd (hd PINNED_ARK_FINGERPRINTS)) PINNED_ARK_FINGERPRINTS" by code_simp
  have utf8: "from_utf8 [] = Some []" by (simp add: from_utf8_def string_of_bytes_def)
  have "verify_vcek_chain demo_sev [] [] = Inr ()"
    unfolding verify_vcek_chain_def utf8 using pin ask
    by (simp add: demo_sev_def verify_cert_signed_by_trust_anchor_def)
  moreover have "\<not> prefix (as_bytes ''-----BEGIN'') []" by (simp add: as_bytes_def)
  ultimately show ?thesis
    unfolding check_endorsed_signature_def verify_vcek_certificate_def extract_p384_pubkey_from_der_def
    by (simp add: demo_sev_def demo_sev_cert_def)
qed

lemma demo_fetch:
  assumes "c url = None \<or> c url = Some (t, [])"
  shows "\<exists>w'. fetch_cert_bytes_cached demo_sev url \<lparr>fw_events = n, fw_cache = c\<rparr> = (Inr [], w') \<and>
           (\<forall>u. fw_cache w' u = c u \<or> (\<exists>s. fw_cache w' u = Some (s, [])))"
proof -
  have "fetch_cert_bytes demo_sev url w = Inr []" for w
    by (simp add: fetch_cert_bytes_def run_blocking_def fetch_url_bytes_def demo_sev_def is_success_def)
  then show ?thesis
    using assms by (auto simp: fetch_cert_bytes_cached_def Let_def demo_sev_def tick_def)
qed

lemma demo_product: "\<exists>w'. try_product demo_sev msg sig 0 None chip tcb p fresh_sev_world = (Inr (), w')"
proof -
  let ?url = "vcek_url demo_sev p chip tcb" and ?chain = "cert_chain_url ''vcek'' p"
  obtain w1 where w1: "fetch_cert_bytes_cached demo_sev ?url fresh_sev_world = (Inr [], w1)"
      "\<forall>u. fw_cache w1 u = None \<or> (\<exists>s. fw_cache w1 u = Some (s, []))"
    using demo_fetch [of Map.empty ?url 0 0] unfolding fresh_sev_world_def by blast
  obtain n c where n: "w1 = \<lparr>fw_events = n, fw_cache = c\<rparr>" by (cases w1)
  with w1(2) have "c ?chain = None \<or> (\<exists>s. c ?chain = Some (s, []))" by simp
  then obtain w2 where w2: "fetch_cert_bytes_cached demo_sev ?chain w1 = (Inr [], w2)"
    unfolding n using demo_fetch [of c ?chain] by metis
  have "endorsement_leaf demo_sev 0 None chip tcb p fresh_sev_world = (Inr ([], ?chain), w1)"
    by (simp add: endorsement_leaf_def SNP_SIGNING_KEY_VCEK_def sbind_def slift_def w1(1))
  then show ?thesis
    by (simp add: try_product_def sbind_def slift_def w2 demo_chain)
qed

lemma demo_report_accepted:
  "\<exists>w'. sev_verify demo_sev demo_report None fresh_sev_world = (Inr (replicate 64 9), w')"
proof -
  let ?d = "evidence_data demo_report"
  have d: "?d = replicate 80 0 @ replicate 64 9 @ replicate 528 0 @ [1] @ replicate 511 0"
      "tee_type demo_report = SevSnp" "length ?d = 1184"
    by (simp_all add: demo_report_def)
  then have t: "take SNP_REPORT_SIZE ?d = ?d" "SNP_REPORT_SIZE \<le> length ?d" "cert_blob_bytes ?d = None"
    by (simp_all add: SNP_REPORT_SIZE_def cert_blob_bytes_def)
  have w: "window ?d 80 64 = replicate 64 9" "window ?d 8 8 = replicate 8 0"
      "window ?d 672 72 = 1 # replicate 71 0" "length (window ?d 744 72) = 72"
    by (simp_all add: d window_def)
  have "slice ?d SIGNING_KEY_OFFSET (SIGNING_KEY_OFFSET + 4) = Some (replicate 4 0)"
    by (simp add: d slice_def SIGNING_KEY_OFFSET_def)
  then have key: "signing_key ?d = Inr 0"
    by (simp add: signing_key_def u32_from_le_bytes_def SNP_SIGNING_KEY_VLEK_def)
  let ?s = "window ?d 744 72" and ?r = "1 # replicate 71 0 :: byte list"
  let ?chip = "window ?d 416 64" and ?tcb = "u64_from_le_bytes (window ?d 384 8)"
  have "amd_signature_to_p384 demo_sev ?r ?s = Inr (rev (take 48 ?r) @ rev (take 48 ?s))"
    using w(4) by (simp add: amd_signature_to_p384_def Let_def layout_defs demo_sev_def)
  then obtain sig where "amd_signature_to_p384 demo_sev ?r ?s = Inr sig" by blast
  then have "\<exists>w'. verify_report_signature demo_sev (take 672 ?d) ?r ?s ?chip ?tcb 0 None fresh_sev_world = (Inr (), w')"
    using demo_product [of "take 672 ?d" sig ?chip ?tcb "''Milan''"]
    by (auto simp: verify_report_signature_def candidate_product_names_def)
  then show ?thesis
    unfolding sev_verify_eq_Inr Let_def t(1) w(1,2,3) key using d(2) t(2,3)
    by (auto simp: u64_from_le_bytes_def)
qed

theorem sev_verify_sound_witness:
  "\<exists>rd w'. sev_verify demo_sev demo_report None fresh_sev_world = (Inr rd, w') \<and>
     rd = replicate 64 9 \<and> \<not> bit (u64_from_le_bytes (window (evidence_data demo_report) 8 8)) 19 \<and>
     (\<exists>leaf chain. endorsed_signature demo_sev leaf chain (take 672 (evidence_data demo_report))
        (report_signature (evidence_data demo_report)))"
proof -
  obtain w' where a: "sev_verify demo_sev demo_report None fresh_sev_world = (Inr (replicate 64 9), w')"
    using demo_report_accepted by blast
  have "cache_served (sev_served demo_sev) fresh_sev_world"
    by (rule cache_served_empty) (simp add: fresh_sev_world_def)
  from sev_verify_sound [OF this a] a show ?thesis by blast
qed

text \<open>
  C38: the signature conversion keeps the value. The two halves of the P-384 signature, read
  as big-endian numbers, are the report's little-endian \<open>r\<close> and \<open>s\<close> modulo $2^{384}$: the upper
  24 bytes of each 72-byte field play no role.
\<close>

theorem amd_signature_value:
  assumes "amd_signature_to_p384 env r s = Inr sig"
  shows "length sig = 96 \<and> le_value (rev (take 48 sig)) = le_value r mod 256 ^ 48 \<and>
         le_value (rev (drop 48 sig)) = le_value s mod 256 ^ 48"
proof -
  have "length r = 72" "length s = 72" "sig = rev (take 48 r) @ rev (take 48 s)"
    using assms by (auto simp: amd_signature_to_p384_def Let_def result_simps layout_defs)
  then show ?thesis by (simp add: le_value_take)
qed

theorem amd_signature_value_witness:
  "\<exists>sig. amd_signature_to_p384 demo_sev (1 # replicate 71 0) (replicate 72 0) = Inr sig \<and>
     le_value (rev (take 48 sig)) = 1"
proof -
  have "\<exists>sig. amd_signature_to_p384 demo_sev (1 # replicate 71 0) (replicate 72 0) = Inr sig"
    by (simp add: amd_signature_to_p384_def Let_def layout_defs demo_sev_def)
  then obtain sig where "amd_signature_to_p384 demo_sev (1 # replicate 71 0) (replicate 72 0) = Inr sig" ..
  with amd_signature_value [OF this] show ?thesis by auto
qed

text \<open>
  What the attester relies on from the guest device: a 4000-byte response whose report, 32
  bytes in, carries the user data of the request in REPORT\_DATA.
\<close>

definition sev_device_law :: "sev_device \<Rightarrow> bool" where
  "sev_device_law dev \<longleftrightarrow>
     (\<forall>ud resp. sd_get_report dev (snp_report_req ud) = Inr resp \<longrightarrow>
        length resp = 4000 \<and> window resp 112 64 = ud) \<and>
     (\<forall>ud n resp certs. sd_get_ext_report dev (snp_report_req ud) n = Inr (resp, certs) \<longrightarrow>
        length resp = 4000 \<and> window resp 112 64 = ud)"

lemma window_window:
  "off + n \<le> k \<Longrightarrow> window (window xs a k) off n = window xs (a + off) n"
  by (simp add: window_def take_drop min_def add.commute [of off])

lemma attest_linux_ext_eq_Inr:
  assumes "attest_linux_ext dev ud = Inr e"
  shows "\<exists>resp certs. sd_get_ext_report dev (snp_report_req ud) SNP_CERT_BLOB_SIZE = Inr (resp, certs) \<and>
           e = \<lparr>tee_type = SevSnp, evidence_data = window resp 32 SNP_REPORT_SIZE @ take (cert_blob_used_len certs) certs\<rparr>"
  using assms by (auto simp: attest_linux_ext_def Let_def result_simps split: option.splits)

lemma attest_linux_report_only_eq_Inr:
  assumes "attest_linux_report_only dev ud = Inr e"
  shows "\<exists>resp. sd_get_report dev (snp_report_req ud) = Inr resp \<and>
           e = \<lparr>tee_type = SevSnp, evidence_data = window resp 32 SNP_REPORT_SIZE\<rparr>"
  using assms by (auto simp: attest_linux_report_only_def result_simps split: option.splits)

text \<open>The evidence holds the report first, with the user data in place.\<close>

lemma attest_linux_layout:
  assumes "sev_device_law dev" and "attest_linux dev ud = Inr e"
  shows "tee_type e = SevSnp \<and> SNP_REPORT_SIZE \<le> length (evidence_data e) \<and>
         window (evidence_data e) 80 64 = ud"
proof -
  have "(\<exists>resp blob. length resp = 4000 \<and> window resp 112 64 = ud \<and>
      e = \<lparr>tee_type = SevSnp, evidence_data = window resp 32 SNP_REPORT_SIZE @ blob\<rparr>)"
  proof (cases "attest_linux_ext dev ud")
    case (Inr e')
    with assms(2) have "e' = e" by (simp add: attest_linux_def)
    with attest_linux_ext_eq_Inr [OF Inr] assms(1) show ?thesis unfolding sev_device_law_def by blast
  next
    case (Inl err)
    with assms(2) have "attest_linux_report_only dev ud = Inr e" by (simp add: attest_linux_def)
    with attest_linux_report_only_eq_Inr assms(1) show ?thesis
      unfolding sev_device_law_def by (metis append_Nil2)
  qed
  then obtain resp blob where r: "length resp = 4000" "window resp 112 64 = ud"
      "e = \<lparr>tee_type = SevSnp, evidence_data = window resp 32 SNP_REPORT_SIZE @ blob\<rparr>" by blast
  have "window (window resp 32 SNP_REPORT_SIZE @ blob) 80 64 = window (window resp 32 SNP_REPORT_SIZE) 80 64"
    using r(1) by (intro window_append1) (simp add: length_window SNP_REPORT_SIZE_def)
  also have "\<dots> = window resp 112 64" by (simp add: window_window SNP_REPORT_SIZE_def)
  finally show ?thesis using r by (simp add: length_window SNP_REPORT_SIZE_def)
qed

lemma sev_accepted_data:
  assumes "sev_device_law dev" and "sev_attest (Some dev) ud = Inr e" and "sev_verify env e m w = (Inr rd, w')"
  shows "rd = ud"
proof -
  have "attest_linux dev ud = Inr e" using assms(2) by (simp add: sev_attest_def)
  note layout = attest_linux_layout [OF assms(1) this]
  have "rd = window (take SNP_REPORT_SIZE (evidence_data e)) 80 64"
    using assms(3) unfolding sev_verify_eq_Inr Let_def by blast
  then show ?thesis using layout by (simp add: window_take SNP_REPORT_SIZE_def)
qed

text \<open>
  C24: SEV-SNP evidence carries the requested data end to end. Evidence the attester makes for
  64 bytes of user data is a full-size report; whenever the verifier accepts it, under any
  pin and whatever the network serves, it returns exactly those bytes; and on the extended
  path the verifier finds the same certificates in the shipped blob as were in the firmware's
  buffer.
\<close>

theorem sev_evidence_carries_user_data:
  assumes "sev_device_law dev" and "sev_attest (Some dev) ud = Inr e"
  shows "(\<forall>env m w rd w'. sev_verify env e m w = (Inr rd, w') \<longrightarrow> rd = ud) \<and>
         (\<forall>resp certs guid. sd_get_ext_report dev (snp_report_req ud) SNP_CERT_BLOB_SIZE = Inr (resp, certs) \<and>
            attest_linux_ext dev ud = Inr e \<longrightarrow>
            Option.bind (cert_blob_bytes (evidence_data e)) (\<lambda>cs. find_cert cs guid) = find_cert certs guid)"
proof (intro conjI allI impI)
  fix env m w rd w'
  assume "sev_verify env e m w = (Inr rd, w')"
  then show "rd = ud" by (rule sev_accepted_data [OF assms])
next
  fix resp certs guid
  assume a: "sd_get_ext_report dev (snp_report_req ud) SNP_CERT_BLOB_SIZE = Inr (resp, certs) \<and>
      attest_linux_ext dev ud = Inr e"
  let ?blob = "take (cert_blob_used_len certs) certs"
  have "evidence_data e = window resp 32 SNP_REPORT_SIZE @ ?blob"
    using attest_linux_ext_eq_Inr [of dev ud e] a by auto
  moreover have "length resp = 4000" using a assms(1) unfolding sev_device_law_def by blast
  then have "length (window resp 32 SNP_REPORT_SIZE) = SNP_REPORT_SIZE"
    by (simp add: length_window SNP_REPORT_SIZE_def)
  ultimately have "cert_blob_bytes (evidence_data e) = (if ?blob = [] then None else Some ?blob)"
    by (simp add: cert_blob_bytes_def Let_def)
  moreover have "find_cert ?blob guid = find_cert certs guid" by (rule find_cert_used_blob)
  moreover have "find_cert [] guid = None" by (simp add: find_cert_eq chunks_exact_short)
  ultimately show "Option.bind (cert_blob_bytes (evidence_data e)) (\<lambda>cs. find_cert cs guid) = find_cert certs guid"
    by auto
qed

definition demo_device :: sev_device where
  "demo_device = \<lparr>sd_open = None, sd_get_report = (\<lambda>req. Inl []),
     sd_get_ext_report = (\<lambda>req n. if length (snp_user_data req) = 64
        then Inr (replicate 4 0 @ to_le_bytes 4 1184 @ replicate 104 0 @ snp_user_data req @ replicate 3824 0,
                  encode_table [(GUID_VCEK, [1, 2, 3])])
        else Inl [])\<rparr>"

theorem sev_evidence_carries_user_data_witness:
  "\<exists>e. sev_attest (Some demo_device) (replicate 64 9) = Inr e \<and>
     (\<forall>env m w rd w'. sev_verify env e m w = (Inr rd, w') \<longrightarrow> rd = replicate 64 9)"
proof -
  have law: "sev_device_law demo_device"
    by (auto simp: sev_device_law_def demo_device_def snp_report_req_def window_def split: if_splits)
  have "unat (u32_from_le_bytes (to_le_bytes 4 1184)) = 1184" by (rule u32_to_le_bytes) simp
  then have "\<exists>e. attest_linux_ext demo_device (replicate 64 9) = Inr e"
    by (simp add: attest_linux_ext_def demo_device_def snp_report_req_def Let_def u32_from_le_bytes_def
        window_def SNP_REPORT_SIZE_def)
  then obtain e where "sev_attest (Some demo_device) (replicate 64 9) = Inr e"
    by (auto simp: sev_attest_def attest_linux_def)
  with sev_evidence_carries_user_data [OF law this] show ?thesis by blast
qed

end
