(* ===== verification/Gcp_Launcher.thy ===== *)
theory Gcp_Launcher
  imports Attest_Types
begin

text \<open>
  The attester side of \<open>crates/relay-attest/src/gcp_confidential_space.rs\<close>: waiting for the
  launcher's socket, the HTTP exchange over it, and the parser of its response with the
  decoder for chunked bodies. The socket, the clock and the JSON encoder are parameters.
  Positions are 64-bit \<open>usize\<close> values; a panic is a value of type \<open>run\<close>.
\<close>

section \<open>Waiting for the socket\<close>

text \<open>
  \<open>elapsed n\<close> is the time on the clock at the n-th test of the loop condition, \<open>connect n\<close> the
  outcome of the n-th attempt. Nothing bounds the loop but the clock, so it is a partial
  function.
\<close>

partial_function (option) connect_loop ::
    "(nat \<Rightarrow> nat) \<Rightarrow> (nat \<Rightarrow> string + 's) \<Rightarrow> nat \<Rightarrow> nat \<Rightarrow> string option
       \<Rightarrow> (string option + 's) option" where
  "connect_loop elapsed connect timeout n last_error =
     (if elapsed n \<le> timeout then
        (case connect n of
           Inr stream \<Rightarrow> Some (Inr stream)
         | Inl e \<Rightarrow> connect_loop elapsed connect timeout (Suc n) (Some e))
      else Some (Inl last_error))"

text \<open>The timeout is in seconds; \<open>elapsed\<close> counts nanoseconds.\<close>

definition SOCKET_WAIT_TIMEOUT :: nat where
  "SOCKET_WAIT_TIMEOUT = 60"

definition connect_launcher_socket ::
    "(nat \<Rightarrow> nat) \<Rightarrow> (nat \<Rightarrow> string + 's) \<Rightarrow> string \<Rightarrow> nat \<Rightarrow> (AttestError + 's) option" where
  "connect_launcher_socket elapsed connect socket_path timeout =
     map_option (map_err (\<lambda>last_error. GenerationFailed
         (''connect Confidential Space launcher socket '' @ socket_path
          @ '' within '' @ decimal timeout @ ''s: ''
          @ (case last_error of None \<Rightarrow> ''socket did not appear'' | Some e \<Rightarrow> e))))
       (connect_loop elapsed connect (timeout * 10 ^ 9) 0 None)"

definition can_connect_launcher_socket :: "string + 's \<Rightarrow> bool" where
  "can_connect_launcher_socket outcome \<longleftrightarrow> (case outcome of Inr _ \<Rightarrow> True | Inl _ \<Rightarrow> False)"

section \<open>The response\<close>

definition byte_is_ws :: "byte \<Rightarrow> bool" where
  "byte_is_ws b \<longleftrightarrow> b \<in> {32, 9, 10, 12, 13}"

definition trim_ascii :: "byte list \<Rightarrow> byte list" where
  "trim_ascii bytes = rev (dropWhile byte_is_ws (rev (dropWhile byte_is_ws bytes)))"

definition crlf_bytes :: "byte list" where
  "crlf_bytes = [13, 10]"

definition chunk_size :: "byte list \<Rightarrow> AttestError + u64" where
  "chunk_size line =
     rbind (ok_or (gfail ''chunked launcher token response chunk header is not UTF-8: '') (from_utf8 line))
       (\<lambda>size_line.
     let size_hex = trim (hd (split_char CHR '';'' size_line))
     in ok_or (gfail ''chunked launcher token response has invalid chunk size '') (usize_from_hex size_hex))"

text \<open>
  The loop of \<open>decode_chunked_body\<close>. The sum \<open>chunk_end + 2\<close> is not checked: when it leaves the
  64-bit range, a debug build panics on the overflow and a release build on the slice.
\<close>

function decode_loop :: "byte list \<Rightarrow> nat \<Rightarrow> byte list \<Rightarrow> (AttestError + byte list) run" where
  "decode_loop body pos out =
     (case find_sub crlf_bytes (drop pos body) of
        None \<Rightarrow> Returned (Inl (gfail ''chunked launcher token response has unterminated chunk header''))
      | Some idx \<Rightarrow>
          (let line_end = pos + idx
           in case chunk_size (window body pos idx) of
                Inl e \<Rightarrow> Returned (Inl e)
              | Inr len \<Rightarrow>
                  (let data_start = line_end + 2; chunk_end = data_start + unat len
                   in if len = 0 then Returned (Inr out)
                      else if 2 ^ 64 \<le> chunk_end
                      then Returned (Inl (gfail ''chunked launcher token response chunk size overflow''))
                      else if 2 ^ 64 \<le> chunk_end + 2 then Panicked
                      else if length body < chunk_end + 2 \<or> window body chunk_end 2 \<noteq> crlf_bytes
                      then Returned (Inl (gfail ''chunked launcher token response chunk is truncated''))
                      else decode_loop body (chunk_end + 2) (out @ window body data_start (unat len)))))"
  by pat_completeness auto
termination
  by (relation "measure (\<lambda>(body, pos, out). length body - pos)") auto

declare decode_loop.simps [simp del]

definition decode_chunked_body :: "byte list \<Rightarrow> (AttestError + byte list) run" where
  "decode_chunked_body body = decode_loop body 0 []"

definition is_chunked_line :: "string \<Rightarrow> bool" where
  "is_chunked_line line \<longleftrightarrow>
     (case split_once CHR '':'' line of
        None \<Rightarrow> False
      | Some (name, v) \<Rightarrow>
          eq_ignore_ascii_case name ''transfer-encoding'' \<and> contains (to_ascii_lowercase v) ''chunked'')"

definition status_line :: "string \<Rightarrow> string" where
  "status_line headers = (case str_lines headers of [] \<Rightarrow> [] | l # _ \<Rightarrow> l)"

text \<open>The token in a decoded body.\<close>

definition token_of_body :: "byte list \<Rightarrow> AttestError + byte list" where
  "token_of_body payload =
     (let body = trim_ascii payload
      in if body = [] then Inl (gfail ''launcher returned an empty token'') else Inr body)"

definition parse_http_token_response :: "byte list \<Rightarrow> (AttestError + byte list) run" where
  "parse_http_token_response response =
     (case find_sub (crlf_bytes @ crlf_bytes) response of
        None \<Rightarrow> Returned (Inl (gfail ''launcher token response lacks HTTP headers''))
      | Some idx \<Rightarrow>
          (let header_end = idx + 4
           in case from_utf8 (take header_end response) of
                None \<Rightarrow> Returned (Inl (gfail ''launcher token response headers not UTF-8: ''))
              | Some headers \<Rightarrow>
                  if \<not> contains (status_line headers) '' 200 ''
                  then Returned (Inl (gfail ''launcher token request failed: ''))
                  else if list_ex is_chunked_line (str_lines headers)
                  then (case decode_chunked_body (drop header_end response) of
                          Panicked \<Rightarrow> Panicked
                        | Returned (Inl e) \<Rightarrow> Returned (Inl e)
                        | Returned (Inr body) \<Rightarrow> Returned (token_of_body body))
                  else Returned (token_of_body (drop header_end response))))"

section \<open>The exchange\<close>

datatype stream_outcome =
    WriteHeadersFailed string
  | WriteBodyFailed string
  | ReadFailed string
  | StreamResponse "byte list"

definition token_request_head :: "byte list \<Rightarrow> string" where
  "token_request_head body =
     ''POST /v1/token HTTP/1.1'' @ CRLF @ ''Host: localhost'' @ CRLF
     @ ''Content-Type: application/json'' @ CRLF @ ''Content-Length: '' @ decimal (length body) @ CRLF
     @ ''Connection: close'' @ CRLF @ CRLF"

definition request_token_over_stream ::
    "(byte list \<Rightarrow> stream_outcome) \<Rightarrow> byte list \<Rightarrow> (AttestError + byte list) run" where
  "request_token_over_stream exchange body =
     (case exchange (as_bytes (token_request_head body) @ body) of
        WriteHeadersFailed e \<Rightarrow> Returned (Inl (gfail (''write token request headers: '' @ e)))
      | WriteBodyFailed e \<Rightarrow> Returned (Inl (gfail (''write token request body: '' @ e)))
      | ReadFailed e \<Rightarrow> Returned (Inl (gfail (''read token response: '' @ e)))
      | StreamResponse response \<Rightarrow> parse_http_token_response response)"

section \<open>Lemmas\<close>

text \<open>The status line, as bytes: it lies before the first line feed of the response.\<close>

lemma split_inclusive_first:
  "split_inclusive s = p # ps \<Longrightarrow>
     p = takeWhile (\<lambda>c. c \<noteq> LF) s @ (if LF \<in> set s then [LF] else [])"
proof (induction s arbitrary: p ps)
  case (Cons a s)
  have "split_inclusive s = [] \<longleftrightarrow> s = []" by (cases s) (auto split: list.splits)
  with Cons show ?case by (cases "split_inclusive s") (auto split: if_split_asm)
qed simp

lemma strip_line_end_prefix: "prefix (strip_line_end l) l"
  unfolding strip_line_end_def Let_def by (auto intro: prefixeq_butlast prefix_order.trans)

lemma strip_line_end_LF: "prefix (strip_line_end (l @ [LF])) l"
  unfolding strip_line_end_def Let_def by (auto intro: prefixeq_butlast)

lemma status_line_prefix: "prefix (status_line s) (takeWhile (\<lambda>c. c \<noteq> LF) s)"
proof (cases "split_inclusive s")
  case Nil
  then show ?thesis by (simp add: status_line_def str_lines_def)
next
  case (Cons p ps)
  then show ?thesis
    using split_inclusive_first [OF Cons] strip_line_end_prefix [of "takeWhile (\<lambda>c. c \<noteq> LF) s"]
    by (auto simp: status_line_def str_lines_def strip_line_end_LF)
qed

lemma as_bytes_first_line: "as_bytes (takeWhile (\<lambda>c. c \<noteq> LF) s) = takeWhile (\<lambda>b. b \<noteq> 10) (as_bytes s)"
  by (induction s) (simp_all add: as_bytes_def byte_of_char_LF)

lemma status_line_bytes:
  assumes "from_utf8 bs = Some s" and "contains (status_line s) p"
  shows "sublist (as_bytes p) (takeWhile (\<lambda>b. b \<noteq> 10) bs)"
proof -
  have "sublist p (takeWhile (\<lambda>c. c \<noteq> LF) s)"
    using assms(2) status_line_prefix [of s]
    by (auto simp: contains_iff intro: sublist_order.order.trans prefix_imp_sublist)
  then have "sublist (as_bytes p) (as_bytes (takeWhile (\<lambda>c. c \<noteq> LF) s))"
    unfolding sublist_def by (metis as_bytes_append)
  moreover have "as_bytes (takeWhile (\<lambda>c. c \<noteq> LF) s) = takeWhile (\<lambda>b. b \<noteq> 10) bs"
    using assms(1) as_bytes_first_line [of s] by (auto simp: from_utf8_def split: if_split_asm)
  ultimately show ?thesis by simp
qed

lemma connect_loop_returns:
  assumes "timeout < elapsed k" and "n \<le> k"
  shows "\<exists>r. connect_loop elapsed connect timeout n e0 = Some r"
  using assms
proof (induction "k - n" arbitrary: n e0)
  case 0
  then have "n = k" by simp
  with 0 show ?case by (subst connect_loop.simps) simp
next
  case (Suc d)
  then have "\<exists>r. connect_loop elapsed connect timeout (Suc n) (Some e) = Some r" for e by simp
  then show ?case by (subst connect_loop.simps) (auto split: sum.splits)
qed

lemma connect_loop_first:
  assumes "connect k = Inr s" and "\<forall>j. n \<le> j \<and> j < k \<longrightarrow> (\<exists>e. connect j = Inl e)"
    and "\<forall>j. n \<le> j \<and> j \<le> k \<longrightarrow> elapsed j \<le> timeout" and "n \<le> k"
  shows "connect_loop elapsed connect timeout n e0 = Some (Inr s)"
  using assms
proof (induction "k - n" arbitrary: n e0)
  case 0
  then have "n = k" by simp
  with 0 show ?case by (subst connect_loop.simps) simp
next
  case (Suc d)
  then obtain e where "connect n = Inl e" by (metis diff_is_0_eq nat.distinct(1) not_le order_refl)
  moreover have "connect_loop elapsed connect timeout (Suc n) (Some e) = Some (Inr s)"
    using Suc.hyps(2) Suc.prems by (intro Suc.hyps(1)) auto
  moreover have "elapsed n \<le> timeout" using Suc.prems by simp
  ultimately show ?case by (subst connect_loop.simps) simp
qed

lemma connect_loop_success:
  assumes "timeout < elapsed k" and "n \<le> k"
    and "connect_loop elapsed connect timeout n e0 = Some (Inr s)"
  shows "\<exists>j\<ge>n. connect j = Inr s \<and> (\<forall>i. n \<le> i \<and> i < j \<longrightarrow> (\<exists>e. connect i = Inl e)) \<and>
    (\<forall>i. n \<le> i \<and> i \<le> j \<longrightarrow> elapsed i \<le> timeout)"
  using assms
proof (induction "k - n" arbitrary: n e0)
  case 0
  then have "n = k" by simp
  with 0 show ?case by (subst (asm) connect_loop.simps) simp
next
  case (Suc d)
  from Suc.prems(3) have le: "elapsed n \<le> timeout"
    by (subst (asm) connect_loop.simps) (simp split: if_splits)
  show ?case
  proof (cases "connect n")
    case (Inr s')
    with Suc.prems(3) le have "s' = s" by (subst (asm) connect_loop.simps) simp
    with Inr le show ?thesis by (intro exI [of _ n]) auto
  next
    case (Inl e)
    with Suc.prems(3) le have "connect_loop elapsed connect timeout (Suc n) (Some e) = Some (Inr s)"
      by (subst (asm) connect_loop.simps) simp
    moreover have "d = k - Suc n" "Suc n \<le> k" using Suc.hyps(2) by auto
    ultimately obtain j where j: "j \<ge> Suc n" "connect j = Inr s"
      "\<forall>i. Suc n \<le> i \<and> i < j \<longrightarrow> (\<exists>e. connect i = Inl e)" "\<forall>i. Suc n \<le> i \<and> i \<le> j \<longrightarrow> elapsed i \<le> timeout"
      using Suc.hyps(1) [of "Suc n" "Some e"] Suc.prems(1) by auto
    have "i = n \<or> Suc n \<le> i" if "n \<le> i" for i using that by arith
    with j Inl le show ?thesis by (intro exI [of _ j]) auto
  qed
qed

text \<open>
  C39: waiting for the launcher ends as soon as the clock has passed the timeout at some test
  of the loop, and it yields a stream exactly when an attempt made while every test so far
  was within the timeout is the first to succeed; that attempt's stream is the one returned.\<close>

theorem launcher_wait_terminates:
  assumes "timeout * 10 ^ 9 < elapsed k"
  shows "(\<exists>r. connect_launcher_socket elapsed connect socket_path timeout = Some r) \<and>
    (\<forall>s. connect_launcher_socket elapsed connect socket_path timeout = Some (Inr s) \<longleftrightarrow>
      (\<exists>j. connect j = Inr s \<and> (\<forall>i<j. \<exists>e. connect i = Inl e) \<and> (\<forall>i\<le>j. elapsed i \<le> timeout * 10 ^ 9)))"
proof (intro conjI allI)
  let ?t = "timeout * 10 ^ 9"
  obtain r where r: "connect_loop elapsed connect ?t 0 None = Some r"
    using connect_loop_returns [of ?t elapsed k 0 connect None] assms by auto
  then show "\<exists>r. connect_launcher_socket elapsed connect socket_path timeout = Some r"
    by (simp add: connect_launcher_socket_def)
  fix s
  have "connect_launcher_socket elapsed connect socket_path timeout = Some (Inr s) \<longleftrightarrow>
      connect_loop elapsed connect ?t 0 None = Some (Inr s)"
    by (auto simp: connect_launcher_socket_def result_simps)
  also have "\<dots> \<longleftrightarrow> (\<exists>j. connect j = Inr s \<and> (\<forall>i<j. \<exists>e. connect i = Inl e) \<and> (\<forall>i\<le>j. elapsed i \<le> ?t))"
    using connect_loop_success [of ?t elapsed k 0 connect None s] assms
      connect_loop_first [of connect _ s 0 elapsed ?t None] by auto
  finally show "connect_launcher_socket elapsed connect socket_path timeout = Some (Inr s) \<longleftrightarrow>
      (\<exists>j. connect j = Inr s \<and> (\<forall>i<j. \<exists>e. connect i = Inl e) \<and> (\<forall>i\<le>j. elapsed i \<le> ?t))" .
qed

theorem launcher_wait_terminates_witness:
  "(\<exists>r. connect_launcher_socket (\<lambda>n. n * 10 ^ 9) (\<lambda>n. if n = 2 then Inr n else Inl ''absent'') ''s'' 5
      = Some (r :: AttestError + nat)) \<and>
   connect_launcher_socket (\<lambda>n. n * 10 ^ 9) (\<lambda>n. if n = 2 then Inr n else Inl ''absent'') ''s'' 5
      = Some (Inr (2 :: nat))"
  using launcher_wait_terminates [of 5 "\<lambda>n. n * 10 ^ 9" 6 "\<lambda>n. if n = 2 then Inr n else Inl ''absent''" "''s''"]
  by auto

lemma trim_ascii_edges:
  "trim_ascii bs \<noteq> [] \<Longrightarrow> \<not> byte_is_ws (hd (trim_ascii bs)) \<and> \<not> byte_is_ws (last (trim_ascii bs))"
proof -
  let ?m = "dropWhile byte_is_ws bs"
  assume ne: "trim_ascii bs \<noteq> []"
  then have r: "dropWhile byte_is_ws (rev ?m) \<noteq> []" by (simp add: trim_ascii_def)
  then have "\<not> byte_is_ws (hd (dropWhile byte_is_ws (rev ?m)))" by (rule hd_dropWhile)
  then have last: "\<not> byte_is_ws (last (trim_ascii bs))" using r by (simp add: trim_ascii_def last_rev)
  have "prefix (trim_ascii bs) ?m"
    unfolding trim_ascii_def
    by (metis rev_rev_ident suffix_dropWhile suffix_to_prefix)
  then have "hd (trim_ascii bs) = hd ?m" using ne by (auto simp: prefix_def)
  moreover have "?m \<noteq> []" using r by (metis dropWhile.simps(1) rev.simps(1))
  ultimately have "\<not> byte_is_ws (hd (trim_ascii bs))" using hd_dropWhile by metis
  with last show ?thesis by simp
qed

section \<open>Chunked bodies\<close>

text \<open>
  The wire format: chunks of a header line and non-empty data, closed by a line of size zero.
\<close>

primrec encode_chunks :: "(byte list \<times> byte list) list \<Rightarrow> byte list" where
  "encode_chunks [] = []"
| "encode_chunks (c # cs) = fst c @ crlf_bytes @ snd c @ crlf_bytes @ encode_chunks cs"

definition header_line :: "byte list \<Rightarrow> nat \<Rightarrow> bool" where
  "header_line line n \<longleftrightarrow>
     \<not> sublist crlf_bytes line \<and> (\<exists>len. chunk_size line = Inr len \<and> unat len = n)"

definition chunk_ok :: "byte list \<times> byte list \<Rightarrow> bool" where
  "chunk_ok c \<longleftrightarrow> snd c \<noteq> [] \<and> header_line (fst c) (length (snd c))"

lemma find_crlf_line:
  "\<not> sublist crlf_bytes line \<Longrightarrow> find_sub crlf_bytes (line @ crlf_bytes @ rest) = Some (length line)"
proof (induction line)
  case Nil
  then show ?case by (simp add: crlf_bytes_def)
next
  case (Cons b line)
  then have "\<not> sublist crlf_bytes line" by (auto simp: sublist_Cons_right)
  moreover have "\<not> prefix crlf_bytes (b # line @ crlf_bytes @ rest)"
    using Cons.prems by (cases line) (auto simp: crlf_bytes_def sublist_Cons_right)
  ultimately show ?case using Cons.IH by simp
qed

lemma find_crlf_split:
  assumes "find_sub crlf_bytes xs = Some i"
  shows "\<not> sublist crlf_bytes (take i xs) \<and> xs = take i xs @ crlf_bytes @ drop (i + 2) xs"
proof
  have "i + 2 \<le> length xs" "take 2 (drop i xs) = crlf_bytes"
    using find_sub_Some [OF assms] by (auto simp: crlf_bytes_def numeral_2_eq_2)
  then show "xs = take i xs @ crlf_bytes @ drop (i + 2) xs"
    using window_split [of i xs 2] by (simp add: window_def)
  show "\<not> sublist crlf_bytes (take i xs)"
    using assms
  proof (induction xs arbitrary: i)
    case Nil
    then show ?case by (simp add: crlf_bytes_def)
  next
    case (Cons x xs)
    show ?case
    proof (cases i)
      case 0
      then show ?thesis by (simp add: crlf_bytes_def)
    next
      case (Suc j)
      with Cons.prems have np: "\<not> prefix crlf_bytes (x # xs)" and "find_sub crlf_bytes xs = Some j"
        by (auto split: if_splits)
      then have "\<not> sublist crlf_bytes (take j xs)" using Cons.IH by simp
      moreover have "\<not> prefix crlf_bytes (x # take j xs)"
        using np by (metis append_take_drop_id append_Cons prefix_prefix)
      ultimately show ?thesis by (simp add: Suc sublist_Cons_right)
    qed
  qed
qed

lemma header_line_0: "header_line line 0 \<longleftrightarrow> \<not> sublist crlf_bytes line \<and> chunk_size line = Inr 0"
  by (auto simp: header_line_def unat_eq_0)

lemma decode_loop_complete:
  assumes "drop pos body = encode_chunks cs @ closing @ crlf_bytes @ rest"
    and "list_all chunk_ok cs" and "header_line closing 0" and "length body < 2 ^ 64"
  shows "decode_loop body pos out = Returned (Inr (out @ concat (map snd cs)))"
  using assms
proof (induction cs arbitrary: pos out)
  case Nil
  then have "find_sub crlf_bytes (drop pos body) = Some (length closing)"
    by (simp add: find_crlf_line header_line_0)
  moreover have "window body pos (length closing) = closing" using Nil by (simp add: window_def)
  ultimately show ?case
    using Nil by (subst decode_loop.simps) (simp add: header_line_0 Let_def)
next
  case (Cons c cs)
  obtain line data where c: "c = (line, data)" by (cases c)
  let ?tail = "encode_chunks cs @ closing @ crlf_bytes @ rest"
  have d: "drop pos body = line @ crlf_bytes @ data @ crlf_bytes @ ?tail"
    using Cons.prems(1) by (simp add: c)
  obtain len where len: "chunk_size line = Inr len" "unat len = length data" "data \<noteq> []"
    and line: "\<not> sublist crlf_bytes line"
    using Cons.prems(2) by (auto simp: c chunk_ok_def header_line_def)
  let ?stop = "pos + length line + 2 + length data"
  have "length (drop pos body) = length line + 4 + length data + length ?tail"
    unfolding d by (simp add: crlf_bytes_def)
  then have bound: "?stop + 2 \<le> length body" by simp
  have "drop ?stop body = drop (length line + 2 + length data) (drop pos body)"
    by (simp add: ac_simps)
  then have at_end: "drop ?stop body = crlf_bytes @ ?tail"
    unfolding d by (simp add: crlf_bytes_def)
  have "drop (?stop + 2) body = drop 2 (drop ?stop body)" by (simp add: ac_simps)
  then have next_drop: "drop (?stop + 2) body = ?tail" unfolding at_end by (simp add: crlf_bytes_def)
  have "drop (pos + length line + 2) body = drop (length line + 2) (drop pos body)"
    by (simp add: ac_simps)
  then have win: "window body (pos + length line + 2) (length data) = data"
    unfolding d by (simp add: window_def crlf_bytes_def)
  have sep: "window body ?stop 2 = crlf_bytes"
    unfolding window_def at_end by (simp add: crlf_bytes_def)
  have hdr: "window body pos (length line) = line" by (simp add: window_def d)
  have "len \<noteq> 0" using len by auto
  moreover have "find_sub crlf_bytes (drop pos body) = Some (length line)"
    unfolding d by (rule find_crlf_line [OF line])
  ultimately have "decode_loop body pos out = decode_loop body (?stop + 2) (out @ data)"
    using bound Cons.prems(4) len sep win hdr
    by (subst decode_loop.simps) (simp add: Let_def)
  also have "\<dots> = Returned (Inr ((out @ data) @ concat (map snd cs)))"
    using Cons.prems(2-4) next_drop by (intro Cons.IH) simp_all
  finally show ?case by (simp add: c)
qed

lemma decode_loop_sound:
  assumes "decode_loop body pos out = Returned (Inr r)"
  shows "\<exists>cs closing rest. drop pos body = encode_chunks cs @ closing @ crlf_bytes @ rest \<and>
    list_all chunk_ok cs \<and> header_line closing 0 \<and> r = out @ concat (map snd cs)"
  using assms
proof (induction body pos out rule: decode_loop.induct)
  case (1 body pos out)
  then obtain i where i: "find_sub crlf_bytes (drop pos body) = Some i"
    by (subst (asm) (2) decode_loop.simps) (auto split: option.splits)
  let ?line = "window body pos i"
  have split: "\<not> sublist crlf_bytes ?line" "drop pos body = ?line @ crlf_bytes @ drop (pos + i + 2) body"
    using find_crlf_split [OF i] by (auto simp: window_def ac_simps)
  obtain len where len: "chunk_size ?line = Inr len"
    using 1(2) i by (subst (asm) decode_loop.simps) (auto simp: Let_def split: sum.splits)
  show ?case
  proof (cases "len = 0")
    case True
    have "r = out" using 1(2) i len True by (subst (asm) decode_loop.simps) simp
    moreover have "header_line ?line 0" using split(1) len True by (simp add: header_line_0)
    ultimately show ?thesis
      using split(2) by (intro exI [of _ "[]"] exI [of _ ?line] exI [of _ "drop (pos + i + 2) body"]) simp
  next
    case False
    let ?start = "pos + i + 2"
    let ?stop = "?start + unat len"
    let ?data = "window body ?start (unat len)"
    have cond: "\<not> 2 ^ 64 \<le> ?stop" "\<not> 2 ^ 64 \<le> ?stop + 2"
        "\<not> (length body < ?stop + 2 \<or> window body ?stop 2 \<noteq> crlf_bytes)"
      and rec: "decode_loop body (?stop + 2) (out @ ?data) = Returned (Inr r)"
      using 1(2) i len False by (subst (asm) decode_loop.simps, simp add: Let_def split: if_splits)+
    obtain cs closing rest where
      IH: "drop (?stop + 2) body = encode_chunks cs @ closing @ crlf_bytes @ rest"
        "list_all chunk_ok cs" "header_line closing 0" "r = (out @ ?data) @ concat (map snd cs)"
      using 1(1) [OF i refl len refl refl False cond rec] by blast
    have data: "length ?data = unat len" using cond(3) by (intro length_window) simp
    have "drop ?start body = ?data @ drop ?stop body"
      by (metis append_take_drop_id drop_drop add.commute window_def)
    moreover have "drop ?stop body = crlf_bytes @ drop (?stop + 2) body"
      using cond(3) by (metis append_take_drop_id drop_drop add.commute window_def)
    ultimately have "drop pos body =
        encode_chunks ((?line, ?data) # cs) @ closing @ crlf_bytes @ rest"
      using split(2) IH(1) by simp
    moreover have "chunk_ok (?line, ?data)"
      using split(1) len data False by (auto simp: chunk_ok_def header_line_def unat_eq_0)
    ultimately show ?thesis
      using IH(2-4)
      by (intro exI [of _ "(?line, ?data) # cs"] exI [of _ closing] exI [of _ rest]) simp
  qed
qed

text \<open>
  C36: chunked bodies are decoded exactly: the decoder returns a payload precisely when the
  body is a sequence of well-formed chunks closed by a chunk of size zero, whatever follows
  it, and then the payload is the concatenation of the chunk data. Bodies are shorter than
  2^64 bytes.\<close>

theorem chunked_body_decoded_exactly:
  assumes "length body < 2 ^ 64"
  shows "decode_chunked_body body = Returned (Inr payload) \<longleftrightarrow>
    (\<exists>cs closing rest. body = encode_chunks cs @ closing @ crlf_bytes @ rest \<and>
       list_all chunk_ok cs \<and> header_line closing 0 \<and> payload = concat (map snd cs))"
  using decode_loop_sound [of body 0 "[]" payload] decode_loop_complete [of 0 body _ _ _ "[]"] assms
  by (auto simp: decode_chunked_body_def)

text \<open>The body of the example: \<open>3;x\<close>, the bytes 1 2 3, then \<open>0\<close>.\<close>

definition demo_chunk_line :: "byte list" where
  "demo_chunk_line = as_bytes ''3;x''"

definition demo_closing_line :: "byte list" where
  "demo_closing_line = as_bytes ''0''"

lemma chunk_sizeI:
  assumes "from_utf8 line = Some s" and "trim (hd (split_char CHR '';'' s)) = ds"
    and "hex_value 0 ds = Some n" and "n < 2 ^ 64" and "ds \<noteq> []" and "hd ds \<noteq> CHR ''+''"
  shows "chunk_size line = Inr (word_of_nat n)"
proof -
  have "\<not> prefix ''+'' ds" using assms(5,6) by (cases ds) auto
  then show ?thesis using assms(1-5) by (simp add: chunk_size_def usize_from_hex_def)
qed

theorem chunked_body_decoded_exactly_witness:
  "length (encode_chunks [(demo_chunk_line, [1, 2, 3])] @ demo_closing_line @ crlf_bytes) < 2 ^ 64 \<and>
   decode_chunked_body (encode_chunks [(demo_chunk_line, [1, 2, 3])] @ demo_closing_line @ crlf_bytes)
     = Returned (Inr [1, 2, 3])"
proof -
  let ?body = "encode_chunks [(demo_chunk_line, [1, 2, 3])] @ demo_closing_line @ crlf_bytes"
  have len: "length ?body < 2 ^ 64"
    by (simp add: demo_chunk_line_def demo_closing_line_def crlf_bytes_def)
  have line: "demo_chunk_line = [51, 59, 120]" "demo_closing_line = [48]" by code_simp+
  have "from_utf8 demo_chunk_line = Some ''3;x''" "from_utf8 demo_closing_line = Some ''0''"
    "trim (hd (split_char CHR '';'' ''3;x'')) = ''3''" "trim (hd (split_char CHR '';'' ''0'')) = ''0''"
    "hex_value 0 ''3'' = Some 3" "hex_value 0 ''0'' = Some 0" by code_simp+
  then have "chunk_size demo_chunk_line = Inr 3" "chunk_size demo_closing_line = Inr 0"
    using chunk_sizeI [of demo_chunk_line "''3;x''" "''3''" 3]
      chunk_sizeI [of demo_closing_line "''0''" "''0''" 0] by simp_all
  then have "chunk_ok (demo_chunk_line, [1, 2, 3])" "header_line demo_closing_line 0"
    by (simp_all add: chunk_ok_def header_line_def line crlf_bytes_def sublist_Cons_right)
  then have "decode_chunked_body ?body = Returned (Inr [1, 2, 3])"
    unfolding chunked_body_decoded_exactly [OF len]
    by (intro exI [of _ "[(demo_chunk_line, [1, 2, 3])]"] exI [of _ demo_closing_line] exI [of _ "[]"]) simp
  with len show ?thesis by simp
qed

text \<open>A chunk size just below 2^64 is not an error: the unchecked sum panics.\<close>

definition huge_chunk_line :: "byte list" where
  "huge_chunk_line = as_bytes ''ffffffffffffffec''"

lemma huge_chunk_panics: "decode_chunked_body (huge_chunk_line @ crlf_bytes) = Panicked"
proof -
  let ?s = "''ffffffffffffffec''"
  have line: "huge_chunk_line = replicate 14 102 @ [101, 99]" by code_simp
  have "from_utf8 huge_chunk_line = Some ?s" "trim (hd (split_char CHR '';'' ?s)) = ?s" by code_simp+
  moreover have "hex_value 0 ?s = Some 18446744073709551596"
    by (simp add: hex_digit_value_def ascii_simps)
  ultimately have size: "chunk_size huge_chunk_line = Inr 18446744073709551596"
    using chunk_sizeI [of huge_chunk_line ?s ?s 18446744073709551596] by simp
  have "13 \<notin> set huge_chunk_line" by (simp add: line)
  then have "find_sub crlf_bytes (huge_chunk_line @ crlf_bytes) = Some 16"
    using find_sub_skip [of crlf_bytes 13 "[10]" huge_chunk_line crlf_bytes]
    by (simp add: crlf_bytes_def line)
  moreover have "window (huge_chunk_line @ crlf_bytes) 0 16 = huge_chunk_line"
    by (simp add: window_def line)
  ultimately show ?thesis
    unfolding decode_chunked_body_def by (subst decode_loop.simps) (simp add: size)
qed

end
