(* ===== verification/Gcp_Confidential_Space.thy ===== *)
theory Gcp_Confidential_Space
  imports Gcp_Launcher Cached_Fetch Url_View Json_View
begin

text \<open>
  \<open>crates/relay-attest/src/gcp_confidential_space.rs\<close>: the attester, the verifier policy, the
  verification of a Confidential Space token and the nonces that carry the 64 bytes of
  REPORTDATA. The crates \<open>jsonwebtoken\<close>, \<open>base64\<close>, \<open>url\<close>, \<open>serde\<close> and \<open>reqwest\<close>, the clocks and
  the launcher are parameters, the fields of \<open>gcp_env\<close>.
\<close>

unbundle bit_operations_syntax

section \<open>Data\<close>

record GcpConfidentialSpacePolicy =
  pol_audience :: string
  pol_image_digest :: "string option"
  pol_image_reference :: "string option"
  pol_signature_key_ids :: "string list"
  pol_service_account :: "string option"
  pol_project_id :: "string option"
  pol_zone :: "string option"
  pol_instance_name :: "string option"
  pol_require_debug_disabled :: bool
  pol_require_confidential_space :: bool
  pol_require_secure_boot :: bool
  pol_issuer :: string
  pol_jwks_uri :: "string option"

text \<open>The claims, less the fields no code reads.\<close>

record GceClaims =
  gce_instance_name :: "string option"
  gce_project_id :: "string option"
  gce_zone :: "string option"

record ContainerClaims =
  con_image_digest :: "string option"
  con_image_reference :: "string option"
  con_image_signatures :: "string list option"

datatype NonceClaim = One string | Many "string list"

record ConfidentialSpaceClaims =
  cl_aud :: string
  cl_iss :: string
  cl_exp :: u64
  cl_nbf :: u64
  cl_iat :: u64
  cl_dbgstat :: string
  cl_eat_nonce :: NonceClaim
  cl_google_service_accounts :: "string list"
  cl_secboot :: bool
  cl_swname :: string
  cl_container :: "ContainerClaims option"
  cl_gce :: "GceClaims option"

record Jwk =
  jwk_kty :: string
  jwk_kid :: string
  jwk_n :: string
  jwk_e :: string
  jwk_alg :: "string option"

datatype JwksProvider = HttpJwksProvider | StaticJwksProvider "Jwk list"

record GcpConfidentialSpaceVerifier =
  ver_policy :: GcpConfidentialSpacePolicy
  ver_jwks :: JwksProvider
  ver_enforce_workload_identity :: bool

text \<open>\<open>jsonwebtoken::Validation\<close>.\<close>

record Validation =
  val_algorithms :: "string list"
  val_issuer :: "string list"
  val_audience :: "string list"
  val_leeway :: u64
  val_validate_exp :: bool
  val_validate_nbf :: bool
  val_required_spec_claims :: "string list"

text \<open>
  The world outside: \<open>ge_jwt_header\<close> gives algorithm and key id of a token, \<open>ge_rsa_key\<close> the
  decoding key of an RSA modulus and exponent, \<open>ge_jwt_decode\<close> checks the token against key and
  validation, \<open>ge_now\<close> is the wall clock in seconds (\<open>None\<close> before 1970), \<open>ge_text\<close> decodes a
  response body, \<open>ge_well_known\<close> and \<open>ge_jwks\<close> deserialise a JSON value.
\<close>

record gcp_env =
  ge_url_parse :: url_parser
  ge_b64_encode :: "byte list \<Rightarrow> string"
  ge_b64_decode :: "string \<Rightarrow> byte list option"
  ge_jwt_header :: "string \<Rightarrow> (string \<times> string option) option"
  ge_rsa_key :: "string \<Rightarrow> string \<Rightarrow> byte list option"
  ge_jwt_decode :: "string \<Rightarrow> byte list \<Rightarrow> Validation \<Rightarrow> ConfidentialSpaceClaims option"
  ge_now :: "u64 option"
  ge_json_parse :: "string \<Rightarrow> json option"
  ge_well_known :: "json \<Rightarrow> string option"
  ge_jwks :: "json \<Rightarrow> Jwk list option"
  ge_text :: "byte list \<Rightarrow> string"
  ge_network :: network
  ge_clock :: "nat \<Rightarrow> nat"
  ge_runtime :: runtime_kind
  ge_lock_poisoned :: "nat \<Rightarrow> bool"

type_synonym gcp_world = "json fetch_world"

type_synonym env_vars = "string \<rightharpoonup> string"

section \<open>Constants\<close>

definition DEFAULT_SOCKET_PATH :: string where
  "DEFAULT_SOCKET_PATH = ''/run/container_launcher/teeserver.sock''"

definition DEFAULT_ISSUER :: string where
  "DEFAULT_ISSUER = ''https://confidentialcomputing.googleapis.com''"

definition DEFAULT_WELL_KNOWN_PATH :: string where
  "DEFAULT_WELL_KNOWN_PATH = ''/.well-known/openid-configuration''"

definition DEFAULT_AUDIENCE :: string where
  "DEFAULT_AUDIENCE = ''trusted-relay-attested-tls''"

definition DEFAULT_TOKEN_TYPE :: string where
  "DEFAULT_TOKEN_TYPE = ''OIDC''"

text \<open>Half an hour, in seconds of the monotonic clock.\<close>

definition DEFAULT_JWKS_TTL :: nat where
  "DEFAULT_JWKS_TTL = 30 * 60"

definition NONCE_SPKI_PREFIX :: string where
  "NONCE_SPKI_PREFIX = ''trr1s.''"

definition NONCE_CONFIG_PREFIX :: string where
  "NONCE_CONFIG_PREFIX = ''trr1c.''"

definition MAX_CLOCK_SKEW_SECS :: u64 where
  "MAX_CLOCK_SKEW_SECS = 300"

definition RS256 :: string where "RS256 = ''RS256''"
definition RSA_KTY :: string where "RSA_KTY = ''RSA''"
definition CONFIDENTIAL_SPACE :: string where "CONFIDENTIAL_SPACE = ''CONFIDENTIAL_SPACE''"
definition DISABLED_SINCE_BOOT :: string where "DISABLED_SINCE_BOOT = ''disabled-since-boot''"
definition HTTPS :: string where "HTTPS = ''https''"

section \<open>Nonces\<close>

definition decode_nonce_part :: "gcp_env \<Rightarrow> string \<Rightarrow> nat \<Rightarrow> string \<Rightarrow> AttestError + byte list" where
  "decode_nonce_part env encoded len label =
     rbind (ok_or (vfail (''Confidential Space '' @ label @ '' nonce is not base64url: ''))
              (ge_b64_decode env encoded)) (\<lambda>bytes.
     if length bytes \<noteq> len
     then Inl (vfail (''Confidential Space '' @ label @ '' nonce decoded to '' @ decimal (length bytes)
                      @ '' bytes, expected '' @ decimal len))
     else Inr bytes)"

text \<open>One round of the loop over the nonces; a later nonce replaces an earlier one.\<close>

definition nonce_step ::
    "gcp_env \<Rightarrow> byte list option \<times> byte list option \<Rightarrow> string
       \<Rightarrow> AttestError + byte list option \<times> byte list option" where
  "nonce_step env st nonce =
     (case strip_prefix NONCE_SPKI_PREFIX nonce of
        Some encoded \<Rightarrow>
          rbind (decode_nonce_part env encoded 48 ''SPKI'') (\<lambda>bytes. Inr (Some bytes, snd st))
      | None \<Rightarrow>
          (case strip_prefix NONCE_CONFIG_PREFIX nonce of
             Some encoded \<Rightarrow>
               rbind (decode_nonce_part env encoded 16 ''config'') (\<lambda>bytes. Inr (fst st, Some bytes))
           | None \<Rightarrow> Inr st))"

definition claim_nonces :: "NonceClaim \<Rightarrow> string list" where
  "claim_nonces nonce_claim =
     (case nonce_claim of One nonce \<Rightarrow> split_char CHR '','' nonce | Many nonces \<Rightarrow> nonces)"

definition nonce_reportdata :: "gcp_env \<Rightarrow> NonceClaim \<Rightarrow> AttestError + byte list" where
  "nonce_reportdata env nonce_claim =
     rbind (fold_result (nonce_step env) (None, None) (claim_nonces nonce_claim)) (\<lambda>(spki, conf).
     rbind (ok_or (vfail ''Confidential Space token lacks trusted-relay SPKI nonce'') spki) (\<lambda>spki.
     rbind (ok_or (vfail ''Confidential Space token lacks trusted-relay config nonce'') conf) (\<lambda>conf.
     Inr (spki @ conf))))"

definition reportdata_nonces :: "gcp_env \<Rightarrow> byte list \<Rightarrow> string list" where
  "reportdata_nonces env reportdata =
     [NONCE_SPKI_PREFIX @ ge_b64_encode env (take 48 reportdata),
      NONCE_CONFIG_PREFIX @ ge_b64_encode env (window reportdata 48 16)]"

definition reportdata_nonce :: "gcp_env \<Rightarrow> byte list \<Rightarrow> string" where
  "reportdata_nonce env reportdata = join '','' (reportdata_nonces env reportdata)"

section \<open>Policy\<close>

definition normalize_digest :: "string \<Rightarrow> string" where
  "normalize_digest raw =
     (let clean = to_ascii_lowercase (trim raw)
      in if prefix sha256_tag clean then clean else sha256_tag @ clean)"

definition validate_image_digest :: "string \<Rightarrow> AttestError + unit" where
  "validate_image_digest raw =
     (let digest = normalize_digest raw; hex = trim_start_matches sha256_tag digest
      in if length hex \<noteq> 64 \<or> \<not> list_all is_ascii_hexdigit hex
         then Inl (vfail (''Confidential Space image digest must be sha256:<64 hex>, got '' @ raw))
         else Inr ())"

definition validate_https_url :: "gcp_env \<Rightarrow> string \<Rightarrow> string \<Rightarrow> AttestError + unit" where
  "validate_https_url env raw label =
     rbind (ok_or (vfail (label @ '' is invalid: '')) (ge_url_parse env raw)) (\<lambda>parsed.
     if url_scheme parsed \<noteq> HTTPS then Inl (vfail (label @ '' must use https: '' @ raw))
     else if url_host_str parsed = None \<or> url_username parsed \<noteq> [] \<or> url_password parsed \<noteq> None
     then Inl (vfail (label @ '' must be an https URL without userinfo: '' @ raw))
     else Inr ())"

definition policy_new :: "string \<Rightarrow> GcpConfidentialSpacePolicy" where
  "policy_new aud =
     \<lparr>pol_audience = aud, pol_image_digest = None, pol_image_reference = None,
      pol_signature_key_ids = [], pol_service_account = None, pol_project_id = None,
      pol_zone = None, pol_instance_name = None, pol_require_debug_disabled = True,
      pol_require_confidential_space = True, pol_require_secure_boot = True,
      pol_issuer = DEFAULT_ISSUER, pol_jwks_uri = None\<rparr>"

definition split_env :: "env_vars \<Rightarrow> string \<Rightarrow> string list" where
  "split_env vars name =
     (case vars name of
        None \<Rightarrow> []
      | Some v \<Rightarrow> filter (\<lambda>s. s \<noteq> []) (map trim (split_char CHR '','' v)))"

definition policy_from_env :: "env_vars \<Rightarrow> GcpConfidentialSpacePolicy" where
  "policy_from_env vars =
     (policy_new (case vars ''TRUSTED_RELAY_GCP_CS_AUDIENCE'' of None \<Rightarrow> DEFAULT_AUDIENCE | Some a \<Rightarrow> a))
       \<lparr>pol_image_digest := vars ''TRUSTED_RELAY_GCP_CS_IMAGE_DIGEST'',
        pol_image_reference := vars ''TRUSTED_RELAY_GCP_CS_IMAGE_REFERENCE'',
        pol_signature_key_ids := split_env vars ''TRUSTED_RELAY_GCP_CS_SIGNATURE_KEY_ID'',
        pol_service_account := vars ''TRUSTED_RELAY_GCP_CS_SERVICE_ACCOUNT'',
        pol_project_id := vars ''TRUSTED_RELAY_GCP_CS_PROJECT_ID'',
        pol_zone := vars ''TRUSTED_RELAY_GCP_CS_ZONE'',
        pol_instance_name := vars ''TRUSTED_RELAY_GCP_CS_INSTANCE_NAME'',
        pol_jwks_uri := vars ''TRUSTED_RELAY_GCP_CS_JWKS_URI''\<rparr>"

definition strict_for_image :: "string \<Rightarrow> string \<Rightarrow> GcpConfidentialSpacePolicy" where
  "strict_for_image aud image_digest =
     (policy_new aud)\<lparr>pol_image_digest := Some (normalize_digest image_digest)\<rparr>"

definition validate_metadata_sources ::
    "gcp_env \<Rightarrow> GcpConfidentialSpacePolicy \<Rightarrow> AttestError + unit" where
  "validate_metadata_sources env pol =
     (if trim (pol_audience pol) = [] then Inl (vfail ''Confidential Space audience must not be empty'')
      else
        rbind (validate_https_url env (pol_issuer pol) ''Confidential Space issuer'') (\<lambda>_.
        if trim_end_matches (\<lambda>c. c = CHR ''/'') (pol_issuer pol) \<noteq> DEFAULT_ISSUER \<and> pol_jwks_uri pol = None
        then Inl (vfail ''custom Confidential Space issuer requires an explicit jwks_uri'')
        else (case pol_jwks_uri pol of
                None \<Rightarrow> Inr ()
              | Some jwks_uri \<Rightarrow> validate_https_url env jwks_uri ''Confidential Space JWKS URI'')))"

definition policy_validate :: "gcp_env \<Rightarrow> GcpConfidentialSpacePolicy \<Rightarrow> AttestError + unit" where
  "policy_validate env pol =
     rbind (validate_metadata_sources env pol) (\<lambda>_.
     if pol_image_digest pol = None \<and> pol_signature_key_ids pol = []
     then Inl (vfail ''Confidential Space policy must pin --gcp-cs-image-digest or --gcp-cs-signature-key-id'')
     else (case pol_image_digest pol of
             None \<Rightarrow> Inr ()
           | Some digest \<Rightarrow> validate_image_digest digest))"

section \<open>Fetching keys\<close>

definition fetch_url_text_async :: "gcp_env \<Rightarrow> string \<Rightarrow> nat \<Rightarrow> AttestError + string" where
  "fetch_url_text_async env url n =
     rbind (ok_or (vfail ''invalid Confidential Space metadata URL: '') (ge_url_parse env url)) (\<lambda>parsed.
     if url_scheme parsed \<noteq> HTTPS
     then Inl (vfail (''Confidential Space metadata URL must be https: '' @ url))
     else (case ge_network env n url of
             ClientBuildFailed \<Rightarrow> Inl (vfail ''HTTP client build: '')
           | SendFailed \<Rightarrow> Inl (vfail (''failed to fetch '' @ url @ '': ''))
           | HttpResponse status body \<Rightarrow>
               if \<not> is_success status then Inl (vfail (''fetch '' @ url @ '' returned ''))
               else (case body of
                       Inl e \<Rightarrow> Inl (vfail (''read '' @ url @ '': '' @ e))
                     | Inr bytes \<Rightarrow> Inr (ge_text env bytes))))"

definition fetch_url_text :: "gcp_env \<Rightarrow> string \<Rightarrow> nat \<Rightarrow> AttestError + string" where
  "fetch_url_text env url n =
     run_blocking (ge_runtime env) (vfail ''failed to create runtime for JWKS fetch: '')
       (vfail ''JWKS fetch thread panicked'') (vfail ''failed to create runtime for JWKS fetch: '')
       (fetch_url_text_async env url n)"

text \<open>
  The JSON value behind a URL, with whether it came from the cache. The cache is read at one
  event, the network at the next and the cache written at a third; its lock may be found
  poisoned at the first and at the last.
\<close>

definition fetch_json_value ::
    "gcp_env \<Rightarrow> string \<Rightarrow> gcp_world \<Rightarrow> (AttestError + bool \<times> json) \<times> gcp_world" where
  "fetch_json_value env url w =
     (if ge_lock_poisoned env (fw_events w) then (Inl (vfail ''JSON cache poisoned''), tick w)
      else
        (case Option.bind (fw_cache w url) (\<lambda>(fetched_at, v).
                if ge_clock env (fw_events w) - fetched_at < DEFAULT_JWKS_TTL then Some v else None) of
           Some v \<Rightarrow> (Inr (True, v), tick w)
         | None \<Rightarrow>
             (case fetch_url_text env url (Suc (fw_events w)) of
                Inl e \<Rightarrow> (Inl e, tick (tick w))
              | Inr body \<Rightarrow>
                  (case ge_json_parse env body of
                     None \<Rightarrow> (Inl (vfail (''JSON response from '' @ url @ '' is invalid: '')), tick (tick w))
                   | Some v \<Rightarrow>
                       (let n = Suc (Suc (fw_events w))
                        in if ge_lock_poisoned env n
                           then (Inl (vfail ''JSON cache poisoned''), tick (tick (tick w)))
                           else (Inr (False, v),
                                 (tick (tick (tick w)))
                                   \<lparr>fw_cache := (fw_cache w)(url \<mapsto> (ge_clock env n, v))\<rparr>))))))"

definition fetch_json_cached ::
    "gcp_env \<Rightarrow> (json \<Rightarrow> 'a option) \<Rightarrow> string \<Rightarrow> gcp_world \<Rightarrow> (AttestError + 'a) \<times> gcp_world" where
  "fetch_json_cached env from_value url =
     sbind (fetch_json_value env url) (\<lambda>(cached, v).
     slift (ok_or (vfail (if cached then ''cached JSON from '' @ url @ '' is invalid: ''
                          else ''JSON response from '' @ url @ '' has wrong shape: ''))
              (from_value v)))"

definition fetch_well_known :: "gcp_env \<Rightarrow> string \<Rightarrow> gcp_world \<Rightarrow> (AttestError + string) \<times> gcp_world" where
  "fetch_well_known env issuer =
     fetch_json_cached env (ge_well_known env)
       (trim_end_matches (\<lambda>c. c = CHR ''/'') issuer @ DEFAULT_WELL_KNOWN_PATH)"

definition provider_jwks ::
    "gcp_env \<Rightarrow> JwksProvider \<Rightarrow> string \<Rightarrow> gcp_world \<Rightarrow> (AttestError + Jwk list) \<times> gcp_world" where
  "provider_jwks env provider jwks_uri =
     (case provider of
        HttpJwksProvider \<Rightarrow> fetch_json_cached env (ge_jwks env) jwks_uri
      | StaticJwksProvider jwks \<Rightarrow> slift (Inr jwks))"

section \<open>The verifier\<close>

definition verifier_new ::
    "gcp_env \<Rightarrow> GcpConfidentialSpacePolicy \<Rightarrow> AttestError + GcpConfidentialSpaceVerifier" where
  "verifier_new env pol =
     rbind (policy_validate env pol) (\<lambda>_.
     Inr \<lparr>ver_policy = pol, ver_jwks = HttpJwksProvider, ver_enforce_workload_identity = True\<rparr>)"

definition verifier_new_audit :: "GcpConfidentialSpacePolicy \<Rightarrow> GcpConfidentialSpaceVerifier" where
  "verifier_new_audit pol =
     \<lparr>ver_policy = pol, ver_jwks = HttpJwksProvider, ver_enforce_workload_identity = False\<rparr>"

definition with_static_jwks ::
    "gcp_env \<Rightarrow> GcpConfidentialSpacePolicy \<Rightarrow> Jwk list \<Rightarrow> AttestError + GcpConfidentialSpaceVerifier" where
  "with_static_jwks env pol jwks =
     rbind (policy_validate env pol) (\<lambda>_.
     Inr \<lparr>ver_policy = pol, ver_jwks = StaticJwksProvider jwks, ver_enforce_workload_identity = True\<rparr>)"

definition token_validation :: "GcpConfidentialSpacePolicy \<Rightarrow> Validation" where
  "token_validation pol =
     \<lparr>val_algorithms = [RS256], val_issuer = [pol_issuer pol], val_audience = [pol_audience pol],
      val_leeway = MAX_CLOCK_SKEW_SECS, val_validate_exp = True, val_validate_nbf = True,
      val_required_spec_claims = [''exp'', ''nbf'', ''aud'', ''iss'']\<rparr>"

text \<open>The key of a key set a token header selects.\<close>

definition select_key :: "gcp_env \<Rightarrow> Jwk list \<Rightarrow> string \<Rightarrow> AttestError + byte list" where
  "select_key env keys kid =
     rbind (ok_or (vfail (''Confidential Space JWKS does not contain kid '' @ kid))
              (find (\<lambda>jwk. jwk_kid jwk = kid) keys)) (\<lambda>jwk.
     if (case jwk_alg jwk of None \<Rightarrow> False | Some alg \<Rightarrow> alg \<noteq> RS256)
     then Inl (vfail ''Confidential Space JWK alg must be RS256, got '')
     else if jwk_kty jwk \<noteq> RSA_KTY
     then Inl (vfail (''Confidential Space JWK kty must be RSA, got '' @ jwk_kty jwk))
     else ok_or (vfail ''invalid Confidential Space RSA JWK: '') (ge_rsa_key env (jwk_n jwk) (jwk_e jwk)))"

definition decode_and_validate ::
    "gcp_env \<Rightarrow> GcpConfidentialSpaceVerifier \<Rightarrow> string
       \<Rightarrow> gcp_world \<Rightarrow> (AttestError + ConfidentialSpaceClaims) \<times> gcp_world" where
  "decode_and_validate env ver token =
     sbind (slift (ok_or (vfail ''invalid Confidential Space JWT header: '') (ge_jwt_header env token)))
       (\<lambda>(alg, header_kid).
     if alg \<noteq> RS256 then slift (Inl (vfail ''Confidential Space token alg must be RS256, got ''))
     else
       sbind (slift (ok_or (vfail ''Confidential Space token lacks kid'') header_kid)) (\<lambda>kid.
       sbind (case pol_jwks_uri (ver_policy ver) of
                Some uri \<Rightarrow> slift (Inr uri)
              | None \<Rightarrow> fetch_well_known env (pol_issuer (ver_policy ver))) (\<lambda>jwks_uri.
       sbind (provider_jwks env (ver_jwks ver) jwks_uri) (\<lambda>keys.
       slift
         (rbind (select_key env keys kid) (\<lambda>decoding_key.
          ok_or (vfail ''Confidential Space JWT validation failed: '')
            (ge_jwt_decode env token decoding_key (token_validation (ver_policy ver)))))))))"

text \<open>An optional pin against an optional claim of the GCE submodule.\<close>

definition check_gce ::
    "string option \<Rightarrow> (GceClaims \<Rightarrow> string option) \<Rightarrow> ConfidentialSpaceClaims \<Rightarrow> string \<Rightarrow> AttestError + unit" where
  "check_gce pin field claims label =
     (case pin of
        None \<Rightarrow> Inr ()
      | Some expected \<Rightarrow>
          if Option.bind (cl_gce claims) field \<noteq> Some expected
          then Inl (vfail (''Confidential Space '' @ label @ '' mismatch: expected '' @ expected @ '', got ''))
          else Inr ())"

definition check_platform ::
    "u64 \<Rightarrow> GcpConfidentialSpacePolicy \<Rightarrow> ConfidentialSpaceClaims \<Rightarrow> AttestError + unit" where
  "check_platform now pol claims =
     (if now + MAX_CLOCK_SKEW_SECS < cl_iat claims
      then Inl (vfail ''Confidential Space token iat is in the future: '')
      else if pol_require_confidential_space pol \<and> cl_swname claims \<noteq> CONFIDENTIAL_SPACE
      then Inl (vfail ''Confidential Space swname mismatch: expected CONFIDENTIAL_SPACE, got '')
      else if pol_require_debug_disabled pol \<and> cl_dbgstat claims \<noteq> DISABLED_SINCE_BOOT
      then Inl (vfail ''Confidential Space debug status is not production-safe: '')
      else if pol_require_secure_boot pol \<and> \<not> cl_secboot claims
      then Inl (vfail ''Confidential Space token reports secboot=false'')
      else if (case pol_service_account pol of
                 None \<Rightarrow> False
               | Some expected_sa \<Rightarrow> \<not> list_ex (\<lambda>sa. sa = expected_sa) (cl_google_service_accounts claims))
      then Inl (vfail ''Confidential Space service account mismatch: expected '')
      else
        rbind (check_gce (pol_project_id pol) gce_project_id claims ''project_id'') (\<lambda>_.
        rbind (check_gce (pol_zone pol) gce_zone claims ''zone'') (\<lambda>_.
        check_gce (pol_instance_name pol) gce_instance_name claims ''instance_name'')))"

definition check_workload ::
    "GcpConfidentialSpacePolicy \<Rightarrow> ContainerClaims \<Rightarrow> AttestError + unit" where
  "check_workload pol container =
     rbind (case pol_image_digest pol of
              None \<Rightarrow> Inr ()
            | Some digest \<Rightarrow>
                let expected = normalize_digest digest
                in rbind (ok_or (vfail ''Confidential Space token lacks container.image_digest'')
                            (map_option normalize_digest (con_image_digest container))) (\<lambda>actual.
                   if actual \<noteq> expected then Inl (ImageDigestMismatch expected actual) else Inr ())) (\<lambda>_.
     rbind (case pol_image_reference pol of
              None \<Rightarrow> Inr ()
            | Some expected \<Rightarrow>
                if con_image_reference container \<noteq> Some expected
                then Inl (vfail (''Confidential Space image_reference mismatch: expected '' @ expected @ '', got ''))
                else Inr ()) (\<lambda>_.
     if pol_signature_key_ids pol = [] then Inr ()
     else
       let sigs = (case con_image_signatures container of None \<Rightarrow> [] | Some key_ids \<Rightarrow> key_ids)
       in if \<not> list_ex (\<lambda>key_id. key_id \<in> set (pol_signature_key_ids pol)) sigs
          then Inl (vfail ''Confidential Space container image signature key mismatch: expected one of '')
          else Inr ()))"

definition verify_claims ::
    "gcp_env \<Rightarrow> GcpConfidentialSpaceVerifier \<Rightarrow> ConfidentialSpaceClaims \<Rightarrow> byte list option
       \<Rightarrow> AttestError + byte list" where
  "verify_claims env ver claims expected_reportdata =
     rbind (ok_or (vfail ''system clock before epoch: '') (ge_now env)) (\<lambda>now.
     rbind (check_platform now (ver_policy ver) claims) (\<lambda>_.
     rbind (ok_or (vfail ''Confidential Space token lacks submods.container claims'') (cl_container claims))
       (\<lambda>container.
     rbind (if ver_enforce_workload_identity ver then check_workload (ver_policy ver) container else Inr ()) (\<lambda>_.
     rbind (nonce_reportdata env (cl_eat_nonce claims)) (\<lambda>reportdata.
     case expected_reportdata of
       None \<Rightarrow> Inr reportdata
     | Some expected \<Rightarrow> if reportdata \<noteq> expected then Inl ReportDataMismatch else Inr reportdata)))))"

definition gcp_verify ::
    "gcp_env \<Rightarrow> GcpConfidentialSpaceVerifier \<Rightarrow> Evidence \<Rightarrow> measurement
       \<Rightarrow> gcp_world \<Rightarrow> (AttestError + byte list) \<times> gcp_world" where
  "gcp_verify env ver evidence expected_measurement =
     (if tee_type evidence \<noteq> GcpConfidentialSpace then slift (Inl (UnsupportedTeeType (tee_type evidence)))
      else
        sbind (slift (if ver_enforce_workload_identity ver then policy_validate env (ver_policy ver) else Inr ())) (\<lambda>_.
        if (case expected_measurement of None \<Rightarrow> False | Some bytes \<Rightarrow> length bytes \<noteq> 64)
        then slift (Inl (vfail ''Confidential Space verifier expected a 64-byte nonce/reportdata, got ''))
        else
          sbind (slift (ok_or (vfail ''Confidential Space token is not UTF-8: '') (from_utf8 (evidence_data evidence))))
            (\<lambda>token.
          sbind (decode_and_validate env ver token) (\<lambda>claims.
          slift (verify_claims env ver claims expected_measurement)))))"

section \<open>The attester\<close>

record GcpConfidentialSpaceAttester =
  att_audience :: string
  att_socket_path :: string
  att_token_type :: string

record TokenRequest =
  req_audience :: string
  req_token_type :: string
  req_nonces :: "string list"

text \<open>
  What the attester meets: the JSON encoder, and the launcher's socket with the clock at each
  test of the waiting loop, the outcome of each connection attempt, and the exchange of bytes
  over a stream.
\<close>

record 's launcher =
  la_json :: "TokenRequest \<Rightarrow> string + byte list"
  la_elapsed :: "nat \<Rightarrow> nat"
  la_connect :: "string \<Rightarrow> nat \<Rightarrow> string + 's"
  la_exchange :: "'s \<Rightarrow> byte list \<Rightarrow> stream_outcome"

definition attester_new :: "string \<Rightarrow> GcpConfidentialSpaceAttester" where
  "attester_new aud =
     \<lparr>att_audience = aud, att_socket_path = DEFAULT_SOCKET_PATH, att_token_type = DEFAULT_TOKEN_TYPE\<rparr>"

definition attester_from_env :: "env_vars \<Rightarrow> GcpConfidentialSpaceAttester" where
  "attester_from_env vars =
     \<lparr>att_audience = (case vars ''TRUSTED_RELAY_GCP_CS_AUDIENCE'' of None \<Rightarrow> DEFAULT_AUDIENCE | Some a \<Rightarrow> a),
      att_socket_path = (case vars ''TRUSTED_RELAY_GCP_CS_SOCKET'' of None \<Rightarrow> DEFAULT_SOCKET_PATH | Some s \<Rightarrow> s),
      att_token_type = DEFAULT_TOKEN_TYPE\<rparr>"

definition with_socket_path ::
    "GcpConfidentialSpaceAttester \<Rightarrow> string \<Rightarrow> GcpConfidentialSpaceAttester" where
  "with_socket_path att socket_path = att\<lparr>att_socket_path := socket_path\<rparr>"

definition with_token_type ::
    "GcpConfidentialSpaceAttester \<Rightarrow> string \<Rightarrow> GcpConfidentialSpaceAttester" where
  "with_token_type att token_type = att\<lparr>att_token_type := token_type\<rparr>"

text \<open>\<open>None\<close> when the wait for the socket does not end.\<close>

definition request_token_over_unix_socket ::
    "'s launcher \<Rightarrow> string \<Rightarrow> byte list \<Rightarrow> (AttestError + byte list) run option" where
  "request_token_over_unix_socket la socket_path body =
     map_option (\<lambda>r. case r of
         Inl e \<Rightarrow> Returned (Inl e)
       | Inr stream \<Rightarrow> request_token_over_stream (la_exchange la stream) body)
       (connect_launcher_socket (la_elapsed la) (la_connect la socket_path) socket_path SOCKET_WAIT_TIMEOUT)"

definition token_request :: "gcp_env \<Rightarrow> GcpConfidentialSpaceAttester \<Rightarrow> byte list \<Rightarrow> TokenRequest" where
  "token_request env att user_data =
     \<lparr>req_audience = att_audience att, req_token_type = att_token_type att,
      req_nonces = reportdata_nonces env user_data\<rparr>"

definition gcp_attest ::
    "gcp_env \<Rightarrow> 's launcher \<Rightarrow> GcpConfidentialSpaceAttester \<Rightarrow> byte list
       \<Rightarrow> (AttestError + Evidence) run option" where
  "gcp_attest env la att user_data =
     (case la_json la (token_request env att user_data) of
        Inl e \<Rightarrow> Some (Returned (Inl (gfail (''token request JSON: '' @ e))))
      | Inr body \<Rightarrow>
          map_option (\<lambda>r. case r of
              Panicked \<Rightarrow> Panicked
            | Returned (Inl e) \<Rightarrow> Returned (Inl e)
            | Returned (Inr token) \<Rightarrow>
                Returned (Inr \<lparr>tee_type = GcpConfidentialSpace, evidence_data = token\<rparr>))
            (request_token_over_unix_socket la (att_socket_path att) body))"

section \<open>The key cache\<close>

text \<open>The network served this JSON value for this https URL at some time.\<close>

definition gcp_served :: "gcp_env \<Rightarrow> string \<Rightarrow> json \<Rightarrow> bool" where
  "gcp_served env url v \<longleftrightarrow>
     (\<exists>u. ge_url_parse env url = Some u \<and> url_scheme u = HTTPS) \<and>
     (\<exists>n status bytes. ge_network env n url = HttpResponse status (Inr bytes) \<and> is_success status \<and>
        ge_json_parse env (ge_text env bytes) = Some v)"

lemma fetch_url_text_served:
  assumes "fetch_url_text env url n = Inr body" and "ge_json_parse env body = Some v"
  shows "gcp_served env url v"
proof -
  have "fetch_url_text_async env url n = Inr body"
    using assms(1) unfolding fetch_url_text_def by (rule run_blocking_eq_Inr)
  then have "(\<exists>u. ge_url_parse env url = Some u \<and> url_scheme u = HTTPS) \<and>
      (\<exists>status bytes. ge_network env n url = HttpResponse status (Inr bytes) \<and> is_success status \<and>
        body = ge_text env bytes)"
    by (auto simp: fetch_url_text_async_def result_simps split: http_get.splits sum.splits)
  with assms(2) show ?thesis unfolding gcp_served_def by blast
qed

text \<open>The value part of \<open>fetch_json_value\<close>, the function the cache interface speaks of.\<close>

definition value_of_url :: "gcp_env \<Rightarrow> string \<Rightarrow> gcp_world \<Rightarrow> (AttestError + json) \<times> gcp_world" where
  "value_of_url env url w = (case fetch_json_value env url w of (r, w') \<Rightarrow> (map_sum id snd r, w'))"

lemma tick_simps [simp]: "fw_cache (tick w) = fw_cache w" "fw_events (tick w) = Suc (fw_events w)"
  by (simp_all add: tick_def)

lemma fetch_json_value_cases:
  assumes "fetch_json_value env url w = (r, w')"
  obtains (error) e where "r = Inl e" "fw_cache w' = fw_cache w"
  | (hit) t v where "r = Inr (True, v)" "fw_cache w url = Some (t, v)"
      "ge_clock env (fw_events w) - t < DEFAULT_JWKS_TTL" "fw_cache w' = fw_cache w"
  | (fetched) t v where "r = Inr (False, v)" "gcp_served env url v"
      "fw_cache w' = (fw_cache w)(url \<mapsto> (t, v))"
      "\<forall>t v. fw_cache w url = Some (t, v) \<longrightarrow> \<not> ge_clock env (fw_events w) - t < DEFAULT_JWKS_TTL"
proof -
  have split: "(\<exists>e. r = Inl e \<and> fw_cache w' = fw_cache w) \<or>
      (\<exists>t v. r = Inr (True, v) \<and> fw_cache w url = Some (t, v) \<and>
         ge_clock env (fw_events w) - t < DEFAULT_JWKS_TTL \<and> fw_cache w' = fw_cache w) \<or>
      (\<exists>t v. r = Inr (False, v) \<and> gcp_served env url v \<and> fw_cache w' = (fw_cache w)(url \<mapsto> (t, v)) \<and>
         (\<forall>t v. fw_cache w url = Some (t, v) \<longrightarrow> \<not> ge_clock env (fw_events w) - t < DEFAULT_JWKS_TTL))"
    using assms fetch_url_text_served [of env url "Suc (fw_events w)"]
    by (auto simp: fetch_json_value_def Let_def bind_eq_Some_conv bind_eq_None_conv
        split: if_splits option.splits sum.splits)
  then show thesis using that by blast
qed

interpretation jwks: ttl_cache "value_of_url env" "ge_clock env" DEFAULT_JWKS_TTL "gcp_served env" for env
proof unfold_locales
  fix w :: gcp_world and url t v v'
  assume c: "fw_cache w url = Some (t, v)" "ge_clock env (fw_events w) - t < DEFAULT_JWKS_TTL"
  obtain r w' where f: "fetch_json_value env url w = (r, w')" by (cases "fetch_json_value env url w")
  then show "fst (value_of_url env url w) \<noteq> Inr v' \<or> v' = v"
    using c by (cases rule: fetch_json_value_cases [OF f]) (auto simp: value_of_url_def)
next
  fix url v and w w' :: gcp_world
  assume j: "value_of_url env url w = (Inr v, w')"
  obtain r w1 where f: "fetch_json_value env url w = (r, w1)" by (cases "fetch_json_value env url w")
  then show "(\<exists>t. fw_cache w url = Some (t, v) \<and> ge_clock env (fw_events w) - t < DEFAULT_JWKS_TTL) \<or>
      gcp_served env url v"
    using j by (cases rule: fetch_json_value_cases [OF f]) (auto simp: value_of_url_def)
next
  fix url r and w w' :: gcp_world
  assume j: "value_of_url env url w = (r, w')"
  obtain q w1 where f: "fetch_json_value env url w = (q, w1)" by (cases "fetch_json_value env url w")
  then show "fw_cache w' = fw_cache w \<or>
      (\<exists>t v. r = Inr v \<and> gcp_served env url v \<and> fw_cache w' = (fw_cache w)(url \<mapsto> (t, v)))"
    using j by (cases rule: fetch_json_value_cases [OF f]) (auto simp: value_of_url_def)
qed

lemma fetch_json_cached_served:
  assumes "cache_served (gcp_served env) w" and "fetch_json_cached env from_value url w = (r, w')"
  shows "cache_served (gcp_served env) w' \<and>
    (\<forall>a. r = Inr a \<longrightarrow> (\<exists>v. gcp_served env url v \<and> from_value v = Some a))"
proof -
  obtain q w1 where f: "fetch_json_value env url w = (q, w1)" by (cases "fetch_json_value env url w")
  then have j: "value_of_url env url w = (map_sum id snd q, w1)" by (simp add: value_of_url_def)
  have "cache_served (gcp_served env) w1" using jwks.cache_served_fetch [OF assms(1) j] .
  moreover have "gcp_served env url v" if "q = Inr (c, v)" for c v
    using jwks.fetch_served [OF assms(1)] j that by auto
  ultimately show ?thesis
    using assms(2) f
    by (cases q) (auto simp: fetch_json_cached_def sbind_def slift_def result_simps)
qed

section \<open>Nonce lemmas\<close>

text \<open>Documented of the base64 engine: decoding inverts encoding, and the alphabet has no comma.\<close>

definition b64_law :: "gcp_env \<Rightarrow> bool" where
  "b64_law env \<longleftrightarrow> (\<forall>bs. ge_b64_decode env (ge_b64_encode env bs) = Some bs) \<and>
     (\<forall>bs. CHR '','' \<notin> set (ge_b64_encode env bs))"

lemma prefixes_differ:
  "strip_prefix NONCE_SPKI_PREFIX (NONCE_CONFIG_PREFIX @ s) = None"
  "strip_prefix NONCE_CONFIG_PREFIX (NONCE_SPKI_PREFIX @ s) = None"
  by (simp_all add: strip_prefix_def NONCE_SPKI_PREFIX_def NONCE_CONFIG_PREFIX_def)

definition foreign_nonce :: "string \<Rightarrow> bool" where
  "foreign_nonce s \<longleftrightarrow> \<not> prefix NONCE_SPKI_PREFIX s \<and> \<not> prefix NONCE_CONFIG_PREFIX s"

lemma nonce_step_foreign [simp]: "foreign_nonce s \<Longrightarrow> nonce_step env st s = Inr st"
  by (simp add: nonce_step_def foreign_nonce_def strip_prefix_def)

lemma fold_foreign: "list_all foreign_nonce xs \<Longrightarrow> fold_result (nonce_step env) st xs = Inr st"
  by (induction xs) auto

lemma nonce_step_own:
  assumes "b64_law env" and "length rd = 64"
  shows "nonce_step env st (NONCE_SPKI_PREFIX @ ge_b64_encode env (take 48 rd)) = Inr (Some (take 48 rd), snd st)"
    and "nonce_step env st (NONCE_CONFIG_PREFIX @ ge_b64_encode env (window rd 48 16)) = Inr (fst st, Some (drop 48 rd))"
  using assms
  by (simp_all add: nonce_step_def prefixes_differ decode_nonce_part_def b64_law_def window_def)

lemma nonce_step_lengths:
  assumes "nonce_step env st s = Inr st'" and "\<forall>b. fst st = Some b \<longrightarrow> length b = 48"
    and "\<forall>b. snd st = Some b \<longrightarrow> length b = 16"
  shows "(\<forall>b. fst st' = Some b \<longrightarrow> length b = 48) \<and> (\<forall>b. snd st' = Some b \<longrightarrow> length b = 16)"
  using assms
  by (auto simp: nonce_step_def decode_nonce_part_def result_simps split: option.splits)

lemma nonce_reportdata_length: "nonce_reportdata env c = Inr rd \<Longrightarrow> length rd = 64"
proof -
  assume "nonce_reportdata env c = Inr rd"
  then obtain spki conf where f: "fold_result (nonce_step env) (None, None) (claim_nonces c) = Inr (Some spki, Some conf)"
    and rd: "rd = spki @ conf"
    by (auto simp: nonce_reportdata_def result_simps)
  let ?P = "\<lambda>st. (\<forall>b. fst st = Some b \<longrightarrow> length b = 48) \<and> (\<forall>b. snd st = Some b \<longrightarrow> length b = (16 :: nat))"
  have "?P (Some spki, Some conf)"
    by (rule fold_result_invariant [where P = ?P, OF f]) (simp, blast dest: nonce_step_lengths)
  with rd show "length rd = 64" by simp
qed

lemma claim_nonces_joined:
  assumes "b64_law env"
  shows "claim_nonces (One (reportdata_nonce env rd)) = reportdata_nonces env rd"
proof -
  have "CHR '','' \<notin> set NONCE_SPKI_PREFIX" "CHR '','' \<notin> set NONCE_CONFIG_PREFIX"
    by (simp_all add: NONCE_SPKI_PREFIX_def NONCE_CONFIG_PREFIX_def)
  then show ?thesis
    using assms
    by (simp add: claim_nonces_def reportdata_nonce_def reportdata_nonces_def b64_law_def
        split_char_append split_char_no_sep flip: append_assoc)
qed

lemma nonce_reportdata_Many:
  assumes "b64_law env" and "length rd = 64"
    and "list_all foreign_nonce xs" "list_all foreign_nonce ys" "list_all foreign_nonce zs"
    and "s = NONCE_SPKI_PREFIX @ ge_b64_encode env (take 48 rd)"
    and "c = NONCE_CONFIG_PREFIX @ ge_b64_encode env (window rd 48 16)"
  shows "nonce_reportdata env (Many (xs @ s # ys @ c # zs)) = Inr rd"
    and "nonce_reportdata env (Many (xs @ c # ys @ s # zs)) = Inr rd"
  using assms(3-5)
  by (simp_all add: nonce_reportdata_def claim_nonces_def fold_foreign
      assms(6,7) nonce_step_own [OF assms(1,2)])

text \<open>
  C32: the 64 bytes of REPORTDATA survive the trip through the token's nonces: the two nonces
  the attester requests decode to them, as a list in either order and among foreign nonces, or
  as one comma-separated claim; and whatever a nonce claim decodes to has 64 bytes.\<close>

theorem nonce_round_trip:
  assumes "b64_law env" and "length rd = 64" and "reportdata_nonces env rd = [s, c]"
    and "list_all foreign_nonce (xs @ ys @ zs)"
  shows "nonce_reportdata env (Many (xs @ s # ys @ c # zs)) = Inr rd \<and>
    nonce_reportdata env (Many (xs @ c # ys @ s # zs)) = Inr rd \<and>
    nonce_reportdata env (One (reportdata_nonce env rd)) = Inr rd \<and>
    (\<forall>claim out. nonce_reportdata env claim = Inr out \<longrightarrow> length out = 64)"
proof -
  have sc: "s = NONCE_SPKI_PREFIX @ ge_b64_encode env (take 48 rd)"
    "c = NONCE_CONFIG_PREFIX @ ge_b64_encode env (window rd 48 16)"
    using assms(3) by (simp_all add: reportdata_nonces_def)
  have "nonce_reportdata env (One (reportdata_nonce env rd)) = nonce_reportdata env (Many [s, c])"
    using claim_nonces_joined [OF assms(1)] assms(3) by (simp add: nonce_reportdata_def claim_nonces_def)
  moreover have "nonce_reportdata env (Many [s, c]) = Inr rd"
    using nonce_reportdata_Many(1) [OF assms(1,2) _ _ _ sc, of "[]" "[]" "[]"] by simp
  ultimately show ?thesis
    using nonce_reportdata_Many [OF assms(1,2) _ _ _ sc] nonce_reportdata_length assms(4) by simp
qed

text \<open>An instance for the examples: two letters per byte.\<close>

fun letters :: "byte list \<Rightarrow> string" where
  "letters [] = []"
| "letters (b # bs) = char_of (97 + unat b div 16) # char_of (97 + unat b mod 16) # letters bs"

fun unletters :: "string \<Rightarrow> byte list option" where
  "unletters [] = Some []"
| "unletters [c] = None"
| "unletters (c # d # s) =
     map_option ((#) (word_of_nat (16 * (of_char c - 97) + (of_char d - 97)))) (unletters s)"

lemma nibble_char: "n < 16 \<Longrightarrow> (of_char (char_of (97 + n)) :: nat) = 97 + n"
  by (simp add: of_char_of)

lemma unletters_letters: "unletters (letters bs) = Some bs"
proof (induction bs)
  case (Cons b bs)
  have "unat b div 16 < 16" using byte_less_256 [of b] by simp
  then have "(of_char (char_of (97 + unat b div 16)) :: nat) - 97 = unat b div 16"
    "(of_char (char_of (97 + unat b mod 16)) :: nat) - 97 = unat b mod 16"
    using nibble_char [of "unat b div 16"] nibble_char [of "unat b mod 16"] by simp_all
  then show ?case using Cons by simp
qed simp

lemma letters_no_comma: "CHR '','' \<notin> set (letters bs)"
proof (induction bs)
  case (Cons b bs)
  have "char_of (97 + n) \<noteq> CHR '',''" if "n < 16" for n :: nat
  proof
    assume "char_of (97 + n) = CHR '',''"
    then have "(of_char (char_of (97 + n)) :: nat) = of_char (CHR '','')" by simp
    then show False unfolding nibble_char [OF that] by simp
  qed
  moreover have "unat b div 16 < 16" using byte_less_256 [of b] by simp
  ultimately have "char_of (97 + unat b div 16) \<noteq> CHR '',''" "char_of (97 + unat b mod 16) \<noteq> CHR '',''"
    by simp_all
  with Cons show ?case by (auto dest: sym)
qed simp

definition demo_gcp_claims :: ConfidentialSpaceClaims where
  "demo_gcp_claims =
     \<lparr>cl_aud = DEFAULT_AUDIENCE, cl_iss = DEFAULT_ISSUER, cl_exp = 2000, cl_nbf = 900, cl_iat = 900,
      cl_dbgstat = DISABLED_SINCE_BOOT,
      cl_eat_nonce = Many [NONCE_SPKI_PREFIX @ letters (replicate 48 7), NONCE_CONFIG_PREFIX @ letters (replicate 16 7)],
      cl_google_service_accounts = [], cl_secboot = True, cl_swname = CONFIDENTIAL_SPACE,
      cl_container = Some \<lparr>con_image_digest = None, con_image_reference = None,
                           con_image_signatures = Some [''key'']\<rparr>,
      cl_gce = None\<rparr>"

definition demo_gcp_url :: url where
  "demo_gcp_url = \<lparr>url_scheme = HTTPS, url_username = [], url_password = None, url_host_str = Some ''h'',
     url_port_or_known_default = Some 443, url_path = ''/''\<rparr>"

definition demo_gcp_key :: Jwk where
  "demo_gcp_key = \<lparr>jwk_kty = RSA_KTY, jwk_kid = ''k'', jwk_n = ''n'', jwk_e = ''e'', jwk_alg = Some RS256\<rparr>"

definition demo_gcp :: gcp_env where
  "demo_gcp =
     \<lparr>ge_url_parse = (\<lambda>s. Some demo_gcp_url), ge_b64_encode = letters, ge_b64_decode = unletters,
      ge_jwt_header = (\<lambda>t. Some (RS256, Some ''k'')), ge_rsa_key = (\<lambda>n e. Some [1]),
      ge_jwt_decode = (\<lambda>t k v. if k = [1] \<and> val_issuer v = [DEFAULT_ISSUER] \<and> val_audience v = [DEFAULT_AUDIENCE]
                                \<and> val_leeway v = 300 then Some demo_gcp_claims else None),
      ge_now = Some 1000, ge_json_parse = (\<lambda>s. Some JNull), ge_well_known = (\<lambda>v. Some ''u''),
      ge_jwks = (\<lambda>v. Some [demo_gcp_key]), ge_text = string_of_bytes,
      ge_network = (\<lambda>n url. HttpResponse 200 (Inr [])), ge_clock = (\<lambda>n. n), ge_runtime = MultiThread,
      ge_lock_poisoned = (\<lambda>n. False)\<rparr>"

lemma demo_gcp_b64: "b64_law demo_gcp"
  by (simp add: b64_law_def demo_gcp_def unletters_letters letters_no_comma)

theorem nonce_round_trip_witness:
  "nonce_reportdata demo_gcp (One (reportdata_nonce demo_gcp (replicate 64 7))) = Inr (replicate 64 7) \<and>
   nonce_reportdata demo_gcp (Many (''other'' # rev (reportdata_nonces demo_gcp (replicate 64 7))))
     = Inr (replicate 64 7)"
proof -
  have "foreign_nonce ''other''"
    by (simp add: foreign_nonce_def NONCE_SPKI_PREFIX_def NONCE_CONFIG_PREFIX_def)
  moreover obtain s c where "reportdata_nonces demo_gcp (replicate 64 7) = [s, c]"
    by (simp add: reportdata_nonces_def)
  ultimately show ?thesis
    using nonce_round_trip [OF demo_gcp_b64, of "replicate 64 7" s c "[''other'']" "[]" "[]"] by simp
qed

section \<open>The policy as a specification\<close>

text \<open>What claims have to satisfy under a policy at a given time; written independently of the checks' order.\<close>

definition pinned :: "'a option \<Rightarrow> 'a option \<Rightarrow> bool" where
  "pinned pin actual \<longleftrightarrow> pin = None \<or> actual = pin"

definition platform_ok :: "u64 \<Rightarrow> GcpConfidentialSpacePolicy \<Rightarrow> ConfidentialSpaceClaims \<Rightarrow> bool" where
  "platform_ok now pol claims \<longleftrightarrow>
     cl_iat claims \<le> now + MAX_CLOCK_SKEW_SECS \<and>
     (pol_require_confidential_space pol \<longrightarrow> cl_swname claims = CONFIDENTIAL_SPACE) \<and>
     (pol_require_debug_disabled pol \<longrightarrow> cl_dbgstat claims = DISABLED_SINCE_BOOT) \<and>
     (pol_require_secure_boot pol \<longrightarrow> cl_secboot claims) \<and>
     (\<forall>sa. pol_service_account pol = Some sa \<longrightarrow> sa \<in> set (cl_google_service_accounts claims)) \<and>
     pinned (pol_project_id pol) (Option.bind (cl_gce claims) gce_project_id) \<and>
     pinned (pol_zone pol) (Option.bind (cl_gce claims) gce_zone) \<and>
     pinned (pol_instance_name pol) (Option.bind (cl_gce claims) gce_instance_name)"

definition workload_ok :: "GcpConfidentialSpacePolicy \<Rightarrow> ContainerClaims \<Rightarrow> bool" where
  "workload_ok pol container \<longleftrightarrow>
     pinned (map_option normalize_digest (pol_image_digest pol))
       (map_option normalize_digest (con_image_digest container)) \<and>
     pinned (pol_image_reference pol) (con_image_reference container) \<and>
     (pol_signature_key_ids pol \<noteq> [] \<longrightarrow>
        (\<exists>key_ids. con_image_signatures container = Some key_ids \<and>
           set key_ids \<inter> set (pol_signature_key_ids pol) \<noteq> {}))"

lemma check_gce_ok [result_simps]:
  "check_gce pin field claims label = Inr () \<longleftrightarrow> pinned pin (Option.bind (cl_gce claims) field)"
  by (auto simp: check_gce_def pinned_def split: option.splits)

lemma check_platform_ok [result_simps]: "check_platform now pol claims = Inr () \<longleftrightarrow> platform_ok now pol claims"
  unfolding check_platform_def platform_ok_def
  by (auto simp: result_simps list_ex_iff not_less split: option.splits)

lemma check_workload_ok [result_simps]: "check_workload pol container = Inr () \<longleftrightarrow> workload_ok pol container"
  unfolding check_workload_def workload_ok_def pinned_def
  by (cases "con_image_signatures container") (auto simp: result_simps Let_def list_ex_iff split: option.splits)

lemma verify_claims_ok:
  "verify_claims env ver claims expected = Inr rd \<longleftrightarrow>
     (\<exists>now container. ge_now env = Some now \<and> platform_ok now (ver_policy ver) claims \<and>
        cl_container claims = Some container \<and>
        (ver_enforce_workload_identity ver \<longrightarrow> workload_ok (ver_policy ver) container) \<and>
        nonce_reportdata env (cl_eat_nonce claims) = Inr rd \<and> pinned expected (Some rd))"
  unfolding verify_claims_def pinned_def
  by (cases expected) (auto simp: result_simps)

text \<open>
  C25: \<open>verify_claims\<close> enforces the policy exactly: it accepts with a result precisely when the
  platform claims meet the policy at the current time, the container claims are present and,
  unless the verifier only audits, meet the pinned image digest, reference and signature
  keys, the result is what the nonces carry, and it is the expected value when one is given.\<close>

theorem verify_claims_exact:
  "verify_claims env ver claims expected = Inr rd \<longleftrightarrow>
     (\<exists>now container. ge_now env = Some now \<and> platform_ok now (ver_policy ver) claims \<and>
        cl_container claims = Some container \<and>
        (ver_enforce_workload_identity ver \<longrightarrow> workload_ok (ver_policy ver) container) \<and>
        nonce_reportdata env (cl_eat_nonce claims) = Inr rd \<and> pinned expected (Some rd))"
  by (rule verify_claims_ok)

text \<open>A policy that pins a signature key, and the verifier for it with keys from the network.\<close>

definition demo_gcp_policy :: GcpConfidentialSpacePolicy where
  "demo_gcp_policy = (policy_new DEFAULT_AUDIENCE)\<lparr>pol_signature_key_ids := [''key'']\<rparr>"

definition demo_gcp_verifier :: GcpConfidentialSpaceVerifier where
  "demo_gcp_verifier =
     \<lparr>ver_policy = demo_gcp_policy, ver_jwks = HttpJwksProvider, ver_enforce_workload_identity = True\<rparr>"

lemma demo_gcp_nonces: "nonce_reportdata demo_gcp (cl_eat_nonce demo_gcp_claims) = Inr (replicate 64 7)"
proof -
  have w: "window (replicate 64 7) 48 16 = replicate 16 (7 :: byte)" by (simp add: window_def)
  show ?thesis
    using nonce_reportdata_Many(1) [OF demo_gcp_b64, of "replicate 64 7" "[]" "[]" "[]"] w
    by (simp add: demo_gcp_claims_def demo_gcp_def)
qed

lemma demo_gcp_platform: "platform_ok 1000 demo_gcp_policy demo_gcp_claims"
  by (simp add: platform_ok_def demo_gcp_policy_def policy_new_def demo_gcp_claims_def
      MAX_CLOCK_SKEW_SECS_def pinned_def)

lemma demo_gcp_workload:
  "ge_now demo_gcp = Some 1000 \<and>
   (\<exists>container. cl_container demo_gcp_claims = Some container \<and> workload_ok demo_gcp_policy container)"
  by (simp add: workload_ok_def demo_gcp_policy_def policy_new_def demo_gcp_claims_def pinned_def demo_gcp_def)

theorem verify_claims_exact_witness:
  "verify_claims demo_gcp demo_gcp_verifier demo_gcp_claims (Some (replicate 64 7)) = Inr (replicate 64 7)"
  unfolding verify_claims_exact pinned_def
  using demo_gcp_nonces demo_gcp_platform demo_gcp_workload by (auto simp: demo_gcp_verifier_def)

section \<open>Soundness of verification\<close>

text \<open>
  Documented of \<open>jsonwebtoken::decode\<close>, which reads the clock at \<open>t\<close>: it returns claims only of
  tokens signed with the key, with issuer and audience among those set and, where asked for,
  not expired and already valid, up to the leeway.
\<close>

definition jwt_law :: "gcp_env \<Rightarrow> (string \<Rightarrow> byte list \<Rightarrow> bool) \<Rightarrow> nat \<Rightarrow> bool" where
  "jwt_law env rsa_signed t \<longleftrightarrow>
     (\<forall>token key v claims. ge_jwt_decode env token key v = Some claims \<longrightarrow>
        rsa_signed token key \<and> cl_iss claims \<in> set (val_issuer v) \<and> cl_aud claims \<in> set (val_audience v) \<and>
        (val_validate_exp v \<longrightarrow> t \<le> unat (cl_exp claims) + unat (val_leeway v)) \<and>
        (val_validate_nbf v \<longrightarrow> unat (cl_nbf claims) \<le> t + unat (val_leeway v)))"

text \<open>Where the verifier's keys may come from.\<close>

definition key_source :: "gcp_env \<Rightarrow> GcpConfidentialSpaceVerifier \<Rightarrow> Jwk list \<Rightarrow> bool" where
  "key_source env ver keys \<longleftrightarrow>
     (case ver_jwks ver of
        StaticJwksProvider jwks \<Rightarrow> keys = jwks
      | HttpJwksProvider \<Rightarrow>
          (\<exists>uri v. gcp_served env uri v \<and> ge_jwks env v = Some keys \<and>
             (case pol_jwks_uri (ver_policy ver) of
                Some pinned_uri \<Rightarrow> uri = pinned_uri
              | None \<Rightarrow>
                  \<exists>meta. gcp_served env
                      (trim_end_matches (\<lambda>c. c = CHR ''/'') (pol_issuer (ver_policy ver)) @ DEFAULT_WELL_KNOWN_PATH)
                      meta \<and> ge_well_known env meta = Some uri)))"

lemma select_key_ok:
  "select_key env keys kid = Inr key \<Longrightarrow>
     \<exists>jwk \<in> set keys. jwk_kid jwk = kid \<and> jwk_kty jwk = RSA_KTY \<and> (\<forall>alg. jwk_alg jwk = Some alg \<longrightarrow> alg = RS256) \<and>
       ge_rsa_key env (jwk_n jwk) (jwk_e jwk) = Some key"
proof -
  assume "select_key env keys kid = Inr key"
  then obtain jwk where "find (\<lambda>jwk. jwk_kid jwk = kid) keys = Some jwk"
    and jwk: "jwk_kty jwk = RSA_KTY" "\<forall>alg. jwk_alg jwk = Some alg \<longrightarrow> alg = RS256"
      "ge_rsa_key env (jwk_n jwk) (jwk_e jwk) = Some key"
    by (auto simp: select_key_def result_simps split: option.splits)
  then have "jwk \<in> set keys" "jwk_kid jwk = kid" by (auto dest: find_eq_Some_in)
  with jwk show ?thesis by blast
qed

lemma provider_jwks_served:
  assumes "cache_served (gcp_served env) w" and "provider_jwks env provider uri w = (r, w')"
  shows "cache_served (gcp_served env) w' \<and>
    (\<forall>keys. r = Inr keys \<longrightarrow>
       (case provider of StaticJwksProvider jwks \<Rightarrow> keys = jwks
        | HttpJwksProvider \<Rightarrow> \<exists>v. gcp_served env uri v \<and> ge_jwks env v = Some keys))"
  using assms fetch_json_cached_served [OF assms(1), of "ge_jwks env" uri r w']
  by (cases provider) (auto simp: provider_jwks_def slift_def)

lemma decode_and_validate_sound:
  assumes "cache_served (gcp_served env) w" and "decode_and_validate env ver token w = (Inr claims, w')"
  shows "cache_served (gcp_served env) w' \<and>
    (\<exists>kid keys key. ge_jwt_header env token = Some (RS256, Some kid) \<and> key_source env ver keys \<and>
       select_key env keys kid = Inr key \<and>
       ge_jwt_decode env token key (token_validation (ver_policy ver)) = Some claims)"
proof -
  let ?uri = "case pol_jwks_uri (ver_policy ver) of
      Some uri \<Rightarrow> slift (Inr uri) | None \<Rightarrow> fetch_well_known env (pol_issuer (ver_policy ver))"
  from assms(2) obtain kid uri w1 keys w2 key where h: "ge_jwt_header env token = Some (RS256, Some kid)"
    and u: "?uri w = (Inr uri, w1)" and k: "provider_jwks env (ver_jwks ver) uri w1 = (Inr keys, w2)"
    and s: "select_key env keys kid = Inr key"
      "ge_jwt_decode env token key (token_validation (ver_policy ver)) = Some claims" "w' = w2"
    unfolding decode_and_validate_def
    by (auto simp: result_simps simp del: sbind_slift split: if_splits)
  have w1: "cache_served (gcp_served env) w1" and
    meta: "pol_jwks_uri (ver_policy ver) = None \<longrightarrow>
      (\<exists>meta. gcp_served env
         (trim_end_matches (\<lambda>c. c = CHR ''/'') (pol_issuer (ver_policy ver)) @ DEFAULT_WELL_KNOWN_PATH) meta \<and>
         ge_well_known env meta = Some uri)"
      "\<forall>p. pol_jwks_uri (ver_policy ver) = Some p \<longrightarrow> uri = p"
    using u fetch_json_cached_served [OF assms(1), of "ge_well_known env" _ "Inr uri" w1] assms(1)
    by (auto simp: fetch_well_known_def slift_def split: option.splits)
  have "key_source env ver keys"
    using provider_jwks_served [OF w1 k] meta
    by (auto simp: key_source_def split: JwksProvider.splits option.splits)
  with h s provider_jwks_served [OF w1 k] show ?thesis by blast
qed

lemma gcp_verify_ok:
  "gcp_verify env ver e m w = (Inr rd, w') \<longleftrightarrow>
     tee_type e = GcpConfidentialSpace \<and>
     (ver_enforce_workload_identity ver \<longrightarrow> policy_validate env (ver_policy ver) = Inr ()) \<and>
     (\<forall>x. m = Some x \<longrightarrow> length x = 64) \<and>
     (\<exists>token claims. from_utf8 (evidence_data e) = Some token \<and>
        decode_and_validate env ver token w = (Inr claims, w') \<and> verify_claims env ver claims m = Inr rd)"
  unfolding gcp_verify_def
  by (cases m) (auto simp: result_simps simp del: sbind_slift)

text \<open>For a fixed world the verifier meets the trait's contract.\<close>

interpretation gcp: verifier "\<lambda>e m. fst (gcp_verify env ver e m w)" "\<lambda>t. t = GcpConfidentialSpace"
  for env ver w
proof unfold_locales
  fix e m rd
  assume "fst (gcp_verify env ver e m w) = Inr rd"
  then have "gcp_verify env ver e m w = (Inr rd, snd (gcp_verify env ver e m w))" by (simp add: prod_eq_iff)
  then show "length rd = 64" "tee_type e = GcpConfidentialSpace"
    unfolding gcp_verify_ok verify_claims_ok by (auto dest: nonce_reportdata_length)
next
  fix e x rd
  assume "fst (gcp_verify env ver e (Some x) w) = Inr rd"
  then have "gcp_verify env ver e (Some x) w = (Inr rd, snd (gcp_verify env ver e (Some x) w))"
    by (simp add: prod_eq_iff)
  then have "gcp_verify env ver e None w = (Inr rd, snd (gcp_verify env ver e (Some x) w))"
    unfolding gcp_verify_ok verify_claims_ok pinned_def by blast
  then show "fst (gcp_verify env ver e None w) = Inr rd" by simp
qed

text \<open>
  C21: soundness of Confidential Space verification. When \<open>verify\<close> accepts, the evidence is a
  token with an RS256 header, signed with an RSA key that the verifier's key source lists
  under the header's key id; its issuer and audience are those of the policy and it is
  current up to five minutes of skew; its claims meet the policy; the result is the 64 bytes
  its nonces carry and the expected ones when they are given. A verifier that enforces
  workload identity has a valid policy, which pins an image digest or signature keys, and
  the container claims meet it. The key cache keeps holding only what was served over https.\<close>

theorem gcp_verify_sound:
  assumes "cache_served (gcp_served env) w" and "jwt_law env rsa_signed t"
    and "gcp_verify env ver e m w = (Inr rd, w')"
  shows "tee_type e = GcpConfidentialSpace \<and> length rd = 64 \<and> pinned m (Some rd) \<and>
    cache_served (gcp_served env) w' \<and>
    (\<exists>token kid keys jwk key claims now container.
       from_utf8 (evidence_data e) = Some token \<and> ge_jwt_header env token = Some (RS256, Some kid) \<and>
       key_source env ver keys \<and> jwk \<in> set keys \<and> jwk_kid jwk = kid \<and> jwk_kty jwk = RSA_KTY \<and>
       ge_rsa_key env (jwk_n jwk) (jwk_e jwk) = Some key \<and> rsa_signed token key \<and>
       cl_iss claims = pol_issuer (ver_policy ver) \<and> cl_aud claims = pol_audience (ver_policy ver) \<and>
       t \<le> unat (cl_exp claims) + 300 \<and> unat (cl_nbf claims) \<le> t + 300 \<and>
       ge_now env = Some now \<and> platform_ok now (ver_policy ver) claims \<and>
       cl_container claims = Some container \<and>
       (ver_enforce_workload_identity ver \<longrightarrow>
          (pol_image_digest (ver_policy ver) \<noteq> None \<or> pol_signature_key_ids (ver_policy ver) \<noteq> []) \<and>
          workload_ok (ver_policy ver) container) \<and>
       nonce_reportdata env (cl_eat_nonce claims) = Inr rd)"
proof -
  let ?pol = "ver_policy ver"
  from assms(3) obtain token claims where tok: "tee_type e = GcpConfidentialSpace"
      "ver_enforce_workload_identity ver \<longrightarrow> policy_validate env ?pol = Inr ()"
      "from_utf8 (evidence_data e) = Some token" "decode_and_validate env ver token w = (Inr claims, w')"
      "verify_claims env ver claims m = Inr rd"
    unfolding gcp_verify_ok by blast
  obtain kid keys key where dec: "cache_served (gcp_served env) w'"
      "ge_jwt_header env token = Some (RS256, Some kid)" "key_source env ver keys"
      "select_key env keys kid = Inr key" "ge_jwt_decode env token key (token_validation ?pol) = Some claims"
    using decode_and_validate_sound [OF assms(1) tok(4)] by blast
  obtain jwk where jwk: "jwk \<in> set keys" "jwk_kid jwk = kid" "jwk_kty jwk = RSA_KTY"
      "ge_rsa_key env (jwk_n jwk) (jwk_e jwk) = Some key"
    using select_key_ok [OF dec(4)] by blast
  have jwt: "rsa_signed token key" "cl_iss claims = pol_issuer ?pol" "cl_aud claims = pol_audience ?pol"
      "t \<le> unat (cl_exp claims) + 300" "unat (cl_nbf claims) \<le> t + 300"
    using assms(2) [unfolded jwt_law_def] dec(5)
    by (fastforce simp: token_validation_def MAX_CLOCK_SKEW_SECS_def)+
  obtain now container where cl: "ge_now env = Some now" "platform_ok now ?pol claims"
      "cl_container claims = Some container"
      "ver_enforce_workload_identity ver \<longrightarrow> workload_ok ?pol container"
      "nonce_reportdata env (cl_eat_nonce claims) = Inr rd" "pinned m (Some rd)"
    using tok(5) unfolding verify_claims_ok by blast
  have pins: "ver_enforce_workload_identity ver \<longrightarrow>
      pol_image_digest ?pol \<noteq> None \<or> pol_signature_key_ids ?pol \<noteq> []"
    using tok(2) by (auto simp: policy_validate_def result_simps)
  have "length rd = 64" using gcp.verify_length [of env ver e m w rd] assms(3) by simp
  with tok(1,3) dec(1-3) jwk jwt cl pins show ?thesis by blast
qed

definition fresh_gcp_world :: gcp_world where
  "fresh_gcp_world = \<lparr>fw_events = 0, fw_cache = Map.empty\<rparr>"

definition demo_gcp_evidence :: Evidence where
  "demo_gcp_evidence = \<lparr>tee_type = GcpConfidentialSpace, evidence_data = [116]\<rparr>"

definition demo_gcp_signed :: "string \<Rightarrow> byte list \<Rightarrow> bool" where
  "demo_gcp_signed token key \<longleftrightarrow> key = [1]"

lemma demo_gcp_jwt: "jwt_law demo_gcp demo_gcp_signed 1000"
  by (simp add: jwt_law_def demo_gcp_def demo_gcp_signed_def demo_gcp_claims_def)

lemma demo_gcp_policy_valid: "policy_validate demo_gcp demo_gcp_policy = Inr ()"
proof -
  have "trim DEFAULT_AUDIENCE \<noteq> []"
    "trim_end_matches (\<lambda>c. c = CHR ''/'') DEFAULT_ISSUER = DEFAULT_ISSUER" by code_simp+
  then show ?thesis
    by (simp add: policy_validate_def validate_metadata_sources_def validate_https_url_def
        demo_gcp_policy_def policy_new_def demo_gcp_def demo_gcp_url_def)
qed

lemma demo_gcp_fetch:
  "fw_cache w url = None \<Longrightarrow> fetch_json_cached demo_gcp from_value url w =
     (ok_or (vfail (''JSON response from '' @ url @ '' has wrong shape: '')) (from_value JNull),
      (tick (tick (tick w)))\<lparr>fw_cache := (fw_cache w)(url \<mapsto> (Suc (Suc (fw_events w)), JNull))\<rparr>)"
  by (simp add: fetch_json_cached_def fetch_json_value_def fetch_url_text_def run_blocking_def
      fetch_url_text_async_def sbind_def slift_def demo_gcp_def demo_gcp_url_def is_success_def)

lemma demo_gcp_decode:
  "\<exists>w'. decode_and_validate demo_gcp demo_gcp_verifier token fresh_gcp_world = (Inr demo_gcp_claims, w')"
proof -
  let ?url = "trim_end_matches (\<lambda>c. c = CHR ''/'') DEFAULT_ISSUER @ DEFAULT_WELL_KNOWN_PATH"
  have url: "?url \<noteq> ''u''" by code_simp
  have head: "ge_jwt_header demo_gcp token = Some (RS256, Some ''k'')"
    and meta: "ge_well_known demo_gcp JNull = Some ''u''" "ge_jwks demo_gcp JNull = Some [demo_gcp_key]"
    by (simp_all add: demo_gcp_def)
  have pol: "pol_jwks_uri demo_gcp_policy = None" "pol_issuer demo_gcp_policy = DEFAULT_ISSUER"
    by (simp_all add: demo_gcp_policy_def policy_new_def)
  have key: "select_key demo_gcp [demo_gcp_key] ''k'' = Inr [1]"
    by (simp add: select_key_def demo_gcp_key_def demo_gcp_def)
  have dec: "ge_jwt_decode demo_gcp token [1] (token_validation demo_gcp_policy) = Some demo_gcp_claims"
    by (simp add: demo_gcp_def token_validation_def demo_gcp_policy_def policy_new_def MAX_CLOCK_SKEW_SECS_def)
  show ?thesis
    unfolding decode_and_validate_def head demo_gcp_verifier_def fetch_well_known_def provider_jwks_def
    by (simp add: sbind_def slift_def pol demo_gcp_fetch meta key dec fresh_gcp_world_def url url [symmetric])
qed

lemma demo_gcp_verified:
  "\<exists>w'. gcp_verify demo_gcp demo_gcp_verifier demo_gcp_evidence (Some (replicate 64 7)) fresh_gcp_world
     = (Inr (replicate 64 7), w')"
proof -
  obtain w' where d: "decode_and_validate demo_gcp demo_gcp_verifier ''t'' fresh_gcp_world = (Inr demo_gcp_claims, w')"
    using demo_gcp_decode by blast
  have "from_utf8 (evidence_data demo_gcp_evidence) = Some ''t''"
    by (simp add: demo_gcp_evidence_def) code_simp
  moreover have "verify_claims demo_gcp demo_gcp_verifier demo_gcp_claims (Some (replicate 64 7)) = Inr (replicate 64 7)"
    unfolding verify_claims_ok pinned_def
    using demo_gcp_nonces demo_gcp_platform demo_gcp_workload by (auto simp: demo_gcp_verifier_def)
  ultimately have "gcp_verify demo_gcp demo_gcp_verifier demo_gcp_evidence (Some (replicate 64 7)) fresh_gcp_world
     = (Inr (replicate 64 7), w')"
    unfolding gcp_verify_ok using d demo_gcp_policy_valid
    by (auto simp: demo_gcp_evidence_def demo_gcp_verifier_def)
  then show ?thesis by blast
qed

theorem gcp_verify_sound_witness:
  "\<exists>w'. gcp_verify demo_gcp demo_gcp_verifier demo_gcp_evidence (Some (replicate 64 7)) fresh_gcp_world
     = (Inr (replicate 64 7), w') \<and> cache_served (gcp_served demo_gcp) w' \<and>
     (\<exists>keys. key_source demo_gcp demo_gcp_verifier keys)"
proof -
  obtain w' where v: "gcp_verify demo_gcp demo_gcp_verifier demo_gcp_evidence (Some (replicate 64 7)) fresh_gcp_world
     = (Inr (replicate 64 7), w')" using demo_gcp_verified by blast
  have "cache_served (gcp_served demo_gcp) fresh_gcp_world"
    by (rule cache_served_empty) (simp add: fresh_gcp_world_def)
  from gcp_verify_sound [OF this demo_gcp_jwt v] v show ?thesis by blast
qed

section \<open>The attester's tokens\<close>

text \<open>What a parsed response is made of.\<close>

lemma parse_token_ok:
  assumes "parse_http_token_response response = Returned (Inr token)"
  shows "token \<noteq> [] \<and> \<not> byte_is_ws (hd token) \<and> \<not> byte_is_ws (last token) \<and>
    (\<exists>head rest payload headers. response = head @ crlf_bytes @ crlf_bytes @ rest \<and>
       from_utf8 (head @ crlf_bytes @ crlf_bytes) = Some headers \<and> contains (status_line headers) '' 200 '' \<and>
       (if list_ex is_chunked_line (str_lines headers) then decode_chunked_body rest = Returned (Inr payload)
        else payload = rest) \<and>
       token = trim_ascii payload)"
proof -
  from assms obtain idx headers where i: "find_sub (crlf_bytes @ crlf_bytes) response = Some idx"
    and h: "from_utf8 (take (idx + 4) response) = Some headers" "contains (status_line headers) '' 200 ''"
    by (auto simp: parse_http_token_response_def Let_def split: option.splits if_splits)
  from assms i h obtain payload where p: "token_of_body payload = Inr token"
      "if list_ex is_chunked_line (str_lines headers)
       then decode_chunked_body (drop (idx + 4) response) = Returned (Inr payload)
       else payload = drop (idx + 4) response"
    by (auto simp: parse_http_token_response_def Let_def split: if_splits run.splits sum.splits)
  have "take 4 (drop idx response) = crlf_bytes @ crlf_bytes"
    using find_sub_Some [OF i] by (simp add: crlf_bytes_def eval_nat_numeral)
  then have r: "response = take idx response @ (crlf_bytes @ crlf_bytes) @ drop (idx + 4) response"
    using window_split [of idx response 4] by (simp add: window_def)
  have "take (idx + 4) response = take idx response @ crlf_bytes @ crlf_bytes"
    using \<open>take 4 (drop idx response) = crlf_bytes @ crlf_bytes\<close> by (simp add: take_add)
  moreover have "token = trim_ascii payload" "token \<noteq> []"
    using p(1) by (auto simp: token_of_body_def Let_def split: if_splits)
  ultimately show ?thesis using trim_ascii_edges [of payload] r h p(2) by (metis append_assoc)
qed

text \<open>
  What makes a response of the launcher a grant of a token, in terms of its bytes: the first
  line announces status 200, the head ends with an empty line, and the token is the body
  behind it, decoded when a header says that it is chunked, without white space at its ends.
\<close>

definition grants_token :: "byte list \<Rightarrow> byte list \<Rightarrow> bool" where
  "grants_token response token \<longleftrightarrow>
     sublist (as_bytes '' 200 '') (takeWhile (\<lambda>b. b \<noteq> 10) response) \<and>
     (\<exists>head rest payload. response = head @ rest \<and> suffix [13, 10, 13, 10] head \<and>
        (if \<exists>line \<in> set (str_lines (string_of_bytes head)). is_chunked_line line
         then decode_chunked_body rest = Returned (Inr payload) else payload = rest) \<and>
        token = trim_ascii payload)"

lemma parse_token_grants:
  assumes "parse_http_token_response response = Returned (Inr token)"
  shows "grants_token response token"
proof -
  from parse_token_ok [OF assms] obtain head rest payload headers
    where r: "response = head @ crlf_bytes @ crlf_bytes @ rest"
      "from_utf8 (head @ crlf_bytes @ crlf_bytes) = Some headers" "contains (status_line headers) '' 200 ''"
      "if list_ex is_chunked_line (str_lines headers) then decode_chunked_body rest = Returned (Inr payload)
       else payload = rest" "token = trim_ascii payload"
    by blast
  let ?head = "head @ crlf_bytes @ crlf_bytes"
  have "takeWhile (\<lambda>b. b \<noteq> 10) response = takeWhile (\<lambda>b. b \<noteq> 10) ?head"
    by (auto simp: r(1) crlf_bytes_def takeWhile_append)
  then have "sublist (as_bytes '' 200 '') (takeWhile (\<lambda>b. b \<noteq> 10) response)"
    using status_line_bytes [OF r(2,3)] by simp
  moreover have "suffix [13, 10, 13, 10] ?head" by (simp add: crlf_bytes_def suffix_def)
  moreover have "headers = string_of_bytes ?head" using r(2) by (simp add: from_utf8_def split: if_split_asm)
  ultimately show ?thesis
    unfolding grants_token_def using r(4,5) r(1)
    by (intro conjI exI [of _ ?head] exI [of _ rest] exI [of _ payload]) (simp_all add: list_ex_iff)
qed

lemma gcp_attest_ok:
  assumes "gcp_attest env la att ud = Some (Returned (Inr e))"
  shows "tee_type e = GcpConfidentialSpace \<and>
    (\<exists>body stream response. la_json la (token_request env att ud) = Inr body \<and>
       connect_launcher_socket (la_elapsed la) (la_connect la (att_socket_path att)) (att_socket_path att)
         SOCKET_WAIT_TIMEOUT = Some (Inr stream) \<and>
       la_exchange la stream (as_bytes (token_request_head body) @ body) = StreamResponse response \<and>
       parse_http_token_response response = Returned (Inr (evidence_data e)))"
proof (cases "la_json la (token_request env att ud)")
  case (Inl x)
  with assms show ?thesis by (simp add: gcp_attest_def)
next
  case (Inr body)
  with assms obtain token where e: "e = \<lparr>tee_type = GcpConfidentialSpace, evidence_data = token\<rparr>"
    and q: "request_token_over_unix_socket la (att_socket_path att) body = Some (Returned (Inr token))"
  proof -
    from assms Inr obtain z where z: "request_token_over_unix_socket la (att_socket_path att) body = Some z"
      by (auto simp: gcp_attest_def)
    with assms Inr that show thesis
      by (cases z) (auto simp: gcp_attest_def split: sum.split_asm)
  qed
  from q obtain stream where s: "connect_launcher_socket (la_elapsed la) (la_connect la (att_socket_path att))
        (att_socket_path att) SOCKET_WAIT_TIMEOUT = Some (Inr stream)"
      "request_token_over_stream (la_exchange la stream) body = Returned (Inr token)"
  proof -
    from q obtain z where "connect_launcher_socket (la_elapsed la) (la_connect la (att_socket_path att))
        (att_socket_path att) SOCKET_WAIT_TIMEOUT = Some z"
      by (auto simp: request_token_over_unix_socket_def)
    with q that show thesis by (cases z) (auto simp: request_token_over_unix_socket_def)
  qed
  from s(2) obtain response where "la_exchange la stream (as_bytes (token_request_head body) @ body) = StreamResponse response"
      "parse_http_token_response response = Returned (Inr token)"
    by (auto simp: request_token_over_stream_def split: stream_outcome.split_asm)
  with Inr e s(1) show ?thesis by auto
qed

text \<open>
  Documented of Google's service: the claims of a token it issued for a request carry the
  requested nonces.
\<close>

definition nonces_copied :: "gcp_env \<Rightarrow> GcpConfidentialSpaceAttester \<Rightarrow> byte list \<Rightarrow> Evidence \<Rightarrow> bool" where
  "nonces_copied env att ud e \<longleftrightarrow>
     (\<forall>token key v claims. from_utf8 (evidence_data e) = Some token \<longrightarrow>
        ge_jwt_decode env token key v = Some claims \<longrightarrow>
        cl_eat_nonce claims = Many (req_nonces (token_request env att ud)))"

lemma gcp_accepted_data:
  assumes "b64_law env" and "length ud = 64" and "nonces_copied env att ud e"
    and "gcp_verify env ver e m w = (Inr rd, w')"
  shows "rd = ud \<and> pinned m (Some ud)"
proof -
  from assms(4) obtain token claims where c: "from_utf8 (evidence_data e) = Some token"
      "decode_and_validate env ver token w = (Inr claims, w')" "verify_claims env ver claims m = Inr rd"
    unfolding gcp_verify_ok by blast
  from c(2) have "\<exists>key v. ge_jwt_decode env token key v = Some claims"
    unfolding decode_and_validate_def
    by (auto simp: result_simps simp del: sbind_slift split: if_splits)
  with assms(3) c(1) have "cl_eat_nonce claims = Many (reportdata_nonces env ud)"
    by (auto simp: token_request_def nonces_copied_def)
  moreover have "nonce_reportdata env (Many (reportdata_nonces env ud)) = Inr ud"
    using nonce_reportdata_Many(1) [OF assms(1,2), of "[]" "[]" "[]"] by (simp add: reportdata_nonces_def)
  ultimately show ?thesis using c(3) unfolding verify_claims_ok by auto
qed

text \<open>
  C26: the attester's evidence is the token of a successful response. It has no white space at
  its ends and came in answer to a request with the two nonces of the user data, in a response
  whose first line announces status 200 and whose body, decoded when it is chunked, is the
  token up to white space around it. When Google's service copies the requested nonces into
  the token, every verifier that accepts the evidence gets exactly the user data, and expects
  it when it expects anything.\<close>

theorem gcp_evidence_carries_user_data:
  assumes "b64_law env" and "length ud = 64"
    and "gcp_attest env la att ud = Some (Returned (Inr e))"
    and "nonces_copied env att ud e"
  shows "tee_type e = GcpConfidentialSpace \<and> evidence_data e \<noteq> [] \<and>
    \<not> byte_is_ws (hd (evidence_data e)) \<and> \<not> byte_is_ws (last (evidence_data e)) \<and>
    (\<exists>body stream response. la_json la (token_request env att ud) = Inr body \<and>
       la_exchange la stream (as_bytes (token_request_head body) @ body) = StreamResponse response \<and>
       parse_http_token_response response = Returned (Inr (evidence_data e)) \<and>
       grants_token response (evidence_data e)) \<and>
    (\<forall>ver m w rd w'. gcp_verify env ver e m w = (Inr rd, w') \<longrightarrow> rd = ud \<and> pinned m (Some ud))"
proof -
  note gcp_accepted_data [OF assms(1,2,4)]
  moreover obtain body stream response where r: "la_json la (token_request env att ud) = Inr body"
      "la_exchange la stream (as_bytes (token_request_head body) @ body) = StreamResponse response"
      "parse_http_token_response response = Returned (Inr (evidence_data e))"
    and "tee_type e = GcpConfidentialSpace"
    using gcp_attest_ok [OF assms(3)] by blast
  ultimately show ?thesis using parse_token_ok [OF r(3)] parse_token_grants [OF r(3)] by blast
qed

definition demo_token_response :: "byte list" where
  "demo_token_response = as_bytes (''HTTP/1.1 200 OK'' @ CRLF @ CRLF @ ''t'')"

definition demo_launcher :: "unit launcher" where
  "demo_launcher =
     \<lparr>la_json = (\<lambda>r. Inr [123, 125]), la_elapsed = (\<lambda>n. n), la_connect = (\<lambda>p n. Inr ()),
      la_exchange = (\<lambda>s b. StreamResponse demo_token_response)\<rparr>"

theorem gcp_evidence_carries_user_data_witness:
  "gcp_attest demo_gcp demo_launcher (attester_new DEFAULT_AUDIENCE) (replicate 64 7)
     = Some (Returned (Inr demo_gcp_evidence)) \<and>
   (\<exists>w'. gcp_verify demo_gcp demo_gcp_verifier demo_gcp_evidence None fresh_gcp_world
     = (Inr (replicate 64 7), w'))"
proof -
  have p: "parse_http_token_response demo_token_response = Returned (Inr [116])" by code_simp
  have att: "gcp_attest demo_gcp demo_launcher (attester_new DEFAULT_AUDIENCE) (replicate 64 7)
      = Some (Returned (Inr demo_gcp_evidence))"
    by (simp add: gcp_attest_def demo_launcher_def request_token_over_unix_socket_def
        connect_launcher_socket_def connect_loop.simps request_token_over_stream_def p demo_gcp_evidence_def)
  have nonces: "nonces_copied demo_gcp (attester_new DEFAULT_AUDIENCE) (replicate 64 7) demo_gcp_evidence"
    by (auto simp: nonces_copied_def demo_gcp_def token_request_def reportdata_nonces_def window_def demo_gcp_claims_def
        split: if_splits)
  obtain w' where "gcp_verify demo_gcp demo_gcp_verifier demo_gcp_evidence (Some (replicate 64 7)) fresh_gcp_world
      = (Inr (replicate 64 7), w')" using demo_gcp_verified by blast
  then have "gcp_verify demo_gcp demo_gcp_verifier demo_gcp_evidence None fresh_gcp_world
      = (Inr (replicate 64 7), w')"
    unfolding gcp_verify_ok verify_claims_ok pinned_def by blast
  moreover have "\<forall>ver m w rd w'. gcp_verify demo_gcp ver demo_gcp_evidence m w = (Inr rd, w') \<longrightarrow>
      rd = replicate 64 7 \<and> pinned m (Some (replicate 64 7))"
    using gcp_evidence_carries_user_data [OF demo_gcp_b64 length_replicate att nonces] by blast
  ultimately show ?thesis using att by blast
qed

section \<open>Policies\<close>

lemma hex_not_tagged: "list_all is_ascii_hexdigit h \<Longrightarrow> \<not> prefix sha256_tag h"
  by (cases h) (auto simp: sha256_tag_def ascii_simps)

lemma lowercase_hex: "list_all is_ascii_hexdigit h \<Longrightarrow> list_all is_ascii_hexdigit (to_ascii_lowercase h)"
  by (simp add: to_ascii_lowercase_def list_all_iff)

lemma trim_hex: "list_all is_ascii_hexdigit h \<Longrightarrow> trim h = h"
  by (intro trim_trimmed trimmedI) (auto simp: list_all_iff hexdigit_not_ws_edge)

lemma trim_tagged: "list_all is_ascii_hexdigit h \<Longrightarrow> h \<noteq> [] \<Longrightarrow> trim (sha256_tag @ h) = sha256_tag @ h"
  by (intro trim_trimmed trimmedI) (auto simp: list_all_iff hexdigit_not_ws_edge hd_sha256_tag)

lemma normalize_hex: "list_all is_ascii_hexdigit h \<Longrightarrow> normalize_digest h = sha256_tag @ to_ascii_lowercase h"
  using hex_not_tagged [OF lowercase_hex] by (simp add: normalize_digest_def trim_hex)

lemma normalize_tagged:
  "list_all is_ascii_hexdigit h \<Longrightarrow> h \<noteq> [] \<Longrightarrow> normalize_digest (sha256_tag @ h) = sha256_tag @ to_ascii_lowercase h"
  by (simp add: normalize_digest_def trim_tagged)

lemma validate_tagged:
  assumes "list_all is_ascii_hexdigit h" and "length h = 64"
  shows "validate_image_digest (sha256_tag @ h) = Inr ()"
proof -
  have "h \<noteq> []" using assms(2) by auto
  moreover have "trim_start_matches sha256_tag (to_ascii_lowercase h) = to_ascii_lowercase h"
    using hex_not_tagged [OF lowercase_hex [OF assms(1)]] by (subst trim_start_matches.simps) simp
  then have "trim_start_matches sha256_tag (sha256_tag @ to_ascii_lowercase h) = to_ascii_lowercase h"
    by (subst trim_start_matches.simps) simp
  ultimately show ?thesis
    using assms lowercase_hex [OF assms(1)] by (simp add: validate_image_digest_def Let_def normalize_tagged)
qed

text \<open>A prefix written twice is accepted too, but then no digest of an image matches the pin.\<close>

lemma doubled_prefix_accepted:
  assumes "list_all is_ascii_hexdigit h" and "length h = 64"
  shows "validate_image_digest (sha256_tag @ sha256_tag @ h) = Inr ()"
    and "list_all is_ascii_hexdigit g \<Longrightarrow> normalize_digest g \<noteq> normalize_digest (sha256_tag @ sha256_tag @ h)"
proof -
  have ne: "h \<noteq> []" using assms(2) by auto
  then have "trim (sha256_tag @ sha256_tag @ h) = sha256_tag @ sha256_tag @ h"
    using assms(1) by (intro trim_trimmed trimmedI) (auto simp: list_all_iff hexdigit_not_ws_edge hd_sha256_tag)
  then have n: "normalize_digest (sha256_tag @ sha256_tag @ h) = sha256_tag @ sha256_tag @ to_ascii_lowercase h"
    by (simp add: normalize_digest_def)
  have "trim_start_matches sha256_tag (to_ascii_lowercase h) = to_ascii_lowercase h"
    using hex_not_tagged [OF lowercase_hex [OF assms(1)]] by (subst trim_start_matches.simps) simp
  then have "trim_start_matches sha256_tag (sha256_tag @ sha256_tag @ to_ascii_lowercase h) = to_ascii_lowercase h"
    by (subst trim_start_matches.simps, simp, subst trim_start_matches.simps, simp)
  then show "validate_image_digest (sha256_tag @ sha256_tag @ h) = Inr ()"
    using assms lowercase_hex [OF assms(1)] by (simp add: validate_image_digest_def Let_def n)
  show "normalize_digest g \<noteq> normalize_digest (sha256_tag @ sha256_tag @ h)"
    if g: "list_all is_ascii_hexdigit g"
    using hex_not_tagged [OF lowercase_hex [OF g]] unfolding n normalize_hex [OF g] by auto
qed

text \<open>
  C34: pinning an image. A strict policy for a digest of 64 hex digits is valid, in whatever
  case the digest is written, as long as the audience is not blank and the URL parser reads
  the default issuer as a plain https URL; the verifier made from it accepts only production
  images with debugging off and secure boot on whose digest is the pinned one, where a digest
  in hex is the pinned one exactly when it equals it up to case.\<close>

theorem strict_policy_pins_image:
  assumes "list_all is_ascii_hexdigit h" and "length h = 64" and "trim aud \<noteq> []"
    and "ge_url_parse env DEFAULT_ISSUER = Some u" and "url_scheme u = HTTPS" and "url_host_str u = Some host"
    and "url_username u = []" and "url_password u = None"
  shows "\<exists>ver. verifier_new env (strict_for_image aud h) = Inr ver \<and>
    (\<forall>claims m rd. verify_claims env ver claims m = Inr rd \<longrightarrow>
       cl_swname claims = CONFIDENTIAL_SPACE \<and> cl_dbgstat claims = DISABLED_SINCE_BOOT \<and> cl_secboot claims \<and>
       (\<exists>container d. cl_container claims = Some container \<and> con_image_digest container = Some d \<and>
          normalize_digest d = sha256_tag @ to_ascii_lowercase h)) \<and>
    (\<forall>d. list_all is_ascii_hexdigit d \<longrightarrow>
       (normalize_digest d = sha256_tag @ to_ascii_lowercase h \<longleftrightarrow> to_ascii_lowercase d = to_ascii_lowercase h))"
proof -
  let ?l = "to_ascii_lowercase h"
  let ?pol = "strict_for_image aud h"
  let ?ver = "\<lparr>ver_policy = ?pol, ver_jwks = HttpJwksProvider, ver_enforce_workload_identity = True\<rparr>"
  have l: "list_all is_ascii_hexdigit ?l" "length ?l = 64" using assms(1,2) lowercase_hex by auto
  then have ne: "?l \<noteq> []" by (metis list.size(3) zero_neq_numeral)
  have digest: "pol_image_digest ?pol = Some (sha256_tag @ ?l)"
    by (simp add: strict_for_image_def normalize_hex [OF assms(1)])
  have slash: "trim_end_matches (\<lambda>c. c = CHR ''/'') DEFAULT_ISSUER = DEFAULT_ISSUER" by code_simp
  have "validate_metadata_sources env ?pol = Inr ()"
    using assms(3-8) slash
    by (simp add: validate_metadata_sources_def validate_https_url_def strict_for_image_def policy_new_def)
  then have "verifier_new env ?pol = Inr ?ver"
    using validate_tagged [OF l(1,2)] by (simp add: verifier_new_def policy_validate_def digest)
  moreover have "cl_swname claims = CONFIDENTIAL_SPACE \<and> cl_dbgstat claims = DISABLED_SINCE_BOOT \<and>
      cl_secboot claims \<and> (\<exists>container d. cl_container claims = Some container \<and>
        con_image_digest container = Some d \<and> normalize_digest d = sha256_tag @ ?l)"
    if "verify_claims env ?ver claims m = Inr rd" for claims m rd
    using that digest normalize_tagged [OF l(1) ne]
    unfolding verify_claims_ok platform_ok_def workload_ok_def pinned_def
    by (auto simp: strict_for_image_def policy_new_def)
  moreover have "normalize_digest d = sha256_tag @ ?l \<longleftrightarrow> to_ascii_lowercase d = ?l"
    if "list_all is_ascii_hexdigit d" for d
    using that by (simp add: normalize_hex)
  ultimately show ?thesis by (intro exI [of _ ?ver]) blast
qed

theorem strict_policy_pins_image_witness:
  "\<exists>ver. verifier_new demo_gcp (strict_for_image DEFAULT_AUDIENCE (replicate 64 CHR ''A'')) = Inr ver \<and>
     (\<forall>claims m rd. verify_claims demo_gcp ver claims m = Inr rd \<longrightarrow> cl_secboot claims)"
proof -
  have "trim DEFAULT_AUDIENCE \<noteq> []" by code_simp
  then show ?thesis
    using strict_policy_pins_image [of "replicate 64 CHR ''A''" DEFAULT_AUDIENCE demo_gcp demo_gcp_url "''h''"]
    by (fastforce simp: demo_gcp_def demo_gcp_url_def list_all_iff ascii_simps)
qed

end
