(* ===== verification/Backends.thy ===== *)
theory Backends
  imports Attested_Tls Sev_Snp Gcp_Confidential_Space
begin

text \<open>
  What the programs that talk to a relay share: \<open>Arc<dyn Verifier>\<close> as a value with its
  dispatch to the backends, the backends compiled in (Cargo features), and the settings of an
  attested TLS client. Verification reads caches and clocks, so dispatch takes the state of
  the world at the time of the call.
\<close>

section \<open>Verifiers as values\<close>

datatype dyn_verifier =
    MockVerifier
  | SevSnpVerifier
  | GcpVerifier GcpConfidentialSpaceVerifier
  | OtherVerifier "Evidence \<Rightarrow> measurement \<Rightarrow> AttestError + byte list"

record backend_env =
  be_mock :: mock_env
  be_sev :: sev_env
  be_sev_world :: sev_world
  be_gcp :: gcp_env
  be_gcp_world :: gcp_world

definition run_verifier ::
    "backend_env \<Rightarrow> dyn_verifier \<Rightarrow> Evidence \<Rightarrow> measurement \<Rightarrow> AttestError + byte list" where
  "run_verifier be v evidence m =
     (case v of
        MockVerifier \<Rightarrow> mock_verify (be_mock be) evidence m
      | SevSnpVerifier \<Rightarrow> fst (sev_verify (be_sev be) evidence m (be_sev_world be))
      | GcpVerifier g \<Rightarrow> fst (gcp_verify (be_gcp be) g evidence m (be_gcp_world be))
      | OtherVerifier f \<Rightarrow> f evidence m)"

text \<open>The evidence types a verifier can accept.\<close>

definition verifies :: "dyn_verifier \<Rightarrow> TeeType \<Rightarrow> bool" where
  "verifies v t =
     (case v of
        MockVerifier \<Rightarrow> t = Mock
      | SevSnpVerifier \<Rightarrow> t = SevSnp
      | GcpVerifier g \<Rightarrow> t = GcpConfidentialSpace
      | OtherVerifier f \<Rightarrow> True)"

text \<open>A verifier handed in by the user keeps the trait's contract.\<close>

definition user_contract :: "dyn_verifier \<Rightarrow> bool" where
  "user_contract v \<longleftrightarrow> (\<forall>f. v = OtherVerifier f \<longrightarrow> verifier f (\<lambda>t. True))"

lemma dyn_verifier_contract: "user_contract v \<Longrightarrow> verifier (run_verifier be v) (verifies v)"
  by (cases v)
     (simp_all add: run_verifier_def [abs_def] verifies_def [abs_def] user_contract_def
       mock.verifier_axioms sev.verifier_axioms gcp.verifier_axioms)

interpretation dispatch_mock: verifier "run_verifier be MockVerifier" "verifies MockVerifier" for be
  by (rule dyn_verifier_contract) (simp add: user_contract_def)

interpretation dispatch_sev: verifier "run_verifier be SevSnpVerifier" "verifies SevSnpVerifier" for be
  by (rule dyn_verifier_contract) (simp add: user_contract_def)

interpretation dispatch_gcp: verifier "run_verifier be (GcpVerifier g)" "verifies (GcpVerifier g)" for be g
  by (rule dyn_verifier_contract) (simp add: user_contract_def)

text \<open>The example environments of the backends together.\<close>

definition demo_backends :: backend_env where
  "demo_backends = \<lparr>be_mock = demo_mock, be_sev = demo_sev, be_sev_world = fresh_sev_world,
     be_gcp = demo_gcp, be_gcp_world = fresh_gcp_world\<rparr>"

lemma demo_run_mock: "run_verifier demo_backends MockVerifier = mock_verify demo_mock"
  by (simp add: run_verifier_def [abs_def] demo_backends_def)

section \<open>Compiled backends\<close>

record features =
  ft_mock :: bool
  ft_sev_snp :: bool
  ft_gcp_confidential_space :: bool

section \<open>Settings of an attested client\<close>

record tls_settings =
  ts_verifier :: dyn_verifier
  ts_measurement :: measurement
  ts_config_hash :: "byte list option"

definition settings_config :: "backend_env \<Rightarrow> tls_settings \<Rightarrow> AttestedCertVerifier" where
  "settings_config be s =
     attested_client_config (run_verifier be (ts_verifier s)) (ts_measurement s) (ts_config_hash s)"

text \<open>What it means that a certificate was accepted under these settings.\<close>

definition bound_to ::
    "backend_env \<Rightarrow> x509_parser \<Rightarrow> (byte list \<Rightarrow> byte list) \<Rightarrow> tls_settings \<Rightarrow> byte list \<Rightarrow> bool" where
  "bound_to be x509_parse sha384 s cert \<longleftrightarrow>
     (\<exists>e spki rd pin. extract_evidence_from_cert x509_parse cert = Inr e \<and> verifies (ts_verifier s) (tee_type e) \<and>
        extract_spki_from_cert x509_parse cert = Inr spki \<and> run_verifier be (ts_verifier s) e pin = Inr rd \<and>
        (tee_type e \<noteq> GcpConfidentialSpace \<longrightarrow> pin = ts_measurement s) \<and>
        length rd = 64 \<and> take 48 rd = sha384 spki \<and> (\<forall>h. ts_config_hash s = Some h \<longrightarrow> drop 48 rd = take 16 h))"

lemma accepted_bound_to:
  assumes "user_contract (ts_verifier s)" and "sha384_law sha384"
    and "\<forall>h. ts_config_hash s = Some h \<longrightarrow> length h = 32"
    and "attested_verify_server_cert x509_parse sha384 (settings_config be s) cert = Inr ()"
  shows "bound_to be x509_parse sha384 s cert"
  using verifier.client_accepts [OF dyn_verifier_contract [OF assms(1)] assms(2,3)
      assms(4) [unfolded settings_config_def]]
  unfolding bound_to_def by (fastforce simp: expected_attested_data_def)

text \<open>\<open>hex::decode\<close> with the optional prefix the command line tools accept.\<close>

definition strip_0x :: "string \<Rightarrow> string" where
  "strip_0x raw =
     (case strip_prefix ''0x'' raw of
        Some r \<Rightarrow> r
      | None \<Rightarrow> (case strip_prefix ''0X'' raw of Some r \<Rightarrow> r | None \<Rightarrow> raw))"

end
