(* ===== verification/Sdk_Client.thy ===== *)
theory Sdk_Client
  imports Backends
begin

text \<open>
  \<open>crates/relay-sdk\<close>: verification policies (\<open>verify.rs\<close>), the client builder with its
  fail-closed choice of a verifier, and chat requests (\<open>client.rs\<close>, \<open>types.rs\<close>). The HTTP client
  \<open>reqwest\<close> and the JSON encoder are parameters.
\<close>

section \<open>Types\<close>

record Message =
  msg_role :: string
  msg_content :: string

text \<open>The temperature is the bit pattern of its \<open>f64\<close>.\<close>

record ChatRequest =
  chat_model :: string
  chat_messages :: "Message list"
  chat_stream :: "bool option"
  chat_temperature :: "u64 option"
  chat_max_tokens :: "u32 option"
  chat_extra :: "(string \<times> json) list"

record Usage =
  prompt_tokens :: u32
  completion_tokens :: u32
  total_tokens :: u32

record Choice =
  choice_index :: u32
  choice_message :: Message
  finish_reason :: "string option"

record ChatResponse =
  response_id :: string
  response_object :: string
  response_created :: u64
  response_model :: string
  response_choices :: "Choice list"
  response_usage :: "Usage option"

definition chat_request_simple :: "string \<Rightarrow> string \<Rightarrow> ChatRequest" where
  "chat_request_simple model content =
     \<lparr>chat_model = model, chat_messages = [\<lparr>msg_role = ''user'', msg_content = content\<rparr>],
      chat_stream = None, chat_temperature = None, chat_max_tokens = None, chat_extra = []\<rparr>"

datatype VerificationPolicy =
    Strict "byte list"
  | TrustOnFirstUse
  | Audit
  | GcpPolicy string string
  | MockDev

definition policy_expected_measurement :: "VerificationPolicy \<Rightarrow> measurement" where
  "policy_expected_measurement p = (case p of Strict m \<Rightarrow> Some m | _ \<Rightarrow> None)"

section \<open>The builder\<close>

record TrustedRelayClientBuilder =
  bd_endpoint :: string
  bd_api_key :: "string option"
  bd_policy :: VerificationPolicy
  bd_explicit_verifier :: "dyn_verifier option"
  bd_expected_config_hash :: "byte list option"

record TrustedRelayClient =
  rc_endpoint :: string
  rc_api_key :: "string option"
  rc_tls :: tls_settings

datatype sdk_error =
    PolicyRejected AttestError
  | NeedsGcpFeature
  | NeedsMockFeature
  | TofuNotImplemented
  | NeedsVerifier VerificationPolicy
  | NeedsConfigHash
  | EmptyEndpoint
  | HttpClientBuild string
  | SendError string
  | UpstreamError u16 string
  | ResponseJson string

definition sdk_builder :: TrustedRelayClientBuilder where
  "sdk_builder =
     \<lparr>bd_endpoint = [], bd_api_key = None, bd_policy = Audit, bd_explicit_verifier = None,
      bd_expected_config_hash = None\<rparr>"

definition builder_endpoint :: "TrustedRelayClientBuilder \<Rightarrow> string \<Rightarrow> TrustedRelayClientBuilder" where
  "builder_endpoint b endpoint = b\<lparr>bd_endpoint := endpoint\<rparr>"

definition builder_api_key :: "TrustedRelayClientBuilder \<Rightarrow> string \<Rightarrow> TrustedRelayClientBuilder" where
  "builder_api_key b key = b\<lparr>bd_api_key := Some key\<rparr>"

definition builder_verification ::
    "TrustedRelayClientBuilder \<Rightarrow> VerificationPolicy \<Rightarrow> TrustedRelayClientBuilder" where
  "builder_verification b p = b\<lparr>bd_policy := p\<rparr>"

definition builder_verifier :: "TrustedRelayClientBuilder \<Rightarrow> dyn_verifier \<Rightarrow> TrustedRelayClientBuilder" where
  "builder_verifier b v = b\<lparr>bd_explicit_verifier := Some v\<rparr>"

definition builder_expected_config_hash ::
    "TrustedRelayClientBuilder \<Rightarrow> byte list \<Rightarrow> TrustedRelayClientBuilder" where
  "builder_expected_config_hash b hash = b\<lparr>bd_expected_config_hash := Some hash\<rparr>"

definition select_verifier ::
    "gcp_env \<Rightarrow> features \<Rightarrow> TrustedRelayClientBuilder \<Rightarrow> sdk_error + dyn_verifier" where
  "select_verifier genv ft b =
     (case bd_policy b of
        GcpPolicy aud image_digest \<Rightarrow>
          (case bd_explicit_verifier b of
             Some v \<Rightarrow> Inr v
           | None \<Rightarrow>
               if ft_gcp_confidential_space ft
               then rbind (map_err PolicyRejected (verifier_new genv (strict_for_image aud image_digest)))
                      (\<lambda>v. Inr (GcpVerifier v))
               else Inl NeedsGcpFeature)
      | MockDev \<Rightarrow> if ft_mock ft then Inr MockVerifier else Inl NeedsMockFeature
      | TrustOnFirstUse \<Rightarrow> Inl TofuNotImplemented
      | _ \<Rightarrow>
          (case bd_explicit_verifier b of
             Some v \<Rightarrow> Inr v
           | None \<Rightarrow> if ft_sev_snp ft then Inr SevSnpVerifier else Inl (NeedsVerifier (bd_policy b))))"

definition needs_config_hash :: "VerificationPolicy \<Rightarrow> bool" where
  "needs_config_hash p = (case p of Strict _ \<Rightarrow> True | GcpPolicy _ _ \<Rightarrow> True | _ \<Rightarrow> False)"

text \<open>\<open>client_build\<close> is the error of \<open>reqwest\<close>'s builder, if it has one.\<close>

definition build ::
    "gcp_env \<Rightarrow> string option \<Rightarrow> features \<Rightarrow> TrustedRelayClientBuilder \<Rightarrow> sdk_error + TrustedRelayClient" where
  "build genv client_build ft b =
     rbind (select_verifier genv ft b) (\<lambda>v.
     if needs_config_hash (bd_policy b) \<and> bd_expected_config_hash b = None then Inl NeedsConfigHash
     else if trim (bd_endpoint b) = [] then Inl EmptyEndpoint
     else (case client_build of
             Some e \<Rightarrow> Inl (HttpClientBuild e)
           | None \<Rightarrow>
               Inr \<lparr>rc_endpoint = bd_endpoint b, rc_api_key = bd_api_key b,
                    rc_tls = \<lparr>ts_verifier = v, ts_measurement = policy_expected_measurement (bd_policy b),
                              ts_config_hash = bd_expected_config_hash b\<rparr>\<rparr>))"

section \<open>Requests\<close>

record chat_post =
  post_method :: string
  post_url :: string
  post_bearer :: "string option"
  post_body :: "byte list"

text \<open>A response: its status, its text, and the deserialised body.\<close>

record chat_reply =
  reply_status :: u16
  reply_text :: "string + string"
  reply_json :: "string + ChatResponse"

text \<open>
  \<open>sk_send\<close> is \<open>reqwest\<close> with a TLS configuration: the response or an error, with the requests
  that were put on the wire, the one it was given first and then those of the redirects it
  followed.
\<close>

record sdk_env =
  sk_json :: "ChatRequest \<Rightarrow> string + byte list"
  sk_send :: "AttestedCertVerifier \<Rightarrow> chat_post \<Rightarrow> (string + chat_reply) \<times> chat_post list"

definition chat_completions ::
    "sdk_env \<Rightarrow> backend_env \<Rightarrow> TrustedRelayClient \<Rightarrow> ChatRequest
       \<Rightarrow> (sdk_error + ChatResponse) \<times> chat_post list" where
  "chat_completions env be client request =
     (let url = trim_end_matches (\<lambda>c. c = CHR ''/'') (rc_endpoint client) @ ''/v1/chat/completions''
      in case sk_json env request of
           Inl e \<Rightarrow> (Inl (SendError e), [])
         | Inr body \<Rightarrow>
             (case sk_send env (settings_config be (rc_tls client))
                     \<lparr>post_method = ''POST'', post_url = url, post_bearer = rc_api_key client, post_body = body\<rparr> of
                (Inl e, sent) \<Rightarrow> (Inl (SendError e), sent)
              | (Inr resp, sent) \<Rightarrow>
                  if \<not> is_success (reply_status resp)
                  then (Inl (UpstreamError (reply_status resp)
                               (case reply_text resp of Inl _ \<Rightarrow> [] | Inr t \<Rightarrow> t)), sent)
                  else (map_err ResponseJson (reply_json resp), sent)))"

section \<open>Lemmas\<close>

lemma build_eq_Inr [result_simps]:
  "build genv cb ft b = Inr c \<longleftrightarrow>
     cb = None \<and> (\<exists>v. select_verifier genv ft b = Inr v \<and>
       (needs_config_hash (bd_policy b) \<longrightarrow> bd_expected_config_hash b \<noteq> None) \<and> trim (bd_endpoint b) \<noteq> [] \<and>
       c = \<lparr>rc_endpoint = bd_endpoint b, rc_api_key = bd_api_key b,
            rc_tls = \<lparr>ts_verifier = v, ts_measurement = policy_expected_measurement (bd_policy b),
                      ts_config_hash = bd_expected_config_hash b\<rparr>\<rparr>)"
  by (cases cb) (auto simp: build_def result_simps)

text \<open>The request a client makes of an encoded chat request.\<close>

definition chat_wire :: "TrustedRelayClient \<Rightarrow> byte list \<Rightarrow> chat_post" where
  "chat_wire client body =
     \<lparr>post_method = ''POST'',
      post_url = trim_end_matches (\<lambda>c. c = CHR ''/'') (rc_endpoint client) @ ''/v1/chat/completions'',
      post_bearer = rc_api_key client, post_body = body\<rparr>"

lemma chat_completions_sent:
  assumes "chat_completions env be client request = (r, sent)" and "sent \<noteq> []"
  shows "\<exists>body out. sk_json env request = Inr body \<and>
     sk_send env (settings_config be (rc_tls client)) (chat_wire client body) = (out, sent)"
  using assms
  by (auto simp: chat_completions_def chat_wire_def Let_def split: sum.split_asm prod.split_asm if_split_asm)

section \<open>Properties\<close>

text \<open>
  C30: the builder fails closed. A client it returns has a non-blank endpoint; it uses the mock
  verifier only under \<open>MockDev\<close> with the feature compiled in or when the caller handed it in;
  \<open>TrustOnFirstUse\<close> never yields a client; \<open>Strict\<close> pins the measurement and, like the GCP
  policy, a configuration hash; with no explicit verifier \<open>Strict\<close> and \<open>Audit\<close> use SEV-SNP, and
  the GCP policy a verifier with a valid policy for the given image.\<close>

theorem sdk_builder_fails_closed:
  assumes "build genv cb ft b = Inr c"
  shows "trim (rc_endpoint c) \<noteq> [] \<and> bd_policy b \<noteq> TrustOnFirstUse \<and>
    (ts_verifier (rc_tls c) = MockVerifier \<longrightarrow>
       (bd_policy b = MockDev \<and> ft_mock ft) \<or> bd_explicit_verifier b = Some MockVerifier) \<and>
    (\<forall>m. bd_policy b = Strict m \<longrightarrow> ts_measurement (rc_tls c) = Some m) \<and>
    ((\<exists>m. bd_policy b = Strict m) \<or> (\<exists>aud d. bd_policy b = GcpPolicy aud d) \<longrightarrow>
       (\<exists>h. bd_expected_config_hash b = Some h \<and> ts_config_hash (rc_tls c) = Some h)) \<and>
    (bd_explicit_verifier b = None \<longrightarrow>
       (case bd_policy b of
          GcpPolicy aud d \<Rightarrow> \<exists>g. ts_verifier (rc_tls c) = GcpVerifier g \<and>
             ver_policy g = strict_for_image aud d \<and> ver_enforce_workload_identity g \<and>
             policy_validate genv (strict_for_image aud d) = Inr ()
        | MockDev \<Rightarrow> ts_verifier (rc_tls c) = MockVerifier
        | _ \<Rightarrow> ts_verifier (rc_tls c) = SevSnpVerifier))"
  using assms
  by (cases "bd_policy b"; cases "bd_explicit_verifier b")
     (auto simp: result_simps select_verifier_def needs_config_hash_def policy_expected_measurement_def
       verifier_new_def split: if_split_asm)

definition demo_features :: features where
  "demo_features = \<lparr>ft_mock = False, ft_sev_snp = True, ft_gcp_confidential_space = True\<rparr>"

definition demo_builder :: TrustedRelayClientBuilder where
  "demo_builder = builder_expected_config_hash
     (builder_verification (builder_endpoint sdk_builder ''https://r'') (Strict (replicate 48 1)))
     (replicate 32 11)"

definition demo_client :: TrustedRelayClient where
  "demo_client = \<lparr>rc_endpoint = ''https://r'', rc_api_key = None,
     rc_tls = \<lparr>ts_verifier = SevSnpVerifier, ts_measurement = Some (replicate 48 1),
               ts_config_hash = Some (replicate 32 11)\<rparr>\<rparr>"

lemma demo_client_built: "build demo_gcp None demo_features demo_builder = Inr demo_client"
proof -
  have "trim ''https://r'' \<noteq> []" by code_simp
  then show ?thesis
    by (simp add: build_eq_Inr select_verifier_def demo_builder_def sdk_builder_def demo_features_def
        builder_endpoint_def builder_verification_def builder_expected_config_hash_def
        policy_expected_measurement_def demo_client_def)
qed

theorem sdk_builder_fails_closed_witness:
  "build demo_gcp None demo_features demo_builder = Inr demo_client \<and>
   ts_measurement (rc_tls demo_client) = Some (replicate 48 1) \<and>
   ts_verifier (rc_tls demo_client) = SevSnpVerifier"
  using sdk_builder_fails_closed [OF demo_client_built] demo_client_built
  by (simp add: demo_builder_def demo_client_def builder_verification_def builder_expected_config_hash_def
      builder_endpoint_def)

text \<open>
  Documented of \<open>reqwest\<close> with a preconfigured TLS setup: the first request it puts on the wire
  is the one it is given; it may follow redirects, and every request to an https URL, the
  first or a later one, goes over a connection on which the configured verifier accepted the
  peer's certificate and its signature under that certificate.
  \<open>peer url cert\<close> says that the peer behind the URL presented the certificate.
\<close>

definition https_law ::
    "'r ring \<Rightarrow> url_parser \<Rightarrow> x509_parser \<Rightarrow> (byte list \<Rightarrow> byte list) \<Rightarrow> (string \<Rightarrow> byte list \<Rightarrow> bool)
       \<Rightarrow> sdk_env \<Rightarrow> bool" where
  "https_law ring url_parse x509_parse sha384 peer env \<longleftrightarrow>
     (\<forall>cfg post r sent. sk_send env cfg post = (r, sent) \<longrightarrow> (sent = [] \<or> hd sent = post) \<and>
        (\<forall>p \<in> set sent. \<forall>u. url_parse (post_url p) = Some u \<longrightarrow> url_scheme u = HTTPS \<longrightarrow>
           (\<exists>cert name. peer (post_url p) cert \<and>
              handshake_checked (attested_callbacks ring x509_parse sha384 cfg) cert name)))"

text \<open>
  C15: a built client talks https only to attested relays. When it puts anything on the wire, the
  first request is a POST of the encoded chat request to the endpoint's chat path with the
  configured bearer token. Each request that goes to an https URL, this one and also any that
  a redirect causes, goes to a peer that proved possession of the key in its certificate,
  which carries evidence the client's verifier accepted, under the measurement pin unless it
  is a Confidential Space token, for the key in the certificate and for the pinned
  configuration.\<close>

theorem sdk_sends_only_to_attested:
  assumes "build genv cb ft b = Inr client"
    and "\<forall>v. bd_explicit_verifier b = Some v \<longrightarrow> user_contract v"
    and "\<forall>h. bd_expected_config_hash b = Some h \<longrightarrow> length h = 32"
    and "https_law ring url_parse x509_parse sha384 peer env" and "sha384_law sha384"
    and "chat_completions env be client request = (r, sent)" and "sent \<noteq> []"
  shows "(\<exists>body. sk_json env request = Inr body \<and>
      hd sent = \<lparr>post_method = ''POST'',
        post_url = trim_end_matches (\<lambda>c. c = CHR ''/'') (bd_endpoint b) @ ''/v1/chat/completions'',
        post_bearer = bd_api_key b, post_body = body\<rparr>) \<and>
    (\<forall>p \<in> set sent. \<forall>u. url_parse (post_url p) = Some u \<longrightarrow> url_scheme u = HTTPS \<longrightarrow>
       (\<exists>cert. peer (post_url p) cert \<and> proved_possession ring cert \<and>
          bound_to be x509_parse sha384 (rc_tls client) cert))"
proof (intro conjI ballI allI impI)
  obtain body out where s: "sk_json env request = Inr body"
      "sk_send env (settings_config be (rc_tls client)) (chat_wire client body) = (out, sent)"
    using chat_completions_sent [OF assms(6,7)] by blast
  have client: "rc_endpoint client = bd_endpoint b" "rc_api_key client = bd_api_key b"
      "ts_config_hash (rc_tls client) = bd_expected_config_hash b"
    and "select_verifier genv ft b = Inr (ts_verifier (rc_tls client))"
    using assms(1) by (auto simp: result_simps)
  then have contract: "user_contract (ts_verifier (rc_tls client))"
    using assms(2)
    by (auto simp: select_verifier_def result_simps user_contract_def
        split: VerificationPolicy.split_asm option.split_asm if_split_asm)
  have "hd sent = chat_wire client body" using assms(4,7) s(2) unfolding https_law_def by blast
  with s(1) client show "\<exists>body. sk_json env request = Inr body \<and>
      hd sent = \<lparr>post_method = ''POST'',
        post_url = trim_end_matches (\<lambda>c. c = CHR ''/'') (bd_endpoint b) @ ''/v1/chat/completions'',
        post_bearer = bd_api_key b, post_body = body\<rparr>"
    by (simp add: chat_wire_def)
  fix p u
  assume "p \<in> set sent" "url_parse (post_url p) = Some u" "url_scheme u = HTTPS"
  then obtain cert where cert: "peer (post_url p) cert"
      "attested_verify_server_cert x509_parse sha384 (settings_config be (rc_tls client)) cert = Inr ()"
      "proved_possession ring cert"
    using assms(4) s(2) unfolding https_law_def attested_peer.checked_iff by blast
  have "bound_to be x509_parse sha384 (rc_tls client) cert"
    using accepted_bound_to [OF contract assms(5) _ cert(2)] assms(3) client(3) by simp
  with cert(1,3) show "\<exists>cert. peer (post_url p) cert \<and> proved_possession ring cert \<and>
      bound_to be x509_parse sha384 (rc_tls client) cert" by blast
qed

definition mock_builder :: TrustedRelayClientBuilder where
  "mock_builder = builder_expected_config_hash
     (builder_verification (builder_endpoint sdk_builder ''https://r'') MockDev) demo_hash"

definition mock_client :: TrustedRelayClient where
  "mock_client = \<lparr>rc_endpoint = ''https://r'', rc_api_key = None,
     rc_tls = \<lparr>ts_verifier = MockVerifier, ts_measurement = None, ts_config_hash = Some demo_hash\<rparr>\<rparr>"

definition demo_sdk :: sdk_env where
  "demo_sdk = \<lparr>sk_json = (\<lambda>r. Inr [123, 125]),
     sk_send = (\<lambda>cfg post.
       if attested_verify_server_cert (one_cert_parse demo_server_evidence) demo_sha384 cfg [1] = Inr ()
       then (Inl ''closed'', [post]) else (Inl ''handshake'', []))\<rparr>"

lemma demo_https_law:
  "https_law demo_ring (\<lambda>s. Some demo_gcp_url) (one_cert_parse demo_server_evidence) demo_sha384 (\<lambda>url cert. cert = [1]) demo_sdk"
  by (auto simp: https_law_def demo_sdk_def attested_peer.checked_iff demo_possession split: if_split_asm)

lemma mock_client_built: "build demo_gcp None (demo_features\<lparr>ft_mock := True\<rparr>) mock_builder = Inr mock_client"
proof -
  have "trim ''https://r'' \<noteq> []" by code_simp
  then show ?thesis
    by (simp add: build_eq_Inr select_verifier_def mock_builder_def sdk_builder_def demo_features_def
        builder_endpoint_def builder_verification_def builder_expected_config_hash_def needs_config_hash_def
        policy_expected_measurement_def mock_client_def)
qed

theorem sdk_sends_only_to_attested_witness:
  "\<exists>post cert. chat_completions demo_sdk demo_backends mock_client (chat_request_simple ''m'' ''hi'')
       = (Inl (SendError ''closed''), [post]) \<and>
     bound_to demo_backends (one_cert_parse demo_server_evidence) demo_sha384 (rc_tls mock_client) cert"
proof -
  let ?post = "\<lparr>post_method = ''POST'',
    post_url = trim_end_matches (\<lambda>c. c = CHR ''/'') ''https://r'' @ ''/v1/chat/completions'',
    post_bearer = None, post_body = [123, 125]\<rparr>"
  have cfg: "settings_config demo_backends (rc_tls mock_client)
      = attested_client_config (mock_verify demo_mock) None (Some demo_hash)"
    by (simp add: settings_config_def mock_client_def demo_run_mock)
  have sent: "chat_completions demo_sdk demo_backends mock_client (chat_request_simple ''m'' ''hi'')
      = (Inl (SendError ''closed''), [?post])"
    unfolding chat_completions_def cfg by (simp add: demo_sdk_def demo_handshake mock_client_def)
  have b: "\<forall>v. bd_explicit_verifier mock_builder = Some v \<longrightarrow> user_contract v"
      "\<forall>h. bd_expected_config_hash mock_builder = Some h \<longrightarrow> length h = 32"
    by (simp_all add: mock_builder_def builder_expected_config_hash_def builder_verification_def
        builder_endpoint_def sdk_builder_def demo_hash_def)
  have "url_scheme demo_gcp_url = HTTPS" by (simp add: demo_gcp_url_def)
  moreover note sdk_sends_only_to_attested [OF mock_client_built b demo_https_law demo_sha384_law sent]
  ultimately show ?thesis using sent by auto
qed

text \<open>
  The condition on the scheme is needed: the builder accepts a plain http endpoint, and to
  such a URL the request goes out with no certificate at all. It is needed for redirects too:
  the client sets no redirect policy, so a relay it accepted can have the prompt sent again
  to an http URL, which is consistent with everything the TLS layer promises.
\<close>

definition plain_builder :: TrustedRelayClientBuilder where
  "plain_builder = builder_endpoint demo_builder ''http://r''"

definition open_send :: "AttestedCertVerifier \<Rightarrow> chat_post \<Rightarrow> (string + chat_reply) \<times> chat_post list" where
  "open_send cfg post = (Inl ''lost'', if prefix ''http:'' (post_url post) then [post] else [])"

lemma plain_http_endpoint_accepted:
  "\<exists>c. build demo_gcp None demo_features plain_builder = Inr c \<and>
     snd (chat_completions \<lparr>sk_json = (\<lambda>r. Inr []), sk_send = open_send\<rparr> be c (chat_request_simple ''m'' ''hi''))
       = [\<lparr>post_method = ''POST'', post_url = ''http://r/v1/chat/completions'', post_bearer = None,
            post_body = []\<rparr>]"
proof -
  have "trim ''http://r'' \<noteq> []" "trim_end_matches (\<lambda>c. c = CHR ''/'') ''http://r'' = ''http://r''" by code_simp+
  then show ?thesis
    by (simp add: build_eq_Inr select_verifier_def plain_builder_def demo_builder_def sdk_builder_def
        demo_features_def builder_endpoint_def builder_verification_def builder_expected_config_hash_def
        chat_completions_def open_send_def)
qed

definition redirected_sdk :: sdk_env where
  "redirected_sdk = demo_sdk\<lparr>sk_send := \<lambda>cfg post.
     case sk_send demo_sdk cfg post of
       (r, []) \<Rightarrow> (r, [])
     | (r, p # ps) \<Rightarrow> (r, [p, p\<lparr>post_url := ''http://elsewhere/''\<rparr>])\<rparr>"

definition two_urls :: url_parser where
  "two_urls s = Some (if prefix ''https'' s then demo_gcp_url else demo_gcp_url\<lparr>url_scheme := ''http''\<rparr>)"

lemma redirect_may_leave_tls:
  shows "https_law demo_ring two_urls (one_cert_parse demo_server_evidence) demo_sha384
      (\<lambda>url cert. cert = [1]) redirected_sdk"
    and "\<exists>p q. snd (chat_completions redirected_sdk demo_backends mock_client (chat_request_simple ''m'' ''hi'')) = [p, q] \<and>
      post_url q = ''http://elsewhere/'' \<and> post_body q = post_body p"
proof -
  show "https_law demo_ring two_urls (one_cert_parse demo_server_evidence) demo_sha384
      (\<lambda>url cert. cert = [1]) redirected_sdk"
    by (auto simp: https_law_def demo_sdk_def redirected_sdk_def two_urls_def attested_peer.checked_iff
        demo_possession split: if_split_asm)
  have "settings_config demo_backends (rc_tls mock_client)
      = attested_client_config (mock_verify demo_mock) None (Some demo_hash)"
    by (simp add: settings_config_def mock_client_def demo_run_mock)
  then show "\<exists>p q. snd (chat_completions redirected_sdk demo_backends mock_client (chat_request_simple ''m'' ''hi'')) = [p, q] \<and>
      post_url q = ''http://elsewhere/'' \<and> post_body q = post_body p"
    by (simp add: chat_completions_def redirected_sdk_def demo_sdk_def demo_handshake mock_client_def)
qed

end
