(* ===== verification/Buf_Reader.thy ===== *)
theory Buf_Reader
  imports Rust_Strings
begin

text \<open>
  \<open>tokio::io::BufReader\<close> over a socket, as the gateway and the local proxy use it to read the
  lines of an HTTP head, and the interface \<open>line_reader\<close> their proofs rest on. A socket is the
  list of what its successive reads return: an error, some bytes, or nothing at the end of the
  stream, which then stays at its end. Bytes read ahead wait in the buffer.
\<close>

section \<open>Reader\<close>

type_synonym socket_reads = "(string + byte list) list"

record reader =
  rd_buf :: "byte list"
  rd_reads :: socket_reads

definition reader_new :: "socket_reads \<Rightarrow> reader" where
  "reader_new reads = \<lparr>rd_buf = [], rd_reads = reads\<rparr>"

abbreviation LF_byte :: byte where "LF_byte \<equiv> 10"

fun read_until_lf :: "byte list \<Rightarrow> socket_reads \<Rightarrow> (string + byte list) \<times> reader" where
  "read_until_lf buf reads =
     (if LF_byte \<in> set buf
      then (Inr (takeWhile (\<lambda>b. b \<noteq> LF_byte) buf @ [LF_byte]),
            \<lparr>rd_buf = tl (dropWhile (\<lambda>b. b \<noteq> LF_byte) buf), rd_reads = reads\<rparr>)
      else (case reads of
              [] \<Rightarrow> (Inr buf, \<lparr>rd_buf = [], rd_reads = []\<rparr>)
            | Inl e # rs \<Rightarrow> (Inl e, \<lparr>rd_buf = [], rd_reads = rs\<rparr>)
            | Inr c # rs \<Rightarrow>
                if c = [] then (Inr buf, \<lparr>rd_buf = [], rd_reads = []\<rparr>)
                else (case read_until_lf c rs of
                        (Inl e, r) \<Rightarrow> (Inl e, r)
                      | (Inr l, r) \<Rightarrow> (Inr (buf @ l), r))))"

declare read_until_lf.simps [simp del]

text \<open>\<open>read_line\<close>: the next line with its line end, the rest of the stream, or nothing at its end.\<close>

definition read_line :: "reader \<Rightarrow> (string + string) \<times> reader" where
  "read_line r =
     (case read_until_lf (rd_buf r) (rd_reads r) of
        (Inl e, r') \<Rightarrow> (Inl e, r')
      | (Inr bytes, r') \<Rightarrow>
          (case from_utf8 bytes of
             None \<Rightarrow> (Inl ''stream did not contain valid UTF-8'', r')
           | Some s \<Rightarrow> (Inr s, r')))"

text \<open>What the socket still delivers, and with what waits in the buffer.\<close>

fun stream_bytes :: "socket_reads \<Rightarrow> byte list" where
  "stream_bytes [] = []"
| "stream_bytes (Inl e # rs) = []"
| "stream_bytes (Inr c # rs) = (if c = [] then [] else c @ stream_bytes rs)"

definition pending :: "reader \<Rightarrow> byte list" where
  "pending r = rd_buf r @ stream_bytes (rd_reads r)"

definition read_size :: "reader \<Rightarrow> nat" where
  "read_size r = length (rd_buf r) + sum_list (map (\<lambda>x. case x of Inl e \<Rightarrow> 0 | Inr c \<Rightarrow> length c) (rd_reads r))"

text \<open>\<open>trim_end_matches(['\r', '\n'])\<close>.\<close>

definition trim_eol :: "string \<Rightarrow> string" where
  "trim_eol s = trim_end_matches (\<lambda>c. c = CHR 0x0D \<or> c = CHR 0x0A) s"

section \<open>The interface\<close>

text \<open>
  A line reader takes lines off the front of what is pending. A line ends with its only line
  feed, or it is all that was left.
\<close>

locale line_reader =
  fixes next_line :: "'r \<Rightarrow> (string + string) \<times> 'r"
    and left :: "'r \<Rightarrow> byte list"
  assumes next_line_splits: "next_line r = (Inr s, r') \<Longrightarrow> left r = as_bytes s @ left r'"
    and next_line_shape: "next_line r = (Inr s, r') \<Longrightarrow>
      (\<exists>l. s = l @ [CHR 0x0A] \<and> CHR 0x0A \<notin> set l) \<or> (CHR 0x0A \<notin> set s \<and> left r' = [])"
begin

fun lines_read :: "string list \<Rightarrow> 'r \<Rightarrow> 'r \<Rightarrow> bool" where
  "lines_read [] r r' \<longleftrightarrow> r' = r"
| "lines_read (l # ls) r r' \<longleftrightarrow> (\<exists>r1. next_line r = (Inr l, r1) \<and> lines_read ls r1 r')"

lemma lines_read_splits: "lines_read ls r r' \<Longrightarrow> left r = as_bytes (concat ls) @ left r'"
  by (induction ls arbitrary: r) (auto simp: as_bytes_def dest: next_line_splits)

lemma lines_read_snoc: "lines_read (ls @ [l]) r r' \<longleftrightarrow> (\<exists>r1. lines_read ls r r1 \<and> next_line r1 = (Inr l, r'))"
  by (induction ls arbitrary: r) auto

lemma lines_read_append: "lines_read (ls @ ms) r r' \<longleftrightarrow> (\<exists>r1. lines_read ls r r1 \<and> lines_read ms r1 r')"
  by (induction ls arbitrary: r) auto

lemma lines_read_unique:
  "lines_read ls r r1 \<Longrightarrow> lines_read ms r r2 \<Longrightarrow> length ls = length ms \<Longrightarrow> ls = ms \<and> r1 = r2"
proof (induction ls arbitrary: r ms)
  case (Cons l ls)
  then show ?case by (cases ms) fastforce+
qed simp

end

section \<open>The reader keeps the interface\<close>

lemma split_at_lf:
  "LF_byte \<in> set buf \<Longrightarrow>
   buf = (takeWhile (\<lambda>b. b \<noteq> LF_byte) buf @ [LF_byte]) @ tl (dropWhile (\<lambda>b. b \<noteq> LF_byte) buf)"
  by (induction buf) auto

lemma read_until_lf_splits:
  "read_until_lf buf reads = (Inr l, r) \<Longrightarrow> buf @ stream_bytes reads = l @ pending r"
proof (induction buf reads arbitrary: l r rule: read_until_lf.induct)
  case (1 buf reads)
  show ?case
  proof (cases "LF_byte \<in> set buf")
    case True
    with 1(2) show ?thesis
      using split_at_lf [OF True] by (subst (asm) read_until_lf.simps) (auto simp: pending_def)
  next
    case False
    with 1 show ?thesis
      by (subst (asm) (2) read_until_lf.simps)
         (fastforce simp: pending_def split: list.split_asm sum.split_asm if_split_asm prod.split_asm)
  qed
qed

lemma read_until_lf_shape:
  "read_until_lf buf reads = (Inr l, r) \<Longrightarrow>
     (\<exists>k. l = k @ [LF_byte] \<and> LF_byte \<notin> set k) \<or> (LF_byte \<notin> set l \<and> pending r = [])"
proof (induction buf reads arbitrary: l r rule: read_until_lf.induct)
  case (1 buf reads)
  show ?case
  proof (cases "LF_byte \<in> set buf")
    case True
    with 1(2) show ?thesis
      by (subst (asm) read_until_lf.simps) (auto dest: set_takeWhileD)
  next
    case False
    with 1 show ?thesis
      by (subst (asm) (2) read_until_lf.simps)
         (fastforce simp: pending_def split: list.split_asm sum.split_asm if_split_asm prod.split_asm)
  qed
qed

lemma read_until_lf_size:
  "read_until_lf buf reads = (Inr l, r) \<Longrightarrow> read_size r + length l \<le> read_size \<lparr>rd_buf = buf, rd_reads = reads\<rparr>"
proof (induction buf reads arbitrary: l r rule: read_until_lf.induct)
  case (1 buf reads)
  show ?case
  proof (cases "LF_byte \<in> set buf")
    case True
    have "length buf = length (takeWhile (\<lambda>b. b \<noteq> LF_byte) buf @ [LF_byte]) + length (tl (dropWhile (\<lambda>b. b \<noteq> LF_byte) buf))"
      using arg_cong [OF split_at_lf [OF True], of length] by simp
    with 1(2) True show ?thesis
      by (subst (asm) read_until_lf.simps) (auto simp: read_size_def)
  next
    case False
    with 1 show ?thesis
      by (subst (asm) (2) read_until_lf.simps)
         (fastforce simp: read_size_def split: list.split_asm sum.split_asm if_split_asm prod.split_asm)
  qed
qed

lemma read_line_bytes:
  "read_line r = (Inr s, r') \<longleftrightarrow> read_until_lf (rd_buf r) (rd_reads r) = (Inr (as_bytes s), r') \<and> utf8_valid (as_bytes s)"
  by (auto simp: read_line_def from_utf8_def split: sum.splits prod.splits option.splits if_splits)

lemma read_line_decreases:
  assumes "read_line r = (Inr s, r')" and "s \<noteq> []"
  shows "read_size r' < read_size r"
proof -
  have "read_size r' + length (as_bytes s) \<le> read_size \<lparr>rd_buf = rd_buf r, rd_reads = rd_reads r\<rparr>"
    using assms(1) unfolding read_line_bytes by (blast intro: read_until_lf_size)
  also have "\<lparr>rd_buf = rd_buf r, rd_reads = rd_reads r\<rparr> = r" by simp
  finally show ?thesis using assms(2) by (cases s) auto
qed

lemma LF_in_as_bytes: "LF_byte \<in> set (as_bytes s) \<longleftrightarrow> CHR 0x0A \<in> set s"
proof -
  have "LF_byte \<in> set (as_bytes s) \<longleftrightarrow> (\<exists>c \<in> set s. (word_of_nat (of_char c) :: byte) = 10)"
    by (auto simp: as_bytes_def intro: sym)
  then show ?thesis by (auto simp: byte_of_char_LF)
qed

interpretation buf: line_reader read_line pending
proof unfold_locales
  fix r s r'
  assume "read_line r = (Inr s, r')"
  then have u: "read_until_lf (rd_buf r) (rd_reads r) = (Inr (as_bytes s), r')"
    by (simp add: read_line_bytes)
  from read_until_lf_splits [OF this] show "pending r = as_bytes s @ pending r'"
    by (simp add: pending_def)
  from read_until_lf_shape [OF u]
  show "(\<exists>l. s = l @ [CHR 0x0A] \<and> CHR 0x0A \<notin> set l) \<or> (CHR 0x0A \<notin> set s \<and> pending r' = [])"
  proof
    assume "\<exists>k. as_bytes s = k @ [LF_byte] \<and> LF_byte \<notin> set k"
    then obtain k where k: "as_bytes s = k @ [LF_byte]" "LF_byte \<notin> set k" by blast
    then have "s = string_of_bytes k @ string_of_bytes [LF_byte]"
      by (metis string_of_as_bytes string_of_bytes_append)
    moreover have "string_of_bytes [LF_byte] = [CHR 0x0A]" by code_simp
    moreover have "CHR 0x0A \<notin> set (string_of_bytes k)"
      using k(2) LF_in_as_bytes [of "string_of_bytes k"] by simp
    ultimately show ?thesis by blast
  qed (simp add: LF_in_as_bytes)
qed

lemma while_until:
  "x \<notin> set xs \<Longrightarrow> takeWhile (\<lambda>b. b \<noteq> x) (xs @ x # ys) = xs"
  "x \<notin> set xs \<Longrightarrow> dropWhile (\<lambda>b. b \<noteq> x) (xs @ x # ys) = x # ys"
  by (induction xs) auto

text \<open>A line that is complete in the buffer.\<close>

lemma read_line_buffered:
  assumes "rd_buf r = as_bytes (l @ [CHR 0x0A]) @ rest" and "CHR 0x0A \<notin> set l"
    and "utf8_valid (as_bytes (l @ [CHR 0x0A]))"
  shows "read_line r = (Inr (l @ [CHR 0x0A]), r\<lparr>rd_buf := rest\<rparr>)"
proof -
  have lf: "as_bytes [CHR 0x0A] = [LF_byte]" by code_simp
  have n: "LF_byte \<notin> set (as_bytes l)" using assms(2) LF_in_as_bytes by blast
  then have "read_until_lf (rd_buf r) (rd_reads r) = (Inr (as_bytes (l @ [CHR 0x0A])), r\<lparr>rd_buf := rest\<rparr>)"
    using assms(1) lf by (subst read_until_lf.simps) (simp add: while_until)
  with assms(3) show ?thesis by (simp add: read_line_bytes)
qed

text \<open>The first read fills an empty buffer.\<close>

lemma read_line_fills:
  assumes "rd_buf r = []" and "rd_reads r = Inr c # rs" and "c \<noteq> []"
  shows "read_line r = read_line \<lparr>rd_buf = c, rd_reads = rs\<rparr>"
proof -
  have "read_until_lf [] (Inr c # rs) = read_until_lf c rs"
    using assms(3) by (subst read_until_lf.simps) (auto split: prod.splits sum.splits)
  then show ?thesis by (simp add: read_line_def assms)
qed

end
