(* ===== verification/Gateway.thy ===== *)
theory Gateway
  imports Buf_Reader
begin

text \<open>
  \<open>tools/gateway/src/main.rs\<close>: the blind HTTP CONNECT gateway. A connection is handled by
  reading its head line by line, checking the tunnel token and the target, connecting to the
  one relay it serves and copying bytes both ways; start-up binds the listener and hands every
  accepted connection to a handler of its own. The sockets are parameters; what the
  handler does to them is the list of its effects.
\<close>

section \<open>The handler\<close>

record gateway_cli =
  gw_listen :: string
  gw_relay_addr :: string
  gw_token :: string

text \<open>
  \<open>gw_write\<close> and \<open>gw_copy\<close> give the error of writing to the client and of copying, \<open>gw_connect\<close>
  the error of connecting to an address.
\<close>

record gateway_env =
  gw_write :: "byte list \<Rightarrow> string option"
  gw_connect :: "string \<Rightarrow> string option"
  gw_copy :: "string option"

text \<open>\<open>Tunnel bytes\<close>: from here on the relay gets what the client socket delivers, and back.\<close>

datatype gateway_effect =
    WroteClient "byte list"
  | ConnectedRelay string
  | Tunnel "byte list"

definition reject_response :: "string \<Rightarrow> string \<Rightarrow> string" where
  "reject_response status body =
     ''HTTP/1.1 '' @ status @ CRLF @ ''Content-Length: '' @ decimal (length body) @ CRLF
     @ ''Connection: close'' @ CRLF @ CRLF @ body"

definition reject ::
    "gateway_env \<Rightarrow> string \<Rightarrow> string \<Rightarrow> (string + unit) \<times> gateway_effect list" where
  "reject env status body =
     (let response = as_bytes (reject_response status body)
      in case gw_write env response of
           Some e \<Rightarrow> (Inl e, [])
         | None \<Rightarrow> (Inr (), [WroteClient response]))"

definition authorize_line :: "string \<Rightarrow> bool \<Rightarrow> string \<Rightarrow> bool" where
  "authorize_line expected_token authorized line =
     (case split_once CHR '':'' line of
        None \<Rightarrow> authorized
      | Some (name, v) \<Rightarrow>
          if eq_ignore_ascii_case name ''authorization'' then trim v = ''Bearer '' @ expected_token
          else authorized)"

text \<open>The loop over the header lines: \<open>None\<close> when the client closed before the blank line.\<close>

function header_loop :: "string \<Rightarrow> reader \<Rightarrow> bool \<Rightarrow> (string + bool option) \<times> reader" where
  "header_loop expected_token r authorized =
     (case read_line r of
        (Inl e, r') \<Rightarrow> (Inl e, r')
      | (Inr line, r') \<Rightarrow>
          if line = [] then (Inr None, r')
          else if trim_eol line = [] then (Inr (Some authorized), r')
          else header_loop expected_token r' (authorize_line expected_token authorized (trim_eol line)))"
  by pat_completeness auto
termination
  by (relation "measure (\<lambda>(t, r, a). read_size r)") (simp, metis case_prodI2 in_measure old.prod.case read_line_decreases)

declare header_loop.simps [simp del]

definition established :: "byte list" where
  "established = as_bytes (''HTTP/1.1 200 Connection Established'' @ CRLF @ CRLF)"

text \<open>
  After the head, \<open>into_inner\<close> gives back the socket: bytes already read ahead into the buffer
  stay behind, the tunnel starts with what the socket delivers next.
\<close>

definition open_tunnel ::
    "gateway_env \<Rightarrow> string \<Rightarrow> reader \<Rightarrow> (string + unit) \<times> gateway_effect list" where
  "open_tunnel env relay_addr r =
     (case gw_connect env relay_addr of
        Some e \<Rightarrow> (Inl (''failed to connect private relay '' @ relay_addr), [])
      | None \<Rightarrow>
          (case gw_write env established of
             Some e \<Rightarrow> (Inl e, [ConnectedRelay relay_addr])
           | None \<Rightarrow>
               ((case gw_copy env of Some e \<Rightarrow> Inl e | None \<Rightarrow> Inr ()),
                [ConnectedRelay relay_addr, WroteClient established, Tunnel (stream_bytes (rd_reads r))])))"

definition request_words :: "string \<Rightarrow> string \<times> string" where
  "request_words request_line =
     (let parts = split_whitespace (trim_eol request_line)
      in (case parts of [] \<Rightarrow> [] | m # _ \<Rightarrow> m, case parts of m # a # _ \<Rightarrow> a | _ \<Rightarrow> []))"

definition handle_connection ::
    "gateway_env \<Rightarrow> socket_reads \<Rightarrow> string \<Rightarrow> string \<Rightarrow> (string + unit) \<times> gateway_effect list" where
  "handle_connection env reads relay_addr expected_token =
     (case read_line (reader_new reads) of
        (Inl e, r) \<Rightarrow> (Inl e, [])
      | (Inr request_line, r) \<Rightarrow>
          if request_line = [] then (Inr (), [])
          else
            let (meth, authority) = request_words request_line
            in if meth \<noteq> ''CONNECT'' then reject env ''405 Method Not Allowed'' ''CONNECT required''
               else (case header_loop expected_token r False of
                       (Inl e, r') \<Rightarrow> (Inl e, [])
                     | (Inr None, r') \<Rightarrow> (Inr (), [])
                     | (Inr (Some authorized), r') \<Rightarrow>
                         if \<not> authorized then reject env ''403 Forbidden'' ''invalid tunnel token''
                         else if authority \<noteq> relay_addr then reject env ''403 Forbidden'' ''relay target not allowed''
                         else open_tunnel env relay_addr r'))"

section \<open>Start-up and the accept loop\<close>

text \<open>
  \<open>gn_parse_addr\<close> is the address parser, \<open>gn_bind\<close> the error of binding to an address. A run
  sees a sequence of outcomes of \<open>accept\<close>; a connection brings its socket. Each connection is
  handled in a task of its own, whose result is logged and otherwise dropped; an error of
  \<open>accept\<close> itself ends the program. \<open>None\<close>: the gateway is still accepting.
\<close>

record 'a gateway_net =
  gn_parse_addr :: "string \<Rightarrow> 'a option"
  gn_bind :: "'a \<Rightarrow> string option"

datatype gateway_exit = InvalidListen | BindFailed string | AcceptFailed string

type_synonym connection = "gateway_env \<times> socket_reads"
type_synonym handled = "(string + unit) \<times> gateway_effect list"

fun accept_loop :: "gateway_cli \<Rightarrow> (string + connection) list \<Rightarrow> gateway_exit option \<times> handled list" where
  "accept_loop cli [] = (None, [])"
| "accept_loop cli (Inl e # accepts) = (Some (AcceptFailed e), [])"
| "accept_loop cli (Inr (env, reads) # accepts) =
     (let task = handle_connection env reads (gw_relay_addr cli) (gw_token cli);
          (exit, tasks) = accept_loop cli accepts
      in (exit, task # tasks))"

definition gateway_main ::
    "'a gateway_net \<Rightarrow> gateway_cli \<Rightarrow> (string + connection) list \<Rightarrow> gateway_exit option \<times> handled list" where
  "gateway_main net cli accepts =
     (case gn_parse_addr net (gw_listen cli) of
        None \<Rightarrow> (Some InvalidListen, [])
      | Some addr \<Rightarrow>
          (case gn_bind net addr of
             Some e \<Rightarrow> (Some (BindFailed e), [])
           | None \<Rightarrow> accept_loop cli accepts))"

section \<open>Lemmas\<close>

text \<open>The header loop ends at the first blank line, with the last word on the token.\<close>

definition header_lines :: "string list \<Rightarrow> bool" where
  "header_lines ls = list_all (\<lambda>l. l \<noteq> [] \<and> trim_eol l \<noteq> []) ls"

definition token_accepted :: "string \<Rightarrow> string list \<Rightarrow> bool \<Rightarrow> bool" where
  "token_accepted expected_token ls a = fold (\<lambda>l a. authorize_line expected_token a (trim_eol l)) ls a"

lemma header_loop_line:
  assumes "read_line r = (Inr line, r1)" and "line \<noteq> []"
  shows "header_loop t r a =
    (if trim_eol line = [] then (Inr (Some a), r1)
     else header_loop t r1 (authorize_line t a (trim_eol line)))"
  using assms by (subst header_loop.simps) simp

lemma header_loop_run:
  "buf.lines_read (ls @ [blank]) r r' \<Longrightarrow> header_lines ls \<Longrightarrow> blank \<noteq> [] \<Longrightarrow> trim_eol blank = [] \<Longrightarrow>
     header_loop t r a = (Inr (Some (token_accepted t ls a)), r')"
proof (induction ls arbitrary: r a)
  case Nil
  then have "read_line r = (Inr blank, r')" by simp
  from header_loop_line [OF this] Nil show ?case by (simp add: token_accepted_def)
next
  case (Cons l ls)
  then obtain r1 where l: "read_line r = (Inr l, r1)" "buf.lines_read (ls @ [blank]) r1 r'" by auto
  from Cons.prems(2) have "l \<noteq> []" "trim_eol l \<noteq> []" "header_lines ls" by (simp_all add: header_lines_def)
  with header_loop_line [OF l(1)] Cons.IH [OF l(2)] Cons.prems(3,4) show ?case
    by (simp add: token_accepted_def)
qed

lemma header_loop_sound:
  "header_loop t r a = (Inr (Some b), r') \<Longrightarrow>
     \<exists>ls blank. buf.lines_read (ls @ [blank]) r r' \<and> header_lines ls \<and> blank \<noteq> [] \<and> trim_eol blank = [] \<and>
       b = token_accepted t ls a"
proof (induction t r a rule: header_loop.induct)
  case (1 t r a)
  obtain line r1 where l: "read_line r = (Inr line, r1)" "line \<noteq> []"
    using "1.prems"
    by (subst (asm) header_loop.simps) (auto split: prod.split_asm sum.split_asm if_split_asm)
  show ?case
  proof (cases "trim_eol line = []")
    case True
    with "1.prems" header_loop_line [OF l] have "b = a" "r' = r1" by auto
    with l True show ?thesis
      by (intro exI [of _ "[]"] exI [of _ line]) (simp add: header_lines_def token_accepted_def)
  next
    case False
    with "1.prems" header_loop_line [OF l]
    have "header_loop t r1 (authorize_line t a (trim_eol line)) = (Inr (Some b), r')" by simp
    from "1.IH" [OF l(1) [symmetric] refl l(2) False this]
    obtain ls blank where "buf.lines_read (ls @ [blank]) r1 r'" "header_lines ls" "blank \<noteq> []"
      "trim_eol blank = []" "b = token_accepted t ls (authorize_line t a (trim_eol line))" by blast
    with l False show ?thesis
      by (intro exI [of _ "line # ls"] exI [of _ blank]) (simp add: header_lines_def token_accepted_def)
  qed
qed

text \<open>A line that presents the token.\<close>

definition presents_token :: "string \<Rightarrow> string \<Rightarrow> bool" where
  "presents_token expected_token line \<longleftrightarrow>
     (\<exists>name v. split_once CHR '':'' (trim_eol line) = Some (name, v) \<and>
        eq_ignore_ascii_case name ''authorization'' \<and> trim v = ''Bearer '' @ expected_token)"

lemma token_accepted_presented: "token_accepted t ls a \<Longrightarrow> a \<or> (\<exists>l \<in> set ls. presents_token t l)"
proof (induction ls arbitrary: a)
  case Nil
  then show ?case by (simp add: token_accepted_def)
next
  case (Cons l ls)
  then have "token_accepted t ls (authorize_line t a (trim_eol l))" by (simp add: token_accepted_def)
  from Cons.IH [OF this] show ?case
    by (auto simp: authorize_line_def presents_token_def split: option.split_asm if_split_asm)
qed

text \<open>
  The head of a request the gateway lets through: a CONNECT line for the relay it serves,
  header lines of which the last that names a token names the right one, and a blank line.
\<close>

definition admitted ::
    "socket_reads \<Rightarrow> string \<Rightarrow> string \<Rightarrow> string \<Rightarrow> string list \<Rightarrow> string \<Rightarrow> reader \<Rightarrow> bool" where
  "admitted reads relay_addr expected_token request ls blank r \<longleftrightarrow>
     buf.lines_read (request # ls @ [blank]) (reader_new reads) r \<and>
     request_words request = (''CONNECT'', relay_addr) \<and> header_lines ls \<and>
     blank \<noteq> [] \<and> trim_eol blank = [] \<and> token_accepted expected_token ls False"

lemma request_words_Nil: "request_words [] \<noteq> (''CONNECT'', a)"
  by (simp add: request_words_def) code_simp

lemma handle_connection_admitted:
  assumes "admitted reads relay_addr t request ls blank r"
  shows "handle_connection env reads relay_addr t = open_tunnel env relay_addr r"
proof -
  from assms obtain r1 where r1: "read_line (reader_new reads) = (Inr request, r1)"
      "buf.lines_read (ls @ [blank]) r1 r" "request_words request = (''CONNECT'', relay_addr)"
      "header_lines ls" "blank \<noteq> []" "trim_eol blank = []" "token_accepted t ls False"
    unfolding admitted_def by auto
  have "request \<noteq> []" using r1(3) request_words_Nil by metis
  with r1 header_loop_run [OF r1(2,4-6), of t False] show ?thesis
    by (simp add: handle_connection_def)
qed

lemma reject_effects: "reject env s b = (res, effs) \<Longrightarrow> set effs \<subseteq> range WroteClient"
  by (auto simp: reject_def Let_def split: option.split_asm)

lemma handle_connection_cases:
  assumes "handle_connection env reads relay_addr t = (res, effs)"
  shows "(\<exists>request ls blank r. admitted reads relay_addr t request ls blank r \<and>
            open_tunnel env relay_addr r = (res, effs)) \<or> set effs \<subseteq> range WroteClient"
proof -
  consider (tunnel) request r1 r where "read_line (reader_new reads) = (Inr request, r1)"
      "request_words request = (''CONNECT'', relay_addr)" "header_loop t r1 False = (Inr (Some True), r)"
      "open_tunnel env relay_addr r = (res, effs)"
    | (other) "set effs \<subseteq> range WroteClient"
    using assms reject_effects
    by (fastforce simp: handle_connection_def Let_def split: prod.split_asm sum.split_asm option.split_asm if_split_asm)
  then show ?thesis
  proof cases
    case tunnel
    from header_loop_sound [OF tunnel(3)] obtain ls blank where
      "buf.lines_read (ls @ [blank]) r1 r" "header_lines ls" "blank \<noteq> []" "trim_eol blank = []"
      "token_accepted t ls False" by auto
    with tunnel have "admitted reads relay_addr t request ls blank r" by (auto simp: admitted_def)
    with tunnel(4) show ?thesis by blast
  qed blast
qed

section \<open>Properties\<close>

text \<open>
  C13: the gateway opens a tunnel exactly for authorized requests to its one relay. It connects
  to an address if and only if this is the relay it serves, reachable, and the connection
  started with a CONNECT for it whose headers present the token and end in a blank line. What
  the tunnel carries to the relay is the client's stream after that head, less the bytes that
  had been read ahead with it; no byte of the head reaches the relay.\<close>

theorem gateway_tunnels_iff_authorized:
  assumes "handle_connection env reads relay_addr t = (res, effs)"
  shows "(\<forall>a. ConnectedRelay a \<in> set effs \<longleftrightarrow>
      a = relay_addr \<and> gw_connect env relay_addr = None \<and>
      (\<exists>request ls blank r. admitted reads relay_addr t request ls blank r)) \<and>
    (\<forall>bytes. Tunnel bytes \<in> set effs \<longrightarrow>
      (\<exists>request ls blank r. admitted reads relay_addr t request ls blank r \<and>
         (\<exists>l \<in> set ls. presents_token t l) \<and> bytes = stream_bytes (rd_reads r) \<and>
         stream_bytes reads = as_bytes (request @ concat ls @ blank) @ rd_buf r @ bytes))"
proof (intro conjI allI impI)
  have split: "stream_bytes reads = as_bytes (request @ concat ls @ blank) @ rd_buf r @ stream_bytes (rd_reads r)"
    if "admitted reads relay_addr t request ls blank r" for request ls blank r
    using that buf.lines_read_splits [of "request # ls @ [blank]" "reader_new reads" r]
    by (simp add: admitted_def pending_def reader_new_def)
  fix a
  show "ConnectedRelay a \<in> set effs \<longleftrightarrow> a = relay_addr \<and> gw_connect env relay_addr = None \<and>
      (\<exists>request ls blank r. admitted reads relay_addr t request ls blank r)"
  proof
    assume in_effs: "ConnectedRelay a \<in> set effs"
    then obtain request ls blank r where "admitted reads relay_addr t request ls blank r"
      and "open_tunnel env relay_addr r = (res, effs)"
      using handle_connection_cases [OF assms] by auto
    with in_effs show "a = relay_addr \<and> gw_connect env relay_addr = None \<and>
        (\<exists>request ls blank r. admitted reads relay_addr t request ls blank r)"
      by (auto simp: open_tunnel_def split: option.split_asm)
  next
    assume ok: "a = relay_addr \<and> gw_connect env relay_addr = None \<and>
        (\<exists>request ls blank r. admitted reads relay_addr t request ls blank r)"
    then obtain r where "open_tunnel env relay_addr r = (res, effs)"
      using handle_connection_admitted assms by metis
    with ok show "ConnectedRelay a \<in> set effs"
      by (auto simp: open_tunnel_def split: option.split_asm)
  qed
  fix bytes
  assume "Tunnel bytes \<in> set effs"
  with handle_connection_cases [OF assms] obtain request ls blank r where
    r: "admitted reads relay_addr t request ls blank r" and "open_tunnel env relay_addr r = (res, effs)"
    by auto
  then have "bytes = stream_bytes (rd_reads r)"
    using \<open>Tunnel bytes \<in> set effs\<close> by (auto simp: open_tunnel_def split: option.split_asm)
  moreover have "\<exists>l \<in> set ls. presents_token t l"
    using r token_accepted_presented [of t ls False] by (simp add: admitted_def)
  ultimately show "\<exists>request ls blank r. admitted reads relay_addr t request ls blank r \<and>
      (\<exists>l \<in> set ls. presents_token t l) \<and> bytes = stream_bytes (rd_reads r) \<and>
      stream_bytes reads = as_bytes (request @ concat ls @ blank) @ rd_buf r @ bytes"
    using r split [OF r] by blast
qed

text \<open>A tunnel request in one read, the tunnelled bytes in the next.\<close>

definition demo_head :: string where
  "demo_head = ''CONNECT r:1 H'' @ CRLF @ ''authorization: Bearer t'' @ CRLF @ CRLF"

definition demo_gateway :: gateway_env where
  "demo_gateway = \<lparr>gw_write = (\<lambda>b. None), gw_connect = (\<lambda>a. None), gw_copy = None\<rparr>"

theorem gateway_tunnels_iff_authorized_witness:
  "\<exists>effs. handle_connection demo_gateway [Inr (as_bytes demo_head), Inr [1, 2]] ''r:1'' ''t'' = (Inr (), effs) \<and>
     ConnectedRelay ''r:1'' \<in> set effs \<and> Tunnel [1, 2] \<in> set effs \<and>
     (\<exists>request ls blank r. admitted [Inr (as_bytes demo_head), Inr [1, 2]] ''r:1'' ''t'' request ls blank r)"
proof -
  have h: "handle_connection demo_gateway [Inr (as_bytes demo_head), Inr [1, 2]] ''r:1'' ''t''
      = (Inr (), [ConnectedRelay ''r:1'', WroteClient established, Tunnel [1, 2]])"
    by code_simp
  from gateway_tunnels_iff_authorized [OF h] h show ?thesis by fastforce
qed

section \<open>The running gateway\<close>

definition handled_by :: "gateway_cli \<Rightarrow> connection \<Rightarrow> handled" where
  "handled_by cli c = handle_connection (fst c) (snd c) (gw_relay_addr cli) (gw_token cli)"

text \<open>
  Connections do not disturb each other: whatever a handler runs into, the connections that
  follow are accepted and handled as if they had come alone.
\<close>

lemma accept_loop_serves_all:
  "accept_loop cli (map Inr cs) = (None, map (handled_by cli) cs)"
  "accept_loop cli (map Inr cs @ Inl e # accepts) = (Some (AcceptFailed e), map (handled_by cli) cs)"
  by (induction cs) (auto simp: handled_by_def Let_def)

lemma accept_loop_handled:
  "accept_loop cli accepts = (exit, tasks) \<Longrightarrow> task \<in> set tasks \<Longrightarrow>
     \<exists>env reads. Inr (env, reads) \<in> set accepts \<and> task = handled_by cli (env, reads)"
proof (induction accepts arbitrary: exit tasks)
  case (Cons a accepts)
  obtain rest_exit rest where rest: "accept_loop cli accepts = (rest_exit, rest)" by fastforce
  with Cons.prems consider env reads where "a = Inr (env, reads)" "task = handled_by cli (env, reads)"
    | "task \<in> set rest"
    by (cases a) (auto simp: handled_by_def Let_def)
  then show ?case using Cons.IH [OF rest] by cases auto
qed simp

text \<open>In every run, the only address the gateway connects to is its relay, for admitted requests.\<close>

lemma gateway_connects_only_to_relay:
  assumes "gateway_main net cli accepts = (exit, tasks)" and "(res, effs) \<in> set tasks"
    and "ConnectedRelay a \<in> set effs"
  shows "a = gw_relay_addr cli \<and>
    (\<exists>env reads request ls blank r. Inr (env, reads) \<in> set accepts \<and>
       admitted reads (gw_relay_addr cli) (gw_token cli) request ls blank r)"
proof -
  have "accept_loop cli accepts = (exit, tasks)"
    using assms(1,2) by (auto simp: gateway_main_def split: option.split_asm)
  from accept_loop_handled [OF this assms(2)] obtain env reads where
    r: "Inr (env, reads) \<in> set accepts"
      "handle_connection env reads (gw_relay_addr cli) (gw_token cli) = (res, effs)"
    by (auto simp: handled_by_def)
  with handle_connection_cases [OF r(2)] assms(3) show ?thesis
    by (fastforce simp: open_tunnel_def split: option.split_asm)
qed

text \<open>A client that does not wait for the answer loses what arrived with the head.\<close>

lemma early_bytes_are_lost:
  "handle_connection demo_gateway [Inr (as_bytes demo_head @ [1, 2]), Inr [3]] ''r:1'' ''t''
     = (Inr (), [ConnectedRelay ''r:1'', WroteClient established, Tunnel [3]])"
  by code_simp

end
