(* ===== verification/Local_Proxy.thy ===== *)
theory Local_Proxy
  imports Backends Buf_Reader App_Error
begin

text \<open>
  \<open>tools/local-proxy\<close>: the proxy that local applications talk to. \<open>lib.rs\<close> forwards their
  requests to the relay over attested TLS, directly or through a CONNECT gateway; \<open>main.rs\<close>
  turns the command line into a verifier and pins. Sockets, \<open>hyper\<close>, \<open>rustls\<close>, \<open>hex\<close> and \<open>url\<close>
  are parameters.
\<close>

section \<open>Transport\<close>

definition relay_authority :: "url \<Rightarrow> string + string" where
  "relay_authority u =
     rbind (ok_or ''relay endpoint missing host'' (url_host_str u)) (\<lambda>host.
     rbind (ok_or ''relay endpoint missing port'' (url_port_or_known_default u)) (\<lambda>port.
     Inr (host @ '':'' @ port_string port)))"

text \<open>
  Connecting to an address, writing to the stream, and what the stream then delivers.
\<close>

record 's transport_env =
  tr_connect :: "string \<Rightarrow> string + 's"
  tr_write :: "'s \<Rightarrow> byte list \<Rightarrow> string option"
  tr_reads :: "'s \<Rightarrow> byte list \<Rightarrow> socket_reads"

text \<open>The stream handed to TLS: its peer, what was written on it, and what it still delivers.\<close>

record 's transport =
  tp_stream :: 's
  tp_addr :: string
  tp_written :: "byte list"
  tp_reads :: socket_reads

definition connect_request :: "string \<Rightarrow> string \<Rightarrow> string" where
  "connect_request authority token =
     ''CONNECT '' @ authority @ '' HTTP/1.1'' @ CRLF @ ''Host: '' @ authority @ CRLF
     @ ''Authorization: Bearer '' @ token @ CRLF @ CRLF"

function skip_headers :: "reader \<Rightarrow> string + reader" where
  "skip_headers r =
     (case read_line r of
        (Inl e, r') \<Rightarrow> Inl e
      | (Inr line, r') \<Rightarrow>
          if line = [] then Inl ''gateway closed before tunnel establishment''
          else if line = CRLF \<or> line = [LF] then Inr r'
          else skip_headers r')"
  by pat_completeness auto
termination
  by (relation "measure read_size") (simp, metis in_measure read_line_decreases)

declare skip_headers.simps [simp del]

definition connect_transport ::
    "'s transport_env \<Rightarrow> url \<Rightarrow> string option \<Rightarrow> string option \<Rightarrow> string + 's transport" where
  "connect_transport env relay_base gateway_addr gateway_token =
     (case gateway_addr of
        Some addr \<Rightarrow>
          rbind (map_err (\<lambda>e. ''failed to connect gateway '' @ addr) (tr_connect env addr)) (\<lambda>stream.
          rbind (relay_authority relay_base) (\<lambda>authority.
          rbind (ok_or ''gateway token is required with gateway addr'' gateway_token) (\<lambda>token.
          let request = as_bytes (connect_request authority token)
          in case tr_write env stream request of
               Some e \<Rightarrow> Inl e
             | None \<Rightarrow>
                 (case read_line (reader_new (tr_reads env stream request)) of
                    (Inl e, r) \<Rightarrow> Inl e
                  | (Inr status, r) \<Rightarrow>
                      if \<not> contains status '' 200 '' then Inl (''gateway CONNECT failed: '' @ trim status)
                      else rbind (skip_headers r) (\<lambda>r'.
                           Inr \<lparr>tp_stream = stream, tp_addr = addr, tp_written = request,
                                tp_reads = rd_reads r'\<rparr>)))))
      | None \<Rightarrow>
          rbind (relay_authority relay_base) (\<lambda>addr.
          rbind (map_err (\<lambda>e. ''failed to connect relay '' @ addr) (tr_connect env addr)) (\<lambda>stream.
          Inr \<lparr>tp_stream = stream, tp_addr = addr, tp_written = [], tp_reads = tr_reads env stream []\<rparr>)))"

section \<open>The connector\<close>

record AttestedConnector =
  ac_relay_base :: url
  ac_gateway_addr :: "string option"
  ac_gateway_token :: "string option"
  ac_tls :: tls_settings

text \<open>\<open>ServerName::try_from\<close> and the TLS handshake over a stream.\<close>

record ('s, 't) connector_env =
  ce_transport :: "'s transport_env"
  ce_server_name :: "string \<Rightarrow> bool"
  ce_handshake :: "AttestedCertVerifier \<Rightarrow> string \<Rightarrow> 's transport \<Rightarrow> string + 't"

definition connector_call ::
    "('s, 't) connector_env \<Rightarrow> backend_env \<Rightarrow> AttestedConnector \<Rightarrow> string + 't" where
  "connector_call env be c =
     rbind (connect_transport (ce_transport env) (ac_relay_base c) (ac_gateway_addr c) (ac_gateway_token c))
       (\<lambda>tcp.
     rbind (ok_or ''relay endpoint missing host'' (url_host_str (ac_relay_base c))) (\<lambda>host.
     if \<not> ce_server_name env host then Inl ''invalid relay TLS server name''
     else map_err (\<lambda>e. ''attested TLS connection to relay failed'')
            (ce_handshake env (settings_config be (ac_tls c)) host tcp)))"

section \<open>Errors\<close>

record LocalProxyError =
  lpe_status :: u16
  lpe_message :: string

definition internal_error :: "string \<Rightarrow> LocalProxyError" where
  "internal_error message = \<lparr>lpe_status = 500, lpe_message = message\<rparr>"

definition bad_gateway :: "string \<Rightarrow> LocalProxyError" where
  "bad_gateway message = \<lparr>lpe_status = 502, lpe_message = message\<rparr>"

definition local_redact_sensitive_part :: "string \<Rightarrow> string" where
  "local_redact_sensitive_part part =
     (let lower = to_ascii_lowercase part
      in if prefix ''authorization'' lower \<or> prefix ''bearer'' lower \<or> contains lower ''token''
            \<or> contains lower ''secret'' \<or> contains lower ''api_key''
         then redacted
         else (case find_sub ''sk-'' part of
                 Some pos \<Rightarrow>
                   (let pre = take pos part; rest = drop pos part;
                        token_len = length (takeWhile key_char rest)
                    in if 8 \<le> token_len then pre @ redacted @ drop token_len rest else part)
               | None \<Rightarrow> part))"

definition local_redact_sensitive :: "string \<Rightarrow> string" where
  "local_redact_sensitive raw = join '' '' (map local_redact_sensitive_part (split_whitespace raw))"

definition local_error_body :: "string \<Rightarrow> string" where
  "local_error_body safe_message =
     ''{\"error\":{\"message\":\"'' @ replace_char CHR 0x22 CHR 0x27 safe_message
     @ ''\",\"type\":\"local_proxy_error\"}}''"

definition local_error_response :: "LocalProxyError \<Rightarrow> u16 \<times> string" where
  "local_error_response e = (lpe_status e, local_error_body (local_redact_sensitive (lpe_message e)))"

section \<open>Forwarding\<close>

record local_request =
  lr_method :: string
  lr_path_and_query :: "string option"
  lr_headers :: "(string \<times> byte list) list"
  lr_body :: "byte list"

record relay_request =
  rr_method :: string
  rr_uri :: string
  rr_headers :: "(string \<times> byte list) list"
  rr_body :: "byte list"

record relay_reply =
  rp_status :: u16
  rp_headers :: "(string \<times> byte list) list"
  rp_body :: "byte list"

text \<open>Header names are in lower case; \<open>remove\<close> drops every value of a name.\<close>

definition sanitize_local_headers :: "(string \<times> byte list) list \<Rightarrow> (string \<times> byte list) list" where
  "sanitize_local_headers headers =
     filter (\<lambda>h. fst h \<noteq> ''host'') (filter (\<lambda>h. fst h \<noteq> ''authorization'') headers)"

record local_state =
  ls_connector :: AttestedConnector
  ls_relay_base :: url

text \<open>
  \<open>lp_uri\<close> tells whether a string parses as a URI; \<open>lp_request\<close> is the pooled HTTP client over
  the connector.
\<close>

record local_env =
  lp_uri :: "string \<Rightarrow> bool"
  lp_request :: "AttestedConnector \<Rightarrow> relay_request \<Rightarrow> string + relay_reply"

text \<open>The result, with the request that was handed to the client.\<close>

definition proxy_request ::
    "local_env \<Rightarrow> local_state \<Rightarrow> local_request \<Rightarrow> relay_request option \<times> (LocalProxyError + relay_reply)" where
  "proxy_request env state request =
     (let path_and_query = (case lr_path_and_query request of Some pq \<Rightarrow> pq | None \<Rightarrow> ''/'')
      in case relay_authority (ls_relay_base state) of
           Inl e \<Rightarrow> (None, Inl (internal_error (''invalid relay endpoint: '' @ e)))
         | Inr authority \<Rightarrow>
             (let uri = url_scheme (ls_relay_base state) @ ''://'' @ authority @ path_and_query
              in if \<not> lp_uri env uri then (None, Inl (internal_error ''failed to build relay URI: ''))
                 else
                   let out = \<lparr>rr_method = lr_method request, rr_uri = uri,
                              rr_headers = sanitize_local_headers (lr_headers request),
                              rr_body = lr_body request\<rparr>
                   in (Some out,
                       map_err (\<lambda>e. bad_gateway (''relay request failed: '' @ e))
                         (lp_request env (ls_connector state) out))))"

datatype local_reply =
    LocalHealth string
  | LocalMethodNotAllowed
  | LocalRelayed relay_reply
  | LocalError u16 string

definition local_router ::
    "local_env \<Rightarrow> local_state \<Rightarrow> string \<Rightarrow> local_request \<Rightarrow> relay_request option \<times> local_reply" where
  "local_router env state target request =
     (if target = ''/health'' then
        (None, if lr_method request \<in> {''GET'', ''HEAD''} then LocalHealth ''ok'' else LocalMethodNotAllowed)
      else (case proxy_request env state request of
              (sent, Inl e) \<Rightarrow> (sent, case local_error_response e of (s, b) \<Rightarrow> LocalError s b)
            | (sent, Inr r) \<Rightarrow> (sent, LocalRelayed r)))"

record RunConfig =
  run_listen :: string
  run_relay_endpoint :: string
  run_gateway_addr :: "string option"
  run_gateway_token :: "string option"
  run_tls :: tls_settings

text \<open>\<open>run\<close> up to the state the router serves with; \<open>bind\<close> is the error of the listener.\<close>

definition local_run :: "url_parser \<Rightarrow> string option \<Rightarrow> RunConfig \<Rightarrow> string + local_state" where
  "local_run url_parse bind cfg =
     rbind (ok_or ''invalid relay endpoint'' (url_parse (run_relay_endpoint cfg))) (\<lambda>relay_base.
     if url_scheme relay_base \<noteq> HTTPS then Inl ''relay endpoint must use https://''
     else (case bind of
             Some e \<Rightarrow> Inl e
           | None \<Rightarrow>
               Inr \<lparr>ls_connector = \<lparr>ac_relay_base = relay_base, ac_gateway_addr = run_gateway_addr cfg,
                                    ac_gateway_token = run_gateway_token cfg, ac_tls = run_tls cfg\<rparr>,
                    ls_relay_base = relay_base\<rparr>))"

section \<open>The command line\<close>

datatype AttestationBackend = BackendSevSnp | BackendGcp | BackendMock

record local_cli =
  lc_listen :: string
  lc_relay_endpoint :: string
  lc_gateway_addr :: "string option"
  lc_gateway_token :: "string option"
  lc_backend :: AttestationBackend
  lc_expected_measurement :: string
  lc_expected_config_hash :: string
  lc_gcp_cs_audience :: string
  lc_gcp_cs_image_digest :: "string option"
  lc_gcp_cs_image_reference :: "string option"
  lc_gcp_cs_signature_key_id :: "string list"
  lc_gcp_cs_service_account :: "string option"
  lc_gcp_cs_project_id :: "string option"
  lc_gcp_cs_zone :: "string option"
  lc_allow_audit :: bool

type_synonym hex_decode = "string \<Rightarrow> byte list option"

definition parse_hex_vec :: "hex_decode \<Rightarrow> string \<Rightarrow> string + byte list" where
  "parse_hex_vec hex raw = ok_or ''invalid hex'' (hex (strip_0x raw))"

definition parse_hash32 :: "hex_decode \<Rightarrow> string \<Rightarrow> string + byte list" where
  "parse_hash32 hex raw =
     rbind (ok_or ''invalid hex'' (hex (strip_0x raw))) (\<lambda>bytes.
     if length bytes \<noteq> 32 then Inl (''expected 32-byte hash, got '' @ decimal (length bytes) @ '' bytes'')
     else Inr bytes)"

definition local_verifier_for_backend :: "gcp_env \<Rightarrow> features \<Rightarrow> local_cli \<Rightarrow> string + dyn_verifier" where
  "local_verifier_for_backend genv ft cli =
     (case lc_backend cli of
        BackendSevSnp \<Rightarrow>
          if ft_sev_snp ft then Inr SevSnpVerifier else Inl ''backend=sev-snp requires the sev-snp feature''
      | BackendGcp \<Rightarrow>
          if ft_gcp_confidential_space ft then
            let pol = (policy_new (lc_gcp_cs_audience cli))
                  \<lparr>pol_image_digest := lc_gcp_cs_image_digest cli,
                   pol_image_reference := lc_gcp_cs_image_reference cli,
                   pol_signature_key_ids := lc_gcp_cs_signature_key_id cli,
                   pol_service_account := lc_gcp_cs_service_account cli,
                   pol_project_id := lc_gcp_cs_project_id cli,
                   pol_zone := lc_gcp_cs_zone cli\<rparr>
            in if lc_allow_audit cli then Inr (GcpVerifier (verifier_new_audit pol))
               else rbind (map_err (\<lambda>e. ''invalid policy'') (verifier_new genv pol)) (\<lambda>v. Inr (GcpVerifier v))
          else Inl ''backend=gcp-confidential-space requires the gcp-confidential-space feature''
      | BackendMock \<Rightarrow>
          if ft_mock ft then Inr MockVerifier else Inl ''backend=mock requires the mock feature'')"

definition local_measurement :: "hex_decode \<Rightarrow> local_cli \<Rightarrow> string + measurement" where
  "local_measurement hex cli =
     (if lc_backend cli = BackendGcp then Inr None
      else if lc_allow_audit cli \<and> lc_expected_measurement cli = [] then Inr None
      else if lc_expected_measurement cli = [] then Inl ''--expected-measurement is required for ''
      else rbind (map_err (\<lambda>e. ''invalid --expected-measurement'') (parse_hex_vec hex (lc_expected_measurement cli)))
             (\<lambda>m. Inr (Some m)))"

definition local_config_hash :: "hex_decode \<Rightarrow> local_cli \<Rightarrow> string + byte list option" where
  "local_config_hash hex cli =
     (if lc_allow_audit cli \<and> lc_expected_config_hash cli = [] then Inr None
      else rbind (map_err (\<lambda>e. ''invalid --expected-config-hash'') (parse_hash32 hex (lc_expected_config_hash cli)))
             (\<lambda>h. Inr (Some h)))"

text \<open>\<open>main\<close> up to the call of \<open>run\<close>; \<open>socket_addr\<close> tells whether a listen address parses.\<close>

definition local_main ::
    "gcp_env \<Rightarrow> features \<Rightarrow> hex_decode \<Rightarrow> (string \<Rightarrow> bool) \<Rightarrow> local_cli \<Rightarrow> string + RunConfig" where
  "local_main genv ft hex socket_addr cli =
     (if \<not> socket_addr (lc_listen cli) then Inl ''invalid --listen''
      else
        rbind (local_verifier_for_backend genv ft cli) (\<lambda>v.
        rbind (local_measurement hex cli) (\<lambda>m.
        rbind (local_config_hash hex cli) (\<lambda>h.
        Inr \<lparr>run_listen = lc_listen cli, run_relay_endpoint = lc_relay_endpoint cli,
             run_gateway_addr = lc_gateway_addr cli, run_gateway_token = lc_gateway_token cli,
             run_tls = \<lparr>ts_verifier = v, ts_measurement = m, ts_config_hash = h\<rparr>\<rparr>))))"

section \<open>Lemmas\<close>

lemma local_redaction_is_relay_redaction: "local_redact_sensitive = redact_sensitive"
proof -
  have "local_redact_sensitive_part = redact_sensitive_part"
    by (rule ext) (simp add: local_redact_sensitive_part_def redact_sensitive_part_def sensitive_word_def
        disj_commute disj_left_commute)
  then show ?thesis by (intro ext) (simp only: local_redact_sensitive_def redact_sensitive_def)
qed

lemma relay_authority_eq_Inr [result_simps]:
  "relay_authority u = Inr a \<longleftrightarrow>
     (\<exists>host port. url_host_str u = Some host \<and> url_port_or_known_default u = Some port \<and>
        a = host @ '':'' @ port_string port)"
  by (auto simp: relay_authority_def result_simps)

lemma local_run_eq_Inr [result_simps]:
  "local_run url_parse bind cfg = Inr state \<longleftrightarrow>
     bind = None \<and> (\<exists>base. url_parse (run_relay_endpoint cfg) = Some base \<and> url_scheme base = HTTPS \<and>
       state = \<lparr>ls_connector = \<lparr>ac_relay_base = base, ac_gateway_addr = run_gateway_addr cfg,
                                ac_gateway_token = run_gateway_token cfg, ac_tls = run_tls cfg\<rparr>,
                ls_relay_base = base\<rparr>)"
  by (cases bind) (auto simp: local_run_def result_simps)

lemma proxy_request_sent:
  assumes "proxy_request env state req = (sent, r)"
  shows "sent = None \<longrightarrow> (\<exists>e. r = Inl (internal_error e))"
    and "\<forall>out. sent = Some out \<longrightarrow>
      (\<exists>authority. relay_authority (ls_relay_base state) = Inr authority \<and>
         out = \<lparr>rr_method = lr_method req,
                rr_uri = url_scheme (ls_relay_base state) @ ''://'' @ authority
                         @ (case lr_path_and_query req of Some pq \<Rightarrow> pq | None \<Rightarrow> ''/''),
                rr_headers = sanitize_local_headers (lr_headers req), rr_body = lr_body req\<rparr>) \<and>
      r = map_err (\<lambda>e. bad_gateway (''relay request failed: '' @ e)) (lp_request env (ls_connector state) out)"
  using assms by (auto simp: proxy_request_def Let_def split: sum.split_asm if_split_asm)

lemma sanitize_local_headers_filter:
  "sanitize_local_headers hs = filter (\<lambda>h. fst h \<notin> {''authorization'', ''host''}) hs"
  by (simp add: sanitize_local_headers_def conj_commute)

section \<open>Properties\<close>

text \<open>
  C29: the local proxy forwards faithfully and nothing it should keep. A request it hands on
  goes to the relay's own authority over https, with method, body, path and query unchanged
  and with every header but the local Authorization and Host in place; health checks stay
  local. The application sees the relay's response exactly when there was one, and otherwise
  an error 500 (nothing sent) or 502 whose message went through the same redaction as the
  relay's.\<close>

theorem local_proxy_forwards:
  assumes "local_run url_parse bind cfg = Inr state" and "local_router env state target req = (sent, reply)"
  shows "(\<forall>out. sent = Some out \<longrightarrow> target \<noteq> ''/health'' \<and>
      (\<exists>base host port. url_parse (run_relay_endpoint cfg) = Some base \<and> url_host_str base = Some host \<and>
         url_port_or_known_default base = Some port \<and>
         rr_uri out = HTTPS @ ''://'' @ host @ '':'' @ port_string port
                      @ (case lr_path_and_query req of Some pq \<Rightarrow> pq | None \<Rightarrow> ''/'')) \<and>
      rr_method out = lr_method req \<and> rr_body out = lr_body req \<and>
      rr_headers out = filter (\<lambda>h. fst h \<notin> {''authorization'', ''host''}) (lr_headers req)) \<and>
    (\<forall>r. reply = LocalRelayed r \<longleftrightarrow> (\<exists>out. sent = Some out \<and> lp_request env (ls_connector state) out = Inr r)) \<and>
    (\<forall>s b. reply = LocalError s b \<longrightarrow> s = (if sent = None then 500 else 502) \<and>
       (\<exists>msg. b = local_error_body (redact_sensitive msg))) \<and>
    (sent = None \<longrightarrow> target = ''/health'' \<or> (\<exists>b. reply = LocalError 500 b))"
proof (cases "target = ''/health''")
  case True
  with assms(2) show ?thesis by (auto simp: local_router_def split: if_split_asm)
next
  case False
  obtain r where r: "proxy_request env state req = (sent, r)"
      "reply = (case r of Inl e \<Rightarrow> LocalError (lpe_status e) (local_error_body (redact_sensitive (lpe_message e)))
                | Inr a \<Rightarrow> LocalRelayed a)"
    using assms(2) False
    by (cases "proxy_request env state req")
       (auto simp: local_router_def local_error_response_def local_redaction_is_relay_redaction
         split: sum.splits)
  note s = proxy_request_sent [OF r(1)]
  from assms(1) obtain base where base: "url_parse (run_relay_endpoint cfg) = Some base"
      "url_scheme base = HTTPS" "ls_relay_base state = base"
    by (auto simp: result_simps)
  show ?thesis
  proof (cases sent)
    case None
    with s(1) obtain e where "r = Inl (internal_error e)" by auto
    with None False r(2) show ?thesis by (auto simp: internal_error_def)
  next
    case (Some out)
    with s(2) base have out: "\<exists>host port. url_host_str base = Some host \<and> url_port_or_known_default base = Some port \<and>
        rr_uri out = HTTPS @ ''://'' @ host @ '':'' @ port_string port
                     @ (case lr_path_and_query req of Some pq \<Rightarrow> pq | None \<Rightarrow> ''/'')"
      "rr_method out = lr_method req \<and> rr_body out = lr_body req \<and> rr_headers out = sanitize_local_headers (lr_headers req)"
      "r = map_err (\<lambda>e. bad_gateway (''relay request failed: '' @ e)) (lp_request env (ls_connector state) out)"
      by (fastforce simp: result_simps)+
    then show ?thesis
      using Some False r(2) base(1)
      by (cases "lp_request env (ls_connector state) out")
         (auto simp: bad_gateway_def sanitize_local_headers_filter)
  qed
qed

text \<open>A relay URL for the examples.\<close>

definition demo_run_config :: RunConfig where
  "demo_run_config = \<lparr>run_listen = ''127.0.0.1:1'', run_relay_endpoint = ''https://h'', run_gateway_addr = None,
     run_gateway_token = None,
     run_tls = \<lparr>ts_verifier = MockVerifier, ts_measurement = None, ts_config_hash = Some demo_hash\<rparr>\<rparr>"

definition demo_connector :: AttestedConnector where
  "demo_connector = \<lparr>ac_relay_base = demo_gcp_url, ac_gateway_addr = None, ac_gateway_token = None,
     ac_tls = run_tls demo_run_config\<rparr>"

definition demo_local_state :: local_state where
  "demo_local_state = \<lparr>ls_connector = demo_connector, ls_relay_base = demo_gcp_url\<rparr>"

definition demo_local_request :: local_request where
  "demo_local_request = \<lparr>lr_method = ''POST'', lr_path_and_query = Some ''/v1'',
     lr_headers = [(''authorization'', [1]), (''accept'', [2])], lr_body = [3]\<rparr>"

definition demo_local_env :: local_env where
  "demo_local_env = \<lparr>lp_uri = (\<lambda>u. True), lp_request = (\<lambda>c r. Inr \<lparr>rp_status = 200, rp_headers = [], rp_body = []\<rparr>)\<rparr>"

lemma demo_local_run: "local_run (\<lambda>s. Some demo_gcp_url) None demo_run_config = Inr demo_local_state"
  by (simp add: local_run_eq_Inr demo_local_state_def demo_connector_def demo_run_config_def demo_gcp_url_def)

theorem local_proxy_forwards_witness:
  "\<exists>out. local_router demo_local_env demo_local_state ''/v1'' demo_local_request
       = (Some out, LocalRelayed \<lparr>rp_status = 200, rp_headers = [], rp_body = []\<rparr>) \<and>
     rr_headers out = [(''accept'', [2])] \<and> rr_body out = [3]"
proof -
  let ?out = "\<lparr>rr_method = ''POST'', rr_uri = HTTPS @ ''://'' @ ''h'' @ '':'' @ port_string 443 @ ''/v1'',
    rr_headers = sanitize_local_headers (lr_headers demo_local_request), rr_body = [3]\<rparr>"
  have r: "local_router demo_local_env demo_local_state ''/v1'' demo_local_request
      = (Some ?out, LocalRelayed \<lparr>rp_status = 200, rp_headers = [], rp_body = []\<rparr>)"
    by (simp add: local_router_def proxy_request_def demo_local_env_def demo_local_state_def relay_authority_def
        demo_gcp_url_def demo_local_request_def)
  from local_proxy_forwards [OF demo_local_run r] r show ?thesis
    by (simp add: demo_local_request_def)
qed

section \<open>Attested traffic only\<close>

text \<open>
  Documented of \<open>rustls\<close>: the handshake succeeds only when the verifier it was configured with
  accepts the certificate the peer on the stream presents and the peer's signature under it.
\<close>

definition handshake_law ::
    "'r ring \<Rightarrow> x509_parser \<Rightarrow> (byte list \<Rightarrow> byte list) \<Rightarrow> ('s transport \<Rightarrow> byte list \<Rightarrow> bool)
       \<Rightarrow> ('s, 't) connector_env \<Rightarrow> bool" where
  "handshake_law ring x509_parse sha384 peer env \<longleftrightarrow>
     (\<forall>cfg name tcp tls. ce_handshake env cfg name tcp = Inr tls \<longrightarrow>
        (\<exists>cert. peer tcp cert \<and> handshake_checked (attested_callbacks ring x509_parse sha384 cfg) cert name))"

lemma local_hash_pinned:
  "local_config_hash hex cli = Inr h \<Longrightarrow> (\<forall>b. h = Some b \<longrightarrow> length b = 32) \<and> (\<not> lc_allow_audit cli \<longrightarrow> h \<noteq> None)"
  by (auto simp: local_config_hash_def parse_hash32_def result_simps split: if_split_asm)

lemma local_verifier_contract:
  "local_verifier_for_backend genv ft cli = Inr v \<Longrightarrow> user_contract v"
  by (auto simp: local_verifier_for_backend_def user_contract_def Let_def result_simps
      split: AttestationBackend.split_asm if_split_asm)

text \<open>
  C19: without audit mode the local proxy talks only to a pinned, attested relay. Started from
  a command line without \<open>--allow-audit\<close>, every TLS connection its connector opens is to a
  peer that proved possession of the key in its certificate, and this certificate carries
  evidence the selected backend accepted, for that very key and for a pinned configuration hash of 32 bytes; outside Confidential Space the
  measurement is pinned, for Confidential Space the policy is valid and enforced, and the
  mock verifier is used only when that backend was asked for and compiled in.\<close>

theorem local_proxy_traffic_attested:
  assumes "local_main genv ft hex socket_addr cli = Inr cfg" and "\<not> lc_allow_audit cli"
    and "local_run url_parse bind cfg = Inr state"
    and "handshake_law ring x509_parse sha384 peer env" and "sha384_law sha384"
    and "connector_call env be (ls_connector state) = Inr tls"
  shows "(\<exists>h. ts_config_hash (run_tls cfg) = Some h \<and> length h = 32) \<and>
    (lc_backend cli \<noteq> BackendGcp \<longrightarrow>
       (\<exists>m. ts_measurement (run_tls cfg) = Some m \<and> hex (strip_0x (lc_expected_measurement cli)) = Some m)) \<and>
    (lc_backend cli = BackendGcp \<longrightarrow>
       (\<exists>g. ts_verifier (run_tls cfg) = GcpVerifier g \<and> ver_enforce_workload_identity g \<and>
          policy_validate genv (ver_policy g) = Inr ())) \<and>
    (ts_verifier (run_tls cfg) = MockVerifier \<longleftrightarrow> lc_backend cli = BackendMock) \<and>
    (\<exists>tcp cert. connect_transport (ce_transport env) (ls_relay_base state) (lc_gateway_addr cli)
         (lc_gateway_token cli) = Inr tcp \<and> peer tcp cert \<and>
       proved_possession ring cert \<and> bound_to be x509_parse sha384 (run_tls cfg) cert)"
proof -
  from assms(1) have v: "local_verifier_for_backend genv ft cli = Inr (ts_verifier (run_tls cfg))"
    and m: "local_measurement hex cli = Inr (ts_measurement (run_tls cfg))"
    and h: "local_config_hash hex cli = Inr (ts_config_hash (run_tls cfg))"
    and g: "run_gateway_addr cfg = lc_gateway_addr cli" "run_gateway_token cfg = lc_gateway_token cli"
    by (auto simp: local_main_def result_simps)
  from assms(3) have c: "ls_connector state = \<lparr>ac_relay_base = ls_relay_base state,
      ac_gateway_addr = lc_gateway_addr cli, ac_gateway_token = lc_gateway_token cli, ac_tls = run_tls cfg\<rparr>"
    by (auto simp: result_simps g)
  from assms(6) obtain tcp host where tcp: "connect_transport (ce_transport env) (ls_relay_base state)
        (lc_gateway_addr cli) (lc_gateway_token cli) = Inr tcp"
      "ce_handshake env (settings_config be (run_tls cfg)) host tcp = Inr tls"
    by (auto simp: connector_call_def c result_simps)
  then obtain cert where cert: "peer tcp cert"
      "attested_verify_server_cert x509_parse sha384 (settings_config be (run_tls cfg)) cert = Inr ()"
      "proved_possession ring cert"
    using assms(4) unfolding handshake_law_def attested_peer.checked_iff by blast
  note pin = local_hash_pinned [OF h]
  have "bound_to be x509_parse sha384 (run_tls cfg) cert"
    using accepted_bound_to [OF local_verifier_contract [OF v] assms(5) conjunct1 [OF pin] cert(2)] .
  moreover have "lc_backend cli \<noteq> BackendGcp \<longrightarrow>
      (\<exists>m. ts_measurement (run_tls cfg) = Some m \<and> hex (strip_0x (lc_expected_measurement cli)) = Some m)"
    using m assms(2)
    by (cases "ts_measurement (run_tls cfg)")
       (auto simp: local_measurement_def parse_hex_vec_def result_simps split: if_split_asm)
  moreover have "lc_backend cli = BackendGcp \<longrightarrow>
      (\<exists>g. ts_verifier (run_tls cfg) = GcpVerifier g \<and> ver_enforce_workload_identity g \<and>
         policy_validate genv (ver_policy g) = Inr ())"
    using v assms(2)
    by (cases "ts_verifier (run_tls cfg)")
       (auto simp: local_verifier_for_backend_def verifier_new_def Let_def result_simps)
  moreover have "ts_verifier (run_tls cfg) = MockVerifier \<longleftrightarrow> lc_backend cli = BackendMock"
    using v by (auto simp: local_verifier_for_backend_def Let_def result_simps
        split: AttestationBackend.split_asm if_split_asm)
  ultimately show ?thesis using pin assms(2) tcp(1) cert(1,3) by (cases "ts_config_hash (run_tls cfg)") auto
qed

definition demo_cli :: local_cli where
  "demo_cli = \<lparr>lc_listen = ''l'', lc_relay_endpoint = ''https://h'', lc_gateway_addr = None, lc_gateway_token = None,
     lc_backend = BackendMock, lc_expected_measurement = ''m'', lc_expected_config_hash = ''0xc'',
     lc_gcp_cs_audience = [], lc_gcp_cs_image_digest = None, lc_gcp_cs_image_reference = None,
     lc_gcp_cs_signature_key_id = [], lc_gcp_cs_service_account = None, lc_gcp_cs_project_id = None,
     lc_gcp_cs_zone = None, lc_allow_audit = False\<rparr>"

definition demo_hex :: hex_decode where
  "demo_hex s = (if s = ''m'' then Some (replicate 32 7) else if s = ''c'' then Some demo_hash else None)"

definition demo_pinned_config :: RunConfig where
  "demo_pinned_config = \<lparr>run_listen = ''l'', run_relay_endpoint = ''https://h'', run_gateway_addr = None,
     run_gateway_token = None,
     run_tls = \<lparr>ts_verifier = MockVerifier, ts_measurement = Some (replicate 32 7), ts_config_hash = Some demo_hash\<rparr>\<rparr>"

definition demo_connector_env :: "(unit, unit) connector_env" where
  "demo_connector_env =
     \<lparr>ce_transport = \<lparr>tr_connect = (\<lambda>a. Inr ()), tr_write = (\<lambda>s b. None), tr_reads = (\<lambda>s b. [])\<rparr>,
      ce_server_name = (\<lambda>h. True),
      ce_handshake = (\<lambda>cfg name tcp.
        if attested_verify_server_cert (one_cert_parse demo_server_evidence) demo_sha384 cfg [1] = Inr ()
        then Inr () else Inl ''rejected'')\<rparr>"

theorem local_proxy_traffic_attested_witness:
  "\<exists>state cert. local_main demo_gcp \<lparr>ft_mock = True, ft_sev_snp = False, ft_gcp_confidential_space = False\<rparr>
       demo_hex (\<lambda>a. True) demo_cli = Inr demo_pinned_config \<and>
     local_run (\<lambda>s. Some demo_gcp_url) None demo_pinned_config = Inr state \<and>
     connector_call demo_connector_env demo_backends (ls_connector state) = Inr () \<and>
     bound_to demo_backends (one_cert_parse demo_server_evidence) demo_sha384 (run_tls demo_pinned_config) cert"
proof -
  let ?ft = "\<lparr>ft_mock = True, ft_sev_snp = False, ft_gcp_confidential_space = False\<rparr>"
  have main: "local_main demo_gcp ?ft demo_hex (\<lambda>a. True) demo_cli = Inr demo_pinned_config"
    by (simp add: local_main_def local_verifier_for_backend_def local_measurement_def local_config_hash_def
        parse_hex_vec_def parse_hash32_def strip_0x_def strip_prefix_def demo_hex_def demo_cli_def
        demo_pinned_config_def demo_hash_def)
  obtain state where state: "local_run (\<lambda>s. Some demo_gcp_url) None demo_pinned_config = Inr state"
      "ac_tls (ls_connector state) = run_tls demo_pinned_config" "ac_relay_base (ls_connector state) = demo_gcp_url"
      "ac_gateway_addr (ls_connector state) = None"
    by (simp add: local_run_def demo_gcp_url_def demo_pinned_config_def)
  have cfg: "settings_config demo_backends (run_tls demo_pinned_config)
      = attested_client_config (mock_verify demo_mock) (Some (replicate 32 7)) (Some demo_hash)"
    by (simp add: settings_config_def demo_pinned_config_def demo_run_mock)
  have call: "connector_call demo_connector_env demo_backends (ls_connector state) = Inr ()"
    unfolding connector_call_def state cfg
    by (simp add: demo_connector_env_def connect_transport_def relay_authority_def demo_gcp_url_def
        demo_handshake_pinned)
  have law: "handshake_law demo_ring (one_cert_parse demo_server_evidence) demo_sha384 (\<lambda>tcp cert. cert = [1]) demo_connector_env"
    by (simp add: handshake_law_def demo_connector_env_def attested_peer.checked_iff demo_possession)
  have "\<not> lc_allow_audit demo_cli" by (simp add: demo_cli_def)
  from local_proxy_traffic_attested [OF main this state(1) law demo_sha384_law call] main state(1) call
  show ?thesis by blast
qed

end
