(* ===== verification/Tunnel.thy ===== *)
theory Tunnel
  imports Local_Proxy Gateway
begin

text \<open>
  The local proxy and the gateway together: the CONNECT exchange that precedes attested TLS.
  Lines arrive in whatever pieces the network makes of them.
\<close>

section \<open>Reading lines that arrive in pieces\<close>

definition in_pieces :: "byte list list \<Rightarrow> socket_reads \<Rightarrow> socket_reads" where
  "in_pieces cs later = map Inr cs @ later"

lemma split_before: "b @ y = l @ x # t \<Longrightarrow> x \<notin> set b \<Longrightarrow> \<exists>m. l = b @ m \<and> y = m @ x # t"
proof (induction b arbitrary: l)
  case (Cons a b)
  then show ?case by (cases l) auto
qed simp

text \<open>
  Taking \<open>n\<close> bytes off a buffer and the pieces behind it: what is left in the buffer, and
  the pieces that have not been read.
\<close>

fun consume :: "nat \<Rightarrow> byte list \<Rightarrow> byte list list \<Rightarrow> byte list \<times> byte list list" where
  "consume n buf [] = (drop n buf, [])"
| "consume n buf (c # cs) = (if n \<le> length buf then (drop n buf, c # cs) else consume (n - length buf) c cs)"

lemma consume_add: "consume (m + n) buf cs = (case consume m buf cs of (buf', cs') \<Rightarrow> consume n buf' cs')"
proof (induction cs arbitrary: m buf)
  case (Cons c cs)
  then show ?case using Cons [of "m - length buf" c] by (auto simp: add.commute)
qed (simp add: add.commute)

lemma consume_left: "consume n buf cs = (buf', cs') \<Longrightarrow> buf' @ concat cs' = drop n (buf @ concat cs)"
  by (induction n buf cs rule: consume.induct) (auto split: if_split_asm)

lemma consume_pieces: "consume n buf cs = (buf', cs') \<Longrightarrow> [] \<notin> set cs \<Longrightarrow> [] \<notin> set cs'"
  by (induction n buf cs rule: consume.induct) (auto split: if_split_asm)

text \<open>The read that brings the last byte of a head may bring more: \<open>extra\<close>.\<close>

definition head_complete :: "byte list \<Rightarrow> byte list list \<Rightarrow> nat \<Rightarrow> byte list \<Rightarrow> bool" where
  "head_complete head cs k extra \<longleftrightarrow>
     concat (take k cs) = head @ extra \<and> (\<forall>j < k. length (concat (take j cs)) < length head)"

lemma consume_reads:
  assumes "consume n buf cs = (buf', cs')" and "n \<le> length (buf @ concat cs)"
  shows "\<exists>k. buf' = drop n (buf @ concat (take k cs)) \<and> cs' = drop k cs \<and>
    n \<le> length (buf @ concat (take k cs)) \<and> (\<forall>j < k. length (buf @ concat (take j cs)) < n)"
  using assms
proof (induction n buf cs rule: consume.induct)
  case (1 n buf)
  then show ?case by (auto intro!: exI [of _ 0])
next
  case (2 n buf c cs)
  show ?case
  proof (cases "n \<le> length buf")
    case True
    with 2(2) show ?thesis by (auto intro!: exI [of _ 0])
  next
    case False
    then have "consume (n - length buf) c cs = (buf', cs')" "n - length buf \<le> length (c @ concat cs)"
      using 2(2,3) by simp_all
    from 2(1) [OF False this] obtain k
      where k: "buf' = drop (n - length buf) (c @ concat (take k cs))" "cs' = drop k cs"
        "n - length buf \<le> length (c @ concat (take k cs))"
        "\<forall>j < k. length (c @ concat (take j cs)) < n - length buf"
      by blast
    have "length (buf @ concat (take j (c # cs))) < n" if "j < Suc k" for j
      using that False k(4) by (cases j) auto
    with k(1-3) False show ?thesis by (auto intro!: exI [of _ "Suc k"])
  qed
qed

lemma consume_head:
  assumes "consume (length head) [] cs = (buf', cs')" and "concat cs = head @ payload"
  shows "\<exists>k. head_complete head cs k buf' \<and> cs' = drop k cs \<and> payload = buf' @ concat (drop k cs)"
proof -
  from consume_reads [OF assms(1)] assms(2) obtain k
    where k: "buf' = drop (length head) (concat (take k cs))" "cs' = drop k cs"
      "length head \<le> length (concat (take k cs))" "\<forall>j < k. length (concat (take j cs)) < length head"
    by auto
  have "concat (take k cs) @ concat (drop k cs) = head @ payload"
    using assms(2) by (metis append_take_drop_id concat_append)
  with k(3) have "take (length head) (concat (take k cs)) = head"
    by (metis append_eq_append_conv_if append_eq_conv_conj)
  then have "concat (take k cs) = head @ buf'" unfolding k(1) by (metis append_take_drop_id)
  moreover have "payload = buf' @ concat (drop k cs)"
    using consume_left [OF assms(1)] assms(2) k(2) by simp
  ultimately show ?thesis using k(2,4) unfolding head_complete_def by blast
qed

lemma read_until_lf_pieces:
  assumes "[] \<notin> set cs" and "buf @ concat cs = l @ LF_byte # tail" and "LF_byte \<notin> set l"
    and "consume (Suc (length l)) buf cs = (buf', cs')"
  shows "read_until_lf buf (in_pieces cs later) =
    (Inr (l @ [LF_byte]), \<lparr>rd_buf = buf', rd_reads = in_pieces cs' later\<rparr>)"
  using assms
proof (induction cs arbitrary: buf l)
  case Nil
  then show ?case by (subst read_until_lf.simps) (auto simp: while_until)
next
  case (Cons c cs)
  show ?case
  proof (cases "LF_byte \<in> set buf")
    case True
    then obtain k x where b: "buf = k @ LF_byte # x" "LF_byte \<notin> set k" by (meson split_list_first)
    then have "k @ LF_byte # (x @ concat (c # cs)) = l @ LF_byte # tail" using Cons.prems(2) by simp
    then have "k = l" using while_until(1) [OF b(2)] while_until(1) [OF Cons.prems(3)] by metis
    with b Cons.prems(4) show ?thesis by (subst read_until_lf.simps) (auto simp: while_until)
  next
    case False
    with Cons.prems(2) obtain m where l: "l = buf @ m" "c @ concat cs = m @ LF_byte # tail"
      using split_before [of buf "concat (c # cs)" l LF_byte tail] by auto
    moreover have "consume (Suc (length m)) c cs = (buf', cs')"
      using Cons.prems(4) l(1) by (simp add: Suc_diff_le)
    ultimately have "read_until_lf c (in_pieces cs later) =
        (Inr (m @ [LF_byte]), \<lparr>rd_buf = buf', rd_reads = in_pieces cs' later\<rparr>)"
      using Cons.IH [of c m] Cons.prems(1,3) by auto
    then show ?thesis
      using False Cons.prems(1) l(1) by (subst read_until_lf.simps) (auto simp: in_pieces_def)
  qed
qed

definition plain_line :: "string \<Rightarrow> bool" where
  "plain_line s \<longleftrightarrow> (\<exists>l. s = l @ [LF] \<and> LF \<notin> set l) \<and> utf8_valid (as_bytes s)"

lemma consume_0: "consume 0 buf cs = (buf, cs)"
  by (cases cs) simp_all

lemma lines_read_pieces:
  assumes "[] \<notin> set cs" and "buf @ concat cs = as_bytes (concat ls) @ payload" and "list_all plain_line ls"
    and "consume (length (concat ls)) buf cs = (buf', cs')" and "ls \<noteq> []"
  shows "buf.lines_read ls \<lparr>rd_buf = buf, rd_reads = in_pieces cs later\<rparr>
    \<lparr>rd_buf = buf', rd_reads = in_pieces cs' later\<rparr>"
  using assms
proof (induction ls arbitrary: buf cs)
  case (Cons s ls)
  from Cons.prems(3) obtain l where s: "s = l @ [LF]" "LF \<notin> set l" "utf8_valid (as_bytes s)"
    by (auto simp: plain_line_def)
  have lf: "as_bytes s = as_bytes l @ [LF_byte]" unfolding s(1) by (simp add: as_bytes_def)
  obtain buf1 cs1 where one: "consume (length s) buf cs = (buf1, cs1)" by fastforce
  have "buf @ concat cs = as_bytes l @ LF_byte # as_bytes (concat ls) @ payload"
    using Cons.prems(2) lf by simp
  from read_until_lf_pieces [OF Cons.prems(1) this, of buf1 cs1 later]
  have "read_until_lf buf (in_pieces cs later) = (Inr (as_bytes s), \<lparr>rd_buf = buf1, rd_reads = in_pieces cs1 later\<rparr>)"
    using s(1,2) LF_in_as_bytes [of l] lf one by simp
  then have line: "read_line \<lparr>rd_buf = buf, rd_reads = in_pieces cs later\<rparr> =
      (Inr s, \<lparr>rd_buf = buf1, rd_reads = in_pieces cs1 later\<rparr>)"
    using s(3) by (simp add: read_line_bytes)
  have two: "consume (length (concat ls)) buf1 cs1 = (buf', cs')"
    using Cons.prems(4) one consume_add [of "length s" "length (concat ls)" buf cs] by simp
  have "buf1 @ concat cs1 = as_bytes (concat ls) @ payload"
    using consume_left [OF one] Cons.prems(2) by simp
  with Cons.IH [OF consume_pieces [OF one Cons.prems(1)] _ _ two] Cons.prems(3) line two
  show ?case by (cases "ls = []") (auto simp: consume_0)
qed simp

section \<open>The words of the exchange\<close>

text \<open>Visible ASCII, as authorities and tokens are made of.\<close>

definition graphic :: "char \<Rightarrow> bool" where
  "graphic c \<longleftrightarrow> in_range 33 126 c"

lemma graphic_not_ws_edge: "graphic c \<Longrightarrow> c \<notin> ws_edge"
  by (auto simp: graphic_def ws_edge_def ws_encodings_def ascii_simps)

lemma strip_len_graphic: "graphic c \<Longrightarrow> strip_len ws_encodings (c # s) = 0"
proof (rule strip_len_0I, rule ballI, rule notI)
  fix p
  assume "graphic c" "p \<in> set ws_encodings" "prefix p (c # s)"
  moreover from this have "p \<noteq> []" by (simp add: ws_encodings_not_Nil)
  ultimately have "c = hd p" by (cases p) auto
  with \<open>p \<in> set ws_encodings\<close> have "c \<in> ws_edge" by (auto simp: ws_edge_def)
  with \<open>graphic c\<close> graphic_not_ws_edge show False by blast
qed

lemma strip_len_space: "strip_len ws_encodings (CHR '' '' # s) = 1"
  by (simp add: strip_len_def ws_encodings_def)

lemma split_ws_graphic: "list_all graphic v \<Longrightarrow> split_ws w (v @ s) = split_ws (rev v @ w) s"
  by (induction v arbitrary: w) (auto simp: strip_len_graphic)

lemma split_ws_space: "split_ws w (CHR '' '' # s) = flush w @ split_ws [] s"
  by (simp add: strip_len_space)

lemma three_words:
  assumes "list_all graphic u" "list_all graphic v" "list_all graphic w" "u \<noteq> []" "v \<noteq> []" "w \<noteq> []"
  shows "split_whitespace (u @ CHR '' '' # v @ CHR '' '' # w) = [u, v, w]"
  using assms split_ws_graphic [of w "[]" "[]"]
  by (simp add: split_whitespace_def split_ws_graphic split_ws_space flush_def del: split_ws.simps(2))

lemma trim_space: "trimmed s \<Longrightarrow> trim (CHR '' '' # s) = s"
proof -
  assume s: "trimmed s"
  have "strip_all ws_encodings (CHR '' '' # s) = strip_all ws_encodings s"
    by (subst strip_all.simps) (simp add: strip_len_space)
  with s show ?thesis by (simp add: trim_def trim_start_def trim_end_def trimmed_def strip_all_id)
qed

lemma trim_eol_CRLF: "s \<noteq> [] \<Longrightarrow> last s \<noteq> CR \<Longrightarrow> last s \<noteq> LF \<Longrightarrow> trim_eol (s @ CRLF) = s"
  by (simp add: trim_eol_def trim_end_matches_append trim_end_matches_id)

lemma graphic_edges: "graphic c \<Longrightarrow> c \<noteq> CR \<and> c \<noteq> LF \<and> c \<noteq> CHR '' ''"
  by (auto simp: graphic_def ascii_simps)

definition ascii_char :: "char \<Rightarrow> bool" where
  "ascii_char c \<longleftrightarrow> in_range 0 127 c"

lemma ascii_utf8: "list_all ascii_char s \<Longrightarrow> utf8_valid (as_bytes s)"
proof (rule utf8_valid_ascii, rule ballI)
  fix b
  assume "list_all ascii_char s" "b \<in> set (as_bytes s)"
  then obtain c where c: "b = word_of_nat (of_char c)" "(of_char c :: nat) \<le> 127"
    by (auto simp: as_bytes_def list_all_iff ascii_char_def in_range_def)
  have "unat b \<le> 127" unfolding c(1) unat_byte_of_char by (rule c(2))
  then show "b \<le> 0x7F" by (simp add: word_le_nat_alt)
qed

lemma digit_graphic: "is_ascii_digit c \<Longrightarrow> graphic c"
  by (auto simp: graphic_def ascii_simps)

lemma graphic_ascii: "graphic c \<Longrightarrow> ascii_char c"
  by (auto simp: graphic_def ascii_char_def ascii_simps)

lemma plain_lineI: "list_all ascii_char s \<Longrightarrow> LF \<notin> set s \<Longrightarrow> plain_line (s @ CRLF)"
  unfolding plain_line_def
  by (intro conjI exI [of _ "s @ [CR]"] ascii_utf8) (simp_all add: ascii_char_def in_range_def)

section \<open>The proxy's request in lines\<close>

definition connect_line :: "string \<Rightarrow> string" where
  "connect_line a = ''CONNECT '' @ a @ '' HTTP/1.1''"

definition host_line :: "string \<Rightarrow> string" where
  "host_line a = ''Host: '' @ a"

definition token_line :: "string \<Rightarrow> string" where
  "token_line t = ''Authorization: Bearer '' @ t"

lemma connect_request_lines:
  "connect_request a t = concat [connect_line a @ CRLF, host_line a @ CRLF, token_line t @ CRLF, CRLF]"
  by (simp add: connect_request_def connect_line_def host_line_def token_line_def)

lemma ascii_literals:
  "list_all ascii_char ''CONNECT ''" "list_all ascii_char '' HTTP/1.1''" "list_all ascii_char ''Host: ''"
  "list_all ascii_char ''Authorization: Bearer ''"
  by code_simp+

lemma request_lines_plain:
  assumes "list_all graphic a" and "list_all graphic t"
  shows "list_all plain_line [connect_line a @ CRLF, host_line a @ CRLF, token_line t @ CRLF, CRLF]"
proof -
  have asc: "list_all ascii_char a" "list_all ascii_char t" and lf: "LF \<notin> set a" "LF \<notin> set t"
    using assms graphic_ascii graphic_edges by (auto simp: list_all_iff)
  have "list_all ascii_char (connect_line a)" "list_all ascii_char (host_line a)" "list_all ascii_char (token_line t)"
    unfolding connect_line_def host_line_def token_line_def list_all_append using asc ascii_literals by simp_all
  moreover have "LF \<notin> set (connect_line a)" "LF \<notin> set (host_line a)" "LF \<notin> set (token_line t)"
    using lf by (simp_all add: connect_line_def host_line_def token_line_def)
  ultimately have "plain_line (connect_line a @ CRLF)" "plain_line (host_line a @ CRLF)" "plain_line (token_line t @ CRLF)"
    by (blast intro: plain_lineI)+
  moreover have "plain_line ([] @ CRLF)" by (rule plain_lineI) simp_all
  ultimately show ?thesis by simp
qed

lemma trim_request_lines:
  assumes "list_all graphic a" "a \<noteq> []" "list_all graphic t" "t \<noteq> []"
  shows "trim_eol (connect_line a @ CRLF) = connect_line a" "trim_eol (host_line a @ CRLF) = host_line a"
    "trim_eol (token_line t @ CRLF) = token_line t" "trim_eol CRLF = []"
proof -
  have "graphic (last a)" "graphic (last t)" using assms by (simp_all add: list_all_iff)
  then have "last a \<noteq> CR \<and> last a \<noteq> LF" "last t \<noteq> CR \<and> last t \<noteq> LF" by (simp_all add: graphic_edges)
  then have e: "last (host_line a) \<noteq> CR" "last (host_line a) \<noteq> LF" "last (token_line t) \<noteq> CR"
      "last (token_line t) \<noteq> LF" "host_line a \<noteq> []" "token_line t \<noteq> []"
    using assms by (simp_all add: host_line_def token_line_def)
  show "trim_eol (host_line a @ CRLF) = host_line a" by (rule trim_eol_CRLF [OF e(5,1,2)])
  show "trim_eol (token_line t @ CRLF) = token_line t" by (rule trim_eol_CRLF [OF e(6,3,4)])
  show "trim_eol (connect_line a @ CRLF) = connect_line a"
    by (rule trim_eol_CRLF) (simp_all add: connect_line_def)
  show "trim_eol CRLF = []" by code_simp
qed

lemma request_words_connect:
  assumes "list_all graphic a" "a \<noteq> []"
  shows "request_words (connect_line a @ CRLF) = (''CONNECT'', a)"
proof -
  have g: "list_all graphic ''CONNECT''" "list_all graphic ''HTTP/1.1''" by code_simp+
  have "connect_line a = ''CONNECT'' @ CHR '' '' # a @ CHR '' '' # ''HTTP/1.1''"
    by (simp add: connect_line_def)
  then have "split_whitespace (connect_line a) = [''CONNECT'', a, ''HTTP/1.1'']"
    using three_words [OF g(1) assms(1) g(2)] assms(2) by simp
  then show ?thesis
    using trim_request_lines(1) [OF assms assms] by (simp add: request_words_def)
qed

lemma token_lines_accepted:
  assumes "list_all graphic a" "a \<noteq> []" "list_all graphic t" "t \<noteq> []"
  shows "token_accepted expected [host_line a @ CRLF, token_line t @ CRLF] False \<longleftrightarrow> t = expected"
proof -
  have "graphic (last t)" using assms by (simp add: list_all_iff)
  then have "trimmed (''Bearer '' @ t)"
    using assms(4) graphic_not_ws_edge
    by (intro trimmedI) (auto simp: ws_edge_def ws_encodings_def)
  then have tr: "trim ('' Bearer '' @ t) = ''Bearer '' @ t" using trim_space by simp
  have "split_once CHR '':'' (host_line a) = Some (''Host'', CHR '' '' # a)"
    "split_once CHR '':'' (token_line t) = Some (''Authorization'', '' Bearer '' @ t)"
    by (simp_all add: host_line_def token_line_def)
  moreover have "\<not> eq_ignore_ascii_case ''Host'' ''authorization''"
    "eq_ignore_ascii_case ''Authorization'' ''authorization''" by code_simp+
  ultimately show ?thesis
    unfolding token_accepted_def using trim_request_lines [OF assms] tr by (simp add: authorize_line_def)
qed

lemma request_header_lines:
  assumes "list_all graphic a" "a \<noteq> []" "list_all graphic t" "t \<noteq> []"
  shows "header_lines [host_line a @ CRLF, token_line t @ CRLF]"
  unfolding header_lines_def using trim_request_lines [OF assms]
  by (simp add: host_line_def token_line_def)

section \<open>The exchange\<close>

lemma proxy_request_read:
  assumes "list_all graphic a" "list_all graphic t"
    and "[] \<notin> set cs" and "concat cs = as_bytes (connect_request a t) @ payload"
    and "consume (length (connect_request a t)) [] cs = (buf', cs')"
  shows "buf.lines_read [connect_line a @ CRLF, host_line a @ CRLF, token_line t @ CRLF, CRLF]
    (reader_new (in_pieces cs later)) \<lparr>rd_buf = buf', rd_reads = in_pieces cs' later\<rparr>"
  unfolding reader_new_def
  by (rule lines_read_pieces [OF assms(3)])
     (use assms(4,5) request_lines_plain [OF assms(1,2)] in
       \<open>simp_all only: connect_request_lines append_Nil list.distinct not_False_eq_True\<close>)

lemma gateway_reads_proxy:
  assumes "list_all graphic a" "a \<noteq> []" "list_all graphic t" "t \<noteq> []"
    and "[] \<notin> set cs" and "concat cs = as_bytes (connect_request a t) @ payload"
    and "consume (length (connect_request a t)) [] cs = (buf', cs')"
  shows "handle_connection env (in_pieces cs later) a expected =
    (if t = expected then open_tunnel env a \<lparr>rd_buf = buf', rd_reads = in_pieces cs' later\<rparr>
     else reject env ''403 Forbidden'' ''invalid tunnel token'')"
proof -
  let ?r = "\<lparr>rd_buf = buf', rd_reads = in_pieces cs' later\<rparr>"
  let ?ls = "[host_line a @ CRLF, token_line t @ CRLF]"
  obtain r1 where first: "read_line (reader_new (in_pieces cs later)) = (Inr (connect_line a @ CRLF), r1)"
    and rest: "buf.lines_read (?ls @ [CRLF]) r1 ?r"
    using proxy_request_read [OF assms(1,3,5-7), of later] by auto
  have "header_loop expected r1 False = (Inr (Some (t = expected)), ?r)"
    using header_loop_run [OF rest request_header_lines [OF assms(1-4)], of expected False]
      trim_request_lines(4) [OF assms(1-4)] token_lines_accepted [OF assms(1-4)] by simp
  moreover have "connect_line a @ CRLF \<noteq> []" by simp
  ultimately show ?thesis
    using first request_words_connect [OF assms(1,2)] by (simp add: handle_connection_def)
qed

lemma established_lines:
  "established = as_bytes (concat [''HTTP/1.1 200 Connection Established'' @ CRLF, CRLF])"
  "list_all plain_line [''HTTP/1.1 200 Connection Established'' @ CRLF, CRLF]"
proof -
  show "established = as_bytes (concat [''HTTP/1.1 200 Connection Established'' @ CRLF, CRLF])"
    by (simp add: established_def)
  have "list_all ascii_char ''HTTP/1.1 200 Connection Established''"
    "LF \<notin> set ''HTTP/1.1 200 Connection Established''" by code_simp+
  then have "plain_line (''HTTP/1.1 200 Connection Established'' @ CRLF)" by (rule plain_lineI)
  moreover have "plain_line ([] @ CRLF)" by (rule plain_lineI) simp_all
  ultimately show "list_all plain_line [''HTTP/1.1 200 Connection Established'' @ CRLF, CRLF]" by simp
qed

lemma proxy_reads_established:
  assumes "[] \<notin> set cs" and "concat cs = established @ payload"
    and "consume (length established) [] cs = (buf', cs')"
  shows "\<exists>status r. read_line (reader_new (in_pieces cs later)) = (Inr status, r) \<and> contains status '' 200 '' \<and>
    skip_headers r = Inr \<lparr>rd_buf = buf', rd_reads = in_pieces cs' later\<rparr>"
proof -
  let ?s = "''HTTP/1.1 200 Connection Established'' @ CRLF"
  let ?r = "\<lparr>rd_buf = buf', rd_reads = in_pieces cs' later\<rparr>"
  have "length established = length (concat [?s, CRLF])" by (simp add: established_lines(1))
  then have "buf.lines_read [?s, CRLF] (reader_new (in_pieces cs later)) ?r"
    unfolding reader_new_def
    by (intro lines_read_pieces [OF assms(1)]) (use assms(2,3) established_lines in auto)
  then obtain r where "read_line (reader_new (in_pieces cs later)) = (Inr ?s, r)" "read_line r = (Inr CRLF, ?r)"
    by auto
  moreover have "contains ?s '' 200 ''" by code_simp
  ultimately show ?thesis by (subst skip_headers.simps) auto
qed

lemma stream_bytes_pieces: "[] \<notin> set cs \<Longrightarrow> stream_bytes (in_pieces cs later) = concat cs @ stream_bytes later"
  by (induction cs) (auto simp: in_pieces_def)

text \<open>
  C27: the CONNECT exchange works end to end, in whatever pieces its bytes arrive and whatever
  follows them. For an authority and a token of visible ASCII, the gateway understands the
  request the local proxy writes: with its own token it connects to the relay and tunnels
  every byte of the reads after the one that completed the request, with another token it
  answers 403 and connects nowhere. The local proxy in turn understands the gateway's answer
  and hands TLS every read after the one that completed the answer. On both sides the bytes
  lost are exactly those that arrived in one read with the end of the head, so none are when
  the other side waits for its turn.\<close>

theorem connect_exchange_round_trip:
  assumes "relay_authority base = Inr a" and "list_all graphic a" and "a \<noteq> []"
    and "list_all graphic t" and "t \<noteq> []"
    and "[] \<notin> set cs" and "concat cs = as_bytes (connect_request a t) @ sent"
    and "gw_connect genv a = None" and "gw_write genv established = None"
    and "tr_connect tenv addr = Inr s" and "tr_write tenv s (as_bytes (connect_request a t)) = None"
    and "tr_reads tenv s (as_bytes (connect_request a t)) = in_pieces ds from_relay"
    and "[] \<notin> set ds" and "concat ds = established @ answered"
  shows "(\<exists>k lost. head_complete (as_bytes (connect_request a t)) cs k lost \<and> sent = lost @ concat (drop k cs) \<and>
      snd (handle_connection genv (in_pieces cs later) a t)
        = [ConnectedRelay a, WroteClient established, Tunnel (concat (drop k cs) @ stream_bytes later)]) \<and>
    (\<forall>expected. expected \<noteq> t \<longrightarrow>
       set (snd (handle_connection genv (in_pieces cs later) a expected))
         \<subseteq> {WroteClient (as_bytes (reject_response ''403 Forbidden'' ''invalid tunnel token''))}) \<and>
    (\<exists>k lost. head_complete established ds k lost \<and> answered = lost @ concat (drop k ds) \<and>
      connect_transport tenv base (Some addr) (Some t)
        = Inr \<lparr>tp_stream = s, tp_addr = addr, tp_written = as_bytes (connect_request a t),
               tp_reads = in_pieces (drop k ds) from_relay\<rparr>)"
proof (intro conjI allI impI)
  obtain lost rest where c: "consume (length (connect_request a t)) [] cs = (lost, rest)" by fastforce
  note gw = gateway_reads_proxy [OF assms(2-7) c, of genv later]
  obtain k where k: "head_complete (as_bytes (connect_request a t)) cs k lost" "rest = drop k cs"
      "sent = lost @ concat (drop k cs)"
    using consume_head [of "as_bytes (connect_request a t)" cs lost rest sent] c assms(7) by auto
  have "snd (handle_connection genv (in_pieces cs later) a t)
      = [ConnectedRelay a, WroteClient established, Tunnel (concat (drop k cs) @ stream_bytes later)]"
    using assms(8,9) stream_bytes_pieces [OF consume_pieces [OF c assms(6)]] k(2)
    by (simp add: gw open_tunnel_def)
  with k(1,3) show "\<exists>k lost. head_complete (as_bytes (connect_request a t)) cs k lost \<and>
      sent = lost @ concat (drop k cs) \<and> snd (handle_connection genv (in_pieces cs later) a t)
        = [ConnectedRelay a, WroteClient established, Tunnel (concat (drop k cs) @ stream_bytes later)]"
    by blast
  fix expected
  assume "expected \<noteq> t"
  then show "set (snd (handle_connection genv (in_pieces cs later) a expected))
      \<subseteq> {WroteClient (as_bytes (reject_response ''403 Forbidden'' ''invalid tunnel token''))}"
    by (simp add: gw reject_def Let_def split: option.split)
next
  obtain lost rest where c: "consume (length established) [] ds = (lost, rest)" by fastforce
  obtain k where k: "head_complete established ds k lost" "rest = drop k ds" "answered = lost @ concat (drop k ds)"
    using consume_head [OF c assms(14)] by blast
  obtain status r where r: "read_line (reader_new (in_pieces ds from_relay)) = (Inr status, r)"
      "contains status '' 200 ''" "skip_headers r = Inr \<lparr>rd_buf = lost, rd_reads = in_pieces rest from_relay\<rparr>"
    using proxy_reads_established [OF assms(13,14) c] by blast
  have "connect_transport tenv base (Some addr) (Some t)
      = Inr \<lparr>tp_stream = s, tp_addr = addr, tp_written = as_bytes (connect_request a t),
             tp_reads = in_pieces (drop k ds) from_relay\<rparr>"
    using r k(2) by (simp add: connect_transport_def assms(1,10,11,12))
  with k(1,3) show "\<exists>k lost. head_complete established ds k lost \<and> answered = lost @ concat (drop k ds) \<and>
      connect_transport tenv base (Some addr) (Some t)
        = Inr \<lparr>tp_stream = s, tp_addr = addr, tp_written = as_bytes (connect_request a t),
               tp_reads = in_pieces (drop k ds) from_relay\<rparr>"
    by blast
qed

definition demo_transport :: "unit transport_env" where
  "demo_transport = \<lparr>tr_connect = (\<lambda>a. Inr ()), tr_write = (\<lambda>s b. None),
     tr_reads = (\<lambda>s b. [Inr established, Inr [9]])\<rparr>"

text \<open>Two reads: one with the head and two bytes more, which are lost, and one that is kept.\<close>

lemma head_complete_first:
  assumes "head_complete head [head @ x, y] k lost" and "head \<noteq> []"
  shows "lost = x \<and> k = 1"
proof -
  have "k \<noteq> 0" using assms(1,2) by (metis Nil_is_append_conv concat.simps(1) head_complete_def take0)
  moreover have "\<not> 1 < k" using assms(1) by (auto simp: head_complete_def)
  ultimately have "k = 1" by linarith
  with assms(1) show ?thesis by (simp add: head_complete_def)
qed

theorem connect_exchange_round_trip_witness:
  "\<exists>a. relay_authority demo_gcp_url = Inr a \<and>
     snd (handle_connection demo_gateway
       (in_pieces [as_bytes (connect_request a ''t'') @ [1, 2], [3]] [Inr [4]]) a ''t'')
       = [ConnectedRelay a, WroteClient established, Tunnel [3, 4]] \<and>
     connect_transport demo_transport demo_gcp_url (Some ''g'') (Some ''t'')
       = Inr \<lparr>tp_stream = (), tp_addr = ''g'', tp_written = as_bytes (connect_request a ''t''), tp_reads = [Inr [9]]\<rparr>"
proof -
  let ?a = "''h'' @ '':'' @ port_string 443"
  let ?q = "as_bytes (connect_request ?a ''t'')"
  have auth: "relay_authority demo_gcp_url = Inr ?a"
    by (simp add: relay_authority_def demo_gcp_url_def)
  have g: "list_all graphic ?a" "list_all graphic ''t''"
    using port_string_digits [of _ 443] digit_graphic
    by (auto simp: list_all_iff) (simp_all add: graphic_def ascii_simps)
  have ne: "?q \<noteq> []" "established \<noteq> []"
    by (simp_all add: connect_request_def established_def as_bytes_def)
  have reads: "tr_reads demo_transport () ?q = in_pieces [established @ [], [9]] []"
    by (simp add: demo_transport_def in_pieces_def)
  obtain k lost k' lost'
    where k: "head_complete ?q [?q @ [1, 2], [3]] k lost" "[1, 2] @ [3] = lost @ concat (drop k [?q @ [1, 2], [3]])"
      "snd (handle_connection demo_gateway (in_pieces [?q @ [1, 2], [3]] [Inr [4]]) ?a ''t'')
        = [ConnectedRelay ?a, WroteClient established, Tunnel (concat (drop k [?q @ [1, 2], [3]]) @ stream_bytes [Inr [4]])]"
      "head_complete established [established @ [], [9]] k' lost'" "[] @ [9] = lost' @ concat (drop k' [established @ [], [9]])"
      "connect_transport demo_transport demo_gcp_url (Some ''g'') (Some ''t'')
        = Inr \<lparr>tp_stream = (), tp_addr = ''g'', tp_written = ?q, tp_reads = in_pieces (drop k' [established @ [], [9]]) []\<rparr>"
    using connect_exchange_round_trip [OF auth g(1) _ g(2) _ _ _ _ _ _ _ reads,
        of "[?q @ [1, 2], [3]]" "[1, 2] @ [3]" demo_gateway "''g''" "[] @ [9]" "[Inr [4]]"] ne
    by (auto simp: demo_gateway_def demo_transport_def simp del: append.simps)
  have "k = 1" "k' = 1" using head_complete_first k(1,4) ne by blast+
  with k(3,6) auth show ?thesis by (simp add: in_pieces_def)
qed

end
