(* ===== verification/Server_Main.thy ===== *)
theory Server_Main
  imports Config_Hash Proxy Admin Backends
begin

text \<open>
  \<open>server/src/main.rs\<close>: the choice of the attestation backend, the configuration made of the
  command line, start-up up to the two listeners, and the private address ranges of the admin
  endpoint. The admin handlers are in \<open>Admin\<close>, the data plane in \<open>Proxy\<close>. What start-up meets
  is one environment: the parameters of the components it composes, the process environment,
  the file system, address parsing and sockets. Waiting for the Confidential Space launcher
  may not end and decoding its answer may panic, so start-up is a value of
  \<open>(startup_error + server) run option\<close>.
\<close>

section \<open>Data\<close>

record server_cli =
  cli_listen :: string
  cli_upstream :: string
  cli_max_request_bytes :: u64
  cli_upstream_timeout_secs :: u64
  cli_allowed_upstream :: "string list"
  cli_upstream_tls_leaf_sha256 :: "string list"
  cli_provider_token :: "string option"
  cli_provider_auth_scheme :: string
  cli_admin_listen :: "string option"
  cli_allow_client_provider_auth :: bool
  cli_release_artifact_digest :: "string option"

datatype IpAddr =
    V4 byte byte byte byte
  | V6 u16 u16 u16 u16 u16 u16 u16 u16

record SocketAddr =
  sa_ip :: IpAddr
  sa_port :: u16

datatype dyn_attester =
    GcpAttester GcpConfidentialSpaceAttester
  | TdxAttester
  | SevSnpAttester
  | MockAttester

datatype 'e startup_error =
    PinSyntax
  | ConfigInvalid config_error
  | TlsSetup AttestError
  | UpstreamClient "'e build_error"
  | AdminAddrInvalid string
  | AdminBind string
  | ListenAddrInvalid string
  | ListenBind string

record server_features = features +
  ft_tdx :: bool

record ('k, 'e, 's) server_env =
  sn_vars :: env_vars
  sn_var_os :: "string \<Rightarrow> bool"
  sn_exists :: "string \<Rightarrow> bool"
  sn_launcher_probe :: "string \<Rightarrow> string + 's"
  sn_mock :: mock_env
  sn_sev_device :: "sev_device option"
  sn_gcp :: gcp_env
  sn_launcher :: "'s launcher"
  sn_url_parse :: url_parser
  sn_sha256 :: "byte list \<Rightarrow> byte list"
  sn_tls :: "'k tls_env"
  sn_webpki :: "'e + 'e webpki"
  sn_client_fails :: "'e upstream_client \<Rightarrow> 'e option"
  sn_send :: "'e upstream_client \<Rightarrow> http_send"
  sn_socket_addr :: "string \<Rightarrow> SocketAddr option"
  sn_bind :: "SocketAddr \<Rightarrow> string option"

text \<open>A started server: what it serves, where, and with which certificate.\<close>

record 'e server =
  sv_attester :: dyn_attester
  sv_config_hash :: "byte list"
  sv_tls :: AttestedTlsServer
  sv_client :: "'e upstream_client"
  sv_state :: AppState

datatype server_effect =
    WarnPublicAdmin SocketAddr
  | ServeAdmin SocketAddr credential_store
  | ServeData SocketAddr

section \<open>Choosing the attester\<close>

definition ATTESTER_ENV :: "string" where
  "ATTESTER_ENV = ''TRUSTED_RELAY_GCP_CONFIDENTIAL_SPACE''"

definition DEV_MOCK_ENV :: "string" where
  "DEV_MOCK_ENV = ''TRUSTED_RELAY_DEV_MOCK''"

definition MOCK_IN_SNP_ENV :: "string" where
  "MOCK_IN_SNP_ENV = ''TRUSTED_RELAY_ALLOW_MOCK_FALLBACK_IN_SNP''"

definition select_attester ::
    "('k, 'e, 's) server_env \<Rightarrow> server_features \<Rightarrow> dyn_attester run" where
  "select_attester env ft =
     (let socket_path = (case sn_vars env ''TRUSTED_RELAY_GCP_CS_SOCKET'' of
                           Some p \<Rightarrow> p | None \<Rightarrow> ''/run/container_launcher/teeserver.sock'')
      in if ft_gcp_confidential_space ft \<and> sn_var_os env ATTESTER_ENV
         then Returned (GcpAttester (attester_from_env (sn_vars env)))
         else if ft_gcp_confidential_space ft \<and> can_connect_launcher_socket (sn_launcher_probe env socket_path)
         then Returned (GcpAttester (attester_from_env (sn_vars env)))
         else if ft_tdx ft \<and> (sn_exists env ''/dev/tdx_guest'' \<or> sn_exists env ''/dev/tdx-guest'')
         then Returned TdxAttester
         else if ft_sev_snp ft \<and> (sn_exists env ''/dev/sev-guest'' \<or> sn_exists env ''/dev/sev'')
         then (if ft_mock ft \<and> sn_var_os env MOCK_IN_SNP_ENV \<and> sn_var_os env DEV_MOCK_ENV
               then Returned MockAttester else Returned SevSnpAttester)
         else if ft_mock ft
         then (if sn_var_os env DEV_MOCK_ENV then Returned MockAttester else Panicked)
         else Panicked)"

text \<open>The call through \<open>Box<dyn Attester>\<close>: it may panic, or wait without end.\<close>

definition run_attester ::
    "('k, 'e, 's) server_env \<Rightarrow> dyn_attester \<Rightarrow> byte list \<Rightarrow> (AttestError + Evidence) run option" where
  "run_attester env a user_data =
     (case a of
        GcpAttester g \<Rightarrow> gcp_attest (sn_gcp env) (sn_launcher env) g user_data
      | TdxAttester \<Rightarrow> Some (Returned (tdx_attest user_data))
      | SevSnpAttester \<Rightarrow> Some (Returned (sev_attest (sn_sev_device env) user_data))
      | MockAttester \<Rightarrow> Some (Returned (mock_attest (sn_mock env) user_data)))"

text \<open>\<open>AttestedTlsServer::new\<close> with such a call in place of a plain result.\<close>

definition server_tls ::
    "'k tls_env \<Rightarrow> (byte list \<Rightarrow> (AttestError + Evidence) run option) \<Rightarrow> byte list
       \<Rightarrow> (AttestError + AttestedTlsServer) run option" where
  "server_tls env attest hash =
     (case rc_generate (te_rcgen env) of
        Inl e \<Rightarrow> Some (Returned (Inl (GenerationFailed (''keygen: '' @ e))))
      | Inr key_pair \<Rightarrow>
          map_option (map_run (\<lambda>evidence. from_key_pair env (\<lambda>_. evidence) (Some hash) key_pair))
            (attest (reportdata (te_sha384 env) (rc_public_key_der (te_rcgen env) key_pair) (Some hash))))"

section \<open>The configuration\<close>

definition push_cli_pin ::
    "(string, string list) btree \<Rightarrow> string \<Rightarrow> 'e startup_error + (string, string list) btree" where
  "push_cli_pin pins item =
     rbind (ok_or PinSyntax (split_once (CHR ''='') item)) (\<lambda>(origin, pin).
     Inr (bt_entry origin [] (\<lambda>ps. ps @ [pin]) pins))"

definition parse_upstream_tls_pins ::
    "string list \<Rightarrow> 'e startup_error + (string, string list) btree" where
  "parse_upstream_tls_pins raw = fold_result push_cli_pin bt_empty raw"

definition cli_allowlist :: "server_cli \<Rightarrow> string list" where
  "cli_allowlist cli =
     (if cli_allowed_upstream cli = [] then [cli_upstream cli] else cli_allowed_upstream cli)"

definition server_config :: "server_cli \<Rightarrow> 'e startup_error + RelayConfig" where
  "server_config cli =
     rbind (parse_upstream_tls_pins (cli_upstream_tls_leaf_sha256 cli)) (\<lambda>pins.
     Inr (RelayConfig_default
       \<lparr>listen_addr := cli_listen cli,
        runtime := \<lparr>allow_client_provider_auth = cli_allow_client_provider_auth cli,
                    private_admin_enabled = cli_admin_listen cli \<noteq> None,
                    provider_auth_scheme = trim (cli_provider_auth_scheme cli),
                    body_log_policy = ''metadata-only''\<rparr>,
        default_upstream := cli_upstream cli,
        allowed_upstreams := cli_allowlist cli,
        max_request_bytes := cli_max_request_bytes cli,
        release_artifact_digest := cli_release_artifact_digest cli,
        upstream_timeout_secs := cli_upstream_timeout_secs cli,
        upstream_tls_leaf_sha256 := pins\<rparr>))"

definition initial_store :: "server_cli \<Rightarrow> credential_store" where
  "initial_store cli =
     (case cli_provider_token cli of
        None \<Rightarrow> store_new
      | Some t \<Rightarrow> store_set \<lparr>auth_scheme = trim (cli_provider_auth_scheme cli), token = t\<rparr> store_new)"

section \<open>Start-up\<close>

text \<open>From the validated configuration to the application state.\<close>

definition assemble ::
    "('k, 'e, 's) server_env \<Rightarrow> server_cli \<Rightarrow> dyn_attester \<Rightarrow> RelayConfig \<Rightarrow> byte list \<Rightarrow> AttestedTlsServer
       \<Rightarrow> 'e startup_error + 'e server" where
  "assemble env cli attester c hash tls =
     rbind (map_err UpstreamClient
              (build_upstream_http_client (sn_url_parse env) (sn_webpki env) (sn_client_fails env) c)) (\<lambda>client.
     Inr \<lparr>sv_attester = attester, sv_config_hash = hash, sv_tls = tls, sv_client = client,
          sv_state = \<lparr>config = c, http_client = sn_send env client,
                      provider_credentials = initial_store cli,
                      require_provider_credential = \<not> cli_allow_client_provider_auth cli\<rparr>\<rparr>)"

definition attest_and_assemble ::
    "('k, 'e, 's) server_env \<Rightarrow> server_cli \<Rightarrow> dyn_attester \<Rightarrow> RelayConfig
       \<Rightarrow> ('e startup_error + 'e server) run option" where
  "attest_and_assemble env cli attester c =
     (case config_hash (sn_url_parse env) (sn_sha256 env) c of
        Panicked \<Rightarrow> Some Panicked
      | Returned hash \<Rightarrow>
          map_option (map_run (\<lambda>tls. rbind (map_err TlsSetup tls) (assemble env cli attester c hash)))
            (server_tls (sn_tls env) (run_attester env attester) hash))"

definition prepare ::
    "('k, 'e, 's) server_env \<Rightarrow> server_features \<Rightarrow> server_cli \<Rightarrow> ('e startup_error + 'e server) run option" where
  "prepare env ft cli =
     (case select_attester env ft of
        Panicked \<Rightarrow> Some Panicked
      | Returned attester \<Rightarrow>
          (case rbind (server_config cli) (\<lambda>c.
                  rbind (map_err ConfigInvalid (validate (sn_url_parse env) c)) (\<lambda>_. Inr c)) of
             Inl e \<Rightarrow> Some (Returned (Inl e))
           | Inr c \<Rightarrow> attest_and_assemble env cli attester c))"

section \<open>Private addresses\<close>

definition ipv4_is_private :: "byte \<Rightarrow> byte \<Rightarrow> bool" where
  "ipv4_is_private a b \<longleftrightarrow> a = 10 \<or> a = 172 \<and> 16 \<le> b \<and> b \<le> 31 \<or> a = 192 \<and> b = 168"

definition is_private_admin_ip :: "IpAddr \<Rightarrow> bool" where
  "is_private_admin_ip ip =
     (case ip of
        V4 a b c d \<Rightarrow>
          a = 127 \<or> (a, b, c, d) = (0, 0, 0, 0) \<or> ipv4_is_private a b \<or> a = 169 \<and> b = 254
      | V6 s0 s1 s2 s3 s4 s5 s6 s7 \<Rightarrow>
          [s0, s1, s2, s3, s4, s5, s6, s7] = [0, 0, 0, 0, 0, 0, 0, 1]
          \<or> [s0, s1, s2, s3, s4, s5, s6, s7] = [0, 0, 0, 0, 0, 0, 0, 0]
          \<or> s0 AND 0xfe00 = 0xfc00 \<or> s0 AND 0xffc0 = 0xfe80)"

section \<open>The listeners\<close>

definition open_admin ::
    "('k, 'e, 's) server_env \<Rightarrow> server_cli \<Rightarrow> 'e server \<Rightarrow> ('e startup_error + unit) \<times> server_effect list" where
  "open_admin env cli sv =
     (case cli_admin_listen cli of
        None \<Rightarrow> (Inr (), [])
      | Some admin_listen \<Rightarrow>
          (case sn_socket_addr env admin_listen of
             None \<Rightarrow> (Inl (AdminAddrInvalid admin_listen), [])
           | Some addr \<Rightarrow>
               (let warned = (if is_private_admin_ip (sa_ip addr) then [] else [WarnPublicAdmin addr])
                in case sn_bind env addr of
                     Some e \<Rightarrow> (Inl (AdminBind e), warned)
                   | None \<Rightarrow> (Inr (), warned @ [ServeAdmin addr (provider_credentials (sv_state sv))]))))"

definition open_data ::
    "('k, 'e, 's) server_env \<Rightarrow> server_cli \<Rightarrow> ('e startup_error + unit) \<times> server_effect list" where
  "open_data env cli =
     (case sn_socket_addr env (cli_listen cli) of
        None \<Rightarrow> (Inl (ListenAddrInvalid (cli_listen cli)), [])
      | Some addr \<Rightarrow>
          (case sn_bind env addr of
             Some e \<Rightarrow> (Inl (ListenBind e), [])
           | None \<Rightarrow> (Inr (), [ServeData addr])))"

definition server_main ::
    "('k, 'e, 's) server_env \<Rightarrow> server_features \<Rightarrow> server_cli
       \<Rightarrow> ('e startup_error + 'e server) run option \<times> server_effect list" where
  "server_main env ft cli =
     (case prepare env ft cli of
        Some (Returned (Inr sv)) \<Rightarrow>
          (case open_admin env cli sv of
             (Inl e, effs) \<Rightarrow> (Some (Returned (Inl e)), effs)
           | (Inr _, effs) \<Rightarrow>
               (case open_data env cli of
                  (Inl e, opened) \<Rightarrow> (Some (Returned (Inl e)), effs @ opened)
                | (Inr _, opened) \<Rightarrow> (Some (Returned (Inr sv)), effs @ opened)))
      | r \<Rightarrow> (r, []))"

section \<open>The running server\<close>

text \<open>
  Once the listeners are open, admin requests and data-plane requests interleave freely; each
  works on the credential store as it finds it. A listener that was not opened takes no
  request.
\<close>

datatype server_event =
    AdminCall admin_method string "byte list" admin_reply
  | DataCall http_method string header_get "byte list" routed

inductive server_step ::
    "admin_env \<Rightarrow> proxy_env \<Rightarrow> AppState \<Rightarrow> server_effect list
       \<Rightarrow> credential_store \<Rightarrow> server_event \<Rightarrow> credential_store \<Rightarrow> bool"
  for ae pe state effs where
  admin_call: "ServeAdmin a s0 \<in> set effs \<Longrightarrow> build_admin_router ae meth target body s = (r, s') \<Longrightarrow>
     server_step ae pe state effs s (AdminCall meth target body r) s'"
| data_call: "ServeData a \<in> set effs \<Longrightarrow>
     build_router pe (state\<lparr>provider_credentials := s\<rparr>) meth target headers body = r \<Longrightarrow>
     server_step ae pe state effs s (DataCall meth target headers body r) s"

inductive server_run ::
    "admin_env \<Rightarrow> proxy_env \<Rightarrow> AppState \<Rightarrow> server_effect list \<Rightarrow> server_event list \<Rightarrow> credential_store \<Rightarrow> bool"
  for ae pe state effs where
  started: "server_run ae pe state effs [] (provider_credentials state)"
| continued: "server_run ae pe state effs tr s \<Longrightarrow> server_step ae pe state effs s e s' \<Longrightarrow>
     server_run ae pe state effs (tr @ [e]) s'"

inductive_cases server_stepE: "server_step ae pe state effs s e s'"

section \<open>Lemmas on start-up\<close>

lemma server_config_eq_Inr:
  assumes "server_config cli = Inr c"
  shows "default_upstream c = cli_upstream cli \<and> allowed_upstreams c = cli_allowlist cli \<and> routes c = bt_empty \<and>
         max_request_bytes c = cli_max_request_bytes cli"
  using assms by (auto simp: server_config_def result_simps RelayConfig_default_def)

lemma server_tls_eq:
  assumes "server_tls env attest hash = Some (Returned (Inr tls))"
  shows "\<exists>kp e. rc_generate (te_rcgen env) = Inr kp \<and>
     attest (reportdata (te_sha384 env) (rc_public_key_der (te_rcgen env) kp) (Some hash)) = Some (Returned (Inr e)) \<and>
     from_key_pair env (\<lambda>_. Inr e) (Some hash) kp = Inr tls"
proof -
  obtain kp r where r: "rc_generate (te_rcgen env) = Inr kp"
      "attest (reportdata (te_sha384 env) (rc_public_key_der (te_rcgen env) kp) (Some hash)) = Some (Returned r)"
      "from_key_pair env (\<lambda>_. r) (Some hash) kp = Inr tls"
    using assms by (auto simp: server_tls_def result_simps split: sum.split_asm)
  with server_cert [OF r(3)] show ?thesis by blast
qed

text \<open>With an attester that returns, this is \<open>AttestedTlsServer::new\<close>.\<close>

lemma server_tls_returning:
  assumes "\<And>rd. attest rd = Some (Returned (f rd))"
  shows "server_tls env attest hash = Some (Returned (tls_server_new env f (Some hash)))"
  by (simp add: server_tls_def tls_server_new_def from_key_pair_def Let_def assms split: sum.split)

context evidence_source
begin

text \<open>A client that accepts the certificate of a server with this backend expects its hash.\<close>

lemma accepted_hash:
  assumes "server_tls env attest hash = Some (Returned (Inr tls))" and "length hash = 32" and "length h = 32"
    and "cert_round_trip x509_parse (te_rcgen env)" and "sha384_law (te_sha384 env)"
    and "attested_verify_server_cert x509_parse (te_sha384 env) (attested_client_config verify m (Some h)) (cert_der tls)
           = Inr ()"
  shows "take 16 h = take 16 hash"
proof -
  obtain kp e where kp:
      "attest (reportdata (te_sha384 env) (rc_public_key_der (te_rcgen env) kp) (Some hash)) = Some (Returned (Inr e))"
      "from_key_pair env (\<lambda>_. Inr e) (Some hash) kp = Inr tls"
    using server_tls_eq [OF assms(1)] by blast
  let ?rd = "reportdata (te_sha384 env) (rc_public_key_der (te_rcgen env) kp) (Some hash)"
  have "rc_self_signed (te_rcgen env) (cert_params_with_evidence e) kp = Inr (cert_der tls)"
    using server_cert [OF kp(2)] by auto
  note x = self_signed_evidence [OF assms(4) this]
  have len: "length ?rd = 64" by (rule reportdata_parts(3) [OF assms(5)]) (simp add: assms(2))
  from client_accepts [OF assms(5) _ assms(6)] assms(3) x obtain rd pin where
    rd: "verify e pin = Inr rd" "drop 48 rd = take 16 h"
    by (auto simp: x)
  have "rd = ?rd" by (rule attested_data [OF kp(1) len rd(1)])
  with rd(2) reportdata_parts(2) [OF assms(5), of _ "Some hash"] show ?thesis by simp
qed

end

section \<open>The attesters keep the contract\<close>

text \<open>A client uses the verifier of the backend the relay runs on.\<close>

definition matching :: "dyn_attester \<Rightarrow> dyn_verifier \<Rightarrow> bool" where
  "matching a v \<longleftrightarrow>
     (case a of
        GcpAttester _ \<Rightarrow> (\<exists>g. v = GcpVerifier g)
      | SevSnpAttester \<Rightarrow> v = SevSnpVerifier
      | MockAttester \<Rightarrow> v = MockVerifier
      | TdxAttester \<Rightarrow> False)"

text \<open>
  What is assumed of the outside of each backend: the SEV-SNP device puts the user data in its
  report, the mock's signature and JSON libraries invert, Google's service copies the nonces.
\<close>

definition backend_laws :: "('k, 'e, 's) server_env \<Rightarrow> backend_env \<Rightarrow> dyn_attester \<Rightarrow> bool" where
  "backend_laws env be a \<longleftrightarrow>
     (case a of
        GcpAttester g \<Rightarrow>
          be_gcp be = sn_gcp env \<and> b64_law (sn_gcp env) \<and>
          (\<forall>ud e. gcp_attest (sn_gcp env) (sn_launcher env) g ud = Some (Returned (Inr e)) \<longrightarrow>
             nonces_copied (sn_gcp env) g ud e)
      | SevSnpAttester \<Rightarrow> (\<forall>dev. sn_sev_device env = Some dev \<longrightarrow> sev_device_law dev)
      | MockAttester \<Rightarrow> be_mock be = sn_mock env \<and> mock_laws (sn_mock env)
      | TdxAttester \<Rightarrow> True)"

lemma matching_contract: "matching a v \<Longrightarrow> user_contract v"
  by (auto simp: matching_def user_contract_def split: dyn_attester.split_asm)

lemma run_attester_data:
  assumes "matching a v" and "backend_laws env be a"
    and "run_attester env a ud = Some (Returned (Inr e))" and "length ud = 64"
    and "run_verifier be v e m = Inr rd"
  shows "rd = ud"
proof (cases a)
  case (GcpAttester g)
  then obtain ver where v: "v = GcpVerifier ver" using assms(1) by (auto simp: matching_def)
  obtain w' where "gcp_verify (be_gcp be) ver e m (be_gcp_world be) = (Inr rd, w')"
    using assms(5) v by (cases "gcp_verify (be_gcp be) ver e m (be_gcp_world be)") (auto simp: run_verifier_def)
  moreover have "be_gcp be = sn_gcp env" "b64_law (sn_gcp env)" "nonces_copied (sn_gcp env) g ud e"
    using assms(2,3) GcpAttester by (auto simp: backend_laws_def run_attester_def)
  ultimately show ?thesis using gcp_accepted_data [OF _ assms(4)] by metis
next
  case SevSnpAttester
  then have v: "v = SevSnpVerifier" using assms(1) by (simp add: matching_def)
  obtain w' where "sev_verify (be_sev be) e m (be_sev_world be) = (Inr rd, w')"
    using assms(5) v by (cases "sev_verify (be_sev be) e m (be_sev_world be)") (auto simp: run_verifier_def)
  moreover obtain dev where "sn_sev_device env = Some dev" "sev_attest (Some dev) ud = Inr e" "sev_device_law dev"
    using assms(2,3) SevSnpAttester
    by (cases "sn_sev_device env") (auto simp: run_attester_def sev_attest_def backend_laws_def)
  ultimately show ?thesis using sev_accepted_data by blast
next
  case MockAttester
  then have "v = MockVerifier" "mock_laws (be_mock be)" "mock_attest (be_mock be) ud = Inr e"
    using assms(1-3) by (auto simp: matching_def backend_laws_def run_attester_def)
  with assms(5) mock_sign_verify [OF this(2) this(3) [unfolded mock_attest_def] assms(4)] show ?thesis
    by (cases m; cases "the m = mock_measurement (be_mock be)") (auto simp: run_verifier_def)
next
  case TdxAttester
  with assms(1) show ?thesis by (simp add: matching_def)
qed

lemma backend_source:
  assumes "matching a v" and "backend_laws env be a"
  shows "evidence_source (run_verifier be v) (verifies v) (run_attester env a)"
  using dyn_verifier_contract [OF matching_contract [OF assms(1)], of be] run_attester_data [OF assms]
  by (simp add: evidence_source_def evidence_source_axioms_def)

interpretation tdx_source: evidence_source tdx_verify "\<lambda>t. t = Tdx" "run_attester env TdxAttester" for env
  by unfold_locales (auto simp: tdx_verify_def)

text \<open>The parsed pins: each origin with its pins in the order of the command line.\<close>

definition cli_pins_for :: "string list \<Rightarrow> string \<Rightarrow> string list" where
  "cli_pins_for raw orig = map snd (filter (\<lambda>(a, p). a = orig) (List.map_filter (split_once (CHR ''='')) raw))"

lemma parsed_pins:
  assumes "parse_upstream_tls_pins raw = (Inr m :: 'e startup_error + _)"
  shows "bt_ok m \<and> (\<forall>i \<in> set raw. CHR ''='' \<in> set i) \<and>
    (\<forall>orig. bt_get m orig = (if cli_pins_for raw orig = [] then None else Some (cli_pins_for raw orig)))"
  using assms
proof (induction raw arbitrary: m rule: rev_induct)
  case Nil
  then show ?case
    by (simp add: parse_upstream_tls_pins_def cli_pins_for_def bt_empty_def bt_get_def map_filter_simps)
next
  case (snoc i raw)
  then obtain m0 a p where m0: "parse_upstream_tls_pins raw = (Inr m0 :: 'e startup_error + _)"
      "split_once (CHR ''='') i = Some (a, p)"
      "m = bt_entry a [] (\<lambda>ps. ps @ [p]) m0"
    by (auto simp: parse_upstream_tls_pins_def push_cli_pin_def result_simps)
  note IH = snoc.IH [OF m0(1)]
  have eq: "CHR ''='' \<in> set i" using m0(2) by (auto simp: split_once_eq_Some)
  have "cli_pins_for (raw @ [i]) orig = cli_pins_for raw orig @ (if a = orig then [p] else [])" for orig
    by (simp add: cli_pins_for_def map_filter_def m0(2) eq)
  then show ?case
    using IH m0(3) eq by (auto simp: bt_ok_entry bt_get_entry)
qed

lemma assembled:
  assumes "assemble env cli attester c hash tls = Inr sv"
  shows "sv_attester sv = attester \<and> sv_config_hash sv = hash \<and> sv_tls sv = tls \<and> config (sv_state sv) = c \<and>
    provider_credentials (sv_state sv) = initial_store cli \<and>
    require_provider_credential (sv_state sv) = (\<not> cli_allow_client_provider_auth cli)"
  using assms by (auto simp: assemble_def result_simps)

lemma prepare_eq_Inr:
  assumes "prepare env ft cli = Some (Returned (Inr sv))"
  shows "\<exists>c tls. select_attester env ft = Returned (sv_attester sv) \<and> server_config cli = (Inr c :: 'e startup_error + _) \<and>
     validate (sn_url_parse env) c = Inr () \<and>
     config_hash (sn_url_parse env) (sn_sha256 env) c = Returned (sv_config_hash sv) \<and>
     server_tls (sn_tls env) (run_attester env (sv_attester sv)) (sv_config_hash sv) = Some (Returned (Inr tls)) \<and>
     assemble env cli (sv_attester sv) c (sv_config_hash sv) tls = Inr (sv :: 'e server)"
proof -
  obtain attester c where ac: "select_attester env ft = Returned attester" "server_config cli = (Inr c :: 'e startup_error + _)"
      "validate (sn_url_parse env) c = Inr ()" "attest_and_assemble env cli attester c = Some (Returned (Inr sv))"
    using assms unfolding prepare_def
    by (auto simp: result_simps split: run.split_asm sum.split_asm)
  then obtain hash tls where h: "config_hash (sn_url_parse env) (sn_sha256 env) c = Returned hash"
      "server_tls (sn_tls env) (run_attester env attester) hash = Some (Returned (Inr tls))"
      "assemble env cli attester c hash tls = Inr sv"
    unfolding attest_and_assemble_def by (auto simp: result_simps split: run.split_asm)
  then have "sv_attester sv = attester \<and> sv_config_hash sv = hash"
    by (simp add: assembled)
  with ac h show ?thesis by auto
qed

lemma open_admin_effects:
  assumes "open_admin env cli sv = (r, effs)"
  shows "ServeData a \<notin> set effs \<and>
    (ServeAdmin a s \<in> set effs \<longrightarrow> s = provider_credentials (sv_state sv) \<and>
       (\<exists>l. cli_admin_listen cli = Some l \<and> sn_socket_addr env l = Some a))"
  using assms by (auto simp: open_admin_def Let_def split: option.split_asm if_split_asm)

lemma open_data_effects:
  assumes "open_data env cli = (r, effs)"
  shows "ServeAdmin a s \<notin> set effs \<and>
    (ServeData a \<in> set effs \<longleftrightarrow> r = Inr () \<and> sn_socket_addr env (cli_listen cli) = Some a)"
  using assms by (auto simp: open_data_def split: option.split_asm)

lemma server_main_serves:
  assumes "server_main env ft cli = (r, effs)" and "ServeData a \<in> set effs"
  shows "\<exists>sv. r = Some (Returned (Inr sv)) \<and> prepare env ft cli = Some (Returned (Inr sv)) \<and>
     sn_socket_addr env (cli_listen cli) = Some a"
  using assms open_admin_effects open_data_effects unfolding server_main_def
  by (fastforce split: option.split_asm run.split_asm sum.split_asm prod.split_asm)

lemma mock_only_on_request:
  "select_attester env ft = Returned MockAttester \<Longrightarrow> ft_mock ft \<and> sn_var_os env DEV_MOCK_ENV"
  by (simp add: select_attester_def Let_def split: if_split_asm)

section \<open>Lemmas on the running server\<close>

text \<open>Where a stored credential may come from: the command line, or an accepted injection.\<close>

definition credential_source ::
    "admin_env \<Rightarrow> server_cli \<Rightarrow> server_event list \<Rightarrow> ProviderCredential \<Rightarrow> bool" where
  "credential_source ae cli tr c \<longleftrightarrow>
     cli_provider_token cli = Some (token c) \<and> auth_scheme c = trim (cli_provider_auth_scheme cli) \<or>
     cli_admin_listen cli \<noteq> None \<and>
     (\<exists>body. AdminCall AdminPost ''/admin/provider-credential'' body (InjectReply 204) \<in> set tr \<and>
        ae_decode ae body = Inr c \<and> credential_validate (ae_header_from_str ae) c = Inr ())"

lemma credential_source_mono:
  "credential_source ae cli tr c \<Longrightarrow> credential_source ae cli (tr @ es) c"
  by (auto simp: credential_source_def)

lemma admin_router_stores:
  assumes "build_admin_router ae meth target body s = (r, Some c)" and "s \<noteq> Some c"
  shows "meth = AdminPost \<and> target = ''/admin/provider-credential'' \<and> r = InjectReply 204 \<and>
     ae_decode ae body = Inr c \<and> credential_validate (ae_header_from_str ae) c = Inr ()"
  using assms inject_full [of s] inject_empty [of s]
  by (cases s) (auto simp: build_admin_router_def store_get_def split: if_split_asm sum.split_asm)

lemma run_credential:
  assumes "server_run ae pe state effs tr s"
    and "provider_credentials state = initial_store cli"
    and "\<And>a s. ServeAdmin a s \<in> set effs \<Longrightarrow> cli_admin_listen cli \<noteq> None"
    and "s = Some c"
  shows "credential_source ae cli tr c"
  using assms(1,4)
proof (induction arbitrary: c)
  case started
  then show ?case
    using assms(2)
    by (auto simp: credential_source_def initial_store_def store_new_def store_set_def split: option.split_asm)
next
  case (continued tr s e s')
  show ?case
  proof (cases "s = Some c")
    case True
    then show ?thesis by (rule credential_source_mono [OF continued.IH])
  next
    case False
    with continued.hyps(2) continued.prems obtain a s0 meth target body r where
      e: "ServeAdmin a s0 \<in> set effs" "build_admin_router ae meth target body s = (r, Some c)"
        "e = AdminCall meth target body r"
      by (auto elim: server_stepE)
    from admin_router_stores [OF e(2) False] e(1,3) assms(3) show ?thesis
      by (auto simp: credential_source_def)
  qed
qed

lemma run_data_call:
  assumes "server_run ae pe state effs tr s" and "tr = pre @ DataCall meth target headers body r # post"
  shows "\<exists>s. server_run ae pe state effs pre s \<and>
     build_router pe (state\<lparr>provider_credentials := s\<rparr>) meth target headers body = r"
  using assms
proof (induction arbitrary: post)
  case (continued tr s e s')
  show ?case
  proof (cases post rule: rev_cases)
    case Nil
    with continued.prems have "tr = pre" "e = DataCall meth target headers body r" by auto
    with continued.hyps show ?thesis by (auto elim: server_stepE)
  next
    case (snoc post' e')
    with continued.prems have "tr = pre @ DataCall meth target headers body r # post'" by auto
    then show ?thesis by (rule continued.IH)
  qed
qed simp

lemma router_sends:
  "build_router pe state meth target headers body = ChatReply (Some req) reply \<Longrightarrow>
     fst (proxy_chat_completions pe state headers body) = Some req"
  by (auto simp: build_router_def split: if_split_asm prod.split_asm)

lemma started_state:
  fixes sv :: "'e server"
  assumes "server_main env ft cli = (Some (Returned (Inr sv)), effs)"
  shows "provider_credentials (sv_state sv) = initial_store cli \<and>
    require_provider_credential (sv_state sv) = (\<not> cli_allow_client_provider_auth cli) \<and>
    allowed_upstreams (config (sv_state sv)) = cli_allowlist cli \<and> routes (config (sv_state sv)) = bt_empty \<and>
    default_upstream (config (sv_state sv)) = cli_upstream cli \<and>
    (\<forall>a s. ServeAdmin a s \<in> set effs \<longrightarrow> cli_admin_listen cli \<noteq> None)"
proof -
  obtain r ea rd ed where m: "prepare env ft cli = Some (Returned (Inr sv))" "open_admin env cli sv = (r, ea)"
      "open_data env cli = (rd, ed)" "effs = ea @ ed"
    using assms unfolding server_main_def
    by (auto split: option.split_asm run.split_asm sum.split_asm prod.split_asm)
  have "cli_admin_listen cli \<noteq> None" if "ServeAdmin a s \<in> set effs" for a s
    using that m(4) open_admin_effects [OF m(2), of a s] open_data_effects [OF m(3), of a s] by auto
  moreover obtain c tls where "server_config cli = (Inr c :: 'e startup_error + _)"
      "assemble env cli (sv_attester sv) c (sv_config_hash sv) tls = Inr sv"
    using prepare_eq_Inr [OF m(1)] by blast
  ultimately show ?thesis
    using server_config_eq_Inr [of cli c] assembled [of env cli "sv_attester sv" c "sv_config_hash sv" tls sv]
    by auto
qed

section \<open>A development server\<close>

definition demo_addr :: SocketAddr where
  "demo_addr = \<lparr>sa_ip = V4 127 0 0 1, sa_port = 9443\<rparr>"

definition demo_server_cli :: server_cli where
  "demo_server_cli = \<lparr>cli_listen = ''127.0.0.1:9443'', cli_upstream = ''https://api.openai.com'',
     cli_max_request_bytes = 1048576, cli_upstream_timeout_secs = 120, cli_allowed_upstream = [],
     cli_upstream_tls_leaf_sha256 = [], cli_provider_token = None, cli_provider_auth_scheme = '' Bearer '',
     cli_admin_listen = Some ''127.0.0.1:9444'', cli_allow_client_provider_auth = False,
     cli_release_artifact_digest = None\<rparr>"

definition demo_server_env :: "(byte list, unit, unit) server_env" where
  "demo_server_env = \<lparr>sn_vars = Map.empty, sn_var_os = (\<lambda>v. v = DEV_MOCK_ENV), sn_exists = (\<lambda>p. False),
     sn_launcher_probe = (\<lambda>p. Inl ''absent''), sn_mock = demo_mock, sn_sev_device = None, sn_gcp = demo_gcp,
     sn_launcher = \<lparr>la_json = (\<lambda>r. Inl ''no''), la_elapsed = (\<lambda>n. n), la_connect = (\<lambda>p n. Inl ''absent''),
       la_exchange = (\<lambda>s b. ReadFailed ''closed'')\<rparr>,
     sn_url_parse = demo_parse, sn_sha256 = (\<lambda>b. demo_hash), sn_tls = demo_tls,
     sn_webpki = Inr accepting_webpki, sn_client_fails = (\<lambda>c. None),
     sn_send = (\<lambda>c req. Inr (answer 200 json_type [])), sn_socket_addr = (\<lambda>a. Some demo_addr),
     sn_bind = (\<lambda>a. None)\<rparr>"

definition demo_server_features :: server_features where
  "demo_server_features =
     \<lparr>ft_mock = True, ft_sev_snp = True, ft_gcp_confidential_space = True, ft_tdx = True\<rparr>"

definition demo_server_config :: RelayConfig where
  "demo_server_config = RelayConfig_default
     \<lparr>listen_addr := ''127.0.0.1:9443'',
      runtime := \<lparr>allow_client_provider_auth = False, private_admin_enabled = True,
                  provider_auth_scheme = ''Bearer'', body_log_policy = ''metadata-only''\<rparr>,
      allowed_upstreams := [''https://api.openai.com'']\<rparr>"

definition demo_running :: "unit server" where
  "demo_running = \<lparr>sv_attester = MockAttester, sv_config_hash = demo_hash,
     sv_tls = \<lparr>cert_der = [1], private_key_der = [42], send_tls13_tickets = 0\<rparr>,
     sv_client = \<lparr>timeout_secs = 120, pinned_tls = None\<rparr>,
     sv_state = \<lparr>config = demo_server_config, http_client = (\<lambda>req. Inr (answer 200 json_type [])),
                 provider_credentials = None, require_provider_credential = True\<rparr>\<rparr>"

lemma demo_backend_laws: "backend_laws demo_server_env demo_backends MockAttester"
  by (simp add: backend_laws_def demo_server_env_def demo_backends_def demo_mock_laws)

interpretation mock_source: evidence_source "run_verifier demo_backends MockVerifier" "verifies MockVerifier"
    "run_attester demo_server_env MockAttester"
  by (rule backend_source [OF _ demo_backend_laws]) (simp add: matching_def)

lemma demo_server_configured: "server_config demo_server_cli = (Inr demo_server_config :: unit startup_error + _)"
proof -
  have "trim '' Bearer '' = ''Bearer''" by code_simp
  then show ?thesis
    by (simp add: server_config_def demo_server_cli_def parse_upstream_tls_pins_def demo_server_config_def
        cli_allowlist_def RelayConfig_default_def default_max_request_bytes_def default_upstream_timeout_secs_def)
qed

lemma demo_server_attested:
  "server_tls demo_tls (run_attester demo_server_env MockAttester) demo_hash = Some (Returned (Inr (sv_tls demo_running)))"
proof -
  have "mock_attest demo_mock = measured_mock_attest demo_mock (replicate 32 7)"
    by (rule ext) (simp add: mock_attest_def measured_mock_attest_def mock_measurement_def demo_mock_def)
  moreover have "rc_generate (te_rcgen demo_tls) = Inr [42]" "rc_public_key_der (te_rcgen demo_tls) [42] = [42]"
      "te_sha384 demo_tls = demo_sha384"
    by (simp_all add: demo_tls_def one_cert_rcgen_def)
  ultimately show ?thesis
    using demo_attests demo_server
    by (simp add: server_tls_def run_attester_def demo_server_env_def demo_running_def from_key_pair_def Let_def)
qed

lemma demo_server_started:
  "server_main demo_server_env demo_server_features demo_server_cli
     = (Some (Returned (Inr demo_running)), [ServeAdmin demo_addr None, ServeData demo_addr])"
proof -
  have "ATTESTER_ENV \<noteq> DEV_MOCK_ENV" by code_simp
  then have sel: "select_attester demo_server_env demo_server_features = Returned MockAttester"
    by (simp add: select_attester_def demo_server_env_def demo_server_features_def can_connect_launcher_socket_def)
  have valid: "validate demo_parse demo_server_config = Inr ()" by code_simp
  have hash: "config_hash demo_parse (\<lambda>b. demo_hash) demo_server_config = Returned demo_hash"
    using valid by (auto simp: config_hash_def validate_eq_Inr split: sum.split)
  have asm: "assemble demo_server_env demo_server_cli MockAttester demo_server_config demo_hash (sv_tls demo_running)
      = Inr demo_running"
    by (simp add: assemble_def demo_server_env_def demo_running_def build_upstream_http_client_def
        demo_server_cli_def initial_store_def store_new_def demo_server_config_def upstream_tls_pin_hosts_def
        normalize_upstream_tls_pins_def RelayConfig_default_def bt_empty_def default_upstream_timeout_secs_def)
  have fields: "sn_url_parse demo_server_env = demo_parse" "sn_sha256 demo_server_env = (\<lambda>b. demo_hash)"
      "sn_tls demo_server_env = demo_tls"
    by (simp_all add: demo_server_env_def)
  have "prepare demo_server_env demo_server_features demo_server_cli = Some (Returned (Inr demo_running))"
    using hash valid asm demo_server_attested
    by (simp add: prepare_def sel demo_server_configured attest_and_assemble_def fields)
  then show ?thesis
    by (simp add: server_main_def open_admin_def open_data_def demo_server_cli_def demo_server_env_def demo_addr_def
        is_private_admin_ip_def demo_running_def)
qed

section \<open>Properties\<close>

text \<open>
  C6: whatever serves the data plane was validated and attested first. If start-up opens the
  data listener, then it is on the configured address, the configuration made of the command
  line passed validation, and the certificate the server presents was signed over evidence
  that the selected attester produced for the hash of its own key and the hash of exactly this
  configuration. The mock attester is selected only when it is compiled in and
  \<open>TRUSTED_RELAY_DEV_MOCK\<close> is set, and a provider credential is required unless the command
  line waives it.\<close>

theorem data_plane_serves_attested_config:
  fixes env :: "('k, 'e, 's) server_env"
  assumes "server_main env ft cli = (r, effs)" and "ServeData a \<in> set effs"
  shows "\<exists>sv kp e. r = Some (Returned (Inr sv)) \<and> sn_socket_addr env (cli_listen cli) = Some a \<and>
    server_config cli = (Inr (config (sv_state sv)) :: 'e startup_error + _) \<and>
    validate (sn_url_parse env) (config (sv_state sv)) = Inr () \<and>
    config_hash (sn_url_parse env) (sn_sha256 env) (config (sv_state sv)) = Returned (sv_config_hash sv) \<and>
    rc_generate (te_rcgen (sn_tls env)) = Inr kp \<and>
    run_attester env (sv_attester sv)
      (reportdata (te_sha384 (sn_tls env)) (rc_public_key_der (te_rcgen (sn_tls env)) kp) (Some (sv_config_hash sv)))
      = Some (Returned (Inr e)) \<and>
    rc_self_signed (te_rcgen (sn_tls env)) (cert_params_with_evidence e) kp = Inr (cert_der (sv_tls sv)) \<and>
    (sv_attester sv = MockAttester \<longrightarrow> ft_mock ft \<and> sn_var_os env DEV_MOCK_ENV) \<and>
    require_provider_credential (sv_state sv) = (\<not> cli_allow_client_provider_auth cli)"
proof -
  obtain sv where sv: "r = Some (Returned (Inr sv))" "prepare env ft cli = Some (Returned (Inr sv))"
      "sn_socket_addr env (cli_listen cli) = Some a"
    using server_main_serves [OF assms] by blast
  obtain c tls where c: "select_attester env ft = Returned (sv_attester sv)"
      "server_config cli = (Inr c :: 'e startup_error + _)" "validate (sn_url_parse env) c = Inr ()"
      "config_hash (sn_url_parse env) (sn_sha256 env) c = Returned (sv_config_hash sv)"
      "server_tls (sn_tls env) (run_attester env (sv_attester sv)) (sv_config_hash sv) = Some (Returned (Inr tls))"
      "assemble env cli (sv_attester sv) c (sv_config_hash sv) tls = Inr sv"
    using prepare_eq_Inr [OF sv(2)] by blast
  have state: "config (sv_state sv) = c" "sv_tls sv = tls"
      "require_provider_credential (sv_state sv) = (\<not> cli_allow_client_provider_auth cli)"
    using assembled [OF c(6)] by simp_all
  from server_tls_eq [OF c(5)] server_cert
  obtain kp e where "rc_generate (te_rcgen (sn_tls env)) = Inr kp"
      "run_attester env (sv_attester sv) (reportdata (te_sha384 (sn_tls env))
         (rc_public_key_der (te_rcgen (sn_tls env)) kp) (Some (sv_config_hash sv))) = Some (Returned (Inr e))"
      "rc_self_signed (te_rcgen (sn_tls env)) (cert_params_with_evidence e) kp = Inr (cert_der tls)"
    by (metis sum.inject(2))
  with sv c(1-4) state mock_only_on_request show ?thesis by metis
qed

theorem data_plane_serves_attested_config_witness:
  "\<exists>sv e. fst (server_main demo_server_env demo_server_features demo_server_cli) = Some (Returned (Inr sv)) \<and>
     config (sv_state sv) = demo_server_config \<and>
     run_attester demo_server_env (sv_attester sv) (reportdata demo_sha384 [42] (Some demo_hash))
       = Some (Returned (Inr e))"
proof -
  have "ServeData demo_addr \<in> set [ServeAdmin demo_addr None, ServeData demo_addr]" by simp
  from data_plane_serves_attested_config [OF demo_server_started this]
  obtain e where "run_attester demo_server_env (sv_attester demo_running)
      (reportdata demo_sha384 [42] (Some demo_hash)) = Some (Returned (Inr e))"
    by (auto simp: demo_server_env_def demo_tls_def one_cert_rcgen_def demo_running_def)
  then show ?thesis by (auto simp: demo_server_started demo_running_def)
qed

text \<open>
  C4: in every run of a started server, however admin and data-plane requests interleave, a
  request it hands to the HTTP client carries the body of the client's request to the origin
  of an allowlist entry of the command line (or of the default upstream when none was given),
  and while the client follows redirects it leaves these origins only where a server on one of
  them redirects it away; the upstream of the command line is spelled \<open>http(s)://authority\<close>.
  Unless the command line lets clients bring their own authorization, the request is
  authorized with a credential that came from the command line or, when the admin listener is
  on, from an injection accepted earlier in the run.\<close>

theorem running_server_confines_requests:
  assumes "server_main env ft cli = (Some (Returned (Inr sv)), effs)"
    and "server_run ae pe (sv_state sv) effs tr s"
    and "tr = pre @ DataCall meth target headers body (ChatReply (Some req) reply) # post"
    and "authority_law (pe_url_parse pe)" and "plain_url (cli_upstream cli)"
    and "pe_url_parse pe (req_url req) = Some v"
  shows "req_body req = body \<and>
    on_listed_origin (pe_url_parse pe) (cli_allowlist cli) (req_url req) \<and>
    (\<forall>redirects w. contacted redirects (req_url req) w \<longrightarrow>
       on_listed_origin (pe_url_parse pe) (cli_allowlist cli) w \<or>
       (\<exists>x y. contacted redirects (req_url req) x \<and> redirects x y \<and>
          on_listed_origin (pe_url_parse pe) (cli_allowlist cli) x \<and>
          \<not> on_listed_origin (pe_url_parse pe) (cli_allowlist cli) y)) \<and>
    (\<not> cli_allow_client_provider_auth cli \<longrightarrow>
       (\<exists>c. credential_source ae cli pre c \<and> req_headers req h_auth = Some (as_bytes (authorization_text c))))"
proof -
  note st = started_state [OF assms(1)]
  obtain s1 where s1: "server_run ae pe (sv_state sv) effs pre s1"
      "build_router pe (sv_state sv\<lparr>provider_credentials := s1\<rparr>) meth target headers body
         = ChatReply (Some req) reply"
    using run_data_call [OF assms(2,3)] by blast
  let ?state = "sv_state sv\<lparr>provider_credentials := s1\<rparr>"
  note sent = router_sends [OF s1(2)]
  have "slash_paths (config ?state)" "plain_bases (config ?state)"
      "allowed_upstreams (config ?state) = cli_allowlist cli"
    using st assms(5) by (simp_all add: slash_paths_def plain_bases_def bt_empty_def)
  moreover have "cli_allowlist cli \<noteq> []" by (simp add: cli_allowlist_def)
  ultimately have origin: "on_listed_origin (pe_url_parse pe) (cli_allowlist cli) (req_url req)"
    using sent_url_origin [OF assms(4) _ _ _ sent assms(6)] by simp
  obtain hs where hs: "upstream_headers pe s1 headers = Inr hs" "req_headers req = hs" "req_body req = body"
      "require_provider_credential (sv_state sv) \<longrightarrow> s1 \<noteq> None"
    using sent unfolding proxy_sends_iff by auto
  have "\<exists>c. credential_source ae cli pre c \<and> req_headers req h_auth = Some (as_bytes (authorization_text c))"
    if "\<not> cli_allow_client_provider_auth cli"
  proof -
    from hs(4) st that obtain c where c: "s1 = Some c" by auto
    then have "credential_source ae cli pre c" using run_credential [OF s1(1)] st by blast
    moreover have "req_headers req h_auth = Some (as_bytes (authorization_text c))"
      using upstream_headers_spec [OF hs(1)] hs(2) c by (simp add: expected_header_def)
    ultimately show ?thesis by blast
  qed
  with hs(3) origin contacted_leaves [of _ "req_url req" _ "on_listed_origin (pe_url_parse pe) (cli_allowlist cli)"]
  show ?thesis by blast
qed

definition demo_injected :: ProviderCredential where
  "demo_injected = \<lparr>auth_scheme = ''Bearer'', token = ''k1''\<rparr>"

lemma demo_server_sends:
  "\<exists>req reply. build_router demo_env (sv_state demo_running\<lparr>provider_credentials := Some demo_injected\<rparr>)
       POST default_chat_path no_headers [1] = ChatReply (Some req) reply \<and>
     req_url req = ''https://api.openai.com/v1/chat/completions''"
proof -
  let ?state = "sv_state demo_running\<lparr>provider_credentials := Some demo_injected\<rparr>"
  have base: "base_for demo_env ?state [1] = (''https://api.openai.com'', None)" by code_simp
  have "check_upstream_allowed demo_parse demo_server_config ''https://api.openai.com'' = Inr ()" by code_simp
  moreover have "pe_header_from_str demo_env (authorization_text demo_injected)" by code_simp
  then have "\<exists>hs. upstream_headers demo_env (Some demo_injected) no_headers = Inr hs"
    by (simp add: upstream_headers_ok_iff)
  moreover have limit: "unat (max_request_bytes demo_server_config) = 1048576"
    by (simp add: demo_server_config_def RelayConfig_default_def default_max_request_bytes_def)
  ultimately obtain req where req: "fst (proxy_chat_completions demo_env ?state no_headers [1]) = Some req"
    unfolding proxy_sends_iff base by (auto simp: demo_running_def demo_env_def)
  then obtain reply where "build_router demo_env ?state POST default_chat_path no_headers [1]
      = ChatReply (Some req) reply"
    using limit
    by (cases "proxy_chat_completions demo_env ?state no_headers [1]")
      (auto simp: build_router_def body_limit_def demo_running_def)
  moreover have "build_upstream_url ''https://api.openai.com'' None = ''https://api.openai.com/v1/chat/completions''"
    by code_simp
  with req base have "req_url req = ''https://api.openai.com/v1/chat/completions''"
    by (auto simp: proxy_sends_iff)
  ultimately show ?thesis by blast
qed

theorem running_server_confines_requests_witness:
  "\<exists>tr s req reply. server_run demo_admin demo_env (sv_state demo_running)
       [ServeAdmin demo_addr None, ServeData demo_addr] tr s \<and>
     DataCall POST default_chat_path no_headers [1] (ChatReply (Some req) reply) \<in> set tr \<and>
     url_origin demo_parse (req_url req) = Some ''https://api.openai.com:443'' \<and>
     (\<exists>c. credential_source demo_admin demo_server_cli tr c \<and>
        req_headers req h_auth = Some (as_bytes (authorization_text c)))"
proof -
  let ?effs = "[ServeAdmin demo_addr None, ServeData demo_addr]"
  let ?inject = "AdminCall AdminPost ''/admin/provider-credential'' (as_bytes ''k1'') (InjectReply 204)"
  have inj: "build_admin_router demo_admin AdminPost ''/admin/provider-credential'' (as_bytes ''k1'') None
      = (InjectReply 204, Some demo_injected)" by code_simp
  have "provider_credentials (sv_state demo_running) = None" by (simp add: demo_running_def)
  with server_run.started [of demo_admin demo_env "sv_state demo_running" ?effs]
  have "server_run demo_admin demo_env (sv_state demo_running) ?effs [] None" by simp
  from server_run.continued [OF this server_step.admin_call [OF _ inj, of demo_addr None]]
  have run: "server_run demo_admin demo_env (sv_state demo_running) ?effs [?inject] (Some demo_injected)" by simp
  obtain req reply where routed:
      "build_router demo_env (sv_state demo_running\<lparr>provider_credentials := Some demo_injected\<rparr>)
         POST default_chat_path no_headers [1] = ChatReply (Some req) reply"
      "req_url req = ''https://api.openai.com/v1/chat/completions''"
    using demo_server_sends by blast
  let ?tr = "[?inject] @ [DataCall POST default_chat_path no_headers [1] (ChatReply (Some req) reply)]"
  have tr: "server_run demo_admin demo_env (sv_state demo_running) ?effs ?tr (Some demo_injected)"
    by (rule server_run.continued [OF run server_step.data_call [OF _ routed(1), of demo_addr]]) simp
  have env: "pe_url_parse demo_env = demo_parse" by (simp add: demo_env_def)
  have parsed: "pe_url_parse demo_env (req_url req) = Some demo_url" by (simp add: env routed(2) demo_parse_def)
  have "url_origin demo_parse ''https://api.openai.com'' = Some ''https://api.openai.com:443''" by code_simp
  moreover have "cli_allowlist demo_server_cli = [''https://api.openai.com'']"
    by (simp add: cli_allowlist_def demo_server_cli_def)
  moreover note running_server_confines_requests [OF demo_server_started tr, of "[?inject]" POST default_chat_path
      no_headers "[1]" req reply "[]", OF _ _ _ parsed]
  moreover have "plain_url ''https://api.openai.com''" by code_simp
  ultimately have "url_origin demo_parse (req_url req) = Some ''https://api.openai.com:443''"
      "\<exists>c. credential_source demo_admin demo_server_cli [?inject] c \<and>
         req_headers req h_auth = Some (as_bytes (authorization_text c))"
    using authority_law_demo by (auto simp: env demo_server_cli_def on_listed_origin_def)
  with tr credential_source_mono show ?thesis by fastforce
qed

end
