(* ===== verification/Online_Check.thy ===== *)
theory Online_Check
  imports Server_Main
begin

text \<open>
  \<open>tools/online-check/src/main.rs\<close>: the auditor's command line tool. It fetches the certificate
  of a live relay without trusting it, prints what the evidence says, and in audit or strict
  mode verifies evidence, key binding, workload and configuration hash. In strict mode the
  expected hash may be computed from the inputs of the relay's configuration. What the tool
  prints and what it writes to the connection are effects in order; \<open>hex\<close>, \<open>base64\<close>,
  \<open>serde_json\<close>, \<open>url\<close>, the hash functions, certificate parsing and the connection are the
  parameters in \<open>check_env\<close>.
\<close>

section \<open>Data\<close>

datatype check_mode = Audit | Strict

datatype check_backend = CheckSevSnp | CheckGcp

record check_cli =
  oc_endpoint :: string
  oc_backend :: check_backend
  oc_mode :: check_mode
  oc_expected_measurement :: "string option"
  oc_expected_config_hash :: "string option"
  oc_upstream :: string
  oc_allowed_upstream :: "string list"
  oc_route :: "string list"
  oc_max_request_bytes :: u64
  oc_release_artifact_digest :: "string option"
  oc_upstream_timeout_secs :: u64
  oc_upstream_tls_leaf_sha256 :: "string list"
  oc_allow_client_provider_auth :: bool
  oc_private_admin_enabled :: bool
  oc_provider_auth_scheme :: string
  oc_body_log_policy :: string
  oc_print_only :: bool
  oc_gcp_cs_audience :: string
  oc_gcp_cs_image_digest :: "string option"
  oc_gcp_cs_image_reference :: "string option"
  oc_gcp_cs_signature_key_id :: "string list"
  oc_gcp_cs_service_account :: "string option"
  oc_gcp_cs_project_id :: "string option"
  oc_gcp_cs_zone :: "string option"
  oc_health :: bool

record CapturedCert =
  cap_der :: "byte list"
  cap_health_response :: "string option"

record ReportDetails =
  rd_reportdata :: "byte list"
  rd_measurement :: "byte list"
  rd_policy :: u64
  rd_debug_allowed :: bool
  rd_reported_tcb :: u64
  rd_chip_id_prefix :: string

datatype check_error =
    EndpointInvalid
  | EndpointNotHttps
  | NotHex string
  | HexLength string nat nat
  | RouteInvalid string
  | PinInvalid
  | InputsInvalid config_error
  | MeasurementRequired
  | ImageRequired
  | ConfigHashRequired
  | NoHost
  | NoPort
  | BadServerName
  | ConnectFailed string string
  | HandshakeFailed string
  | NoCertificate
  | HealthFailed string
  | NoEvidence AttestError
  | WrongTee TeeType TeeType
  | NoSpki AttestError
  | ReportTooShort string
  | TokenNotUtf8
  | NoPayload
  | BadBase64
  | PayloadNotJson
  | BackendMissing string
  | PolicyRejected AttestError
  | EvidenceRejected AttestError
  | SpkiMismatch string string
  | ConfigMismatch string string

datatype check_effect = Wrote string | Printed string

record check_env =
  oe_url_parse :: url_parser
  oe_hex_decode :: "string \<Rightarrow> byte list option"
  oe_hex_encode :: "byte list \<Rightarrow> string"
  oe_b64_decode :: "string \<Rightarrow> byte list option"
  oe_json_parse :: "byte list \<Rightarrow> json option"
  oe_json_text :: "json \<Rightarrow> string"
  oe_sha256 :: "byte list \<Rightarrow> byte list"
  oe_sha384 :: "byte list \<Rightarrow> byte list"
  oe_x509 :: x509_parser
  oe_subject :: "byte list \<Rightarrow> string option"
  oe_server_name :: "string \<Rightarrow> bool"
  oe_connect :: "string \<Rightarrow> string option"
  oe_ring :: "string ring"
  oe_handshake :: "(string, string) ServerCertVerifier \<Rightarrow> string \<Rightarrow> string option"
  oe_peer_certs :: "byte list list option"
  oe_write :: "string \<Rightarrow> (string \<times> string) option"
  oe_read_to_end :: "string + byte list"
  oe_lossy :: "byte list \<Rightarrow> string"
  oe_backends :: backend_env

section \<open>Parsing the arguments\<close>

definition parse_hex_array :: "check_env \<Rightarrow> nat \<Rightarrow> string \<Rightarrow> string \<Rightarrow> check_error + byte list" where
  "parse_hex_array env n raw label =
     rbind (ok_or (NotHex label) (oe_hex_decode env (strip_0x raw))) (\<lambda>bytes.
     if length bytes \<noteq> n then Inl (HexLength label n (length bytes)) else Inr bytes)"

definition parse_optional_hex ::
    "check_env \<Rightarrow> nat \<Rightarrow> string option \<Rightarrow> string \<Rightarrow> check_error + byte list option" where
  "parse_optional_hex env n raw label =
     (case raw of
        None \<Rightarrow> Inr None
      | Some v \<Rightarrow> rbind (parse_hex_array env n v label) (\<lambda>b. Inr (Some b)))"

definition push_check_pin ::
    "(string, string list) btree \<Rightarrow> string \<Rightarrow> check_error + (string, string list) btree" where
  "push_check_pin pins item =
     rbind (ok_or PinInvalid (split_once (CHR ''='') item)) (\<lambda>(origin, pin).
     Inr (bt_entry origin [] (\<lambda>ps. ps @ [pin]) pins))"

definition check_upstream_tls_pins :: "string list \<Rightarrow> check_error + (string, string list) btree" where
  "check_upstream_tls_pins raw = fold_result push_check_pin bt_empty raw"

definition push_route ::
    "(string, ProviderConfig) btree \<Rightarrow> string \<Rightarrow> check_error + (string, ProviderConfig) btree" where
  "push_route rs raw =
     rbind (ok_or (RouteInvalid raw) (split_once (CHR ''='') raw)) (\<lambda>(pre, rest).
     Inr (bt_insert pre
            (case split_once (CHR ''|'') rest of
               Some (base, p) \<Rightarrow> \<lparr>base_url = base, path = Some p\<rparr>
             | None \<Rightarrow> \<lparr>base_url = rest, path = None\<rparr>) rs))"

definition check_config :: "check_cli \<Rightarrow> check_error + RelayConfig" where
  "check_config cli =
     rbind (fold_result push_route bt_empty (oc_route cli)) (\<lambda>rs.
     rbind (check_upstream_tls_pins (oc_upstream_tls_leaf_sha256 cli)) (\<lambda>pins.
     Inr \<lparr>listen_addr = ''0.0.0.0:8443'',
          runtime = \<lparr>allow_client_provider_auth = oc_allow_client_provider_auth cli,
                     private_admin_enabled = oc_private_admin_enabled cli,
                     provider_auth_scheme = oc_provider_auth_scheme cli,
                     body_log_policy = oc_body_log_policy cli\<rparr>,
          default_upstream = oc_upstream cli,
          routes = rs,
          allowed_upstreams =
            (if oc_allowed_upstream cli = [] then [oc_upstream cli] else oc_allowed_upstream cli),
          max_request_bytes = oc_max_request_bytes cli,
          release_artifact_digest = oc_release_artifact_digest cli,
          upstream_timeout_secs = oc_upstream_timeout_secs cli,
          upstream_tls_leaf_sha256 = pins\<rparr>))"

definition compute_expected_config_hash :: "check_env \<Rightarrow> check_cli \<Rightarrow> (check_error + byte list) run" where
  "compute_expected_config_hash env cli =
     (case rbind (check_config cli) (\<lambda>c.
             rbind (map_err InputsInvalid (validate (oe_url_parse env) c)) (\<lambda>_. Inr c)) of
        Inl e \<Rightarrow> Returned (Inl e)
      | Inr c \<Rightarrow> map_run Inr (config_hash (oe_url_parse env) (oe_sha256 env) c))"

definition wanted_config_hash :: "check_env \<Rightarrow> check_cli \<Rightarrow> (check_error + byte list option) run" where
  "wanted_config_hash env cli =
     (case oc_expected_config_hash cli of
        Some raw \<Rightarrow>
          Returned (rbind (parse_hex_array env 32 raw ''--expected-config-hash'') (\<lambda>h. Inr (Some h)))
      | None \<Rightarrow>
          if oc_mode cli = Strict \<or> oc_print_only cli
          then map_run (\<lambda>r. rbind r (\<lambda>h. Inr (Some h))) (compute_expected_config_hash env cli)
          else Returned (Inr None))"

text \<open>What strict mode insists on before it connects.\<close>

definition check_required :: "check_cli \<Rightarrow> measurement \<Rightarrow> byte list option \<Rightarrow> check_error + unit" where
  "check_required cli m h =
     (if oc_mode cli = Strict \<and> \<not> oc_print_only cli then
        (if oc_backend cli = CheckSevSnp \<and> m = None then Inl MeasurementRequired
         else if oc_backend cli = CheckGcp \<and> oc_gcp_cs_image_digest cli = None \<and> oc_gcp_cs_signature_key_id cli = []
         then Inl ImageRequired
         else if h = None then Inl ConfigHashRequired
         else Inr ())
      else Inr ())"

definition check_inputs ::
    "check_env \<Rightarrow> check_cli \<Rightarrow> (check_error + url \<times> measurement \<times> byte list option) run" where
  "check_inputs env cli =
     (case rbind (ok_or EndpointInvalid (oe_url_parse env (oc_endpoint cli))) (\<lambda>endpoint.
             if url_scheme endpoint \<noteq> HTTPS then Inl EndpointNotHttps
             else rbind (parse_optional_hex env MEASUREMENT_LEN (oc_expected_measurement cli) ''--expected-measurement'')
                    (\<lambda>m. Inr (endpoint, m))) of
        Inl e \<Rightarrow> Returned (Inl e)
      | Inr (endpoint, m) \<Rightarrow>
          map_run (\<lambda>r. rbind r (\<lambda>h. rbind (check_required cli m h) (\<lambda>_. Inr (endpoint, m, h))))
            (wanted_config_hash env cli))"

section \<open>The capturing verifier\<close>

text \<open>It accepts every certificate, since the tool verifies the evidence itself, but checks signatures.\<close>

definition capture_verify_server_cert :: "cert \<Rightarrow> string \<Rightarrow> handshake \<Rightarrow> string + unit" where
  "capture_verify_server_cert end_entity server_name hs = Inr ()"

definition capture_verify_tls12_signature :: "string ring \<Rightarrow> string signature_check" where
  "capture_verify_tls12_signature ring message leaf dss = crypto_verify_tls12 ring message leaf dss"

definition capture_verify_tls13_signature :: "string ring \<Rightarrow> string signature_check" where
  "capture_verify_tls13_signature ring message leaf dss = crypto_verify_tls13 ring message leaf dss"

definition capture_supported_verify_schemes :: "SignatureScheme list" where
  "capture_supported_verify_schemes =
     [ECDSA_NISTP256_SHA256, ECDSA_NISTP384_SHA384, ED25519,
      SignatureScheme.RSA_PSS_SHA256, SignatureScheme.RSA_PSS_SHA384, SignatureScheme.RSA_PSS_SHA512,
      RSA_PKCS1_SHA256, RSA_PKCS1_SHA384, RSA_PKCS1_SHA512]"

definition CaptureOnlyVerifier :: "string ring \<Rightarrow> (string, string) ServerCertVerifier" where
  "CaptureOnlyVerifier ring =
     \<lparr>cb_verify_server_cert = capture_verify_server_cert,
      cb_verify_tls12_signature = capture_verify_tls12_signature ring,
      cb_verify_tls13_signature = capture_verify_tls13_signature ring,
      cb_supported_verify_schemes = capture_supported_verify_schemes\<rparr>"

definition capture_client_config :: "string ring \<Rightarrow> (string, string) ServerCertVerifier" where
  "capture_client_config ring = CaptureOnlyVerifier ring"

interpretation captured_peer: ring_verifier ring "capture_client_config ring" "\<lambda>leaf. True" for ring
  by unfold_locales
    (simp_all add: capture_client_config_def CaptureOnlyVerifier_def capture_verify_server_cert_def
      capture_verify_tls12_signature_def capture_verify_tls13_signature_def)

section \<open>Fetching the certificate\<close>

definition health_path :: "url \<Rightarrow> string" where
  "health_path endpoint =
     (let p = trim_end_matches (\<lambda>c. c = CHR ''/'') (url_path endpoint);
          p' = (if p = [] then ''/'' else p)
      in if p' = ''/'' then ''/health'' else p' @ ''/health'')"

definition health_request :: "url \<Rightarrow> string \<Rightarrow> string" where
  "health_request endpoint host =
     ''GET '' @ health_path endpoint @ '' HTTP/1.1'' @ CRLF @ ''Host: '' @ host @ CRLF
     @ ''Connection: close'' @ CRLF @ CRLF"

definition fetch_health ::
    "check_env \<Rightarrow> url \<Rightarrow> string \<Rightarrow> (check_error + string) \<times> check_effect list" where
  "fetch_health env endpoint host =
     (let request = health_request endpoint host
      in case oe_write env request of
           Some (part, e) \<Rightarrow> (Inl (HealthFailed e), [Wrote part])
         | None \<Rightarrow> (rbind (map_err HealthFailed (oe_read_to_end env)) (\<lambda>b. Inr (oe_lossy env b)), [Wrote request]))"

definition open_tls :: "check_env \<Rightarrow> url \<Rightarrow> check_error + string \<times> byte list" where
  "open_tls env endpoint =
     rbind (ok_or NoHost (url_host_str endpoint)) (\<lambda>host.
     rbind (ok_or NoPort (url_port_or_known_default endpoint)) (\<lambda>port.
     let addr = host @ '':'' @ port_string port
     in if \<not> oe_server_name env host then Inl BadServerName
        else case oe_connect env addr of
               Some e \<Rightarrow> Inl (ConnectFailed addr e)
             | None \<Rightarrow>
                 (case oe_handshake env (capture_client_config (oe_ring env)) host of
                    Some e \<Rightarrow> Inl (HandshakeFailed e)
                  | None \<Rightarrow>
                      (case oe_peer_certs env of
                         Some (cert # _) \<Rightarrow> Inr (host, cert)
                       | _ \<Rightarrow> Inl NoCertificate))))"

definition fetch_cert_with_optional_health ::
    "check_env \<Rightarrow> url \<Rightarrow> bool \<Rightarrow> (check_error + CapturedCert) \<times> check_effect list" where
  "fetch_cert_with_optional_health env endpoint want_health =
     (case open_tls env endpoint of
        Inl e \<Rightarrow> (Inl e, [])
      | Inr (host, cert) \<Rightarrow>
          if want_health then
            (case fetch_health env endpoint host of
               (Inl e, effs) \<Rightarrow> (Inl e, effs)
             | (Inr r, effs) \<Rightarrow> (Inr \<lparr>cap_der = cert, cap_health_response = Some r\<rparr>, effs))
          else (Inr \<lparr>cap_der = cert, cap_health_response = None\<rparr>, []))"

section \<open>Describing the evidence\<close>

definition report_slice :: "byte list \<Rightarrow> nat \<Rightarrow> nat \<Rightarrow> string \<Rightarrow> check_error + byte list" where
  "report_slice buf offset len label = ok_or (ReportTooShort label) (slice buf offset (offset + len))"

definition report_details :: "check_env \<Rightarrow> byte list \<Rightarrow> check_error + ReportDetails" where
  "report_details env report =
     rbind (report_slice report REPORT_DATA_OFFSET REPORT_DATA_LEN ''REPORTDATA'') (\<lambda>rd.
     rbind (report_slice report MEASUREMENT_OFFSET MEASUREMENT_LEN ''MEASUREMENT'') (\<lambda>m.
     rbind (report_slice report POLICY_OFFSET 8 ''POLICY'') (\<lambda>pol.
     rbind (report_slice report REPORTED_TCB_OFFSET 8 ''REPORTED_TCB'') (\<lambda>tcb.
     rbind (report_slice report CHIP_ID_OFFSET CHIP_ID_LEN ''CHIP_ID'') (\<lambda>chip_id.
     Inr \<lparr>rd_reportdata = rd, rd_measurement = m, rd_policy = u64_from_le_bytes pol,
          rd_debug_allowed = u64_from_le_bytes pol AND POLICY_DEBUG_ALLOWED_BIT \<noteq> 0,
          rd_reported_tcb = u64_from_le_bytes tcb,
          rd_chip_id_prefix = oe_hex_encode env (take 8 chip_id)\<rparr>)))))"

text \<open>\<open>{:016x}\<close>\<close>

primrec hex_fixed :: "nat \<Rightarrow> nat \<Rightarrow> string" where
  "hex_fixed 0 n = []"
| "hex_fixed (Suc k) n =
     hex_fixed k (n div 16) @ [let d = n mod 16 in if d < 10 then digit_char d else char_of (87 + d)]"

definition print_report ::
    "check_env \<Rightarrow> string \<Rightarrow> nat \<Rightarrow> byte list \<Rightarrow> ReportDetails \<Rightarrow> byte list option \<Rightarrow> string list" where
  "print_report env subject cert_len cert_spki_hash details h =
     [''certificate.subject='' @ subject,
      ''certificate.der_len='' @ decimal cert_len,
      ''certificate.spki_sha384='' @ oe_hex_encode env cert_spki_hash,
      ''report.measurement='' @ oe_hex_encode env (rd_measurement details),
      ''report.reportdata='' @ oe_hex_encode env (rd_reportdata details),
      ''report.reportdata_spki='' @ oe_hex_encode env (take 48 (rd_reportdata details)),
      ''report.reportdata_config16='' @ oe_hex_encode env (window (rd_reportdata details) 48 16),
      ''report.policy=0x'' @ hex_fixed 16 (unat (rd_policy details)),
      ''report.debug_allowed='' @ (if rd_debug_allowed details then ''true'' else ''false''),
      ''report.reported_tcb=0x'' @ hex_fixed 16 (unat (rd_reported_tcb details)),
      ''report.chip_id_prefix='' @ rd_chip_id_prefix details]
     @ (case h of
          None \<Rightarrow> []
        | Some hash \<Rightarrow> [''expected.config_hash='' @ oe_hex_encode env hash,
                        ''expected.config_hash16='' @ oe_hex_encode env (take 16 hash)])"

lemma padding_decreases: "0 < n mod 4 \<Longrightarrow> (4 - Suc n mod 4) mod 4 < 4 - n mod (4 :: nat)"
proof -
  assume "0 < n mod 4"
  moreover have "n mod 4 < 4" by simp
  ultimately consider "n mod 4 = 1" | "n mod 4 = 2" | "n mod 4 = 3" by linarith
  then show ?thesis by cases (simp_all add: mod_Suc)
qed

text \<open>The padding loop of \<open>base64_url_decode\<close>.\<close>

function pad_base64 :: "string \<Rightarrow> string" where
  "pad_base64 input = (if length input mod 4 \<noteq> 0 then pad_base64 (input @ ''='') else input)"
  by pat_completeness auto
termination
  by (relation "measure (\<lambda>s. (4 - length s mod 4) mod 4)") (simp_all add: padding_decreases del: One_nat_def)

declare pad_base64.simps [simp del]

definition base64_url_decode :: "check_env \<Rightarrow> string \<Rightarrow> check_error + byte list" where
  "base64_url_decode env raw =
     ok_or BadBase64 (oe_b64_decode env
       (pad_base64 (replace_char (CHR ''_'') (CHR ''/'') (replace_char (CHR ''-'') (CHR ''+'') raw))))"

definition decode_jwt_claims_without_verification :: "check_env \<Rightarrow> string \<Rightarrow> check_error + json" where
  "decode_jwt_claims_without_verification env t =
     rbind (case split_char (CHR ''.'') t of _ # payload # _ \<Rightarrow> Inr payload | _ \<Rightarrow> Inl NoPayload) (\<lambda>payload.
     rbind (base64_url_decode env payload) (\<lambda>bytes.
     ok_or PayloadNotJson (oe_json_parse env bytes)))"

definition json_string :: "json \<Rightarrow> string \<Rightarrow> string" where
  "json_string v key =
     (case Option.bind (json_get v key) json_as_str of Some s \<Rightarrow> s | None \<Rightarrow> ''<missing>'')"

definition json_value :: "check_env \<Rightarrow> json \<Rightarrow> string \<Rightarrow> string" where
  "json_value env v key = (case json_get v key of Some x \<Rightarrow> oe_json_text env x | None \<Rightarrow> ''null'')"

definition print_submods :: "check_env \<Rightarrow> json \<Rightarrow> string list" where
  "print_submods env submods =
     (case json_get submods ''container'' of
        None \<Rightarrow> []
      | Some c \<Rightarrow> [''token.container.image_digest='' @ json_string c ''image_digest'',
                   ''token.container.image_reference='' @ json_string c ''image_reference'',
                   ''token.container.image_signatures='' @ json_value env c ''image_signatures''])
     @ (case json_get submods ''gce'' of
          None \<Rightarrow> []
        | Some g \<Rightarrow> [''token.gce.project_id='' @ json_string g ''project_id'',
                     ''token.gce.zone='' @ json_string g ''zone'',
                     ''token.gce.instance_name='' @ json_string g ''instance_name''])"

definition print_gcp_confidential_space_token ::
    "check_env \<Rightarrow> string \<Rightarrow> nat \<Rightarrow> byte list \<Rightarrow> byte list \<Rightarrow> check_error + string list" where
  "print_gcp_confidential_space_token env subject cert_len cert_spki_hash t =
     rbind (ok_or TokenNotUtf8 (from_utf8 t)) (\<lambda>t.
     rbind (decode_jwt_claims_without_verification env t) (\<lambda>claims.
     Inr ([''certificate.subject='' @ subject,
           ''certificate.der_len='' @ decimal cert_len,
           ''certificate.spki_sha384='' @ oe_hex_encode env cert_spki_hash,
           ''token.issuer='' @ json_string claims ''iss'',
           ''token.audience='' @ json_string claims ''aud'',
           ''token.swname='' @ json_string claims ''swname'',
           ''token.dbgstat='' @ json_string claims ''dbgstat'',
           ''token.service_accounts='' @ json_value env claims ''google_service_accounts'']
          @ (case json_get claims ''submods'' of None \<Rightarrow> [] | Some submods \<Rightarrow> print_submods env submods))))"

text \<open>The part after the last separator: \<open>rsplit(sep).next()\<close>.\<close>

definition rsplit_first :: "string \<Rightarrow> string \<Rightarrow> string" where
  "rsplit_first sep s =
     (case find_sub (rev sep) (rev s) of None \<Rightarrow> s | Some i \<Rightarrow> drop (length s - i) s)"

definition print_health :: "string option \<Rightarrow> string list" where
  "print_health response =
     (case response of
        None \<Rightarrow> []
      | Some r \<Rightarrow>
          [''health.status='' @ (case str_lines r of [] \<Rightarrow> ''<empty>'' | l # _ \<Rightarrow> l),
           ''health.body='' @ trim (rsplit_first (CRLF @ CRLF) r)])"

section \<open>Verification\<close>

definition check_verifier_for_backend ::
    "check_env \<Rightarrow> features \<Rightarrow> check_cli \<Rightarrow> check_error + dyn_verifier" where
  "check_verifier_for_backend env ft cli =
     (case oc_backend cli of
        CheckSevSnp \<Rightarrow> if ft_sev_snp ft then Inr SevSnpVerifier else Inl (BackendMissing ''sev-snp'')
      | CheckGcp \<Rightarrow>
          if ft_gcp_confidential_space ft then
            let pol = (policy_new (oc_gcp_cs_audience cli))
                  \<lparr>pol_image_digest := oc_gcp_cs_image_digest cli,
                   pol_image_reference := oc_gcp_cs_image_reference cli,
                   pol_signature_key_ids := oc_gcp_cs_signature_key_id cli,
                   pol_service_account := oc_gcp_cs_service_account cli,
                   pol_project_id := oc_gcp_cs_project_id cli,
                   pol_zone := oc_gcp_cs_zone cli\<rparr>
            in if oc_mode cli = Audit then Inr (GcpVerifier (verifier_new_audit pol))
               else rbind (map_err PolicyRejected (verifier_new (be_gcp (oe_backends env)) pol))
                      (\<lambda>v. Inr (GcpVerifier v))
          else Inl (BackendMissing ''gcp-confidential-space''))"

definition expected_reportdata :: "byte list \<Rightarrow> byte list option \<Rightarrow> byte list" where
  "expected_reportdata cert_spki_hash h =
     take 48 cert_spki_hash @ (case h of None \<Rightarrow> replicate 16 0 | Some hash \<Rightarrow> take 16 hash)"

definition verify_reportdata ::
    "check_env \<Rightarrow> byte list \<Rightarrow> byte list \<Rightarrow> byte list option \<Rightarrow> check_error + unit" where
  "verify_reportdata env actual cert_spki_hash h =
     (if take 48 actual \<noteq> take 48 cert_spki_hash
      then Inl (SpkiMismatch (oe_hex_encode env (take 48 cert_spki_hash)) (oe_hex_encode env (take 48 actual)))
      else case h of
             None \<Rightarrow> Inr ()
           | Some hash \<Rightarrow>
               if window actual 48 16 \<noteq> take 16 hash
               then Inl (ConfigMismatch (oe_hex_encode env (take 16 hash)) (oe_hex_encode env (window actual 48 16)))
               else Inr ())"

definition wanted_tee :: "check_cli \<Rightarrow> TeeType" where
  "wanted_tee cli = (case oc_backend cli of CheckSevSnp \<Rightarrow> SevSnp | CheckGcp \<Rightarrow> GcpConfidentialSpace)"

definition describe ::
    "check_env \<Rightarrow> check_cli \<Rightarrow> byte list option \<Rightarrow> byte list \<Rightarrow> check_error + Evidence \<times> byte list \<times> string list" where
  "describe env cli h der =
     rbind (map_err NoEvidence (extract_evidence_from_cert (oe_x509 env) der)) (\<lambda>evidence.
     if tee_type evidence \<noteq> wanted_tee cli then Inl (WrongTee (wanted_tee cli) (tee_type evidence))
     else
       rbind (map_err NoSpki (extract_spki_from_cert (oe_x509 env) der)) (\<lambda>spki.
       let cert_spki_hash = oe_sha384 env spki;
           subject = (case oe_subject env der of Some s \<Rightarrow> s | None \<Rightarrow> ''<unparseable>'')
       in rbind (case oc_backend cli of
                   CheckSevSnp \<Rightarrow>
                     rbind (report_details env (evidence_data evidence)) (\<lambda>details.
                     Inr (print_report env subject (length der) cert_spki_hash details h))
                 | CheckGcp \<Rightarrow>
                     print_gcp_confidential_space_token env subject (length der) cert_spki_hash (evidence_data evidence))
            (\<lambda>out. Inr (evidence, cert_spki_hash, out))))"

definition verify_evidence ::
    "check_env \<Rightarrow> features \<Rightarrow> check_cli \<Rightarrow> measurement \<Rightarrow> byte list option \<Rightarrow> Evidence \<Rightarrow> byte list
       \<Rightarrow> check_error + unit" where
  "verify_evidence env ft cli m h evidence cert_spki_hash =
     rbind (check_verifier_for_backend env ft cli) (\<lambda>v.
     let expected_attestation_data =
           (case oc_backend cli of
              CheckSevSnp \<Rightarrow> (case oc_mode cli of Audit \<Rightarrow> None | Strict \<Rightarrow> m)
            | CheckGcp \<Rightarrow> Some (expected_reportdata cert_spki_hash h));
         config_hash_for_verify = (case oc_mode cli of Audit \<Rightarrow> None | Strict \<Rightarrow> h)
     in rbind (map_err EvidenceRejected (run_verifier (oe_backends env) v evidence expected_attestation_data)) (\<lambda>rd.
        verify_reportdata env rd cert_spki_hash config_hash_for_verify))"

definition mode_text :: "check_cli \<Rightarrow> string" where
  "mode_text cli =
     (case oc_backend cli of CheckSevSnp \<Rightarrow> ''SevSnp'' | CheckGcp \<Rightarrow> ''GcpConfidentialSpace'') @ ''/''
     @ (case oc_mode cli of Audit \<Rightarrow> ''Audit'' | Strict \<Rightarrow> ''Strict'')"

definition check_cert ::
    "check_env \<Rightarrow> features \<Rightarrow> check_cli \<Rightarrow> measurement \<Rightarrow> byte list option \<Rightarrow> CapturedCert
       \<Rightarrow> (check_error + unit) \<times> string list" where
  "check_cert env ft cli m h cert =
     (case describe env cli h (cap_der cert) of
        Inl e \<Rightarrow> (Inl e, [])
      | Inr (evidence, cert_spki_hash, out) \<Rightarrow>
          if oc_print_only cli then (Inr (), out @ print_health (cap_health_response cert))
          else case verify_evidence env ft cli m h evidence cert_spki_hash of
                 Inl e \<Rightarrow> (Inl e, out)
               | Inr _ \<Rightarrow>
                   (Inr (), out @ [''RESULT: OK - '' @ mode_text cli @ '' verification succeeded'']
                            @ print_health (cap_health_response cert)))"

definition check_main ::
    "check_env \<Rightarrow> features \<Rightarrow> check_cli \<Rightarrow> (check_error + unit) run \<times> check_effect list" where
  "check_main env ft cli =
     (case check_inputs env cli of
        Panicked \<Rightarrow> (Panicked, [])
      | Returned (Inl e) \<Rightarrow> (Returned (Inl e), [])
      | Returned (Inr (endpoint, m, h)) \<Rightarrow>
          (case fetch_cert_with_optional_health env endpoint (oc_health cli) of
             (Inl e, effs) \<Rightarrow> (Returned (Inl e), effs)
           | (Inr cert, effs) \<Rightarrow>
               (case check_cert env ft cli m h cert of
                  (r, out) \<Rightarrow> (Returned r, effs @ map Printed out))))"

section \<open>Lemmas\<close>

lemma same_pin_step: "push_cli_pin m i = Inr p \<longleftrightarrow> push_check_pin m i = Inr p"
  by (auto simp: push_check_pin_def push_cli_pin_def result_simps)

text \<open>The two copies of the pin parser agree.\<close>

lemma same_pins: "parse_upstream_tls_pins raw = Inr p \<longleftrightarrow> check_upstream_tls_pins raw = Inr p"
  unfolding check_upstream_tls_pins_def parse_upstream_tls_pins_def
  by (induction raw arbitrary: p rule: rev_induct) (simp_all add: rbind_eq_Inr same_pin_step)

text \<open>Inputs of the tool that say of a relay what its own command line says.\<close>

definition mirrors :: "check_cli \<Rightarrow> server_cli \<Rightarrow> bool" where
  "mirrors cli s \<longleftrightarrow>
     oc_upstream cli = cli_upstream s \<and> oc_allowed_upstream cli = cli_allowed_upstream s \<and> oc_route cli = [] \<and>
     oc_max_request_bytes cli = cli_max_request_bytes s \<and>
     oc_release_artifact_digest cli = cli_release_artifact_digest s \<and>
     oc_upstream_timeout_secs cli = cli_upstream_timeout_secs s \<and>
     oc_upstream_tls_leaf_sha256 cli = cli_upstream_tls_leaf_sha256 s \<and>
     oc_allow_client_provider_auth cli = cli_allow_client_provider_auth s \<and>
     oc_private_admin_enabled cli = (cli_admin_listen s \<noteq> None) \<and>
     oc_provider_auth_scheme cli = trim (cli_provider_auth_scheme s) \<and>
     oc_body_log_policy cli = ''metadata-only''"

lemma mirrored_config:
  assumes "mirrors cli s"
  shows "check_config cli = Inr d \<longleftrightarrow>
    (\<exists>c. server_config s = (Inr c :: 'e startup_error + _) \<and> d = c\<lparr>listen_addr := ''0.0.0.0:8443''\<rparr>)"
  using assms
  by (cases "cli_admin_listen s")
     (simp_all add: mirrors_def check_config_def server_config_def result_simps same_pins cli_allowlist_def
      RelayConfig_default_def, auto)

lemma listen_addr_not_hashed:
  "validate url_parse (c\<lparr>listen_addr := l\<rparr>) = validate url_parse c"
  "config_hash url_parse sha256 (c\<lparr>listen_addr := l\<rparr>) = config_hash url_parse sha256 c"
proof -
  have "check_upstream_allowed url_parse (c\<lparr>listen_addr := l\<rparr>) = check_upstream_allowed url_parse c"
    by (rule ext) (simp add: check_upstream_allowed_def cong: if_cong)
  then show "validate url_parse (c\<lparr>listen_addr := l\<rparr>) = validate url_parse c" by (simp add: validate_def)
  have "hash_preimage (c\<lparr>listen_addr := l\<rparr>) = hash_preimage c" by (rule ext) (simp add: hash_preimage_def)
  then show "config_hash url_parse sha256 (c\<lparr>listen_addr := l\<rparr>) = config_hash url_parse sha256 c"
    by (simp add: config_hash_def split: sum.split)
qed

lemma compute_hash_eq:
  "compute_expected_config_hash env cli = Returned (Inr h) \<longleftrightarrow>
     (\<exists>c. check_config cli = Inr c \<and> validate (oe_url_parse env) c = Inr () \<and>
        config_hash (oe_url_parse env) (oe_sha256 env) c = Returned h)"
  by (cases "check_config cli")
     (auto simp: compute_expected_config_hash_def result_simps rbind_def map_err_def split: sum.split)

lemma computed_hash:
  assumes "mirrors cli s"
  shows "compute_expected_config_hash env cli = Returned (Inr h) \<longleftrightarrow>
    (\<exists>c. server_config s = (Inr c :: 'e startup_error + _) \<and> validate (oe_url_parse env) c = Inr () \<and>
       config_hash (oe_url_parse env) (oe_sha256 env) c = Returned h)"
  unfolding compute_hash_eq mirrored_config [OF assms, where 'e = 'e]
  by (auto simp: listen_addr_not_hashed)

lemma accepting_verifier_describes:
  assumes "run_verifier be SevSnpVerifier e m = Inr rd"
  shows "\<exists>d. report_details env (evidence_data e) = Inr d"
proof -
  obtain w where "sev_verify (be_sev be) e m (be_sev_world be) = (Inr rd, w)"
    using assms by (cases "sev_verify (be_sev be) e m (be_sev_world be)") (auto simp: run_verifier_def)
  then have "1184 \<le> length (evidence_data e)" by (auto simp: sev_verify_eq_Inr Let_def SNP_REPORT_SIZE_def)
  then show ?thesis by (simp add: report_details_def report_slice_def slice_def layout_defs)
qed

text \<open>The settings of the attested TLS client that strict mode corresponds to.\<close>

definition strict_client ::
    "check_env \<Rightarrow> dyn_verifier \<Rightarrow> measurement \<Rightarrow> byte list \<Rightarrow> AttestedCertVerifier" where
  "strict_client env v m h =
     settings_config (oe_backends env) \<lparr>ts_verifier = v, ts_measurement = m, ts_config_hash = Some h\<rparr>"

lemma check_verifier_kind:
  assumes "check_verifier_for_backend env ft cli = Inr v"
  shows "user_contract v \<and> (\<forall>t. verifies v t \<longleftrightarrow> t = wanted_tee cli)"
  using assms
  by (auto simp: check_verifier_for_backend_def user_contract_def verifies_def wanted_tee_def Let_def result_simps
      split: check_backend.split_asm if_split_asm)

lemma verify_reportdata_eq:
  "verify_reportdata env rd (oe_sha384 env spki) (Some h) = Inr () \<longleftrightarrow>
     take 48 rd = take 48 (oe_sha384 env spki) \<and> window rd 48 16 = take 16 h"
  by (simp add: verify_reportdata_def)

text \<open>Strict verification of described evidence is the certificate check of the TLS client.\<close>

lemma strict_verification_eq:
  assumes "oc_mode cli = Strict" and "sha384_law (oe_sha384 env)"
    and "check_verifier_for_backend env ft cli = Inr v"
    and "extract_evidence_from_cert (oe_x509 env) der = Inr e" and "tee_type e = wanted_tee cli"
    and "extract_spki_from_cert (oe_x509 env) der = Inr spki"
  shows "verify_evidence env ft cli m (Some h) e (oe_sha384 env spki) = Inr () \<longleftrightarrow>
    attested_verify_server_cert (oe_x509 env) (oe_sha384 env) (strict_client env v m h) der = Inr ()"
proof -
  let ?pin = "expected_attested_data (strict_client env v m h) (tee_type e) (reportdata (oe_sha384 env) spki (Some h))"
  have len: "length (oe_sha384 env spki) = 48" using assms(2) by (simp add: sha384_law_def)
  have "expected_reportdata (oe_sha384 env spki) (Some h) = reportdata (oe_sha384 env) spki (Some h)"
    using len by (simp add: expected_reportdata_def reportdata_def)
  then have "(case oc_backend cli of CheckSevSnp \<Rightarrow> m | CheckGcp \<Rightarrow> Some (expected_reportdata (oe_sha384 env spki) (Some h)))
      = ?pin"
    using assms(5)
    by (simp add: expected_attested_data_def strict_client_def settings_config_def wanted_tee_def
        split: check_backend.split)
  then have "verify_evidence env ft cli m (Some h) e (oe_sha384 env spki) =
      rbind (map_err EvidenceRejected (run_verifier (oe_backends env) v e ?pin)) (\<lambda>rd.
      verify_reportdata env rd (oe_sha384 env spki) (Some h))"
    by (cases "oc_backend cli") (simp_all add: verify_evidence_def assms(1,3))
  moreover have "window (reportdata (oe_sha384 env) spki (Some h)) 48 16 = take 16 h"
      "take 48 (reportdata (oe_sha384 env) spki (Some h)) = take 48 (oe_sha384 env spki)"
    using len by (simp_all add: reportdata_def window_def)
  moreover have "acv_verify (strict_client env v m h) = run_verifier (oe_backends env) v"
      "expected_config_hash (strict_client env v m h) = Some h"
    by (simp_all add: strict_client_def settings_config_def)
  ultimately show ?thesis
    by (auto simp: attested_verify_server_cert_def assms(4,6) result_simps verify_reportdata_eq Let_def)
qed

lemma describe_eq_Inr:
  "describe env cli h der = Inr (e, k, out) \<Longrightarrow>
     extract_evidence_from_cert (oe_x509 env) der = Inr e \<and> tee_type e = wanted_tee cli \<and>
     (\<exists>spki. extract_spki_from_cert (oe_x509 env) der = Inr spki \<and> k = oe_sha384 env spki)"
  by (auto simp: describe_def result_simps Let_def)

lemma accepted_is_described:
  assumes "check_verifier_for_backend env ft cli = Inr v"
    and "attested_verify_server_cert (oe_x509 env) (oe_sha384 env) (strict_client env v m h) der = Inr ()"
    and "oc_backend cli = CheckGcp \<longrightarrow> (\<exists>d. describe env cli h' der = Inr d)"
  shows "\<exists>d. describe env cli h' der = Inr d"
proof (cases "oc_backend cli")
  case CheckSevSnp
  obtain e spki pin rd where e: "extract_evidence_from_cert (oe_x509 env) der = Inr e"
      "extract_spki_from_cert (oe_x509 env) der = Inr spki" "run_verifier (oe_backends env) v e pin = Inr rd"
    using assms(2)
    by (auto simp: attested_verify_server_cert_def strict_client_def settings_config_def Let_def result_simps)
  note contract = check_verifier_kind [OF assms(1)]
  from verifier.verify_supports [OF dyn_verifier_contract e(3)] contract have "tee_type e = wanted_tee cli" by auto
  moreover have "v = SevSnpVerifier"
    using assms(1) CheckSevSnp by (simp add: check_verifier_for_backend_def split: if_split_asm)
  then obtain d where "report_details env (evidence_data e) = Inr d"
    using accepting_verifier_describes [of "oe_backends env" e pin rd env] e(3) by blast
  ultimately show ?thesis using CheckSevSnp e by (simp add: describe_def Let_def)
next
  case CheckGcp
  with assms(3) show ?thesis by blast
qed

lemma strict_inputs:
  assumes "check_inputs env cli = Returned (Inr (endpoint, m, h))" and "oc_mode cli = Strict" and "\<not> oc_print_only cli"
  shows "\<exists>hash. h = Some hash"
  using assms
  by (auto simp: check_inputs_def check_required_def result_simps split: sum.split_asm if_split_asm)

lemma check_main_ok:
  assumes "\<not> oc_print_only cli"
  shows "fst (check_main env ft cli) = Returned (Inr ()) \<longleftrightarrow>
    (\<exists>endpoint m h cert effs e k out. check_inputs env cli = Returned (Inr (endpoint, m, h)) \<and>
       fetch_cert_with_optional_health env endpoint (oc_health cli) = (Inr cert, effs) \<and>
       describe env cli h (cap_der cert) = Inr (e, k, out) \<and> verify_evidence env ft cli m h e k = Inr ())"
  using assms
  by (auto simp: check_main_def check_cert_def split: run.split sum.split prod.split)

text \<open>Success in strict mode, in terms of the client's certificate check.\<close>

lemma strict_check_ok:
  assumes "oc_mode cli = Strict" and "\<not> oc_print_only cli" and "sha384_law (oe_sha384 env)"
  shows "fst (check_main env ft cli) = Returned (Inr ()) \<longleftrightarrow>
    (\<exists>endpoint m h cert effs v. check_inputs env cli = Returned (Inr (endpoint, m, Some h)) \<and>
       fetch_cert_with_optional_health env endpoint (oc_health cli) = (Inr cert, effs) \<and>
       check_verifier_for_backend env ft cli = Inr v \<and>
       attested_verify_server_cert (oe_x509 env) (oe_sha384 env) (strict_client env v m h) (cap_der cert) = Inr () \<and>
       (oc_backend cli = CheckGcp \<longrightarrow> (\<exists>d. describe env cli (Some h) (cap_der cert) = Inr d)))"
    (is "?ok \<longleftrightarrow> ?client")
proof
  assume ?ok
  then obtain endpoint m h cert effs e k out where o: "check_inputs env cli = Returned (Inr (endpoint, m, h))"
      "fetch_cert_with_optional_health env endpoint (oc_health cli) = (Inr cert, effs)"
      "describe env cli h (cap_der cert) = Inr (e, k, out)" "verify_evidence env ft cli m h e k = Inr ()"
    unfolding check_main_ok [OF assms(2)] by blast
  obtain hash where h: "h = Some hash" using strict_inputs [OF o(1) assms(1,2)] by blast
  obtain v where v: "check_verifier_for_backend env ft cli = Inr v"
    using o(4) by (auto simp: verify_evidence_def rbind_eq_Inr)
  from describe_eq_Inr [OF o(3)] strict_verification_eq [OF assms(1,3) v] o(4) h
  have "attested_verify_server_cert (oe_x509 env) (oe_sha384 env) (strict_client env v m hash) (cap_der cert) = Inr ()"
    by auto
  with o h v show ?client by blast
next
  assume ?client
  then obtain endpoint m h cert effs v where c: "check_inputs env cli = Returned (Inr (endpoint, m, Some h))"
      "fetch_cert_with_optional_health env endpoint (oc_health cli) = (Inr cert, effs)"
      "check_verifier_for_backend env ft cli = Inr v"
      "attested_verify_server_cert (oe_x509 env) (oe_sha384 env) (strict_client env v m h) (cap_der cert) = Inr ()"
      "oc_backend cli = CheckGcp \<longrightarrow> (\<exists>d. describe env cli (Some h) (cap_der cert) = Inr d)"
    by blast
  obtain e k out where d: "describe env cli (Some h) (cap_der cert) = Inr (e, k, out)"
    using accepted_is_described [OF c(3-5)] by auto
  from describe_eq_Inr [OF d] strict_verification_eq [OF assms(1,3) c(3)] c(4)
  have "verify_evidence env ft cli m (Some h) e k = Inr ()" by auto
  with c d show ?ok unfolding check_main_ok [OF assms(2)] by blast
qed

section \<open>Properties\<close>

text \<open>
  C16: in strict mode the tool accepts a relay exactly when an attested TLS client would. With
  the workload and hash the command line gives or computes, it succeeds if and only if the
  arguments are complete, the certificate could be fetched, and the certificate check of the
  attested TLS client, run with the same verifier, measurement and configuration hash, accepts
  that certificate; for Confidential Space it also insists that the token can be printed.\<close>

theorem strict_check_is_client_check:
  assumes "oc_mode cli = Strict" and "\<not> oc_print_only cli" and "sha384_law (oe_sha384 env)"
  shows "fst (check_main env ft cli) = Returned (Inr ()) \<longleftrightarrow>
    (\<exists>endpoint m h cert effs v. check_inputs env cli = Returned (Inr (endpoint, m, Some h)) \<and>
       fetch_cert_with_optional_health env endpoint (oc_health cli) = (Inr cert, effs) \<and>
       check_verifier_for_backend env ft cli = Inr v \<and>
       attested_verify_server_cert (oe_x509 env) (oe_sha384 env) (strict_client env v m h) (cap_der cert) = Inr () \<and>
       (oc_backend cli = CheckGcp \<longrightarrow> (\<exists>d. describe env cli (Some h) (cap_der cert) = Inr d)))"
  by (rule strict_check_ok [OF assms])

text \<open>A check of a relay with the example report: its REPORTDATA repeats one byte.\<close>

definition demo_tls_connect :: "(string, string) ServerCertVerifier \<Rightarrow> string \<Rightarrow> string option" where
  "demo_tls_connect v name =
     (if cb_verify_server_cert v [1] name \<lparr>hs_intermediates = [], hs_ocsp = [], hs_now = 0\<rparr> = Inr () \<and>
         cb_verify_tls13_signature v [5] [1] \<lparr>dss_scheme = ED25519, dss_signature = [1, 5]\<rparr> = Inr ()
      then None else Some ''rejected'')"

definition demo_check :: check_env where
  "demo_check = \<lparr>oe_url_parse = (\<lambda>s. Some demo_gcp_url),
     oe_hex_decode = (\<lambda>s. Some (if s = ''m'' then replicate 48 0 else replicate 32 9)),
     oe_hex_encode = string_of_bytes, oe_b64_decode = (\<lambda>s. None), oe_json_parse = (\<lambda>b. None),
     oe_json_text = (\<lambda>j. ''null''), oe_sha256 = (\<lambda>b. demo_hash), oe_sha384 = (\<lambda>b. replicate 48 9),
     oe_x509 = one_cert_parse demo_report, oe_subject = (\<lambda>d. None), oe_server_name = (\<lambda>h. True),
     oe_connect = (\<lambda>a. None), oe_ring = demo_ring, oe_handshake = demo_tls_connect, oe_peer_certs = Some [[1]], oe_write = (\<lambda>r. None),
     oe_read_to_end = Inr [], oe_lossy = string_of_bytes, oe_backends = demo_backends\<rparr>"

definition demo_check_cli :: check_cli where
  "demo_check_cli = \<lparr>oc_endpoint = ''https://h'', oc_backend = CheckSevSnp, oc_mode = Strict,
     oc_expected_measurement = Some ''m'', oc_expected_config_hash = Some ''0xc'',
     oc_upstream = ''https://api.openai.com'', oc_allowed_upstream = [], oc_route = [],
     oc_max_request_bytes = 1048576, oc_release_artifact_digest = None, oc_upstream_timeout_secs = 120,
     oc_upstream_tls_leaf_sha256 = [], oc_allow_client_provider_auth = False, oc_private_admin_enabled = True,
     oc_provider_auth_scheme = ''Bearer'', oc_body_log_policy = ''metadata-only'', oc_print_only = False,
     oc_gcp_cs_audience = ''a'', oc_gcp_cs_image_digest = None, oc_gcp_cs_image_reference = None,
     oc_gcp_cs_signature_key_id = [], oc_gcp_cs_service_account = None, oc_gcp_cs_project_id = None,
     oc_gcp_cs_zone = None, oc_health = False\<rparr>"

definition demo_check_features :: features where
  "demo_check_features = \<lparr>ft_mock = False, ft_sev_snp = True, ft_gcp_confidential_space = False\<rparr>"

lemma demo_report_pinned:
  "run_verifier demo_backends SevSnpVerifier demo_report (Some (replicate 48 0)) = Inr (replicate 64 9)"
proof -
  obtain w where w: "sev_verify demo_sev demo_report None fresh_sev_world = (Inr (replicate 64 9), w)"
    using demo_report_accepted by blast
  have "window (take SNP_REPORT_SIZE (evidence_data demo_report)) 144 48 = replicate 48 0"
    by (simp add: demo_report_def window_def SNP_REPORT_SIZE_def take_Cons')
  with w have "sev_verify demo_sev demo_report (Some (replicate 48 0)) fresh_sev_world = (Inr (replicate 64 9), w)"
    unfolding sev_verify_eq_Inr Let_def by simp
  then show ?thesis by (simp add: run_verifier_def demo_backends_def)
qed

lemma demo_cert_accepted:
  "attested_verify_server_cert (oe_x509 demo_check) (oe_sha384 demo_check)
     (strict_client demo_check SevSnpVerifier (Some (replicate 48 0)) (replicate 32 9)) [1] = Inr ()"
proof -
  have fields: "oe_x509 demo_check = one_cert_parse demo_report" "oe_sha384 demo_check = (\<lambda>b. replicate 48 9)"
      "oe_backends demo_check = demo_backends"
    by (simp_all add: demo_check_def)
  have "rc_self_signed (one_cert_rcgen demo_report) (cert_params_with_evidence demo_report) [42] = Inr [1]"
    by (simp add: one_cert_rcgen_def)
  note x = self_signed_evidence [OF one_cert_round_trip this]
  have "tee_type demo_report = SevSnp" by (simp add: demo_report_def)
  then show ?thesis
    using x demo_report_pinned
    by (simp add: attested_verify_server_cert_def strict_client_def settings_config_def fields
        expected_attested_data_def reportdata_def window_def)
qed

lemma demo_check_facts:
  "oc_mode demo_check_cli = Strict" "\<not> oc_print_only demo_check_cli" "oc_health demo_check_cli = False"
  "oc_backend demo_check_cli = CheckSevSnp" "sha384_law (oe_sha384 demo_check)"
  by (simp_all add: demo_check_cli_def sha384_law_def demo_check_def)

lemma demo_check_client:
  "check_inputs demo_check demo_check_cli
     = Returned (Inr (demo_gcp_url, Some (replicate 48 0), Some (replicate 32 9)))"
  "fetch_cert_with_optional_health demo_check demo_gcp_url False
     = (Inr \<lparr>cap_der = [1], cap_health_response = None\<rparr>, [])"
  "check_verifier_for_backend demo_check demo_check_features demo_check_cli = Inr SevSnpVerifier"
proof -
  have strip: "strip_0x ''m'' = ''m''" "strip_0x ''0xc'' = ''c''" by code_simp+
  show "check_inputs demo_check demo_check_cli
      = Returned (Inr (demo_gcp_url, Some (replicate 48 0), Some (replicate 32 9)))"
    by (simp add: check_inputs_def demo_check_def demo_check_cli_def demo_gcp_url_def parse_optional_hex_def
        parse_hex_array_def strip wanted_config_hash_def check_required_def MEASUREMENT_LEN_def)
  show "fetch_cert_with_optional_health demo_check demo_gcp_url False
      = (Inr \<lparr>cap_der = [1], cap_health_response = None\<rparr>, [])"
    by (simp add: fetch_cert_with_optional_health_def open_tls_def demo_check_def demo_gcp_url_def demo_tls_connect_def
        capture_client_config_def CaptureOnlyVerifier_def capture_verify_server_cert_def
        capture_verify_tls13_signature_def demo_ring_def)
  show "check_verifier_for_backend demo_check demo_check_features demo_check_cli = Inr SevSnpVerifier"
    by (simp add: check_verifier_for_backend_def demo_check_facts demo_check_features_def)
qed

theorem strict_check_is_client_check_witness:
  "fst (check_main demo_check demo_check_features demo_check_cli) = Returned (Inr ())"
  using demo_check_client demo_cert_accepted demo_check_facts(4)
  unfolding strict_check_is_client_check [OF demo_check_facts(1,2,5)] demo_check_facts(3)
  by (metis CapturedCert.select_convs(1) check_backend.distinct(1))

lemma demo_check_succeeds: "fst (check_main demo_check demo_check_features demo_check_cli) = Returned (Inr ())"
  using demo_check_client demo_cert_accepted demo_check_facts(4)
  unfolding strict_check_ok [OF demo_check_facts(1,2,5)] demo_check_facts(3)
  by (metis CapturedCert.select_convs(1) check_backend.distinct(1))

text \<open>
  Documented of \<open>rustls\<close>: the handshake succeeds only when the verifier accepted the peer's leaf
  certificate and a signature under it.
\<close>

definition capture_law :: "check_env \<Rightarrow> bool" where
  "capture_law env \<longleftrightarrow>
     (\<forall>v name leaf rest. oe_handshake env v name = None \<longrightarrow> oe_peer_certs env = Some (leaf # rest) \<longrightarrow>
        handshake_checked v leaf name)"

lemma fetched_peer_signed:
  assumes "capture_law env" and "fetch_cert_with_optional_health env endpoint hl = (Inr cert, effs)"
  shows "proved_possession (oe_ring env) (cap_der cert)"
proof -
  obtain host where "open_tls env endpoint = Inr (host, cap_der cert)"
    using assms(2)
    by (auto simp: fetch_cert_with_optional_health_def split: sum.split_asm if_split_asm prod.split_asm)
  then obtain rest where "oe_handshake env (capture_client_config (oe_ring env)) host = None"
      "oe_peer_certs env = Some (cap_der cert # rest)"
    by (auto simp: open_tls_def result_simps Let_def split: option.split_asm list.split_asm if_split_asm)
  with assms(1) captured_peer.checked_iff show ?thesis unfolding capture_law_def by metis
qed

lemma checked_hash_length:
  assumes "check_inputs env cli = Returned (Inr (endpoint, m, Some h))" and "\<And>b. length (oe_sha256 env b) = 32"
  shows "length h = 32"
proof -
  have "wanted_config_hash env cli = Returned (Inr (Some h))"
    using assms(1)
    by (cases "wanted_config_hash env cli") (auto simp: check_inputs_def result_simps split: sum.split_asm)
  then show ?thesis
    using config_hash_length [OF _ assms(2)]
    by (auto simp: wanted_config_hash_def parse_hex_array_def compute_hash_eq result_simps
        split: option.split_asm if_split_asm)
qed

text \<open>
  C17: a successful strict check speaks about the live peer. Although the tool connects with a
  verifier that accepts every certificate, the peer it reached has proved possession of the
  key in its certificate, and that certificate is bound, by evidence the selected backend
  accepted under the demanded measurement, to this very key and to the expected
  configuration hash.\<close>

theorem strict_check_peer_attested:
  assumes "oc_mode cli = Strict" and "\<not> oc_print_only cli" and "sha384_law (oe_sha384 env)" and "capture_law env"
    and "\<And>b. length (oe_sha256 env b) = 32"
    and "fst (check_main env ft cli) = Returned (Inr ())"
  shows "\<exists>endpoint m h cert effs v. check_inputs env cli = Returned (Inr (endpoint, m, Some h)) \<and>
    fetch_cert_with_optional_health env endpoint (oc_health cli) = (Inr cert, effs) \<and>
    check_verifier_for_backend env ft cli = Inr v \<and> proved_possession (oe_ring env) (cap_der cert) \<and>
    bound_to (oe_backends env) (oe_x509 env) (oe_sha384 env)
      \<lparr>ts_verifier = v, ts_measurement = m, ts_config_hash = Some h\<rparr> (cap_der cert)"
proof -
  obtain endpoint m h cert effs v where c: "check_inputs env cli = Returned (Inr (endpoint, m, Some h))"
      "fetch_cert_with_optional_health env endpoint (oc_health cli) = (Inr cert, effs)"
      "check_verifier_for_backend env ft cli = Inr v"
      "attested_verify_server_cert (oe_x509 env) (oe_sha384 env) (strict_client env v m h) (cap_der cert) = Inr ()"
    using assms(6) unfolding strict_check_ok [OF assms(1-3)] by blast
  have "bound_to (oe_backends env) (oe_x509 env) (oe_sha384 env)
      \<lparr>ts_verifier = v, ts_measurement = m, ts_config_hash = Some h\<rparr> (cap_der cert)"
    using accepted_bound_to [OF _ assms(3) _ c(4) [unfolded strict_client_def]] check_verifier_kind [OF c(3)]
      checked_hash_length [OF c(1) assms(5)] by simp
  with c fetched_peer_signed [OF assms(4) c(2)] show ?thesis by blast
qed

theorem strict_check_peer_attested_witness:
  "proved_possession demo_ring [1] \<and>
   bound_to demo_backends (one_cert_parse demo_report) (\<lambda>b. replicate 48 9)
     \<lparr>ts_verifier = SevSnpVerifier, ts_measurement = Some (replicate 48 0), ts_config_hash = Some (replicate 32 9)\<rparr> [1]"
proof -
  have law: "capture_law demo_check"
    by (auto simp: capture_law_def demo_check_def demo_tls_connect_def handshake_checked_def split: if_split_asm)
  have "length (oe_sha256 demo_check b) = 32" for b by (simp add: demo_check_def demo_hash_def)
  from strict_check_peer_attested [OF demo_check_facts(1,2,5) law this demo_check_succeeds]
  show ?thesis using demo_check_client by (simp add: demo_check_facts) (simp add: demo_check_def)
qed

text \<open>
  C23: the tool computes the hash the relay attests. From inputs that mirror a relay's command
  line (the authorization scheme without surrounding white space), the computed hash exists
  exactly when the relay's configuration validates, and is the hash the relay binds into its
  evidence when it starts.\<close>

theorem computed_hash_is_servers:
  fixes senv :: "('k, 'e, 's) server_env"
  assumes "mirrors cli s" and "oe_url_parse env = sn_url_parse senv" and "oe_sha256 env = sn_sha256 senv"
  shows "((\<exists>h. compute_expected_config_hash env cli = Returned (Inr h)) \<longleftrightarrow>
      (\<exists>c. server_config s = (Inr c :: 'e startup_error + _) \<and> validate (sn_url_parse senv) c = Inr ())) \<and>
    (\<forall>ft sv effs. server_main senv ft s = (Some (Returned (Inr sv)), effs) \<longrightarrow>
       compute_expected_config_hash env cli = Returned (Inr (sv_config_hash sv)))"
proof (intro conjI allI impI)
  note eq = computed_hash [OF assms(1), where 'e = 'e, of env, unfolded assms(2,3)]
  have "\<exists>h. config_hash (sn_url_parse senv) (sn_sha256 senv) c = Returned h"
    if "validate (sn_url_parse senv) c = Inr ()" for c
    using that by (auto simp: config_hash_def validate_eq_Inr split: sum.split)
  then show "(\<exists>h. compute_expected_config_hash env cli = Returned (Inr h)) \<longleftrightarrow>
      (\<exists>c. server_config s = (Inr c :: 'e startup_error + _) \<and> validate (sn_url_parse senv) c = Inr ())"
    unfolding eq by blast
  fix ft sv effs
  assume "server_main senv ft s = (Some (Returned (Inr sv)), effs)"
  then have "prepare senv ft s = Some (Returned (Inr sv))"
    by (auto simp: server_main_def split: option.split_asm run.split_asm sum.split_asm prod.split_asm)
  from prepare_eq_Inr [OF this] show "compute_expected_config_hash env cli = Returned (Inr (sv_config_hash sv))"
    unfolding eq by blast
qed

theorem computed_hash_is_servers_witness:
  "compute_expected_config_hash (demo_check\<lparr>oe_url_parse := demo_parse\<rparr>) demo_check_cli = Returned (Inr demo_hash)"
proof -
  have "trim '' Bearer '' = ''Bearer''" by code_simp
  then have m: "mirrors demo_check_cli demo_server_cli"
    by (simp add: mirrors_def demo_check_cli_def demo_server_cli_def)
  have "oe_url_parse (demo_check\<lparr>oe_url_parse := demo_parse\<rparr>) = sn_url_parse demo_server_env"
      "oe_sha256 (demo_check\<lparr>oe_url_parse := demo_parse\<rparr>) = sn_sha256 demo_server_env"
    by (simp_all add: demo_check_def demo_server_env_def)
  from computed_hash_is_servers [OF m this] demo_server_started
  have "compute_expected_config_hash (demo_check\<lparr>oe_url_parse := demo_parse\<rparr>) demo_check_cli
      = Returned (Inr (sv_config_hash demo_running))"
    by blast
  moreover have "sv_config_hash demo_running = demo_hash" by (simp add: demo_running_def)
  ultimately show ?thesis by simp
qed

section \<open>Limits of the tool\<close>

text \<open>
  The health request is written as soon as the connection stands: it reaches the peer whatever
  the verification that follows says.
\<close>

lemma health_request_not_attested:
  assumes "check_inputs env cli = Returned (Inr (endpoint, m, h))" and "oc_health cli"
    and "open_tls env endpoint = Inr (host, cert)" and "oe_write env (health_request endpoint host) = None"
  shows "Wrote (health_request endpoint host) \<in> set (snd (check_main env ft cli))"
  using assms
  by (cases "oe_read_to_end env")
     (auto simp: check_main_def fetch_cert_with_optional_health_def fetch_health_def split: prod.split)

text \<open>
  In audit mode without a hash, a Confidential Space relay passes only if the configuration
  half of its REPORTDATA is zero: the expected nonce is pinned with zeros in its place.
\<close>

lemma gcp_audit_expects_zero_hash:
  assumes "verify_evidence env ft cli m None e (oe_sha384 env spki) = Inr ()" and "sha384_law (oe_sha384 env)"
    and "oc_backend cli = CheckGcp"
  shows "\<exists>v rd. check_verifier_for_backend env ft cli = Inr v \<and>
    run_verifier (oe_backends env) v e (Some rd) = Inr rd \<and> drop 48 rd = replicate 16 0"
proof -
  let ?rd = "expected_reportdata (oe_sha384 env spki) None"
  obtain v rd where v: "check_verifier_for_backend env ft cli = Inr v"
      "run_verifier (oe_backends env) v e (Some ?rd) = Inr rd"
    using assms(1,3) by (auto simp: verify_evidence_def result_simps Let_def)
  obtain g where g: "v = GcpVerifier g"
    using v(1) assms(3)
    by (auto simp: check_verifier_for_backend_def Let_def result_simps split: if_split_asm)
  obtain w where "gcp_verify (be_gcp (oe_backends env)) g e (Some ?rd) (be_gcp_world (oe_backends env)) = (Inr rd, w)"
    using v(2) g by (cases "gcp_verify (be_gcp (oe_backends env)) g e (Some ?rd) (be_gcp_world (oe_backends env))")
      (auto simp: run_verifier_def)
  then have "rd = ?rd" by (auto simp: gcp_verify_ok verify_claims_ok pinned_def)
  moreover have "drop 48 ?rd = replicate 16 0"
    using assms(2) by (simp add: expected_reportdata_def sha384_law_def)
  ultimately show ?thesis using v by auto
qed

end
