(* ===== verification/Spec2Isabelle.thy ===== *)
theory Spec2Isabelle
  imports Config_Hash Proxy Admin Attested_Tls Sev_Snp Gcp_Confidential_Space Backends Sdk_Client Gateway
    Local_Proxy Tunnel Server_Main Online_Check
begin

text \<open>
  Verification of the confidential relay service: an HTTPS relay for chat completion requests
  that runs in a trusted execution environment, proves to its clients which code and which
  configuration they talk to, and forwards their requests to a fixed set of providers with a
  credential the clients never see.

  \<^bold>\<open>The program and the theories that model it.\<close>

  \<^item> \<open>Prelude\<close>, \<open>Rust_Strings\<close>, \<open>Ordered_Map\<close>, \<open>Url_View\<close>, \<open>Json_View\<close>: what all parts share.
    Rust's \<open>Result\<close> is a sum type with \<open>rbind\<close> for \<open>?\<close>, a loop with early return is
    \<open>fold_result\<close>, a panic is a value of \<open>run\<close>, machine integers are words, strings are
    UTF-8 byte sequences as character lists, a \<open>BTreeMap\<close> is a strictly sorted association
    list behind the locale of ordered maps.
  \<^item> \<open>Relay_Config\<close> and \<open>Config_Hash\<close> (\<open>crates/relay-core/src/config.rs\<close>): configuration,
    origins, allowlist, routing, certificate pins, validation, and the hash that commits to
    them.
  \<^item> \<open>Secrets\<close>, \<open>App_Error\<close>, \<open>Proxy\<close>, \<open>Admin\<close> (\<open>secrets.rs\<close>, \<open>error.rs\<close>, \<open>proxy.rs\<close>,
    \<open>router.rs\<close> and the admin handlers of \<open>server/src/main.rs\<close>): the one-shot credential store,
    error replies with redaction, the data-plane handler with its router, header filters,
    streaming and pinned upstream TLS, and the interleaving of admin and data-plane requests.
  \<^item> \<open>Attest_Types\<close>, \<open>Mock_Attest\<close> (\<open>crates/relay-attest/src/types.rs\<close>, \<open>traits.rs\<close>,
    \<open>quote.rs\<close>, \<open>mock.rs\<close>, \<open>tdx.rs\<close>): evidence, its embedding in X.509 certificates, the
    \<open>Attester\<close> and \<open>Verifier\<close> traits as the locales \<open>verifier\<close>, \<open>evidence_source\<close> (verified data
    is the attested data) and \<open>attestation\<close> (own evidence is accepted too), the mock and the
    TDX stub.
  \<^item> \<open>Sev_Cert_Table\<close>, \<open>Cached_Fetch\<close>, \<open>Sev_Snp\<close> (\<open>sev_snp.rs\<close>): the certificate blob of the
    guest device, cached downloads behind the locale \<open>ttl_cache\<close>, report verification with the
    AMD chain, and the device attester.
  \<^item> \<open>Gcp_Launcher\<close>, \<open>Gcp_Confidential_Space\<close> (\<open>gcp_confidential_space.rs\<close>): the launcher's
    socket with its retry loop and chunked HTTP, nonces, token and claim verification, policies.
  \<^item> \<open>Tls_Callbacks\<close>: the trait \<open>ServerCertVerifier\<close> of \<open>rustls\<close> as a record of callbacks, and the
    locale \<open>ring_verifier\<close> of the verifiers that leave the handshake signatures to \<open>ring\<close>; the
    attested client and the auditor's capturing client are instances, the pinned upstream
    client of \<open>Proxy\<close> delegates to web PKI.
  \<^item> \<open>Attested_Tls\<close> (\<open>crates/relay-tls\<close>): REPORTDATA, the server's certificate, the client's
    certificate and signature checks. \<open>Backends\<close> is \<open>dyn Verifier\<close> as a value with its dispatch.
  \<^item> \<open>Sdk_Client\<close> (\<open>crates/relay-sdk\<close>), \<open>Buf_Reader\<close>, \<open>Gateway\<close>, \<open>Local_Proxy\<close>, \<open>Tunnel\<close>
    (\<open>tools/gateway\<close>, \<open>tools/local-proxy\<close>): the clients of the relay, the CONNECT gateway with
    its accept loop, and the exchange between the two tools.
  \<^item> \<open>Server_Main\<close> (\<open>server/src/main.rs\<close>): choice of the backend, start-up in the order of the
    code with every failure, the listeners, and the running server as the step relation
    \<open>server_step\<close>.
  \<^item> \<open>Online_Check\<close> (\<open>tools/online-check/src/main.rs\<close>): the auditor's tool.
  \<^item> This theory: the properties that need all of them.

  \<^bold>\<open>What is shown.\<close> Routing, allowlist and pins are exact, and the hash determines the
  security-relevant configuration. Nothing leaves the relay unless every check passed, with
  exactly the expected headers, and the credential store is written once under every
  interleaving. Accepted SEV-SNP, Confidential Space and mock evidence has the properties its
  verifier promises, evidence survives its encodings, and an accepted certificate is bound to
  key and configuration. The SDK and the local proxy talk only to peers that hold the
  attested key wherever they use https, and the gateway connects authorized clients to its
  relay only. In whatever pieces the bytes arrive, the CONNECT exchange succeeds and loses at
  most what one read brings along with the end of a head. Redaction removes whole provider
  keys and every word that names a secret. The server opens its data listener only after
  validating and attesting its configuration, and in every run hands the HTTP client only
  URLs on allowed origins. The online check accepts what the TLS client accepts, of a live
  peer that holds the key, and its computed hash is the server's. Together: a client that
  accepts a running relay, on any of the backends, talks to a relay with the configuration it
  was told to expect, and with a backend whose evidence always verifies it accepts exactly
  those.

  \<^bold>\<open>Redirects.\<close> Neither HTTP client of the code sets a redirect policy, so \<open>reqwest\<close> follows
  redirects for both. For the relay's client the model says what this adds: it leaves the
  allowed origins only where a server on one of them redirects it away (\<open>contacted\<close>,
  \<open>redirect_leaves_allowlist\<close>). For the SDK the list of requests of one exchange contains the
  redirected ones, each https request among them is to an attested peer, and nothing keeps
  one from being http (\<open>redirect_may_leave_tls\<close>).

  \<^bold>\<open>Parameters and hypotheses.\<close> Code outside the repository is a parameter: \<open>url\<close>,
  \<open>serde_json\<close>, \<open>reqwest\<close>, \<open>rustls\<close> and web PKI, \<open>rcgen\<close>, \<open>x509-parser\<close>, \<open>jsonwebtoken\<close>,
  \<open>base64\<close>, \<open>hex\<close>, the hash and signature functions, the guest device, sockets and clocks.
  Where a property relies on their documented behaviour it says so in a named predicate
  (\<open>origin_reparse\<close>, \<open>authority_law\<close>, \<open>cert_round_trip\<close>, \<open>sha384_law\<close>, \<open>mock_laws\<close>,
  \<open>sev_device_law\<close>, \<open>b64_law\<close>, \<open>nonces_copied\<close>, \<open>https_law\<close>, \<open>handshake_law\<close>,
  \<open>capture_law\<close>), and its witness instantiates the parameters by concrete functions. The
  clock is read as a sequence of values; caches and downloads are a state that each call
  returns updated.

  \<^bold>\<open>Loops.\<close> All loops are structural or have a measure (chunk decoding, header loops over a
  finite list of reads, base64 padding), so no fuel is used. The wait for the launcher socket
  depends on a clock and is a \<open>partial_function (option)\<close>; that it ends once the clock passes
  the timeout is proved.

  \<^bold>\<open>Not modelled.\<close> Logging; the interior of the parameters above; \<open>Debug\<close> instances; the
  polling wrappers around streams, which only delegate; the sockets beneath the requests of the
  running server (accepting, TLS, HTTP framing by \<open>axum\<close> and \<open>hyper\<close>); command line parsing by
  \<open>clap\<close>; the tests, scripts and infrastructure files. Error texts are kept where a caller or a
  client can see them and are otherwise constructors.
\<close>

section \<open>The system\<close>

text \<open>What a started server has attested.\<close>

lemma started_server:
  assumes "server_main senv ft s = (Some (Returned (Inr sv)), effs)"
  shows "config_hash (sn_url_parse senv) (sn_sha256 senv) (config (sv_state sv)) = Returned (sv_config_hash sv)"
    and "server_tls (sn_tls senv) (run_attester senv (sv_attester sv)) (sv_config_hash sv)
           = Some (Returned (Inr (sv_tls sv)))"
proof -
  have "prepare senv ft s = Some (Returned (Inr sv))"
    using assms
    by (auto simp: server_main_def split: option.split_asm run.split_asm sum.split_asm prod.split_asm)
  note p = prepare_eq_Inr [OF this]
  from p show "config_hash (sn_url_parse senv) (sn_sha256 senv) (config (sv_state sv)) = Returned (sv_config_hash sv)"
    using assembled by metis
  from p show "server_tls (sn_tls senv) (run_attester senv (sv_attester sv)) (sv_config_hash sv)
      = Some (Returned (Inr (sv_tls sv)))"
    using assembled by metis
qed

lemma server_of_returning_attester:
  assumes "server_main senv ft s = (Some (Returned (Inr sv)), effs)"
    and "\<And>rd. run_attester senv (sv_attester sv) rd = Some (Returned (attest rd))"
  shows "\<exists>kp. from_key_pair (sn_tls senv) attest (Some (sv_config_hash sv)) kp = Inr (sv_tls sv)"
proof -
  have "tls_server_new (sn_tls senv) attest (Some (sv_config_hash sv)) = Inr (sv_tls sv)"
    using trans [OF started_server(2) [OF assms(1), symmetric]
        server_tls_returning [of "run_attester senv (sv_attester sv)" attest, OF assms(2)]]
    by simp
  then show ?thesis by (auto simp: tls_server_new_def result_simps)
qed

lemma truncated_hashes_agree_iff:
  assumes "normalize_upstream_tls_pins url_parse (upstream_tls_leaf_sha256 c) = Inr p"
    and "normalize_upstream_tls_pins url_parse (upstream_tls_leaf_sha256 d) = Inr q"
    and "delimiter_free c p" and "delimiter_free d q"
    and "inj_on (\<lambda>b. take 16 (sha256 b)) {as_bytes (hash_preimage c p), as_bytes (hash_preimage d q)}"
    and "config_hash url_parse sha256 c = Returned g" and "config_hash url_parse sha256 d = Returned h"
  shows "take 16 h = take 16 g \<longleftrightarrow> security_view_of c p = security_view_of d q"
proof -
  have "take 16 h = take 16 g \<longleftrightarrow> hash_preimage c p = hash_preimage d q"
    using assms(1,2,6,7) inj_on_eq_iff [OF assms(5), of "as_bytes (hash_preimage c p)" "as_bytes (hash_preimage d q)"]
    by (auto simp: config_hash_def)
  then show ?thesis
    using assms(1-4) normalize_upstream_tls_pins_ok preimage_determines_view view_determines_preimage by blast
qed

text \<open>The development server and an audit of it.\<close>

definition demo_tool :: check_env where
  "demo_tool = demo_check\<lparr>oe_url_parse := demo_parse\<rparr>"

definition demo_audited :: RelayConfig where
  "demo_audited = demo_server_config\<lparr>listen_addr := ''0.0.0.0:8443''\<rparr>"

lemma demo_audit:
  "oe_url_parse demo_tool = sn_url_parse demo_server_env" "oe_sha256 demo_tool = sn_sha256 demo_server_env"
  "check_config demo_check_cli = Inr demo_audited"
  "compute_expected_config_hash demo_tool demo_check_cli = Returned (Inr demo_hash)"
proof -
  have "trim '' Bearer '' = ''Bearer''" by code_simp
  then have mirrored: "mirrors demo_check_cli demo_server_cli"
    by (simp add: mirrors_def demo_check_cli_def demo_server_cli_def)
  show tool: "oe_url_parse demo_tool = sn_url_parse demo_server_env" "oe_sha256 demo_tool = sn_sha256 demo_server_env"
    by (simp_all add: demo_tool_def demo_check_def demo_server_env_def)
  show d: "check_config demo_check_cli = Inr demo_audited"
    using mirrored_config [OF mirrored, of demo_audited] demo_server_configured by (auto simp: demo_audited_def)
  have "validate demo_parse demo_server_config = Inr ()" by code_simp
  then show "compute_expected_config_hash demo_tool demo_check_cli = Returned (Inr demo_hash)"
    using d started_server(1) [OF demo_server_started]
    by (auto simp: compute_hash_eq listen_addr_not_hashed tool demo_audited_def demo_running_def demo_server_env_def)
qed

lemma demo_config_hashed:
  "config (sv_state demo_running) = demo_server_config"
  "normalize_upstream_tls_pins (sn_url_parse demo_server_env) (upstream_tls_leaf_sha256 demo_server_config) = Inr []"
  "normalize_upstream_tls_pins (sn_url_parse demo_server_env) (upstream_tls_leaf_sha256 demo_audited) = Inr []"
  "delimiter_free demo_server_config []" "delimiter_free demo_audited []"
  "hash_preimage demo_audited [] = hash_preimage demo_server_config []"
  "security_view_of demo_server_config [] = security_view_of demo_audited []"
proof -
  show "delimiter_free demo_server_config []" by code_simp
  then show "delimiter_free demo_audited []" by (simp add: delimiter_free_def demo_audited_def)
qed (simp_all add: demo_running_def demo_server_config_def demo_audited_def RelayConfig_default_def
    normalize_upstream_tls_pins_def bt_empty_def hash_preimage_def security_view_of_def)

lemma demo_tls_facts:
  "cert_round_trip (one_cert_parse demo_server_evidence) (te_rcgen (sn_tls demo_server_env))"
  "sha384_law (te_sha384 (sn_tls demo_server_env))" "te_sha384 (sn_tls demo_server_env) = demo_sha384"
  "length (sn_sha256 demo_server_env b) = 32"
  by (simp_all add: demo_server_env_def demo_tls_def demo_hash_def one_cert_round_trip demo_sha384_law)

section \<open>Properties across components\<close>

text \<open>
  C1: attestation means what it should for the whole system. A relay that started with an
  attestation backend, and a client with the matching verifier, an acceptable measurement pin
  and the configuration hash that an auditor's tool computed from some configuration: the
  client accepts the relay's certificate if and only if the relay runs that very
  configuration, in all its security-relevant parts (runtime settings, upstreams, routes,
  allowlist, limits, release digest, timeout, pins). The hypotheses are the contract of the
  backend, the laws of the certificate libraries and of the hash functions' lengths, texts
  without delimiters, and no collision of the truncated hash between the two texts.\<close>

theorem relay_accepted_iff_audited_config:
  fixes senv :: "('k, 'e, 's) server_env"
  assumes started: "server_main senv ft s = (Some (Returned (Inr sv)), effs)"
    and "\<And>rd. run_attester senv (sv_attester sv) rd = Some (Returned (attest rd))"
    and backend: "attestation verify supports attest pin_ok" "\<And>ud. pin_ok ud m"
    and laws: "cert_round_trip x509_parse (te_rcgen (sn_tls senv))" "sha384_law (te_sha384 (sn_tls senv))"
      "\<And>b. length (sn_sha256 senv b) = 32"
    and tool: "oe_url_parse env = sn_url_parse senv" "oe_sha256 env = sn_sha256 senv"
      "check_config cli = Inr d" "compute_expected_config_hash env cli = Returned (Inr h)"
    and pins: "normalize_upstream_tls_pins (sn_url_parse senv) (upstream_tls_leaf_sha256 (config (sv_state sv))) = Inr p"
      "normalize_upstream_tls_pins (sn_url_parse senv) (upstream_tls_leaf_sha256 d) = Inr q"
    and clean: "delimiter_free (config (sv_state sv)) p" "delimiter_free d q"
    and collision_free: "inj_on (\<lambda>b. take 16 (sn_sha256 senv b))
      {as_bytes (hash_preimage (config (sv_state sv)) p), as_bytes (hash_preimage d q)}"
  shows "attested_verify_server_cert x509_parse (te_sha384 (sn_tls senv))
      (attested_client_config verify m (Some h)) (cert_der (sv_tls sv)) = Inr () \<longleftrightarrow>
    security_view_of (config (sv_state sv)) p = security_view_of d q"
proof -
  obtain kp where kp: "from_key_pair (sn_tls senv) attest (Some (sv_config_hash sv)) kp = Inr (sv_tls sv)"
    using server_of_returning_attester [OF started assms(2)] by blast
  note hs = started_server(1) [OF started]
  have hd: "config_hash (sn_url_parse senv) (sn_sha256 senv) d = Returned h"
    using tool by (auto simp: compute_hash_eq)
  note len = config_hash_length [OF hs laws(3)] config_hash_length [OF hd laws(3)]
  have "attested_verify_server_cert x509_parse (te_sha384 (sn_tls senv))
      (attested_client_config verify m (Some h)) (cert_der (sv_tls sv)) = Inr () \<longleftrightarrow>
      take 16 h = take 16 (sv_config_hash sv)"
    using attestation.handshake_iff [OF backend(1) laws(1,2) len(1) _ kp, of "Some h" m] backend(2) len(2) by simp
  also have "\<dots> \<longleftrightarrow> security_view_of (config (sv_state sv)) p = security_view_of d q"
    by (rule truncated_hashes_agree_iff [OF pins clean collision_free hs hd])
  finally show ?thesis .
qed

theorem relay_accepted_iff_audited_config_witness:
  "compute_expected_config_hash demo_tool demo_check_cli = Returned (Inr demo_hash) \<and>
   attested_verify_server_cert (one_cert_parse demo_server_evidence) (te_sha384 (sn_tls demo_server_env))
     (attested_client_config (mock_verify demo_mock) (Some (replicate 32 7)) (Some demo_hash))
     (cert_der (sv_tls demo_running)) = Inr ()"
proof -
  have attest: "run_attester demo_server_env (sv_attester demo_running) rd
      = Some (Returned (measured_mock_attest demo_mock (replicate 32 7) rd))" for rd
    by (simp add: run_attester_def demo_running_def demo_server_env_def mock_attest_def measured_mock_attest_def
        mock_measurement_def) (simp add: demo_mock_def)
  show ?thesis
    using relay_accepted_iff_audited_config [OF demo_server_started attest mock_attestation [OF demo_mock_laws] _
        demo_tls_facts(1,2,4) demo_audit, of "Some (replicate 32 7)" "[]" "[]"]
    by (simp add: demo_config_hashed demo_audit)
qed

text \<open>
  C2: an accepted relay runs the audited configuration, for each real backend. Let a relay have
  started on SEV-SNP, Confidential Space or the mock, and let a client use the matching
  verifier under any measurement pin, with whatever its caches and the network give. If it
  pins the hash computed from some configuration and accepts the relay's certificate, the
  relay runs that configuration in all its security-relevant parts.\<close>

theorem accepted_relay_runs_audited_config:
  fixes senv :: "('k, 'e, 's) server_env"
  assumes started: "server_main senv ft s = (Some (Returned (Inr sv)), effs)"
    and backend: "matching (sv_attester sv) v" "backend_laws senv be (sv_attester sv)"
    and laws: "cert_round_trip x509_parse (te_rcgen (sn_tls senv))" "sha384_law (te_sha384 (sn_tls senv))"
      "\<And>b. length (sn_sha256 senv b) = 32"
    and tool: "oe_url_parse env = sn_url_parse senv" "oe_sha256 env = sn_sha256 senv"
      "check_config cli = Inr d" "compute_expected_config_hash env cli = Returned (Inr h)"
    and pins: "normalize_upstream_tls_pins (sn_url_parse senv) (upstream_tls_leaf_sha256 (config (sv_state sv))) = Inr p"
      "normalize_upstream_tls_pins (sn_url_parse senv) (upstream_tls_leaf_sha256 d) = Inr q"
    and clean: "delimiter_free (config (sv_state sv)) p" "delimiter_free d q"
    and collision_free: "inj_on (\<lambda>b. take 16 (sn_sha256 senv b))
      {as_bytes (hash_preimage (config (sv_state sv)) p), as_bytes (hash_preimage d q)}"
    and accepted: "attested_verify_server_cert x509_parse (te_sha384 (sn_tls senv))
      (settings_config be \<lparr>ts_verifier = v, ts_measurement = m, ts_config_hash = Some h\<rparr>) (cert_der (sv_tls sv)) = Inr ()"
  shows "security_view_of (config (sv_state sv)) p = security_view_of d q"
proof -
  note hs = started_server(1) [OF started]
  have hd: "config_hash (sn_url_parse senv) (sn_sha256 senv) d = Returned h"
    using tool by (auto simp: compute_hash_eq)
  have "take 16 h = take 16 (sv_config_hash sv)"
    using evidence_source.accepted_hash [OF backend_source [OF backend] started_server(2) [OF started]
        config_hash_length [OF hs laws(3)] config_hash_length [OF hd laws(3)] laws(1,2)]
      accepted by (simp add: settings_config_def)
  then show ?thesis using truncated_hashes_agree_iff [OF pins clean collision_free hs hd] by simp
qed

theorem accepted_relay_runs_audited_config_witness:
  "attested_verify_server_cert (one_cert_parse demo_server_evidence) (te_sha384 (sn_tls demo_server_env))
     (settings_config demo_backends
        \<lparr>ts_verifier = MockVerifier, ts_measurement = None, ts_config_hash = Some demo_hash\<rparr>)
     (cert_der (sv_tls demo_running)) = Inr () \<and>
   security_view_of (config (sv_state demo_running)) [] = security_view_of demo_audited []"
proof -
  have accepted: "attested_verify_server_cert (one_cert_parse demo_server_evidence) (te_sha384 (sn_tls demo_server_env))
      (settings_config demo_backends
         \<lparr>ts_verifier = MockVerifier, ts_measurement = None, ts_config_hash = Some demo_hash\<rparr>)
      (cert_der (sv_tls demo_running)) = Inr ()"
    using demo_handshake by (simp add: demo_tls_facts(3) settings_config_def demo_run_mock demo_running_def)
  have mock: "sv_attester demo_running = MockAttester" by (simp add: demo_running_def)
  have "security_view_of (config (sv_state demo_running)) [] = security_view_of demo_audited []"
    by (rule accepted_relay_runs_audited_config [OF demo_server_started _ _ demo_tls_facts(1,2,4) demo_audit
          _ _ _ _ _ accepted])
       (simp_all add: mock matching_def demo_backend_laws demo_config_hashed)
  with accepted show ?thesis by blast
qed

end
